(* ===== verification/Qar_Prelude.thy ===== *)
theory Qar_Prelude
  imports "HOL-Library.Word"
begin

text \<open>
  Shared vocabulary of the development: the C integer types as fixed-width words, the
  assignment of one bit of a register, the busy-wait loop that the firmware uses to poll a
  status register, and the lemma collections that the component theories extend.
  Nothing here is specific to one component.
\<close>

unbundle bit_operations_syntax

subsection \<open>The C integer types\<close>

type_synonym u8 = "8 word"
type_synonym u16 = "16 word"
type_synonym u32 = "32 word"

text \<open>A C \<open>int\<close> of the 32-bit target, in two's complement; a condition is true when nonzero.\<close>

type_synonym c_int = "32 word"

definition c_true :: "c_int \<Rightarrow> bool" where
  "c_true x \<longleftrightarrow> x \<noteq> 0"

definition c_bool :: "bool \<Rightarrow> c_int" where
  "c_bool b = (if b then 1 else 0)"

lemma c_true_c_bool [simp]: "c_true (c_bool b) = b"
  by (simp add: c_true_def c_bool_def)

subsection \<open>Lemma collections\<close>

named_theorems reg_addr \<open>addresses of the memory-mapped registers\<close>
named_theorems reg_bits \<open>bit masks of the register fields\<close>
named_theorems hal_defs \<open>the operations of the hardware abstraction layer\<close>
named_theorems rtl_defs \<open>step and read functions of the peripherals\<close>

subsection \<open>Assigning one bit of a register\<close>

text \<open>A Verilog non-blocking assignment to one bit of a vector register.\<close>

definition assign_bit :: "nat \<Rightarrow> bool \<Rightarrow> 'a::len word \<Rightarrow> 'a word" where
  "assign_bit i b w = (if b then Bit_Operations.set_bit i w else unset_bit i w)"

lemma bit_assign_bit [simp]:
  "bit (assign_bit i b (w :: 'a::len word)) j
     \<longleftrightarrow> (if i = j then b \<and> j < LENGTH('a) else bit w j)"
  by (auto simp: assign_bit_def bit_set_bit_iff bit_unset_bit_iff dest: bit_imp_le_length)

text \<open>A bool as a bit of a word, for the concatenations of the read multiplexers.\<close>

definition bit_at :: "nat \<Rightarrow> bool \<Rightarrow> u32" where
  "bit_at i b = (if b then push_bit i 1 else 0)"

lemma bit_bit_at [simp]: "bit (bit_at i b) j \<longleftrightarrow> b \<and> i = j \<and> j < 32"
  by (auto simp: bit_at_def bit_exp_iff)

lemma bit_at_False [simp]: "bit_at i False = 0"
  by (simp add: bit_at_def)

lemma and_bit_mask:
  "n < 32 \<Longrightarrow> (w :: u32) AND push_bit n 1 = 0 \<longleftrightarrow> \<not> bit w n"
  by (auto simp: bit_eq_iff [where 'a = u32] bit_and_iff bit_exp_iff)

lemma word_ne_0_bit: "(w :: 'a::len word) \<noteq> 0 \<longleftrightarrow> (\<exists>n < LENGTH('a). bit w n)"
  by (auto simp: bit_eq_iff)

subsection \<open>Bytes and counters\<close>

lemma ucast_and_FF [simp]: "(ucast ((v :: u32) AND 0xFF) :: u8) = ucast v"
proof (rule bit_word_eqI)
  fix n assume "n < LENGTH(8)"
  then have "bit (0xFF :: u32) n"
    using bit_mask_iff [where 'a = u32, of 8 n] by (simp add: mask_eq_exp_minus_1)
  then show "bit (ucast (v AND 0xFF) :: u8) n = bit (ucast v :: u8) n"
    by (simp add: bit_ucast_iff bit_and_iff)
qed

lemma ucast_u8_u32 [simp]: "(ucast (ucast (b :: u8) :: u32) :: u8) = b"
  by (rule bit_word_eqI) (simp add: bit_simps)

text \<open>A counter that has not reached a bound of its width does not wrap in the next step.\<close>

lemma unat_inc: "unat (a :: 'a::len word) < unat (b :: 'a word) \<Longrightarrow> unat (a + 1) = unat a + 1"
proof -
  assume "unat a < unat b"
  moreover have "unat b < 2 ^ LENGTH('a)" by simp
  ultimately have "unat a + 1 < 2 ^ LENGTH('a)" by linarith
  then show ?thesis by (simp add: unat_word_ariths)
qed

subsection \<open>Polling\<close>

text \<open>
  \<open>while (!ok(read())) ;\<close> The read is an access that changes the world (time passes, a read
  can have side effects). The loop need not end: \<open>None\<close> is a loop that does not return.
\<close>

partial_function (option) poll_until ::
  "('w \<Rightarrow> 'a \<times> 'w) \<Rightarrow> ('a \<Rightarrow> bool) \<Rightarrow> 'w \<Rightarrow> ('a \<times> 'w) option" where
  "poll_until rd ok w =
     (case rd w of (v, w') \<Rightarrow> if ok v then Some (v, w') else poll_until rd ok w')"

lemma poll_until_hit:
  "ok (fst (rd w)) \<Longrightarrow> poll_until rd ok w = Some (rd w)"
  by (cases "rd w") (simp add: poll_until.simps [of rd ok w])

lemma poll_until_miss:
  "\<not> ok (fst (rd w)) \<Longrightarrow> poll_until rd ok w = poll_until rd ok (snd (rd w))"
  by (cases "rd w") (simp add: poll_until.simps [of rd ok w])

text \<open>A returned poll stopped at a world in which the read was accepted.\<close>

lemma poll_until_sound:
  assumes ret: "poll_until rd ok w = Some r"
  shows "(\<forall>x. I x \<longrightarrow> I (snd (rd x))) \<longrightarrow> I w \<longrightarrow> (\<exists>x. I x \<and> rd x = r \<and> ok (fst r))"
proof (rule poll_until.raw_induct
    [where P = "\<lambda>rd ok w r. (\<forall>x. I x \<longrightarrow> I (snd (rd x))) \<longrightarrow> I w \<longrightarrow>
                   (\<exists>x. I x \<and> rd x = r \<and> ok (fst r))", OF _ ret])
  fix f and rd :: "'b \<Rightarrow> 'a \<times> 'b" and ok y r
  assume IH: "\<And>rd ok w r. f rd ok w = Some r \<Longrightarrow> (\<forall>x. I x \<longrightarrow> I (snd (rd x))) \<longrightarrow> I w \<longrightarrow>
                (\<exists>x. I x \<and> rd x = r \<and> ok (fst r))"
    and eq: "(case rd y of (v, w') \<Rightarrow> if ok v then Some (v, w') else f rd ok w') = Some r"
  show "(\<forall>x. I x \<longrightarrow> I (snd (rd x))) \<longrightarrow> I y \<longrightarrow> (\<exists>x. I x \<and> rd x = r \<and> ok (fst r))"
  proof (intro impI)
    assume keeps: "\<forall>x. I x \<longrightarrow> I (snd (rd x))" and y: "I y"
    show "\<exists>x. I x \<and> rd x = r \<and> ok (fst r)"
    proof (cases "ok (fst (rd y))")
      case True
      with eq y show ?thesis by (cases "rd y") auto
    next
      case False
      with eq have "f rd ok (snd (rd y)) = Some r" by (cases "rd y") auto
      with IH keeps y show ?thesis by blast
    qed
  qed
qed

lemma poll_until_SomeD:
  assumes "poll_until rd ok w = Some (v, w')"
    and "\<And>x. I x \<Longrightarrow> I (snd (rd x))" and "I w"
  shows "\<exists>x. I x \<and> rd x = (v, w') \<and> ok v"
  using poll_until_sound [OF assms(1), of I] assms(2,3) by auto

lemma poll_until_never:
  assumes keeps: "\<And>x. I x \<Longrightarrow> I (snd (rd x))" and stuck: "\<And>x. I x \<Longrightarrow> \<not> ok (fst (rd x))"
    and start: "I w"
  shows "poll_until rd ok w = None"
proof (cases "poll_until rd ok w")
  case (Some p)
  then obtain v w' where "poll_until rd ok w = Some (v, w')" by (cases p) auto
  then obtain x where "I x" "rd x = (v, w')" "ok v"
    using poll_until_SomeD [of rd ok w v w' I] keeps start by blast
  with stuck [of x] show ?thesis by simp
qed simp

text \<open>
  The contract of a flag that a device is bound to raise: as long as the poll misses, the read
  keeps an invariant of the world and a measure goes down. The client of the contract is the
  polling loop, which then returns.
\<close>

locale polled_flag =
  fixes rd :: "'w \<Rightarrow> 'a \<times> 'w" and ok :: "'a \<Rightarrow> bool"
    and waiting :: "'w \<Rightarrow> bool" and left :: "'w \<Rightarrow> nat"
  assumes waiting_rd: "waiting w \<Longrightarrow> \<not> ok (fst (rd w)) \<Longrightarrow> waiting (snd (rd w))"
    and left_rd: "waiting w \<Longrightarrow> \<not> ok (fst (rd w)) \<Longrightarrow> left (snd (rd w)) < left w"
begin

lemma poll_returns:
  "waiting w \<Longrightarrow>
   \<exists>x. waiting x \<and> ok (fst (rd x)) \<and> left x \<le> left w \<and> poll_until rd ok w = Some (rd x)"
proof (induction "left w" arbitrary: w rule: less_induct)
  case less
  show ?case
  proof (cases "ok (fst (rd w))")
    case True
    with less.prems show ?thesis by (auto simp: poll_until_hit)
  next
    case False
    from less.hyps [OF left_rd [OF less.prems False] waiting_rd [OF less.prems False]]
    obtain x where "waiting x" "ok (fst (rd x))" "left x \<le> left (snd (rd w))"
      "poll_until rd ok (snd (rd w)) = Some (rd x)" by blast
    moreover have "left (snd (rd w)) < left w" using left_rd less.prems False by simp
    ultimately show ?thesis
      using poll_until_miss [of ok rd w] False by (intro exI [of _ x]) auto
  qed
qed

end

end
