(* ===== verification/Mmio.thy ===== *)
theory Mmio
  imports Qar_Prelude
begin

text \<open>
  The memory-mapped registers of \<^verbatim>\<open>devkit/hal/mmio.h\<close>. A volatile access is one transfer on
  a bus: \<open>bus_rd\<close> returns the word read and the world after the read, \<open>bus_wr\<close> the world after
  the write. The HAL is written against an arbitrary bus; theory Soc gives the bus of the chip.
\<close>

record 'w bus =
  bus_rd :: "u32 \<Rightarrow> 'w \<Rightarrow> u32 \<times> 'w"
  bus_wr :: "u32 \<Rightarrow> u32 \<Rightarrow> 'w \<Rightarrow> 'w"

text \<open>
  The address of the lvalue \<open>QAR_MMIO32(base, offset)\<close>; \<open>uintptr_t\<close> has 32 bits on the target,
  so the sum wraps.
\<close>

definition QAR_MMIO32 :: "u32 \<Rightarrow> u32 \<Rightarrow> u32" where
  [reg_addr]: "QAR_MMIO32 base offset = base + offset"

text \<open>Reading, assigning, and a compound assignment (one read, then one write).\<close>

definition mmio_read :: "'w bus \<Rightarrow> u32 \<Rightarrow> 'w \<Rightarrow> u32 \<times> 'w" where
  "mmio_read B a w = bus_rd B a w"

definition mmio_write :: "'w bus \<Rightarrow> u32 \<Rightarrow> u32 \<Rightarrow> 'w \<Rightarrow> 'w" where
  "mmio_write B a v w = bus_wr B a v w"

definition mmio_update :: "'w bus \<Rightarrow> u32 \<Rightarrow> (u32 \<Rightarrow> u32) \<Rightarrow> 'w \<Rightarrow> 'w" where
  "mmio_update B a f w = (case mmio_read B a w of (v, w') \<Rightarrow> mmio_write B a (f v) w')"

subsection \<open>The contract of a register file\<close>

text \<open>
  What firmware relies on for configuration registers: the address selects a register
  (\<open>sel\<close>), a read returns the stored word and changes no stored word, and a write has a fixed
  effect on the stored words, whatever else the device is doing. \<open>store\<close> is the abstract view
  of the world, \<open>visible\<close> says which registers are stored words and can be read back.
\<close>

locale register_file =
  fixes B :: "'w bus" and store :: "'w \<Rightarrow> 'k \<Rightarrow> u32" and sel :: "u32 \<Rightarrow> 'k"
    and visible :: "'k \<Rightarrow> bool" and effect :: "'k \<Rightarrow> u32 \<Rightarrow> ('k \<Rightarrow> u32) \<Rightarrow> 'k \<Rightarrow> u32"
  assumes rd_value: "visible (sel a) \<Longrightarrow> fst (bus_rd B a w) = store w (sel a)"
    and rd_store: "store (snd (bus_rd B a w)) = store w"
    and wr_store: "store (bus_wr B a v w) = effect (sel a) v (store w)"
begin

lemma store_read [simp]: "store (snd (mmio_read B a w)) = store w"
  by (simp add: mmio_read_def rd_store)

lemma fst_read: "visible (sel a) \<Longrightarrow> fst (mmio_read B a w) = store w (sel a)"
  by (simp add: mmio_read_def rd_value)

lemma store_write [simp]: "store (mmio_write B a v w) = effect (sel a) v (store w)"
  by (simp add: mmio_write_def wr_store)

lemma store_update:
  "visible (sel a) \<Longrightarrow>
   store (mmio_update B a f w) = effect (sel a) (f (store w (sel a))) (store w)"
  using store_read [of a w] fst_read [of a w]
  by (cases "mmio_read B a w") (simp add: mmio_update_def)

end

end
