(* ===== verification/Rtl_Bus.thy ===== *)
theory Rtl_Bus
  imports Qar_Prelude
begin

text \<open>
  The bus port of a peripheral (\<^verbatim>\<open>qar-core/rtl/\<close>): in a clock cycle the core either leaves a
  block alone, reads the register at a word index (\<open>bus_read\<close>, \<open>addr_word\<close>) or writes one
  (\<open>bus_write\<close>, \<open>addr_word\<close>, \<open>wdata\<close>). Each block is a record of its registers with a step
  function (the clocked \<open>always\<close> block) and a read function (the combinational multiplexer).

  A step function receives the registers \<open>s\<close> before the clock edge. Every right-hand side reads
  \<open>s\<close>; the assignments are collected in a second copy \<open>n\<close> that starts as \<open>s\<close>, so that a later
  non-blocking assignment to a register overrides an earlier one and an assignment to one bit
  overrides that bit only.
\<close>

datatype busop = Idle | Rd nat | Wr nat u32

end
