(* ===== verification/Rtl_Gpio.thy ===== *)
theory Rtl_Gpio
  imports Rtl_Bus
begin

text \<open>
  The GPIO block \<^verbatim>\<open>qar-core/rtl/gpio.v\<close> with the width 32 it is instantiated with: output
  register with PWM override, debounced inputs, edge-triggered interrupt latches.
\<close>

record gpio =
  gp_dir :: u32
  gp_out_reg :: u32
  gp_alt_pwm_sel :: u32
  gp_irq_enable :: u32
  gp_irq_status :: u32
  gp_irq_rise_mask :: u32
  gp_irq_fall_mask :: u32
  gp_last_input :: u32
  gp_debounce_enable :: u32
  gp_debounce_cycles :: u16
  gp_debounced_input :: u32
  gp_debounce_counter :: "nat \<Rightarrow> u16"

text \<open>The input pins of the block: \<open>gpio_in\<close> and the two PWM outputs of the timer.\<close>

record gpio_pins =
  pin_in :: u32
  pin_pwm0 :: bool
  pin_pwm1 :: bool

definition gpio_reset :: "gpio \<Rightarrow> gpio" where
  "gpio_reset s = s\<lparr>gp_dir := 0, gp_out_reg := 0, gp_alt_pwm_sel := 0, gp_irq_enable := 0,
     gp_irq_status := 0, gp_irq_rise_mask := NOT 0, gp_irq_fall_mask := 0, gp_last_input := 0,
     gp_debounce_enable := 0, gp_debounce_cycles := 32, gp_debounced_input := 0,
     gp_debounce_counter := (\<lambda>_. 0)\<rparr>"

definition gp_pwm_override_values :: "gpio_pins \<Rightarrow> gpio \<Rightarrow> u32" where
  "gp_pwm_override_values p s =
     assign_bit 1 (bit (gp_alt_pwm_sel s) 1 \<and> pin_pwm1 p)
       (assign_bit 0 (bit (gp_alt_pwm_sel s) 0 \<and> pin_pwm0 p) 0)"

definition gp_pwm_override_mask :: "gpio \<Rightarrow> u32" where
  "gp_pwm_override_mask s =
     assign_bit 1 (bit (gp_alt_pwm_sel s) 1) (assign_bit 0 (bit (gp_alt_pwm_sel s) 0) 0)"

definition gp_hw_out :: "gpio_pins \<Rightarrow> gpio \<Rightarrow> u32" where
  "gp_hw_out p s = (gp_out_reg s AND NOT (gp_pwm_override_mask s)) OR gp_pwm_override_values p s"

definition gp_irq :: "gpio \<Rightarrow> bool" where
  "gp_irq s \<longleftrightarrow> gp_irq_enable s AND gp_irq_status s \<noteq> 0"

definition gp_input_only :: "gpio_pins \<Rightarrow> gpio \<Rightarrow> u32" where
  "gp_input_only p s = NOT (gp_dir s) AND pin_in p"

definition gp_debounce_threshold :: "gpio \<Rightarrow> u16" where
  "gp_debounce_threshold s = (if gp_debounce_cycles s = 0 then 1 else gp_debounce_cycles s)"

definition gp_filtered_input_only :: "gpio \<Rightarrow> u32" where
  "gp_filtered_input_only s = NOT (gp_dir s) AND gp_debounced_input s"

definition gp_rising_edges :: "gpio \<Rightarrow> u32" where
  "gp_rising_edges s = NOT (gp_last_input s) AND gp_filtered_input_only s"

definition gp_falling_edges :: "gpio \<Rightarrow> u32" where
  "gp_falling_edges s = gp_last_input s AND NOT (gp_filtered_input_only s)"

definition gp_irq_events :: "gpio \<Rightarrow> u32" where
  "gp_irq_events s = (gp_rising_edges s AND gp_irq_rise_mask s) OR
                     (gp_falling_edges s AND gp_irq_fall_mask s)"

definition gp_clear_irq_mask :: "busop \<Rightarrow> u32" where
  "gp_clear_irq_mask bop = (case bop of Wr k v \<Rightarrow> if k = 6 then v else 0 | _ \<Rightarrow> 0)"

definition gp_write :: "nat \<Rightarrow> u32 \<Rightarrow> gpio \<Rightarrow> gpio" where
  "gp_write k v s =
     (if k = 0 then s\<lparr>gp_dir := v\<rparr>
      else if k = 1 then s\<lparr>gp_out_reg := v\<rparr>
      else if k = 3 then s\<lparr>gp_out_reg := gp_out_reg s OR v\<rparr>
      else if k = 4 then s\<lparr>gp_out_reg := gp_out_reg s AND NOT v\<rparr>
      else if k = 5 then s\<lparr>gp_irq_enable := v\<rparr>
      else if k = 7 then s\<lparr>gp_alt_pwm_sel := v\<rparr>
      else if k = 8 then s\<lparr>gp_irq_rise_mask := v\<rparr>
      else if k = 9 then s\<lparr>gp_irq_fall_mask := v\<rparr>
      else if k = 10 then s\<lparr>gp_debounce_enable := v\<rparr>
      else if k = 11 then s\<lparr>gp_debounce_cycles := ucast v\<rparr>
      else s)"

text \<open>The body of the per-pin loop for pin \<open>i\<close>.\<close>

definition gp_pin_step :: "gpio_pins \<Rightarrow> gpio \<Rightarrow> nat \<Rightarrow> gpio \<Rightarrow> gpio" where
  "gp_pin_step p s i n =
     (let inp = bit (gp_input_only p s) i; cnt = gp_debounce_counter s i;
          set_cnt = (\<lambda>c m. m\<lparr>gp_debounce_counter := (gp_debounce_counter m)(i := c)\<rparr>);
          set_in = (\<lambda>b m. m\<lparr>gp_debounced_input := assign_bit i b (gp_debounced_input m)\<rparr>)
      in if bit (gp_dir s) i then set_cnt 0 (set_in (bit (gp_hw_out p s) i) n)
         else if \<not> bit (gp_debounce_enable s) i then set_cnt 0 (set_in inp n)
         else if inp = bit (gp_debounced_input s) i then set_cnt 0 n
         else if gp_debounce_threshold s \<le> cnt then set_cnt 0 (set_in inp n)
         else set_cnt (cnt + 1) n)"

definition gp_pin_loop :: "gpio_pins \<Rightarrow> gpio \<Rightarrow> nat \<Rightarrow> gpio \<Rightarrow> gpio" where
  "gp_pin_loop p s width n = fold (gp_pin_step p s) [0..<width] n"

definition gpio_step :: "gpio_pins \<Rightarrow> busop \<Rightarrow> gpio \<Rightarrow> gpio" where
  "gpio_step p bop s =
     (let n = (case bop of Wr k v \<Rightarrow> gp_write k v s | _ \<Rightarrow> s);
          n = gp_pin_loop p s 32 n
      in n\<lparr>gp_irq_status := (gp_irq_status s AND NOT (gp_clear_irq_mask bop)) OR gp_irq_events s,
           gp_last_input := gp_filtered_input_only s\<rparr>)"

definition gpio_rdata :: "gpio_pins \<Rightarrow> nat \<Rightarrow> gpio \<Rightarrow> u32" where
  "gpio_rdata p k s =
     (if k = 0 then gp_dir s
      else if k = 1 then gp_out_reg s
      else if k = 2 then (gp_dir s AND gp_hw_out p s) OR gp_filtered_input_only s
      else if k = 5 then gp_irq_enable s
      else if k = 6 then gp_irq_status s
      else if k = 7 then gp_alt_pwm_sel s
      else if k = 8 then gp_irq_rise_mask s
      else if k = 9 then gp_irq_fall_mask s
      else if k = 10 then gp_debounce_enable s
      else if k = 11 then ucast (gp_debounce_cycles s)
      else 0)"

end
