(* ===== verification/Ring_Fifo.thy ===== *)
theory Ring_Fifo
  imports Qar_Prelude
begin

text \<open>
  The ring buffers of the peripherals: a memory of \<open>depth\<close> slots and two free-running
  pointers that are one bit wider than a slot index, so that \<open>head - tail\<close> (modulo the pointer
  width) is the number of entries. \<open>ring_list\<close> is the queue such a buffer stands for.
\<close>

definition ring_count :: "'n::len word \<Rightarrow> 'n word \<Rightarrow> nat" where
  "ring_count hd_ptr tl_ptr = unat (hd_ptr - tl_ptr)"

definition ring_list :: "nat \<Rightarrow> (nat \<Rightarrow> 'a) \<Rightarrow> 'n::len word \<Rightarrow> 'n word \<Rightarrow> 'a list" where
  "ring_list depth mem hd_ptr tl_ptr =
     map (\<lambda>i. mem ((unat tl_ptr + i) mod depth)) [0..<ring_count hd_ptr tl_ptr]"

lemma length_ring_list [simp]: "length (ring_list d m h t) = ring_count h t"
  by (simp add: ring_list_def)

lemma ring_count_same [simp]: "ring_count p p = 0"
  by (simp add: ring_count_def)

lemma ring_count_eq_0 [simp]: "ring_count h t = 0 \<longleftrightarrow> h = t"
  by (simp add: ring_count_def unat_eq_0)

lemma ring_list_Nil [simp]: "ring_list d m h t = [] \<longleftrightarrow> h = t"
  by (simp add: ring_list_def)

lemma ring_list_same [simp]: "ring_list d m p p = []"
  by simp

lemma ring_count_push:
  assumes "ring_count h t < d" and "2 * d = 2 ^ LENGTH('n::len)"
  shows "ring_count (h + 1) (t :: 'n word) = Suc (ring_count h t)"
proof -
  have "unat (h - t) + 1 < 2 ^ LENGTH('n)" using assms by (simp add: ring_count_def)
  then have "unat (h - t + 1) = unat (h - t) + 1"
    by (simp add: unat_word_ariths)
  moreover have "h + 1 - t = h - t + 1" by (simp add: algebra_simps)
  ultimately show ?thesis by (simp only: ring_count_def)
qed

lemma ring_count_pop:
  assumes "h \<noteq> t"
  shows "ring_count h (t + 1 :: 'n::len word) = ring_count h t - 1"
proof -
  have "h - t \<noteq> 0" using assms by simp
  then have "unat (h - t - 1) = unat (h - t) - 1"
    by (metis unat_minus_one)
  then show ?thesis by (simp add: ring_count_def algebra_simps)
qed

lemma unat_ptr_offset:
  assumes "2 * d = 2 ^ LENGTH('n::len)"
  shows "unat (t + of_nat i :: 'n word) mod d = (unat t + i) mod d"
proof -
  have d: "d dvd 2 ^ LENGTH('n)" using assms by (metis dvd_triv_right)
  have "unat (t + of_nat i :: 'n word) = (unat t + i) mod 2 ^ LENGTH('n)"
    by (simp add: unat_word_ariths unat_of_nat mod_add_right_eq take_bit_eq_mod)
  then show ?thesis using d by (simp add: mod_mod_cancel)
qed

lemma ring_slot_head:
  assumes "2 * d = 2 ^ LENGTH('n::len)"
  shows "unat h mod d = (unat (t :: 'n word) + ring_count h t) mod d"
proof -
  have "h = t + of_nat (ring_count h t)" by (simp add: ring_count_def)
  then show ?thesis using unat_ptr_offset [OF assms, of t "ring_count h t"] by metis
qed

text \<open>Storing at the head slot and advancing the head appends to the queue.\<close>

lemma ring_list_push:
  assumes "ring_count h t < d" and "2 * d = 2 ^ LENGTH('n::len)"
  shows "ring_list d (m(unat h mod d := x)) (h + 1) (t :: 'n word) = ring_list d m h t @ [x]"
proof -
  have slot: "unat h mod d = (unat t + ring_count h t) mod d"
    using assms(2) by (rule ring_slot_head)
  have "(unat t + i) mod d \<noteq> unat h mod d" if "i < ring_count h t" for i
  proof
    assume "(unat t + i) mod d = unat h mod d"
    then have "(unat t + i) mod d = (unat t + ring_count h t) mod d" by (simp add: slot)
    then have "(ring_count h t - i) mod d = 0"
      using that by (metis mod_eq_dvd_iff_nat add_le_mono le_refl less_imp_le diff_add_inverse2
          add_diff_cancel_left dvd_imp_mod_0)
    moreover have "0 < ring_count h t - i \<and> ring_count h t - i < d" using that assms(1) by simp
    ultimately show False by simp
  qed
  then show ?thesis
    by (auto simp: ring_list_def ring_count_push [OF assms] slot)
qed

text \<open>Advancing the tail drops the oldest entry, which sits in the tail slot.\<close>

lemma ring_list_hd:
  "h \<noteq> t \<Longrightarrow> hd (ring_list d m h t) = m (unat t mod d)"
  by (simp add: ring_list_def hd_map upt_rec)

lemma ring_list_pop:
  assumes "h \<noteq> t" and d: "2 * d = 2 ^ LENGTH('n::len)"
  shows "ring_list d m h (t + 1) = tl (ring_list d m h (t :: 'n word))"
proof (rule nth_equalityI)
  show "length (ring_list d m h (t + 1)) = length (tl (ring_list d m h t))"
    using assms(1) by (simp add: ring_count_pop)
next
  fix i assume "i < length (ring_list d m h (t + 1))"
  then have i: "i < ring_count h t - 1" using assms(1) by (simp add: ring_count_pop)
  have "(unat (t + 1) + i) mod d = (unat t + Suc i) mod d"
    using unat_ptr_offset [OF d, of t 1] by (metis mod_add_left_eq add_Suc_right add_Suc_shift
        of_nat_1 add.right_neutral One_nat_def)
  then show "ring_list d m h (t + 1) ! i = tl (ring_list d m h t) ! i"
    using i nth_upt [of 0 "Suc i" "ring_count h t"] assms(1)
    by (simp add: ring_list_def nth_tl ring_count_pop)
qed

text \<open>
  The full test of the SPI, I2C and UART blocks compares \<open>head - tail\<close> with an integer
  parameter, so Verilog extends both pointers to 32 bits before it subtracts. The difference is
  the number of entries only while the head pointer has not wrapped below the tail.
\<close>

definition wide_diff :: "'n::len word \<Rightarrow> 'n word \<Rightarrow> u32" where
  "wide_diff a b = ucast a - ucast b"

text \<open>A pair of pointers that passes the full test is full; the converse fails once the head has wrapped.\<close>

lemma wide_diff_count:
  assumes "wide_diff h (t :: 'n::len word) = of_nat d" and "2 * d = 2 ^ LENGTH('n)" and "LENGTH('n) < 32"
  shows "ring_count h t = d"
proof -
  have n: "2 ^ LENGTH('n) \<le> (2 :: nat) ^ 31" using assms(3) by (intro power_increasing) simp_all
  have lt: "unat x < 2 ^ LENGTH('n)" for x :: "'n word" by (rule unsigned_less)
  have u: "unat (ucast x :: u32) = unat x" for x :: "'n word"
    using order_less_le_trans [OF lt [of x] n] by (simp add: unsigned_ucast_eq take_bit_nat_eq_self_iff)
  have "ucast h = ucast t + (of_nat d :: u32)" using assms(1) by (simp add: wide_diff_def algebra_simps)
  then have "unat (ucast h :: u32) = (unat t + d) mod 2 ^ 32"
    by (simp add: unat_word_ariths u unat_of_nat take_bit_eq_mod mod_add_right_eq)
  moreover have "unat t < 2 ^ 31" by (rule order_less_le_trans [OF lt n])
  then have "unat t + d < 2 ^ 32" using assms(2) n by simp
  ultimately have h: "unat h = unat t + d" by (simp add: u)
  then have "t \<le> h" by (simp add: word_le_nat_alt)
  then show ?thesis using h by (simp add: ring_count_def unat_sub)
qed

text \<open>A full ring passes the test only while the tail is in the lower half of its range.\<close>

lemma wide_diff_full:
  assumes "ring_count h (t :: 'n::len word) = d" and "2 * d = 2 ^ LENGTH('n)" and "LENGTH('n) < 32"
  shows "wide_diff h t = of_nat d \<longleftrightarrow> unat t < d"
proof -
  have n: "2 ^ LENGTH('n) \<le> (2 :: nat) ^ 31" using assms(3) by (intro power_increasing) simp_all
  have d: "0 < d" "2 * d \<le> 2 ^ 31" using assms(2) n by (auto intro: Nat.gr0I)
  have lt: "unat x < 2 ^ LENGTH('n)" for x :: "'n word" by (rule unsigned_less)
  have u: "unat (ucast x :: u32) = unat x" for x :: "'n word"
    using order_less_le_trans [OF lt [of x] n] by (simp add: unsigned_ucast_eq take_bit_nat_eq_self_iff)
  have "h = t + of_nat d" using assms(1) by (simp add: ring_count_def flip: assms(1))
  then have h: "unat h = (unat t + d) mod (2 * d)"
    by (simp add: unat_word_ariths unat_of_nat take_bit_eq_mod mod_add_right_eq assms(2))
  have iff: "wide_diff h t = of_nat d \<longleftrightarrow> unat h = (unat t + d) mod 2 ^ 32"
  proof -
    have "wide_diff h t = of_nat d \<longleftrightarrow> ucast h = ucast t + (of_nat d :: u32)"
      by (auto simp: wide_diff_def algebra_simps)
    also have "\<dots> \<longleftrightarrow> unat (ucast h :: u32) = unat (ucast t + of_nat d :: u32)" by (simp only: word_unat_eq_iff)
    also have "unat (ucast t + of_nat d :: u32) = (unat t + d) mod 2 ^ 32"
      by (simp add: unat_word_ariths u unat_of_nat take_bit_eq_mod mod_add_right_eq)
    finally show ?thesis by (simp only: u)
  qed
  have t: "unat t < 2 * d" using lt [of t] assms(2) by simp
  then have "(unat t + d) mod 2 ^ 32 = unat t + d" using d by simp
  moreover have "(unat t + d) mod (2 * d) = (if unat t < d then unat t + d else unat t - d)"
    using t d by (simp add: mod_if)
  ultimately show ?thesis using iff h d by (cases "unat t < d") simp_all
qed

text \<open>Storing into a full ring overwrites its oldest entry, which is then there twice.\<close>

lemma ring_list_overwrite:
  assumes "ring_count h t = d" and "2 * d = 2 ^ LENGTH('n::len)" and "1 < d"
  shows "ring_list d (m(unat h mod d := x)) (h + 1) (t :: 'n word) = x # tl (ring_list d m h t) @ [x]"
proof -
  have d: "0 < d" using assms(3) by simp
  have slot: "unat h mod d = unat t mod d" using ring_slot_head [OF assms(2), of h t] assms(1) by simp
  have "unat (h - t) + 1 < 2 ^ LENGTH('n)" using assms by (simp add: ring_count_def flip: assms(2))
  then have "unat (h - t + 1) = unat (h - t) + 1" by (simp add: unat_word_ariths)
  moreover have "h + 1 - t = h - t + 1" by (simp add: algebra_simps)
  ultimately have n: "ring_count (h + 1) t = Suc d" using assms(1) by (simp only: ring_count_def)
  have other: "(unat t + i) mod d \<noteq> unat t mod d" if "0 < i" "i < d" for i
    using that by (metis add.commute add_diff_cancel_left' dvd_imp_mod_0 mod_eq_dvd_iff_nat le_add1
        mod_less not_gr_zero)
  show ?thesis
  proof (rule nth_equalityI)
    show "length (ring_list d (m(unat h mod d := x)) (h + 1) t) = length (x # tl (ring_list d m h t) @ [x])"
      using n assms(1) d by simp
  next
    fix i assume "i < length (ring_list d (m(unat h mod d := x)) (h + 1) t)"
    then consider "i = 0" | "0 < i" "i < d" | "i = d" using n by fastforce
    then show "ring_list d (m(unat h mod d := x)) (h + 1) t ! i = (x # tl (ring_list d m h t) @ [x]) ! i"
    proof cases
      case 2
      then have "tl (ring_list d m h t) ! (i - 1) = m ((unat t + i) mod d)"
        using assms(1) by (simp add: nth_tl) (simp add: ring_list_def)
      moreover have "i - 1 < d - 1" using 2 by linarith
      ultimately show ?thesis using 2 other assms(1) by (simp add: ring_list_def n slot nth_append nth_Cons')
    qed (use assms(1) d in \<open>simp_all add: ring_list_def n slot nth_append nth_Cons'\<close>)
  qed
qed

end
