(* ===== verification/Rtl_Uart.thy ===== *)
theory Rtl_Uart
  imports Rtl_Bus Ring_Fifo
begin

text \<open>
  The UART block \<^verbatim>\<open>qar-core/rtl/uart.v\<close> with FIFOs of eight bytes: framing with parity,
  idle-gap detection, RS-485 direction and the LIN break, header and slave-response logic. The
  clocked block is the composition of its stages in source order.
\<close>

record uart =
  ua_ctrl :: u32
  ua_baud_div :: u32
  ua_irq_en :: u32
  ua_irq_status :: u32
  ua_rs485_ctrl :: u32
  ua_status :: u32
  ua_idle_cfg :: u32
  ua_lin_ctrl :: u32
  ua_lin_cmd :: u32
  ua_lin_slave_ctrl :: u32
  ua_lin_sync_byte :: u8
  ua_lin_id_byte :: u8
  ua_lin_header_valid :: bool
  ua_lin_sync_error :: bool
  ua_lin_header_state :: "2 word"
  ua_lin_wait_delimiter :: bool
  ua_lin_tx_header_id :: u8
  ua_lin_auto_header_pending :: bool
  ua_lin_auto_state :: "2 word"
  ua_lin_slave_armed :: bool
  ua_lin_slave_tx_pending :: bool
  ua_lin_slave_bytes_remaining :: u8
  ua_lin_slave_underflow :: bool
  ua_tx_fifo :: "nat \<Rightarrow> u8"
  ua_tx_head :: "4 word"
  ua_tx_tail :: "4 word"
  ua_rx_fifo :: "nat \<Rightarrow> u8"
  ua_rx_head :: "4 word"
  ua_rx_tail :: "4 word"
  ua_tx :: bool
  ua_tx_shift :: "12 word"
  ua_tx_bits_remaining :: "5 word"
  ua_tx_counter :: u32
  ua_rx_counter :: u32
  ua_idle_counter :: u32
  ua_idle_irq_pending :: bool
  ua_rx_busy :: bool
  ua_rx_sync1 :: bool
  ua_rx_sync2 :: bool
  ua_rx_bit_index :: "5 word"
  ua_rx_total_bits :: "5 word"
  ua_rx_data_latch :: u8
  ua_rx_parity_latch :: bool
  ua_rx_parity_enable_latch :: bool
  ua_rx_parity_odd_latch :: bool
  ua_rx_two_stop_latch :: bool
  ua_rx_stop_error :: bool
  ua_rx_start_error :: bool
  ua_lin_break_pending :: bool
  ua_lin_break_active :: bool
  ua_lin_break_counter :: u32
  ua_lin_break_tick :: u32
  ua_lin_rx_low_counter :: u32
  ua_lin_rx_tick :: u32

subsection \<open>Frames\<close>

text \<open>The reduction \<open>^data\<close>.\<close>

definition xor_reduce :: "u8 \<Rightarrow> bool" where
  "xor_reduce d = fold (\<lambda>i b. b \<noteq> bit d i) [0..<8] False"

definition build_tx_frame :: "u8 \<Rightarrow> bool \<Rightarrow> bool \<Rightarrow> bool \<Rightarrow> 12 word" where
  "build_tx_frame data_in parity_enable_in parity_odd_in two_stop_in =
     (let frame = NOT 0 :: 12 word;
          frame = assign_bit 0 False frame;
          frame = (frame AND NOT (push_bit 1 (mask 8))) OR push_bit 1 (ucast data_in);
          idx = (9 :: nat);
          parity_bit_val = (xor_reduce data_in \<noteq> parity_odd_in);
          frame = (if parity_enable_in then assign_bit idx parity_bit_val frame else frame);
          idx = (if parity_enable_in then idx + 1 else idx);
          frame = assign_bit idx True frame;
          idx = idx + 1
      in if two_stop_in then assign_bit idx True frame else frame)"

definition calc_frame_bits :: "bool \<Rightarrow> bool \<Rightarrow> 5 word" where
  "calc_frame_bits parity_enable_in two_stop_in =
     9 + (if parity_enable_in then 1 else 0) + (if two_stop_in then 2 else 1)"

definition parity_match :: "u8 \<Rightarrow> bool \<Rightarrow> bool \<Rightarrow> bool \<Rightarrow> bool" where
  "parity_match data_in parity_enable_in parity_odd_in sampled_parity \<longleftrightarrow>
     (if \<not> parity_enable_in then True
      else sampled_parity = (xor_reduce data_in \<noteq> parity_odd_in))"

subsection \<open>Wires\<close>

definition ua_tx_full :: "uart \<Rightarrow> bool" where
  "ua_tx_full s \<longleftrightarrow> wide_diff (ua_tx_head s) (ua_tx_tail s) = 8"

definition ua_tx_empty :: "uart \<Rightarrow> bool" where
  "ua_tx_empty s \<longleftrightarrow> ua_tx_head s = ua_tx_tail s"

definition ua_rx_full :: "uart \<Rightarrow> bool" where
  "ua_rx_full s \<longleftrightarrow> wide_diff (ua_rx_head s) (ua_rx_tail s) = 8"

definition ua_rx_empty :: "uart \<Rightarrow> bool" where
  "ua_rx_empty s \<longleftrightarrow> ua_rx_head s = ua_rx_tail s"

definition ua_irq :: "uart \<Rightarrow> bool" where
  "ua_irq s \<longleftrightarrow> ua_irq_en s AND ua_irq_status s \<noteq> 0"

definition ua_lin_mode :: "uart \<Rightarrow> bool" where
  "ua_lin_mode s \<longleftrightarrow> bit (ua_ctrl s) 5"

definition ua_lin_break_length :: "uart \<Rightarrow> u16" where
  "ua_lin_break_length s =
     (if (ucast (ua_lin_ctrl s) :: u16) = 0 then 13 else ucast (ua_lin_ctrl s))"

definition ua_lin_slave_enable :: "uart \<Rightarrow> bool" where
  "ua_lin_slave_enable s \<longleftrightarrow> bit (ua_lin_slave_ctrl s) 16"

definition ua_lin_slave_match_id :: "uart \<Rightarrow> u8" where
  "ua_lin_slave_match_id s = ucast (drop_bit 8 (ua_lin_slave_ctrl s))"

definition ua_lin_slave_resp_len :: "uart \<Rightarrow> u8" where
  "ua_lin_slave_resp_len s = ucast (ua_lin_slave_ctrl s)"

definition ua_lin_slave_gate_block :: "uart \<Rightarrow> bool" where
  "ua_lin_slave_gate_block s \<longleftrightarrow>
     ua_lin_slave_enable s \<and> ua_lin_slave_armed s \<and> \<not> ua_lin_slave_tx_pending s"

definition ua_clear_status :: "nat \<Rightarrow> uart \<Rightarrow> uart" where
  "ua_clear_status i n = n\<lparr>ua_status := assign_bit i False (ua_status n)\<rparr>"

definition ua_set_status :: "nat \<Rightarrow> uart \<Rightarrow> uart" where
  "ua_set_status i n = n\<lparr>ua_status := assign_bit i True (ua_status n)\<rparr>"

definition ua_clear_irq_bit :: "nat \<Rightarrow> uart \<Rightarrow> uart" where
  "ua_clear_irq_bit i n = n\<lparr>ua_irq_status := assign_bit i False (ua_irq_status n)\<rparr>"

definition ua_set_irq_bit :: "nat \<Rightarrow> uart \<Rightarrow> uart" where
  "ua_set_irq_bit i n = n\<lparr>ua_irq_status := assign_bit i True (ua_irq_status n)\<rparr>"

definition ua_reset :: "uart \<Rightarrow> uart" where
  "ua_reset s = s\<lparr>ua_ctrl := 1, ua_baud_div := 434, ua_irq_en := 0, ua_irq_status := 0,
     ua_rs485_ctrl := 1, ua_status := 0, ua_idle_cfg := 0, ua_lin_ctrl := 13, ua_lin_cmd := 0,
     ua_lin_sync_byte := 0x55, ua_lin_id_byte := 0, ua_lin_header_valid := False,
     ua_lin_sync_error := False, ua_lin_header_state := 0, ua_lin_wait_delimiter := False,
     ua_lin_tx_header_id := 0, ua_lin_auto_header_pending := False, ua_lin_auto_state := 0,
     ua_lin_slave_ctrl := 0, ua_lin_slave_armed := False, ua_lin_slave_tx_pending := False,
     ua_lin_slave_bytes_remaining := 0, ua_lin_slave_underflow := False,
     ua_tx_head := 0, ua_tx_tail := 0, ua_rx_head := 0, ua_rx_tail := 0, ua_tx := True,
     ua_tx_shift := NOT 0, ua_tx_bits_remaining := 0, ua_tx_counter := 0, ua_rx_counter := 0,
     ua_idle_counter := 0, ua_idle_irq_pending := False, ua_rx_busy := False,
     ua_rx_sync1 := True, ua_rx_sync2 := True, ua_rx_bit_index := 0, ua_rx_total_bits := 0,
     ua_rx_data_latch := 0, ua_rx_parity_latch := False, ua_rx_parity_enable_latch := False,
     ua_rx_parity_odd_latch := False, ua_rx_two_stop_latch := False, ua_rx_stop_error := False,
     ua_rx_start_error := False, ua_lin_break_pending := False, ua_lin_break_active := False,
     ua_lin_break_counter := 0, ua_lin_break_tick := 0, ua_lin_rx_low_counter := 0,
     ua_lin_rx_tick := 0\<rparr>"

subsection \<open>Register writes and reads\<close>

definition ua_data_write :: "u32 \<Rightarrow> uart \<Rightarrow> uart \<Rightarrow> uart" where
  "ua_data_write v s n =
     (if \<not> ua_tx_full s
      then ua_clear_irq_bit 1
             (n\<lparr>ua_tx_fifo := (ua_tx_fifo n)(unat (ua_tx_head s) mod 8 := ucast v),
                ua_tx_head := ua_tx_head s + 1\<rparr>)
      else n)"

definition ua_irq_status_write :: "u32 \<Rightarrow> uart \<Rightarrow> uart \<Rightarrow> uart" where
  "ua_irq_status_write v s n =
     (let n = n\<lparr>ua_irq_status := ua_irq_status s AND NOT v\<rparr>;
          n = (if bit v 2 then ua_clear_status 5 (ua_clear_status 3 (ua_clear_status 2 n)) else n);
          n = (if bit v 3
               then (ua_clear_status 6 n)\<lparr>ua_idle_irq_pending := False, ua_idle_counter := 0\<rparr>
               else n)
      in if bit v 6 then n\<lparr>ua_lin_slave_underflow := False\<rparr> else n)"

definition ua_lin_cmd_write :: "u32 \<Rightarrow> uart \<Rightarrow> uart \<Rightarrow> uart" where
  "ua_lin_cmd_write v s n =
     (let n = n\<lparr>ua_lin_cmd := v\<rparr>;
          n = (if bit v 0
               then ua_set_irq_bit 4 (ua_set_status 7 (n\<lparr>ua_lin_break_pending := True\<rparr>)) else n);
          n = (if bit v 1 then ua_clear_irq_bit 4 (ua_clear_status 7 n) else n);
          n = (if bit v 2
               then ua_clear_irq_bit 0
                      (n\<lparr>ua_lin_header_state := 1, ua_lin_header_valid := False,
                         ua_lin_sync_error := False, ua_lin_wait_delimiter := True,
                         ua_rx_head := ua_rx_tail s\<rparr>)
               else n);
          n = (if bit v 3
               then n\<lparr>ua_lin_auto_header_pending := True, ua_lin_break_pending := True\<rparr> else n);
          n = (if bit v 4
               then (let n = n\<lparr>ua_lin_slave_underflow := False\<rparr>
                     in if ua_lin_slave_enable s \<and> ua_lin_slave_resp_len s \<noteq> 0
                        then n\<lparr>ua_lin_slave_armed := True, ua_lin_slave_tx_pending := False\<rparr>
                        else n\<lparr>ua_lin_slave_armed := False, ua_lin_slave_tx_pending := False\<rparr>)
               else n)
      in if bit v 5
         then n\<lparr>ua_lin_slave_armed := False, ua_lin_slave_tx_pending := False,
                ua_lin_slave_underflow := False\<rparr>
         else n)"

definition ua_lin_slave_write :: "u32 \<Rightarrow> uart \<Rightarrow> uart" where
  "ua_lin_slave_write v n =
     (let n = n\<lparr>ua_lin_slave_ctrl := v\<rparr>
      in if \<not> bit v 16
         then n\<lparr>ua_lin_slave_armed := False, ua_lin_slave_tx_pending := False,
                ua_lin_slave_underflow := False\<rparr>
         else n)"

definition ua_write :: "nat \<Rightarrow> u32 \<Rightarrow> uart \<Rightarrow> uart \<Rightarrow> uart" where
  "ua_write k v s n =
     (if k = 0x0 then ua_data_write v s n
      else if k = 0x2 then n\<lparr>ua_ctrl := v\<rparr>
      else if k = 0x3 then n\<lparr>ua_baud_div := v\<rparr>
      else if k = 0x4 then n\<lparr>ua_irq_en := v\<rparr>
      else if k = 0x5 then ua_irq_status_write v s n
      else if k = 0x6 then n\<lparr>ua_rs485_ctrl := v\<rparr>
      else if k = 0x7 then n\<lparr>ua_idle_cfg := v\<rparr>
      else if k = 0x8 then n\<lparr>ua_lin_ctrl := v\<rparr>
      else if k = 0x9 then ua_lin_cmd_write v s n
      else if k = 0xA then n\<lparr>ua_lin_tx_header_id := ucast v\<rparr>
      else if k = 0xC then ua_lin_slave_write v n
      else n)"

definition ua_read_effect :: "nat \<Rightarrow> uart \<Rightarrow> uart \<Rightarrow> uart" where
  "ua_read_effect k s n =
     (if k = 0x0 \<and> \<not> ua_rx_empty s
      then (let n = n\<lparr>ua_rx_tail := ua_rx_tail s + 1\<rparr>
            in if (ucast (ua_rx_head s) :: u32) - (ucast (ua_rx_tail s) + 1) = 0
               then ua_clear_irq_bit 0 n else n)
      else n)"

subsection \<open>The stages of a clock cycle\<close>

definition ua_status_stage :: "uart \<Rightarrow> uart \<Rightarrow> uart" where
  "ua_status_stage s n = n\<lparr>ua_status :=
     assign_bit 11 (ua_lin_slave_underflow s) (assign_bit 10 (ua_lin_slave_tx_pending s)
    (assign_bit 9 (ua_lin_sync_error s) (assign_bit 8 (ua_lin_header_valid s)
    (assign_bit 4 (ua_tx_bits_remaining s \<noteq> 0 \<or> ua_lin_break_active s)
    (assign_bit 1 (\<not> ua_tx_full s) (assign_bit 0 (\<not> ua_rx_empty s) (ua_status n)))))))\<rparr>"

definition ua_break_stage :: "uart \<Rightarrow> uart \<Rightarrow> uart" where
  "ua_break_stage s n =
     (if ua_lin_mode s \<and> \<not> ua_lin_break_active s \<and> ua_lin_break_pending s \<and> bit (ua_ctrl s) 0 \<and>
         ua_tx_bits_remaining s = 0 \<and> (ua_tx_empty s \<or> ua_lin_slave_gate_block s)
      then n\<lparr>ua_lin_break_active := True, ua_lin_break_pending := False, ua_lin_break_counter := 0\<rparr>
      else n)"

definition ua_tx_break :: "uart \<Rightarrow> uart \<Rightarrow> uart" where
  "ua_tx_break s n =
     (let n = n\<lparr>ua_tx := False, ua_tx_bits_remaining := 0\<rparr>
      in if ua_baud_div s \<le> ua_lin_break_tick s
         then (let n = n\<lparr>ua_lin_break_tick := 0\<rparr>
               in if ucast (ua_lin_break_length s) \<le> ua_lin_break_counter s
                  then (let n = ua_set_irq_bit 4 (ua_set_status 7
                              (n\<lparr>ua_lin_break_active := False, ua_lin_break_counter := 0,
                                 ua_tx := True\<rparr>));
                            n = (if ua_lin_auto_header_pending s
                                 then n\<lparr>ua_lin_auto_state := 1, ua_lin_auto_header_pending := False\<rparr>
                                 else n)
                        in n\<lparr>ua_lin_break_pending := False\<rparr>)
                  else n\<lparr>ua_lin_break_counter := ua_lin_break_counter s + 1\<rparr>)
         else n\<lparr>ua_lin_break_tick := ua_lin_break_tick s + 1\<rparr>)"

definition ua_load_frame :: "u8 \<Rightarrow> uart \<Rightarrow> uart \<Rightarrow> uart" where
  "ua_load_frame byte s n =
     (let pe = bit (ua_ctrl s) 1; podd = bit (ua_ctrl s) 2; two = bit (ua_ctrl s) 3 in
      n\<lparr>ua_tx_shift := build_tx_frame byte pe podd two,
        ua_tx_bits_remaining := calc_frame_bits pe two, ua_tx_counter := 0\<rparr>)"

definition ua_tx_idle :: "uart \<Rightarrow> uart \<Rightarrow> uart" where
  "ua_tx_idle s n =
     (if ua_lin_auto_state s \<noteq> 0
      then (ua_load_frame (if ua_lin_auto_state s = 1 then 0x55 else ua_lin_tx_header_id s) s n)
             \<lparr>ua_lin_auto_state := (if ua_lin_auto_state s = 1 then 2 else 0)\<rparr>
      else if ua_lin_slave_tx_pending s \<and> ua_tx_empty s
      then ua_set_irq_bit 6 (n\<lparr>ua_lin_slave_tx_pending := False, ua_lin_slave_underflow := True\<rparr>)
      else if \<not> ua_tx_empty s \<and> \<not> ua_lin_slave_gate_block s
      then (let n = (ua_load_frame (ua_tx_fifo s (unat (ua_tx_tail s) mod 8)) s n)
                      \<lparr>ua_tx_tail := ua_tx_tail s + 1\<rparr>
            in if ua_lin_slave_tx_pending s
               then (if ua_lin_slave_bytes_remaining s \<le> 1
                     then n\<lparr>ua_lin_slave_tx_pending := False\<rparr>
                     else n\<lparr>ua_lin_slave_bytes_remaining := ua_lin_slave_bytes_remaining s - 1\<rparr>)
               else n)
      else n)"

definition ua_tx_shift_out :: "uart \<Rightarrow> uart \<Rightarrow> uart" where
  "ua_tx_shift_out s n =
     (if ua_baud_div s \<le> ua_tx_counter s
      then (let n = n\<lparr>ua_tx_counter := 0, ua_tx := bit (ua_tx_shift s) 0,
                      ua_tx_shift := assign_bit 11 True (drop_bit 1 (ua_tx_shift s)),
                      ua_tx_bits_remaining := ua_tx_bits_remaining s - 1\<rparr>
            in if ua_tx_bits_remaining s = 1 \<and> ua_tx_empty s then ua_set_irq_bit 1 n else n)
      else n\<lparr>ua_tx_counter := ua_tx_counter s + 1\<rparr>)"

definition ua_tx_stage :: "uart \<Rightarrow> uart \<Rightarrow> uart" where
  "ua_tx_stage s n =
     (if \<not> bit (ua_ctrl s) 0 then n\<lparr>ua_tx_bits_remaining := 0, ua_tx := True\<rparr>
      else if ua_lin_break_active s then ua_tx_break s n
      else if ua_tx_bits_remaining s = 0 then ua_tx_idle s n
      else ua_tx_shift_out s n)"

definition ua_rx_begin :: "uart \<Rightarrow> uart \<Rightarrow> uart" where
  "ua_rx_begin s n =
     n\<lparr>ua_rx_busy := True, ua_rx_counter := drop_bit 1 (ua_baud_div s), ua_rx_bit_index := 0,
       ua_rx_total_bits := calc_frame_bits (bit (ua_ctrl s) 1) (bit (ua_ctrl s) 3),
       ua_rx_parity_enable_latch := bit (ua_ctrl s) 1, ua_rx_parity_odd_latch := bit (ua_ctrl s) 2,
       ua_rx_two_stop_latch := bit (ua_ctrl s) 3, ua_rx_data_latch := 0,
       ua_rx_parity_latch := False, ua_rx_stop_error := False, ua_rx_start_error := False,
       ua_idle_counter := 0, ua_idle_irq_pending := False\<rparr>"

definition ua_rx_idle :: "uart \<Rightarrow> uart \<Rightarrow> uart" where
  "ua_rx_idle s n =
     (if ua_lin_mode s \<and> ua_lin_wait_delimiter s
      then (let n = (if ua_rx_sync2 s then n\<lparr>ua_lin_wait_delimiter := False\<rparr> else n)
            in n\<lparr>ua_idle_counter := 0, ua_idle_irq_pending := False\<rparr>)
      else if \<not> ua_rx_sync2 s then ua_rx_begin s n
      else if ua_idle_cfg s \<noteq> 0
      then (if \<not> ua_idle_irq_pending s
            then (let n = n\<lparr>ua_idle_counter := ua_idle_counter s + 1\<rparr>
                  in if ua_idle_cfg s \<le> ua_idle_counter s
                     then ua_set_status 6 (ua_set_irq_bit 3 (n\<lparr>ua_idle_irq_pending := True\<rparr>))
                     else n)
            else n)
      else n\<lparr>ua_idle_counter := 0\<rparr>)"

definition ua_rx_sample :: "uart \<Rightarrow> uart \<Rightarrow> uart" where
  "ua_rx_sample s n =
     (let i = unat (ua_rx_bit_index s) in
      if i = 0 then (if ua_rx_sync2 s then n\<lparr>ua_rx_start_error := True\<rparr> else n)
      else if i \<le> 8 then n\<lparr>ua_rx_data_latch := assign_bit (i - 1) (ua_rx_sync2 s) (ua_rx_data_latch n)\<rparr>
      else if ua_rx_parity_enable_latch s \<and> i = 9 then n\<lparr>ua_rx_parity_latch := ua_rx_sync2 s\<rparr>
      else if \<not> ua_rx_sync2 s then n\<lparr>ua_rx_stop_error := True\<rparr> else n)"

definition ua_lin_header_byte :: "uart \<Rightarrow> uart \<Rightarrow> uart" where
  "ua_lin_header_byte s n =
     (if ua_lin_header_state s = 1
      then n\<lparr>ua_lin_sync_byte := ua_rx_data_latch s,
             ua_lin_sync_error := (ua_rx_data_latch s \<noteq> 0x55), ua_lin_header_state := 2\<rparr>
      else (let n = ua_set_irq_bit 5
                      (n\<lparr>ua_lin_id_byte := ua_rx_data_latch s, ua_lin_header_valid := True,
                         ua_lin_header_state := 0\<rparr>)
            in if ua_lin_slave_enable s \<and> ua_lin_slave_armed s \<and> ua_lin_slave_resp_len s \<noteq> 0 \<and>
                  ua_rx_data_latch s = ua_lin_slave_match_id s
               then n\<lparr>ua_lin_slave_tx_pending := True,
                      ua_lin_slave_bytes_remaining := ua_lin_slave_resp_len s,
                      ua_lin_slave_underflow := False, ua_lin_slave_armed := False\<rparr>
               else n))"

definition ua_rx_frame_end :: "uart \<Rightarrow> uart \<Rightarrow> uart" where
  "ua_rx_frame_end s n =
     (let n = n\<lparr>ua_rx_busy := False\<rparr>
      in if ua_rx_start_error s \<or> ua_rx_stop_error s then ua_set_irq_bit 2 (ua_set_status 2 n)
         else if \<not> parity_match (ua_rx_data_latch s) (ua_rx_parity_enable_latch s)
                     (ua_rx_parity_odd_latch s) (ua_rx_parity_latch s)
         then ua_set_irq_bit 2 (ua_set_status 5 n)
         else if ua_lin_mode s \<and> ua_lin_header_state s \<noteq> 0 then ua_lin_header_byte s n
         else if \<not> ua_rx_full s
         then ua_set_irq_bit 0
                (n\<lparr>ua_rx_fifo := (ua_rx_fifo n)(unat (ua_rx_head s) mod 8 := ua_rx_data_latch s),
                   ua_rx_head := ua_rx_head s + 1\<rparr>)
         else ua_set_irq_bit 2 (ua_set_status 3 n))"

definition ua_rx_receive :: "uart \<Rightarrow> uart \<Rightarrow> uart" where
  "ua_rx_receive s n =
     (if ua_baud_div s \<le> ua_rx_counter s
      then (let n = (ua_rx_sample s (n\<lparr>ua_rx_counter := 0\<rparr>))
                      \<lparr>ua_rx_bit_index := ua_rx_bit_index s + 1\<rparr>
            in if (ucast (ua_rx_bit_index s) :: u32) = ucast (ua_rx_total_bits s) - 1
               then ua_rx_frame_end s n else n)
      else n\<lparr>ua_rx_counter := ua_rx_counter s + 1\<rparr>)"

definition ua_rx_stage :: "uart \<Rightarrow> uart \<Rightarrow> uart" where
  "ua_rx_stage s n =
     (if \<not> bit (ua_ctrl s) 0
      then n\<lparr>ua_rx_busy := False, ua_rx_bit_index := 0, ua_idle_counter := 0,
             ua_idle_irq_pending := False\<rparr>
      else if \<not> ua_rx_busy s then ua_rx_idle s n else ua_rx_receive s n)"

definition ua_lin_break_detected :: "uart \<Rightarrow> uart \<Rightarrow> uart" where
  "ua_lin_break_detected s n =
     (let n = (if \<not> bit (ua_status s) 7 then ua_set_irq_bit 4 (ua_set_status 7 n) else n)
      in ua_clear_irq_bit 0
           (n\<lparr>ua_lin_header_state := 1, ua_lin_header_valid := False, ua_lin_sync_error := False,
              ua_lin_wait_delimiter := True, ua_rx_busy := False, ua_rx_bit_index := 0,
              ua_rx_counter := 0, ua_rx_head := ua_rx_tail s\<rparr>))"

definition ua_lin_rx_stage :: "uart \<Rightarrow> uart \<Rightarrow> uart" where
  "ua_lin_rx_stage s n =
     (if ua_lin_mode s \<and> bit (ua_ctrl s) 0
      then (if \<not> ua_rx_sync2 s
            then (if ua_baud_div s \<le> ua_lin_rx_tick s
                  then (let n = n\<lparr>ua_lin_rx_tick := 0\<rparr>;
                            n = (if ucast (ua_lin_break_length s) \<le> ua_lin_rx_low_counter s + 1
                                 then ua_lin_break_detected s n else n)
                        in if ua_lin_rx_low_counter s < 0xFFFF
                           then n\<lparr>ua_lin_rx_low_counter := ua_lin_rx_low_counter s + 1\<rparr> else n)
                  else n\<lparr>ua_lin_rx_tick := ua_lin_rx_tick s + 1\<rparr>)
            else n\<lparr>ua_lin_rx_low_counter := 0, ua_lin_rx_tick := 0\<rparr>)
      else n\<lparr>ua_lin_rx_low_counter := 0, ua_lin_rx_tick := 0\<rparr>)"

definition ua_step :: "bool \<Rightarrow> busop \<Rightarrow> uart \<Rightarrow> uart" where
  "ua_step rx bop s =
     (let n = s\<lparr>ua_rx_sync1 := rx, ua_rx_sync2 := ua_rx_sync1 s\<rparr>;
          n = (case bop of Wr k v \<Rightarrow> ua_write k v s n | Rd k \<Rightarrow> ua_read_effect k s n | Idle \<Rightarrow> n);
          n = ua_status_stage s n;
          n = ua_break_stage s n;
          n = ua_tx_stage s n;
          n = ua_rx_stage s n
      in ua_lin_rx_stage s n)"

subsection \<open>Outputs\<close>

definition ua_rs485 :: "uart \<Rightarrow> bool \<times> bool" where
  "ua_rs485 s =
     (let (de, re) = (if bit (ua_rs485_ctrl s) 0
                      then (ua_tx_bits_remaining s \<noteq> 0 \<or> \<not> ua_tx_empty s,
                            \<not> (ua_tx_bits_remaining s \<noteq> 0 \<or> \<not> ua_tx_empty s))
                      else (bit (ua_rs485_ctrl s) 3, bit (ua_rs485_ctrl s) 4))
      in (if bit (ua_rs485_ctrl s) 1 then \<not> de else de, if bit (ua_rs485_ctrl s) 2 then \<not> re else re))"

definition ua_rdata :: "nat \<Rightarrow> uart \<Rightarrow> u32" where
  "ua_rdata k s =
     (if k = 0x0 then ucast (ua_rx_fifo s (unat (ua_rx_tail s) mod 8))
      else if k = 0x1 then ua_status s
      else if k = 0x2 then ua_ctrl s
      else if k = 0x3 then ua_baud_div s
      else if k = 0x4 then ua_irq_en s
      else if k = 0x5 then ua_irq_status s
      else if k = 0x6 then ua_rs485_ctrl s
      else if k = 0x7 then ua_idle_cfg s
      else if k = 0x8 then ua_lin_ctrl s
      else if k = 0x9 then ua_lin_cmd s
      else if k = 0xA then ucast (ua_lin_tx_header_id s)
      else if k = 0xB then push_bit 8 (ucast (ua_lin_id_byte s)) OR ucast (ua_lin_sync_byte s)
      else if k = 0xC then ua_lin_slave_ctrl s
      else 0)"

end
