(* ===== verification/Rtl_Spi.thy ===== *)
theory Rtl_Spi
  imports Rtl_Bus Ring_Fifo
begin

text \<open>
  The SPI master \<^verbatim>\<open>qar-core/rtl/spi.v\<close> with FIFOs of four bytes. The full and last-entry tests
  subtract the three-bit pointers after extending them to 32 bits, as the Verilog does
  (\<open>wide_diff\<close>).
\<close>

record spi =
  spi_ctrl :: u32
  spi_clkdiv :: u32
  spi_cs_select :: u32
  spi_irq_en :: u32
  spi_irq_status :: u32
  spi_cs_active :: "4 word"
  spi_cs_auto_count :: "4 word"
  spi_tx_overflow :: bool
  spi_rx_overflow :: bool
  spi_cs_error :: bool
  spi_last_fault_code :: "3 word"
  spi_last_fault_byte :: u8
  spi_last_fault_cs :: "4 word"
  spi_tx_head :: "3 word"
  spi_tx_tail :: "3 word"
  spi_tx_fifo :: "nat \<Rightarrow> u8"
  spi_rx_head :: "3 word"
  spi_rx_tail :: "3 word"
  spi_rx_fifo :: "nat \<Rightarrow> u8"
  spi_busy :: bool
  spi_tx_shift :: u8
  spi_active_tx_byte :: u8
  spi_rx_shift :: u8
  spi_bit_index :: "3 word"
  spi_div_counter :: u16
  spi_sck_phase :: bool

definition spi_tx_full :: "spi \<Rightarrow> bool" where
  "spi_tx_full s \<longleftrightarrow> wide_diff (spi_tx_head s) (spi_tx_tail s) = 4"

definition spi_tx_empty :: "spi \<Rightarrow> bool" where
  "spi_tx_empty s \<longleftrightarrow> spi_tx_head s = spi_tx_tail s"

definition spi_rx_full :: "spi \<Rightarrow> bool" where
  "spi_rx_full s \<longleftrightarrow> wide_diff (spi_rx_head s) (spi_rx_tail s) = 4"

definition spi_rx_empty :: "spi \<Rightarrow> bool" where
  "spi_rx_empty s \<longleftrightarrow> spi_rx_head s = spi_rx_tail s"

definition spi_effective_div :: "spi \<Rightarrow> u16" where
  "spi_effective_div s = (if (ucast (spi_clkdiv s) :: u16) = 0 then 1 else ucast (spi_clkdiv s))"

definition spi_sck :: "spi \<Rightarrow> bool" where
  "spi_sck s \<longleftrightarrow> bit (spi_ctrl s) 1 \<noteq> (if spi_busy s then spi_sck_phase s else False)"

definition spi_out_bit :: "spi \<Rightarrow> bool" where
  "spi_out_bit s = (if bit (spi_ctrl s) 3 then bit (spi_tx_shift s) 0 else bit (spi_tx_shift s) 7)"

definition spi_mosi :: "spi \<Rightarrow> bool" where
  "spi_mosi s \<longleftrightarrow> (if spi_busy s then spi_out_bit s else False)"

text \<open>\<open>~(busy ? cs_active : 4'b0000) | 4'b1111\<close>\<close>

definition spi_cs_n :: "spi \<Rightarrow> 4 word" where
  "spi_cs_n s = NOT (if spi_busy s then spi_cs_active s else 0) OR 0xF"

definition spi_fault :: "spi \<Rightarrow> bool" where
  "spi_fault s \<longleftrightarrow> spi_tx_overflow s \<or> spi_rx_overflow s \<or> spi_cs_error s"

definition spi_status_value :: "spi \<Rightarrow> u32" where
  "spi_status_value s =
     bit_at 6 (spi_cs_error s) OR bit_at 5 (spi_rx_overflow s) OR bit_at 4 (spi_tx_overflow s) OR
     bit_at 3 (spi_fault s) OR bit_at 2 (spi_busy s) OR bit_at 1 (\<not> spi_rx_empty s) OR
     bit_at 0 (\<not> spi_tx_full s)"

definition spi_fault_status_value :: "spi \<Rightarrow> u32" where
  "spi_fault_status_value s =
     push_bit 16 (ucast (spi_last_fault_byte s)) OR push_bit 8 (ucast (spi_last_fault_cs s)) OR
     push_bit 5 (ucast (spi_last_fault_code s)) OR bit_at 4 (spi_cs_error s) OR
     bit_at 3 (spi_rx_overflow s) OR bit_at 2 (spi_tx_overflow s)"

definition spi_irq :: "spi \<Rightarrow> bool" where
  "spi_irq s \<longleftrightarrow> (spi_irq_en s AND spi_irq_status s) AND 0x3F \<noteq> 0"

definition spi_reset :: "spi \<Rightarrow> spi" where
  "spi_reset s = s\<lparr>spi_ctrl := 1, spi_clkdiv := 1, spi_cs_select := 1, spi_cs_auto_count := 1,
     spi_irq_en := 0, spi_irq_status := 0, spi_cs_active := 0, spi_tx_overflow := False,
     spi_rx_overflow := False, spi_cs_error := False, spi_last_fault_code := 0,
     spi_last_fault_byte := 0, spi_last_fault_cs := 0, spi_tx_head := 0, spi_tx_tail := 0,
     spi_rx_head := 0, spi_rx_tail := 0, spi_busy := False, spi_tx_shift := 0,
     spi_rx_shift := 0, spi_bit_index := 0, spi_div_counter := 0, spi_sck_phase := False\<rparr>"

definition spi_irq_status_write :: "u32 \<Rightarrow> spi \<Rightarrow> spi" where
  "spi_irq_status_write v s =
     (let n = s\<lparr>spi_irq_status := spi_irq_status s AND NOT v\<rparr>;
          n = (if bit v 2 then n\<lparr>spi_tx_overflow := False, spi_rx_overflow := False,
                                spi_cs_error := False\<rparr> else n);
          n = (if bit v 3 then n\<lparr>spi_tx_overflow := False\<rparr> else n);
          n = (if bit v 4 then n\<lparr>spi_rx_overflow := False\<rparr> else n)
      in if bit v 5 then n\<lparr>spi_cs_error := False\<rparr> else n)"

definition spi_txdata_write :: "u32 \<Rightarrow> spi \<Rightarrow> spi" where
  "spi_txdata_write v s =
     (if \<not> spi_tx_full s
      then s\<lparr>spi_tx_fifo := (spi_tx_fifo s)(unat (spi_tx_head s) mod 4 := ucast v),
             spi_tx_head := spi_tx_head s + 1,
             spi_irq_status := assign_bit 1 False (spi_irq_status s)\<rparr>
      else s\<lparr>spi_tx_overflow := True,
             spi_irq_status := assign_bit 3 True (assign_bit 2 True (spi_irq_status s)),
             spi_last_fault_code := 1, spi_last_fault_byte := ucast v,
             spi_last_fault_cs := ucast (spi_cs_select s)\<rparr>)"

definition spi_write :: "nat \<Rightarrow> u32 \<Rightarrow> spi \<Rightarrow> spi" where
  "spi_write k v s =
     (if k = 0x0 then s\<lparr>spi_ctrl := v\<rparr>
      else if k = 0x2 then s\<lparr>spi_clkdiv := v\<rparr>
      else if k = 0x5 then s\<lparr>spi_cs_select := v, spi_cs_auto_count := 1\<rparr>
      else if k = 0x6 then s\<lparr>spi_irq_en := v\<rparr>
      else if k = 0x7 then spi_irq_status_write v s
      else if k = 0x3 then spi_txdata_write v s
      else s)"

definition spi_rx_pop :: "nat \<Rightarrow> spi \<Rightarrow> spi \<Rightarrow> spi" where
  "spi_rx_pop k s n =
     (if k = 0x4 \<and> \<not> spi_rx_empty s
      then (let n = n\<lparr>spi_rx_tail := spi_rx_tail s + 1\<rparr>
            in if (ucast (spi_rx_head s) :: u32) - (ucast (spi_rx_tail s) + 1) = 0
               then n\<lparr>spi_irq_status := assign_bit 0 False (spi_irq_status n)\<rparr> else n)
      else n)"

definition spi_start :: "spi \<Rightarrow> spi \<Rightarrow> spi" where
  "spi_start s n =
     (let byte = spi_tx_fifo s (unat (spi_tx_tail s) mod 4) in
      if \<not> spi_busy s \<and> bit (spi_ctrl s) 0 \<and> \<not> spi_tx_empty s
      then (if (ucast (spi_cs_select s) :: 4 word) = 0
            then n\<lparr>spi_cs_error := True,
                   spi_irq_status := assign_bit 5 True (assign_bit 2 True (spi_irq_status n)),
                   spi_last_fault_code := 3, spi_last_fault_byte := byte, spi_last_fault_cs := 0\<rparr>
            else (let n = n\<lparr>spi_busy := True, spi_cs_active := ucast (spi_cs_select s),
                            spi_cs_auto_count := ucast (drop_bit 8 (spi_ctrl s)),
                            spi_tx_shift := byte, spi_active_tx_byte := byte, spi_rx_shift := 0,
                            spi_tx_tail := spi_tx_tail s + 1, spi_bit_index := 7,
                            spi_div_counter := 0, spi_sck_phase := False\<rparr>
                  in if (ucast (spi_tx_head s) :: u32) - (ucast (spi_tx_tail s) + 1) = 0
                     then n\<lparr>spi_irq_status := assign_bit 1 True (spi_irq_status n)\<rparr> else n))
      else n)"

definition spi_rx_shift_combined :: "bool \<Rightarrow> spi \<Rightarrow> u8" where
  "spi_rx_shift_combined miso s =
     (let smp = (if bit (spi_ctrl s) 4 then spi_out_bit s else miso) in
      if bit (spi_ctrl s) 3 then push_bit 7 (of_bool smp) OR drop_bit 1 (spi_rx_shift s)
      else push_bit 1 (spi_rx_shift s) OR of_bool smp)"

definition spi_byte_done :: "bool \<Rightarrow> spi \<Rightarrow> spi \<Rightarrow> spi" where
  "spi_byte_done miso s n =
     (let rx = (if bit (spi_ctrl s) 4 then spi_active_tx_byte s else spi_rx_shift_combined miso s);
          n = n\<lparr>spi_busy := False\<rparr>;
          n = (if spi_cs_auto_count s \<le> 1 then n\<lparr>spi_cs_active := 0\<rparr>
               else n\<lparr>spi_cs_auto_count := spi_cs_auto_count s - 1\<rparr>)
      in if \<not> spi_rx_full s
         then n\<lparr>spi_rx_fifo := (spi_rx_fifo n)(unat (spi_rx_head s) mod 4 := rx),
                spi_rx_head := spi_rx_head s + 1,
                spi_irq_status := assign_bit 0 True (spi_irq_status n)\<rparr>
         else n\<lparr>spi_rx_overflow := True,
                spi_irq_status := assign_bit 4 True (assign_bit 2 True (spi_irq_status n)),
                spi_last_fault_code := 2, spi_last_fault_byte := rx,
                spi_last_fault_cs := spi_cs_active s\<rparr>)"

definition spi_shift :: "bool \<Rightarrow> spi \<Rightarrow> spi \<Rightarrow> spi" where
  "spi_shift miso s n =
     (if spi_busy s
      then (if spi_effective_div s \<le> spi_div_counter s
            then (let n = n\<lparr>spi_div_counter := 0, spi_sck_phase := \<not> spi_sck_phase s\<rparr>
                  in if spi_sck_phase s \<noteq> bit (spi_ctrl s) 2
                     then (let n = n\<lparr>spi_rx_shift := spi_rx_shift_combined miso s\<rparr>
                           in if spi_bit_index s = 0 then spi_byte_done miso s n
                              else n\<lparr>spi_bit_index := spi_bit_index s - 1\<rparr>)
                     else (if bit (spi_ctrl s) 3
                           then n\<lparr>spi_tx_shift := drop_bit 1 (spi_tx_shift s)\<rparr>
                           else n\<lparr>spi_tx_shift := push_bit 1 (spi_tx_shift s)\<rparr>))
            else n\<lparr>spi_div_counter := spi_div_counter s + 1\<rparr>)
      else n\<lparr>spi_div_counter := 0, spi_sck_phase := False\<rparr>)"

definition spi_step :: "bool \<Rightarrow> busop \<Rightarrow> spi \<Rightarrow> spi" where
  "spi_step miso bop s =
     (let n = (case bop of Wr k v \<Rightarrow> spi_write k v s | Rd k \<Rightarrow> spi_rx_pop k s s | Idle \<Rightarrow> s)
      in spi_shift miso s (spi_start s n))"

definition spi_rdata :: "nat \<Rightarrow> spi \<Rightarrow> u32" where
  "spi_rdata k s =
     (if k = 0x0 then spi_ctrl s
      else if k = 0x1 then spi_status_value s
      else if k = 0x2 then spi_clkdiv s
      else if k = 0x3 then ucast (spi_tx_head s - spi_tx_tail s)
      else if k = 0x4 then ucast (spi_rx_fifo s (unat (spi_rx_tail s) mod 4))
      else if k = 0x5 then spi_cs_select s
      else if k = 0x6 then spi_irq_en s
      else if k = 0x7 then spi_irq_status s
      else if k = 0x8 then spi_fault_status_value s
      else 0)"

end
