(* ===== verification/Rtl_I2c.thy ===== *)
theory Rtl_I2c
  imports Rtl_Bus Ring_Fifo
begin

text \<open>
  The I2C master \<^verbatim>\<open>qar-core/rtl/i2c.v\<close> with FIFOs of four bytes: a state machine that executes
  the commands latched in \<open>cmd_reg\<close>. The six used encodings of the three-bit state register are
  the constructors of \<open>i2c_state\<close>; reset and every transition give one of them.
\<close>

datatype i2c_state = STATE_IDLE | STATE_START | STATE_WRITE | STATE_ACK | STATE_READ | STATE_STOP

record i2c =
  i2c_ctrl :: u32
  i2c_clkdiv :: u32
  i2c_irq_en :: u32
  i2c_irq_status :: u32
  i2c_cmd_reg :: u32
  i2c_ack_error :: bool
  i2c_rx_overflow :: bool
  i2c_tx_overflow :: bool
  i2c_last_fault_code :: "3 word"
  i2c_last_fault_cmd :: "3 word"
  i2c_last_fault_byte :: u8
  i2c_tx_head :: "3 word"
  i2c_tx_tail :: "3 word"
  i2c_tx_fifo :: "nat \<Rightarrow> u8"
  i2c_rx_head :: "3 word"
  i2c_rx_tail :: "3 word"
  i2c_rx_fifo :: "nat \<Rightarrow> u8"
  i2c_st :: i2c_state
  i2c_scl_state :: bool
  i2c_sda_state :: bool
  i2c_sda_drive :: bool
  i2c_bit_index :: "4 word"
  i2c_shift_reg :: u8
  i2c_div_counter :: u16

definition i2c_tx_full :: "i2c \<Rightarrow> bool" where
  "i2c_tx_full s \<longleftrightarrow> wide_diff (i2c_tx_head s) (i2c_tx_tail s) = 4"

definition i2c_tx_empty :: "i2c \<Rightarrow> bool" where
  "i2c_tx_empty s \<longleftrightarrow> i2c_tx_head s = i2c_tx_tail s"

definition i2c_rx_full :: "i2c \<Rightarrow> bool" where
  "i2c_rx_full s \<longleftrightarrow> wide_diff (i2c_rx_head s) (i2c_rx_tail s) = 4"

definition i2c_rx_empty :: "i2c \<Rightarrow> bool" where
  "i2c_rx_empty s \<longleftrightarrow> i2c_rx_head s = i2c_rx_tail s"

definition i2c_status_value :: "i2c \<Rightarrow> u32" where
  "i2c_status_value s =
     bit_at 5 (i2c_tx_overflow s) OR bit_at 4 (i2c_rx_overflow s) OR bit_at 3 (i2c_ack_error s) OR
     bit_at 2 (i2c_tx_empty s) OR bit_at 1 (\<not> i2c_rx_empty s) OR bit_at 0 (i2c_st s \<noteq> STATE_IDLE)"

definition i2c_fault_status_value :: "i2c \<Rightarrow> u32" where
  "i2c_fault_status_value s =
     push_bit 16 (ucast (i2c_last_fault_byte s)) OR push_bit 9 (ucast (i2c_last_fault_cmd s)) OR
     push_bit 6 (ucast (i2c_last_fault_code s)) OR bit_at 5 (i2c_ack_error s) OR
     bit_at 4 (i2c_rx_overflow s) OR bit_at 3 (i2c_tx_overflow s)"

definition i2c_irq :: "i2c \<Rightarrow> bool" where
  "i2c_irq s \<longleftrightarrow> (i2c_irq_en s AND i2c_irq_status s) AND 0x3F \<noteq> 0"

definition i2c_reset :: "i2c \<Rightarrow> i2c" where
  "i2c_reset s = s\<lparr>i2c_ctrl := 1, i2c_clkdiv := 100, i2c_irq_en := 0, i2c_irq_status := 0,
     i2c_cmd_reg := 0, i2c_ack_error := False, i2c_rx_overflow := False, i2c_tx_overflow := False,
     i2c_last_fault_code := 0, i2c_last_fault_cmd := 0, i2c_last_fault_byte := 0,
     i2c_tx_head := 0, i2c_tx_tail := 0, i2c_rx_head := 0, i2c_rx_tail := 0,
     i2c_st := STATE_IDLE, i2c_scl_state := True, i2c_sda_state := True, i2c_sda_drive := False,
     i2c_bit_index := 0, i2c_shift_reg := 0, i2c_div_counter := 0\<rparr>"

definition i2c_status_write :: "u32 \<Rightarrow> i2c \<Rightarrow> i2c" where
  "i2c_status_write v s =
     (let n = (if bit v 3 then s\<lparr>i2c_ack_error := False\<rparr> else s);
          n = (if bit v 4 then n\<lparr>i2c_rx_overflow := False\<rparr> else n)
      in if bit v 5 then n\<lparr>i2c_tx_overflow := False\<rparr> else n)"

definition i2c_irq_status_write :: "u32 \<Rightarrow> i2c \<Rightarrow> i2c" where
  "i2c_irq_status_write v s =
     (let n = s\<lparr>i2c_irq_status := i2c_irq_status s AND NOT v\<rparr>;
          n = (if bit v 2 then n\<lparr>i2c_ack_error := False, i2c_rx_overflow := False,
                                i2c_tx_overflow := False\<rparr> else n);
          n = (if bit v 3 then n\<lparr>i2c_tx_overflow := False\<rparr> else n);
          n = (if bit v 4 then n\<lparr>i2c_rx_overflow := False\<rparr> else n)
      in if bit v 5 then n\<lparr>i2c_ack_error := False\<rparr> else n)"

definition i2c_txdata_write :: "u32 \<Rightarrow> i2c \<Rightarrow> i2c" where
  "i2c_txdata_write v s =
     (if \<not> i2c_tx_full s
      then s\<lparr>i2c_tx_fifo := (i2c_tx_fifo s)(unat (i2c_tx_head s) mod 4 := ucast v),
             i2c_tx_head := i2c_tx_head s + 1,
             i2c_irq_status := assign_bit 1 False (i2c_irq_status s)\<rparr>
      else s\<lparr>i2c_tx_overflow := True,
             i2c_irq_status := assign_bit 3 True (assign_bit 2 True (i2c_irq_status s)),
             i2c_last_fault_code := 1, i2c_last_fault_cmd := 2,
             i2c_last_fault_byte := ucast v\<rparr>)"

definition i2c_write :: "nat \<Rightarrow> u32 \<Rightarrow> i2c \<Rightarrow> i2c" where
  "i2c_write k v s =
     (if k = 0x0 then s\<lparr>i2c_ctrl := v\<rparr>
      else if k = 0x1 then s\<lparr>i2c_clkdiv := v\<rparr>
      else if k = 0x2 then i2c_status_write v s
      else if k = 0x3 then s\<lparr>i2c_irq_en := v\<rparr>
      else if k = 0x4 then i2c_irq_status_write v s
      else if k = 0x5 then i2c_txdata_write v s
      else if k = 0x7 then s\<lparr>i2c_cmd_reg := v\<rparr>
      else s)"

definition i2c_rx_pop :: "nat \<Rightarrow> i2c \<Rightarrow> i2c \<Rightarrow> i2c" where
  "i2c_rx_pop k s n =
     (if k = 0x6 \<and> \<not> i2c_rx_empty s
      then (let n = n\<lparr>i2c_rx_tail := i2c_rx_tail s + 1\<rparr>
            in if (ucast (i2c_rx_head s) :: u32) - (ucast (i2c_rx_tail s) + 1) = 0
               then n\<lparr>i2c_irq_status := assign_bit 0 False (i2c_irq_status n)\<rparr> else n)
      else n)"

text \<open>A state of the machine waits \<open>CLKDIV + 1\<close> cycles before it acts.\<close>

definition i2c_tick :: "i2c \<Rightarrow> bool" where
  "i2c_tick s \<longleftrightarrow> (ucast (i2c_clkdiv s) :: u16) \<le> i2c_div_counter s"

definition i2c_idle_state :: "i2c \<Rightarrow> i2c \<Rightarrow> i2c" where
  "i2c_idle_state s n =
     (let byte = i2c_tx_fifo s (unat (i2c_tx_tail s) mod 4); cmd = i2c_cmd_reg s;
          n = n\<lparr>i2c_sda_drive := False, i2c_sda_state := True, i2c_scl_state := True,
                i2c_div_counter := 0\<rparr>
      in if bit (i2c_ctrl s) 0
         then (if bit cmd 0
               then n\<lparr>i2c_cmd_reg := assign_bit 0 False (i2c_cmd_reg n), i2c_sda_drive := True,
                      i2c_sda_state := False, i2c_last_fault_cmd := 1, i2c_st := STATE_START\<rparr>
               else if bit cmd 2 \<and> \<not> i2c_tx_empty s
               then n\<lparr>i2c_cmd_reg := assign_bit 2 False (i2c_cmd_reg n), i2c_shift_reg := byte,
                      i2c_tx_tail := i2c_tx_tail s + 1, i2c_bit_index := 7,
                      i2c_sda_drive := True, i2c_sda_state := bit byte 7,
                      i2c_scl_state := False, i2c_last_fault_cmd := 2, i2c_st := STATE_WRITE\<rparr>
               else if bit cmd 3
               then n\<lparr>i2c_cmd_reg := assign_bit 3 False (i2c_cmd_reg n), i2c_bit_index := 7,
                      i2c_sda_drive := False, i2c_scl_state := False,
                      i2c_last_fault_cmd := 3, i2c_st := STATE_READ\<rparr>
               else if bit cmd 1
               then n\<lparr>i2c_cmd_reg := assign_bit 1 False (i2c_cmd_reg n), i2c_sda_drive := True,
                      i2c_sda_state := False, i2c_last_fault_cmd := 4, i2c_st := STATE_STOP\<rparr>
               else n)
         else n)"

definition i2c_start_state :: "i2c \<Rightarrow> i2c \<Rightarrow> i2c" where
  "i2c_start_state s n =
     (if i2c_tick s
      then n\<lparr>i2c_div_counter := 0, i2c_sda_state := False, i2c_scl_state := False,
             i2c_st := STATE_IDLE\<rparr>
      else n\<lparr>i2c_div_counter := i2c_div_counter s + 1\<rparr>)"

definition i2c_write_state :: "i2c \<Rightarrow> i2c \<Rightarrow> i2c" where
  "i2c_write_state s n =
     (if i2c_tick s
      then (let n = n\<lparr>i2c_div_counter := 0, i2c_scl_state := \<not> i2c_scl_state s\<rparr>
            in if i2c_scl_state s
               then (if i2c_bit_index s = 0
                     then n\<lparr>i2c_sda_drive := False, i2c_st := STATE_ACK\<rparr>
                     else n\<lparr>i2c_bit_index := i2c_bit_index s - 1,
                            i2c_sda_state := bit (i2c_shift_reg s) (unat (i2c_bit_index s - 1))\<rparr>)
               else n)
      else n\<lparr>i2c_div_counter := i2c_div_counter s + 1\<rparr>)"

definition i2c_ack_state :: "bool \<Rightarrow> i2c \<Rightarrow> i2c \<Rightarrow> i2c" where
  "i2c_ack_state sda s n =
     (if i2c_tick s
      then (let n = n\<lparr>i2c_div_counter := 0, i2c_scl_state := \<not> i2c_scl_state s\<rparr>
            in if i2c_scl_state s
               then (if \<not> (if bit (i2c_ctrl s) 4 then False else sda)
                     then n\<lparr>i2c_ack_error := False\<rparr>
                     else n\<lparr>i2c_ack_error := True,
                            i2c_irq_status :=
                              assign_bit 5 True (assign_bit 2 True (i2c_irq_status n)),
                            i2c_last_fault_code := 3, i2c_last_fault_byte := i2c_shift_reg s\<rparr>)
               else (let n = n\<lparr>i2c_st := STATE_IDLE\<rparr>
                     in if i2c_tx_empty s
                        then n\<lparr>i2c_irq_status := assign_bit 1 True (i2c_irq_status n)\<rparr> else n))
      else n\<lparr>i2c_div_counter := i2c_div_counter s + 1\<rparr>)"

definition i2c_read_state :: "bool \<Rightarrow> i2c \<Rightarrow> i2c \<Rightarrow> i2c" where
  "i2c_read_state sda s n =
     (if i2c_tick s
      then (let n = n\<lparr>i2c_div_counter := 0, i2c_scl_state := \<not> i2c_scl_state s\<rparr>
            in if i2c_scl_state s
               then (let n = n\<lparr>i2c_shift_reg := assign_bit (unat (i2c_bit_index s))
                                 (if bit (i2c_ctrl s) 4 then i2c_sda_state s else sda)
                                 (i2c_shift_reg n)\<rparr>
                     in if i2c_bit_index s = 0
                        then (let n = (if \<not> i2c_rx_full s
                                       then n\<lparr>i2c_rx_fifo := (i2c_rx_fifo n)
                                                (unat (i2c_rx_head s) mod 4 := i2c_shift_reg s),
                                              i2c_rx_head := i2c_rx_head s + 1,
                                              i2c_irq_status :=
                                                assign_bit 0 True (i2c_irq_status n)\<rparr>
                                       else n\<lparr>i2c_rx_overflow := True,
                                              i2c_irq_status := assign_bit 4 True
                                                (assign_bit 2 True (i2c_irq_status n)),
                                              i2c_last_fault_code := 2,
                                              i2c_last_fault_byte := i2c_shift_reg s\<rparr>)
                              in n\<lparr>i2c_st := STATE_IDLE\<rparr>)
                        else n\<lparr>i2c_bit_index := i2c_bit_index s - 1\<rparr>)
               else n)
      else n\<lparr>i2c_div_counter := i2c_div_counter s + 1\<rparr>)"

definition i2c_stop_state :: "i2c \<Rightarrow> i2c \<Rightarrow> i2c" where
  "i2c_stop_state s n =
     (if i2c_tick s
      then n\<lparr>i2c_div_counter := 0, i2c_scl_state := True, i2c_sda_state := True,
             i2c_st := STATE_IDLE\<rparr>
      else n\<lparr>i2c_div_counter := i2c_div_counter s + 1\<rparr>)"

definition i2c_step :: "bool \<Rightarrow> busop \<Rightarrow> i2c \<Rightarrow> i2c" where
  "i2c_step sda bop s =
     (let n = (case bop of Wr k v \<Rightarrow> i2c_write k v s | Rd k \<Rightarrow> i2c_rx_pop k s s | Idle \<Rightarrow> s)
      in case i2c_st s of
           STATE_IDLE \<Rightarrow> i2c_idle_state s n
         | STATE_START \<Rightarrow> i2c_start_state s n
         | STATE_WRITE \<Rightarrow> i2c_write_state s n
         | STATE_ACK \<Rightarrow> i2c_ack_state sda s n
         | STATE_READ \<Rightarrow> i2c_read_state sda s n
         | STATE_STOP \<Rightarrow> i2c_stop_state s n)"

definition i2c_rdata :: "nat \<Rightarrow> i2c \<Rightarrow> u32" where
  "i2c_rdata k s =
     (if k = 0x0 then i2c_ctrl s
      else if k = 0x1 then i2c_clkdiv s
      else if k = 0x2 then i2c_status_value s
      else if k = 0x3 then i2c_irq_en s
      else if k = 0x4 then i2c_irq_status s
      else if k = 0x6 then ucast (i2c_rx_fifo s (unat (i2c_rx_tail s) mod 4))
      else if k = 0x7 then i2c_cmd_reg s
      else if k = 0x8 then i2c_fault_status_value s
      else 0)"

end
