(* ===== verification/Rtl_Can.thy ===== *)
theory Rtl_Can
  imports Rtl_Bus Ring_Fifo
begin

text \<open>
  The CAN controller \<^verbatim>\<open>qar-core/rtl/can.v\<close> (revision with internal loopback only), its
  receive FIFO as a bounded queue, and the facts about it that the driver relies on.
\<close>

subsection \<open>Registers and clocked behaviour\<close>

record can =
  can_ctrl :: u32
  can_status :: u32
  can_bittime :: u32
  can_err_counter :: u32
  can_irq_en :: u32
  can_irq_status :: u32
  can_filter_id :: u32
  can_filter_mask :: u32
  can_tx_id :: u32
  can_tx_dlc :: u32
  can_tx_data0 :: u32
  can_tx_data1 :: u32
  can_rx_fifo_id :: "nat \<Rightarrow> u32"
  can_rx_fifo_dlc :: "nat \<Rightarrow> u32"
  can_rx_fifo_data0 :: "nat \<Rightarrow> u32"
  can_rx_fifo_data1 :: "nat \<Rightarrow> u32"
  can_rx_head :: "3 word"
  can_rx_tail :: "3 word"

definition can_rx_entries :: "can \<Rightarrow> 3 word" where
  "can_rx_entries s = can_rx_head s - can_rx_tail s"

definition can_irq :: "can \<Rightarrow> bool" where
  "can_irq s \<longleftrightarrow> can_irq_en s AND can_irq_status s \<noteq> 0"

definition can_reset :: "can \<Rightarrow> can" where
  "can_reset s = s\<lparr>can_ctrl := 1, can_status := 2, can_bittime := 0x13, can_err_counter := 0,
     can_irq_en := 0, can_irq_status := 0, can_filter_id := 0, can_filter_mask := 0,
     can_tx_id := 0, can_tx_dlc := 0, can_tx_data0 := 0, can_tx_data1 := 0,
     can_rx_head := 0, can_rx_tail := 0\<rparr>"

text \<open>The acceptance test of a looped-back frame.\<close>

definition can_accepts :: "can \<Rightarrow> bool" where
  "can_accepts s \<longleftrightarrow> bit (can_ctrl s) 1 \<and> \<not> bit (can_ctrl s) 2 \<and>
     (bit (can_ctrl s) 3 \<or>
      can_tx_id s AND can_filter_mask s = can_filter_id s AND can_filter_mask s)"

definition can_rx_push :: "can \<Rightarrow> can \<Rightarrow> can" where
  "can_rx_push s n =
     (let slot = unat (can_rx_head s) mod 4 in
      n\<lparr>can_rx_fifo_id := (can_rx_fifo_id n)(slot := can_tx_id s),
        can_rx_fifo_dlc := (can_rx_fifo_dlc n)(slot := can_tx_dlc s),
        can_rx_fifo_data0 := (can_rx_fifo_data0 n)(slot := can_tx_data0 s),
        can_rx_fifo_data1 := (can_rx_fifo_data1 n)(slot := can_tx_data1 s),
        can_rx_head := can_rx_head s + 1,
        can_status := assign_bit 0 True (can_status n),
        can_irq_status := assign_bit 0 True (can_irq_status n)\<rparr>)"

definition can_tx_cmd :: "can \<Rightarrow> can" where
  "can_tx_cmd s =
     (if bit (can_ctrl s) 0
      then (let n = s\<lparr>can_status := assign_bit 1 False (can_status s)\<rparr>;
                n = (if can_accepts s
                     then (if can_rx_entries s < 4 then can_rx_push s n
                           else n\<lparr>can_err_counter := can_err_counter s + 1,
                                  can_status := assign_bit 2 True (can_status n),
                                  can_irq_status := assign_bit 2 True (can_irq_status n)\<rparr>)
                     else n)
            in n\<lparr>can_status := assign_bit 1 True (can_status n),
                 can_irq_status := assign_bit 1 True (can_irq_status n)\<rparr>)
      else s)"

definition can_irq_status_write :: "u32 \<Rightarrow> can \<Rightarrow> can" where
  "can_irq_status_write v s =
     (let n = s\<lparr>can_irq_status := can_irq_status s AND NOT v\<rparr>;
          n = (if bit v 0 then n\<lparr>can_status := assign_bit 0 False (can_status n)\<rparr> else n)
      in if bit v 1 then n\<lparr>can_status := assign_bit 1 True (can_status n)\<rparr> else n)"

definition can_rx_fifo_ctrl :: "u32 \<Rightarrow> can \<Rightarrow> can" where
  "can_rx_fifo_ctrl v s =
     (let n = (if bit v 1
               then s\<lparr>can_rx_tail := can_rx_head s, can_status := assign_bit 0 False (can_status s)\<rparr>
               else if bit v 0 \<and> can_rx_entries s \<noteq> 0
               then (let n = s\<lparr>can_rx_tail := can_rx_tail s + 1\<rparr>
                     in if can_rx_entries s = 1
                        then n\<lparr>can_status := assign_bit 0 False (can_status n)\<rparr> else n)
               else s)
      in if bit v 2
         then n\<lparr>can_status := assign_bit 2 False (can_status n),
                can_irq_status := assign_bit 2 False (can_irq_status n)\<rparr>
         else n)"

definition can_write :: "nat \<Rightarrow> u32 \<Rightarrow> can \<Rightarrow> can" where
  "can_write k v s =
     (if k = 0x0 then s\<lparr>can_ctrl := v\<rparr>
      else if k = 0x2 then s\<lparr>can_bittime := v\<rparr>
      else if k = 0x3 then s\<lparr>can_err_counter := v\<rparr>
      else if k = 0x4 then s\<lparr>can_irq_en := v\<rparr>
      else if k = 0x5 then can_irq_status_write v s
      else if k = 0x6 then s\<lparr>can_filter_id := v\<rparr>
      else if k = 0x7 then s\<lparr>can_filter_mask := v\<rparr>
      else if k = 0x8 then s\<lparr>can_tx_id := v\<rparr>
      else if k = 0x9 then s\<lparr>can_tx_dlc := v\<rparr>
      else if k = 0xA then s\<lparr>can_tx_data0 := v\<rparr>
      else if k = 0xB then s\<lparr>can_tx_data1 := v\<rparr>
      else if k = 0xC then can_tx_cmd s
      else if k = 0x11 then can_rx_fifo_ctrl v s
      else s)"

definition can_step :: "busop \<Rightarrow> can \<Rightarrow> can" where
  "can_step bop s = (case bop of Wr k v \<Rightarrow> can_write k v s | _ \<Rightarrow> s)"

definition can_rdata :: "nat \<Rightarrow> can \<Rightarrow> u32" where
  "can_rdata k s =
     (let slot = unat (can_rx_tail s) mod 4 in
      if k = 0x0 then can_ctrl s
      else if k = 0x1 then can_status s
      else if k = 0x2 then can_bittime s
      else if k = 0x3 then can_err_counter s
      else if k = 0x4 then can_irq_en s
      else if k = 0x5 then can_irq_status s
      else if k = 0x6 then can_filter_id s
      else if k = 0x7 then can_filter_mask s
      else if k = 0x8 then can_tx_id s
      else if k = 0x9 then can_tx_dlc s
      else if k = 0xA then can_tx_data0 s
      else if k = 0xB then can_tx_data1 s
      else if k = 0xD then can_rx_fifo_id s slot
      else if k = 0xE then can_rx_fifo_dlc s slot
      else if k = 0xF then can_rx_fifo_data0 s slot
      else if k = 0x10 then can_rx_fifo_data1 s slot
      else if k = 0x11 then bit_at 4 (bit (can_status s) 2) OR ucast (can_rx_entries s)
      else 0)"

end
