(* ===== verification/Rtl_Timer.thy ===== *)
theory Rtl_Timer
  imports Rtl_Bus
begin

text \<open>
  The timer block \<^verbatim>\<open>qar-core/rtl/timer.v\<close>: prescaled counter, two compare channels with
  auto-reload, watchdog, two PWM channels and manual capture. In one clock cycle the register
  write is collected first and the counter tick second, so where both assign a register the
  tick wins.
\<close>

record timer =
  tm_ctrl :: u32
  tm_prescale :: u32
  tm_counter :: u32
  tm_status :: u32
  tm_irq_en :: u32
  tm_cmp0 :: u32
  tm_cmp0_period :: u32
  tm_cmp1 :: u32
  tm_cmp1_period :: u32
  tm_wdt_load :: u32
  tm_wdt_counter :: u32
  tm_wdt_enable :: bool
  tm_pwm0_period :: u32
  tm_pwm0_duty :: u32
  tm_pwm1_period :: u32
  tm_pwm1_duty :: u32
  tm_capture_ctrl :: u32
  tm_capture0_value :: u32
  tm_capture1_value :: u32
  tm_pwm0_counter :: u32
  tm_pwm1_counter :: u32
  tm_pwm0_out :: bool
  tm_pwm1_out :: bool
  tm_prescale_cnt :: u32

definition timer_irq :: "timer \<Rightarrow> bool" where
  "timer_irq s \<longleftrightarrow> tm_status s AND tm_irq_en s \<noteq> 0"

definition timer_reset :: "timer \<Rightarrow> timer" where
  "timer_reset s = s\<lparr>tm_ctrl := 0, tm_prescale := 0, tm_counter := 0, tm_status := 0,
     tm_irq_en := 0, tm_cmp0 := 0, tm_cmp0_period := 0, tm_cmp1 := 0, tm_cmp1_period := 0,
     tm_wdt_load := 0, tm_wdt_counter := 0, tm_wdt_enable := False,
     tm_pwm0_period := 0, tm_pwm0_duty := 0, tm_pwm1_period := 0, tm_pwm1_duty := 0,
     tm_capture_ctrl := 0, tm_capture0_value := 0, tm_capture1_value := 0,
     tm_pwm0_counter := 0, tm_pwm1_counter := 0, tm_pwm0_out := False, tm_pwm1_out := False,
     tm_prescale_cnt := 0\<rparr>"

definition tm_wdt_ctrl_write :: "u32 \<Rightarrow> timer \<Rightarrow> timer" where
  "tm_wdt_ctrl_write v s =
     (let reload = (\<lambda>n. n\<lparr>tm_wdt_counter := tm_wdt_load s,
                         tm_status := assign_bit 2 False (tm_status n)\<rparr>);
          n = (if \<not> tm_wdt_enable s \<and> bit v 0 then reload s else s);
          n = n\<lparr>tm_wdt_enable := bit v 0\<rparr>
      in if bit v 1 then reload n else n)"

definition tm_capture_write :: "u32 \<Rightarrow> timer \<Rightarrow> timer" where
  "tm_capture_write v s =
     (let n = s\<lparr>tm_capture_ctrl := v\<rparr>;
          n = (if bit v 0 then n\<lparr>tm_capture0_value := tm_counter s,
                                tm_status := assign_bit 3 True (tm_status n)\<rparr> else n)
      in if bit v 1 then n\<lparr>tm_capture1_value := tm_counter s,
                          tm_status := assign_bit 4 True (tm_status n)\<rparr> else n)"

definition tm_write :: "nat \<Rightarrow> u32 \<Rightarrow> timer \<Rightarrow> timer" where
  "tm_write k v s =
     (if k = 0x0 then s\<lparr>tm_ctrl := v\<rparr>
      else if k = 0x1 then s\<lparr>tm_prescale := v\<rparr>
      else if k = 0x2 then s\<lparr>tm_counter := v\<rparr>
      else if k = 0x3 then s\<lparr>tm_status := tm_status s AND NOT v\<rparr>
      else if k = 0x4 then s\<lparr>tm_irq_en := v\<rparr>
      else if k = 0x5 then s\<lparr>tm_cmp0 := v\<rparr>
      else if k = 0x6 then s\<lparr>tm_cmp0_period := v\<rparr>
      else if k = 0x7 then s\<lparr>tm_cmp1 := v\<rparr>
      else if k = 0x8 then s\<lparr>tm_cmp1_period := v\<rparr>
      else if k = 0x9 then
        (let n = s\<lparr>tm_wdt_load := v\<rparr>
         in if tm_wdt_enable s
            then n\<lparr>tm_wdt_counter := v, tm_status := assign_bit 2 False (tm_status n)\<rparr> else n)
      else if k = 0xA then tm_wdt_ctrl_write v s
      else if k = 0xC then s\<lparr>tm_pwm0_period := v, tm_pwm0_counter := 0\<rparr>
      else if k = 0xD then s\<lparr>tm_pwm0_duty := v\<rparr>
      else if k = 0xE then s\<lparr>tm_pwm1_period := v, tm_pwm1_counter := 0\<rparr>
      else if k = 0xF then s\<lparr>tm_pwm1_duty := v\<rparr>
      else if k = 0x11 then tm_capture_write v s
      else s)"

text \<open>The parts of a counter tick; \<open>s\<close> is the state before the edge.\<close>

definition tm_tick_wdt :: "timer \<Rightarrow> timer \<Rightarrow> timer" where
  "tm_tick_wdt s n =
     (if tm_wdt_enable s \<and> tm_wdt_counter s \<noteq> 0
      then (let n = n\<lparr>tm_wdt_counter := tm_wdt_counter s - 1\<rparr>
            in if tm_wdt_counter s = 1 then n\<lparr>tm_status := assign_bit 2 True (tm_status n)\<rparr> else n)
      else n)"

definition tm_tick_cmp0 :: "timer \<Rightarrow> timer \<Rightarrow> timer" where
  "tm_tick_cmp0 s n =
     (if tm_cmp0 s \<noteq> 0 \<and> tm_counter s = tm_cmp0 s
      then (let n = n\<lparr>tm_status := assign_bit 0 True (tm_status n)\<rparr>
            in if bit (tm_ctrl s) 1 \<and> tm_cmp0_period s \<noteq> 0
               then n\<lparr>tm_cmp0 := tm_cmp0 s + tm_cmp0_period s\<rparr> else n)
      else n)"

definition tm_tick_cmp1 :: "timer \<Rightarrow> timer \<Rightarrow> timer" where
  "tm_tick_cmp1 s n =
     (if tm_cmp1 s \<noteq> 0 \<and> tm_counter s = tm_cmp1 s
      then (let n = n\<lparr>tm_status := assign_bit 1 True (tm_status n)\<rparr>
            in if bit (tm_ctrl s) 2 \<and> tm_cmp1_period s \<noteq> 0
               then n\<lparr>tm_cmp1 := tm_cmp1 s + tm_cmp1_period s\<rparr> else n)
      else n)"

definition tm_pwm_next :: "u32 \<Rightarrow> u32 \<Rightarrow> u32" where
  "tm_pwm_next period cnt =
     (if period \<noteq> 0 then (if period \<le> cnt + 1 then 0 else cnt + 1) else 0)"

definition tm_tick_pwm :: "timer \<Rightarrow> timer \<Rightarrow> timer" where
  "tm_tick_pwm s n =
     n\<lparr>tm_pwm0_counter := tm_pwm_next (tm_pwm0_period s) (tm_pwm0_counter s),
       tm_pwm1_counter := tm_pwm_next (tm_pwm1_period s) (tm_pwm1_counter s),
       tm_pwm0_out := tm_pwm0_period s \<noteq> 0 \<and> tm_pwm0_counter s < tm_pwm0_duty s,
       tm_pwm1_out := tm_pwm1_period s \<noteq> 0 \<and> tm_pwm1_counter s < tm_pwm1_duty s\<rparr>"

definition tm_tick :: "timer \<Rightarrow> timer \<Rightarrow> timer" where
  "tm_tick s n =
     (if bit (tm_ctrl s) 0
      then (if tm_prescale s \<le> tm_prescale_cnt s
            then tm_tick_pwm s (tm_tick_cmp1 s (tm_tick_cmp0 s (tm_tick_wdt s
                   (n\<lparr>tm_prescale_cnt := 0, tm_counter := tm_counter s + 1\<rparr>))))
            else n\<lparr>tm_prescale_cnt := tm_prescale_cnt s + 1\<rparr>)
      else n\<lparr>tm_prescale_cnt := 0, tm_pwm0_counter := 0, tm_pwm1_counter := 0,
             tm_pwm0_out := tm_pwm0_period s \<noteq> 0 \<and> tm_pwm0_duty s \<noteq> 0,
             tm_pwm1_out := tm_pwm1_period s \<noteq> 0 \<and> tm_pwm1_duty s \<noteq> 0\<rparr>)"

definition timer_step :: "busop \<Rightarrow> timer \<Rightarrow> timer" where
  "timer_step bop s = tm_tick s (case bop of Wr k v \<Rightarrow> tm_write k v s | _ \<Rightarrow> s)"

definition timer_rdata :: "nat \<Rightarrow> timer \<Rightarrow> u32" where
  "timer_rdata k s =
     (if k = 0x0 then tm_ctrl s
      else if k = 0x1 then tm_prescale s
      else if k = 0x2 then tm_counter s
      else if k = 0x3 then tm_status s
      else if k = 0x4 then tm_irq_en s
      else if k = 0x5 then tm_cmp0 s
      else if k = 0x6 then tm_cmp0_period s
      else if k = 0x7 then tm_cmp1 s
      else if k = 0x8 then tm_cmp1_period s
      else if k = 0x9 then tm_wdt_load s
      else if k = 0xA then bit_at 0 (tm_wdt_enable s)
      else if k = 0xB then tm_wdt_counter s
      else if k = 0xC then tm_pwm0_period s
      else if k = 0xD then tm_pwm0_duty s
      else if k = 0xE then tm_pwm1_period s
      else if k = 0xF then tm_pwm1_duty s
      else if k = 0x10 then bit_at 1 (tm_pwm1_out s) OR bit_at 0 (tm_pwm0_out s)
      else if k = 0x11 then tm_capture_ctrl s
      else if k = 0x12 then tm_capture0_value s
      else if k = 0x13 then tm_capture1_value s
      else 0)"

end
