(* ===== verification/Rtl_Adc.thy ===== *)
theory Rtl_Adc
  imports Rtl_Bus
begin

text \<open>
  The ADC block \<^verbatim>\<open>qar-core/rtl/adc.v\<close> with its default parameters: four channels of 12 bits,
  eight cycles per conversion, single conversions and the round-robin sequencer.
\<close>

record adc =
  adc_ctrl_enable :: bool
  adc_ctrl_continuous :: bool
  adc_ctrl_channel :: "2 word"
  adc_manual_start_pending :: bool
  adc_seq_mask :: "4 word"
  adc_sample_div :: u16
  adc_sample_counter :: u16
  adc_seq_channel :: "2 word"
  adc_busy :: bool
  adc_active_channel :: "2 word"
  adc_sample_hold :: "12 word"
  adc_conv_counter :: u8
  adc_data_valid :: bool
  adc_result_value :: "12 word"
  adc_result_channel :: "2 word"
  adc_data_overrun :: bool
  adc_irq_en :: u32
  adc_irq_status :: u32

text \<open>The analogue inputs of a cycle, by channel.\<close>

record adc_pins =
  pin_ch0 :: "12 word"
  pin_ch1 :: "12 word"
  pin_ch2 :: "12 word"
  pin_ch3 :: "12 word"

definition adc_reset :: "adc \<Rightarrow> adc" where
  "adc_reset s = s\<lparr>adc_ctrl_enable := False, adc_ctrl_continuous := False, adc_ctrl_channel := 0,
     adc_manual_start_pending := False, adc_seq_mask := 1, adc_sample_div := 16,
     adc_sample_counter := 0, adc_seq_channel := 0, adc_busy := False, adc_active_channel := 0,
     adc_sample_hold := 0, adc_conv_counter := 0, adc_data_valid := False,
     adc_result_value := 0, adc_result_channel := 0, adc_data_overrun := False,
     adc_irq_en := 0, adc_irq_status := 0\<rparr>"

definition adc_effective_sample_div :: "adc \<Rightarrow> u16" where
  "adc_effective_sample_div s = (if adc_sample_div s = 0 then 1 else adc_sample_div s)"

definition adc_continuous_ready :: "adc \<Rightarrow> bool" where
  "adc_continuous_ready s \<longleftrightarrow> adc_ctrl_enable s \<and> adc_ctrl_continuous s \<and> adc_seq_mask s \<noteq> 0"

definition adc_irq :: "adc \<Rightarrow> bool" where
  "adc_irq s \<longleftrightarrow> adc_irq_en s AND adc_irq_status s \<noteq> 0"

definition adc_channel_value :: "adc_pins \<Rightarrow> 2 word \<Rightarrow> 12 word" where
  "adc_channel_value p idx =
     (if idx = 0 then pin_ch0 p else if idx = 1 then pin_ch1 p
      else if idx = 2 then pin_ch2 p else pin_ch3 p)"

definition adc_first_channel :: "4 word \<Rightarrow> 2 word" where
  "adc_first_channel m =
     (if bit m 0 then 0 else if bit m 1 then 1 else if bit m 2 then 2 else 3)"

definition adc_next_channel :: "4 word \<Rightarrow> 2 word \<Rightarrow> 2 word" where
  "adc_next_channel m cur =
     (if cur = 0 then
        (if bit m 1 then 1 else if bit m 2 then 2 else if bit m 3 then 3 else 0)
      else if cur = 1 then
        (if bit m 2 then 2 else if bit m 3 then 3 else if bit m 0 then 0 else 1)
      else if cur = 2 then
        (if bit m 3 then 3 else if bit m 0 then 0 else if bit m 1 then 1 else 2)
      else
        (if bit m 0 then 0 else if bit m 1 then 1 else if bit m 2 then 2 else 3))"

definition adc_write :: "nat \<Rightarrow> u32 \<Rightarrow> adc \<Rightarrow> adc" where
  "adc_write k v s =
     (if k = 0x0 then
        (let n = s\<lparr>adc_ctrl_enable := bit v 0, adc_ctrl_continuous := bit v 1,
                   adc_ctrl_channel := ucast (drop_bit 4 v)\<rparr>
         in if bit v 2 then n\<lparr>adc_manual_start_pending := True\<rparr> else n)
      else if k = 0x3 then s\<lparr>adc_irq_en := v\<rparr>
      else if k = 0x4 then
        (let n = s\<lparr>adc_irq_status := adc_irq_status s AND NOT v\<rparr>;
             n = (if bit v 1 then n\<lparr>adc_data_overrun := False\<rparr> else n)
         in if bit v 0 then n\<lparr>adc_data_valid := False\<rparr> else n)
      else if k = 0x5 then
        s\<lparr>adc_seq_mask := ucast v, adc_seq_channel := adc_first_channel (ucast v)\<rparr>
      else if k = 0x6 then s\<lparr>adc_sample_div := ucast v\<rparr>
      else s)"

definition adc_read_effect :: "nat \<Rightarrow> adc \<Rightarrow> adc" where
  "adc_read_effect k n =
     (if k = 0x2
      then n\<lparr>adc_data_valid := False, adc_irq_status := assign_bit 0 False (adc_irq_status n)\<rparr>
      else n)"

definition adc_start :: "adc_pins \<Rightarrow> 2 word \<Rightarrow> adc \<Rightarrow> adc" where
  "adc_start p ch n =
     n\<lparr>adc_busy := True, adc_active_channel := ch, adc_sample_hold := adc_channel_value p ch,
       adc_conv_counter := 0, adc_data_valid := False\<rparr>"

definition adc_idle_cycle :: "adc_pins \<Rightarrow> adc \<Rightarrow> adc \<Rightarrow> adc" where
  "adc_idle_cycle p s n =
     (if adc_manual_start_pending s \<and> adc_ctrl_enable s
      then adc_start p (adc_ctrl_channel s) (n\<lparr>adc_manual_start_pending := False\<rparr>)
      else if adc_continuous_ready s
      then (if adc_effective_sample_div s \<le> adc_sample_counter s
            then (adc_start p (adc_seq_channel s) (n\<lparr>adc_sample_counter := 0\<rparr>))
                   \<lparr>adc_seq_channel := adc_next_channel (adc_seq_mask s) (adc_seq_channel s)\<rparr>
            else n\<lparr>adc_sample_counter := adc_sample_counter s + 1\<rparr>)
      else n\<lparr>adc_sample_counter := 0\<rparr>)"

definition adc_busy_cycle :: "adc \<Rightarrow> adc \<Rightarrow> adc" where
  "adc_busy_cycle s n =
     (if 7 \<le> adc_conv_counter s
      then (let n = n\<lparr>adc_busy := False, adc_result_value := adc_sample_hold s,
                      adc_result_channel := adc_active_channel s\<rparr>;
                n = (if adc_data_valid s
                     then n\<lparr>adc_data_overrun := True,
                            adc_irq_status := assign_bit 1 True (adc_irq_status n)\<rparr>
                     else n)
            in n\<lparr>adc_data_valid := True, adc_irq_status := assign_bit 0 True (adc_irq_status n),
                 adc_conv_counter := 0\<rparr>)
      else n\<lparr>adc_conv_counter := adc_conv_counter s + 1\<rparr>)"

definition adc_step :: "adc_pins \<Rightarrow> busop \<Rightarrow> adc \<Rightarrow> adc" where
  "adc_step p bop s =
     (let n = (case bop of Wr k v \<Rightarrow> adc_write k v s | Rd k \<Rightarrow> adc_read_effect k s | Idle \<Rightarrow> s);
          n = (if \<not> adc_ctrl_continuous s then n\<lparr>adc_sample_counter := 0\<rparr> else n)
      in if \<not> adc_busy s then adc_idle_cycle p s n else adc_busy_cycle s n)"

definition adc_rdata :: "nat \<Rightarrow> adc \<Rightarrow> u32" where
  "adc_rdata k s =
     (if k = 0x0 then push_bit 2 (ucast (adc_ctrl_channel s)) OR
                      bit_at 1 (adc_ctrl_continuous s) OR bit_at 0 (adc_ctrl_enable s)
      else if k = 0x1 then bit_at 3 (adc_data_overrun s) OR bit_at 2 (adc_continuous_ready s) OR
                           bit_at 1 (adc_data_valid s) OR bit_at 0 (adc_busy s)
      else if k = 0x2 then push_bit 16 (ucast (adc_result_channel s)) OR
                           ucast (adc_result_value s)
      else if k = 0x3 then adc_irq_en s
      else if k = 0x4 then adc_irq_status s
      else if k = 0x5 then ucast (adc_seq_mask s)
      else if k = 0x6 then ucast (adc_sample_div s)
      else 0)"

end
