(* ===== verification/Soc.thy ===== *)
theory Soc
  imports Mmio Rtl_Gpio Rtl_Uart Rtl_Spi Rtl_I2c Rtl_Can Rtl_Timer Rtl_Adc
begin

text \<open>
  The chip as the firmware sees it: the seven peripherals of \<^verbatim>\<open>qar-core/rtl/qar_core.v\<close>, the
  address decoder of its load and store paths, and the bus of a running system. The core
  appears only through its accesses: a volatile access of the C program is one bus cycle, before which an
  arbitrary number of cycles without an access passes (instruction fetches, other instructions,
  stalls), given by \<open>w_gap\<close>; the pins have arbitrary values in every cycle (\<open>w_pins\<close>). A theorem
  about \<open>soc_bus\<close> holds for every such schedule.
\<close>

subsection \<open>The peripherals side by side\<close>

record soc =
  soc_gpio :: gpio
  soc_uart :: uart
  soc_spi :: spi
  soc_i2c :: i2c
  soc_can :: can
  soc_timer :: timer
  soc_adc :: adc

record pins =
  pin_gpio :: u32
  pin_uart_rx :: bool
  pin_spi_miso :: bool
  pin_i2c_sda :: bool
  pin_adc :: adc_pins

datatype dev = GPIO | UART0 | SPI0 | I2C0 | CAN0 | TIMER0 | ADC0

text \<open>A load or store of the core in one cycle, if any.\<close>

datatype access = NoAccess | Load u32 | Store u32 u32

text \<open>
  The decoder: base address and mask select the block, the next address bits the register. An
  address that hits no block goes to the data memory port.
\<close>

definition soc_decode :: "u32 \<Rightarrow> (dev \<times> nat) option" where
  "soc_decode a =
     (let hit = (\<lambda>base. a AND 0xFFFFFF00 = base); idx = unat (drop_bit 2 a) in
      if hit 0x40000000 then Some (GPIO, idx mod 32)
      else if hit 0x40001000 then Some (UART0, idx mod 16)
      else if hit 0x40004000 then Some (SPI0, idx mod 64)
      else if hit 0x40004400 then Some (I2C0, idx mod 64)
      else if hit 0x40003000 then Some (CAN0, idx mod 64)
      else if hit 0x40005000 then Some (TIMER0, idx mod 64)
      else if hit 0x40006000 then Some (ADC0, idx mod 32)
      else None)"

definition soc_port :: "dev \<Rightarrow> access \<Rightarrow> busop" where
  "soc_port d acc =
     (case acc of
        NoAccess \<Rightarrow> Idle
      | Load a \<Rightarrow> (case soc_decode a of
                    Some (d', k) \<Rightarrow> if d' = d then Rd k else Idle | None \<Rightarrow> Idle)
      | Store a v \<Rightarrow> (case soc_decode a of
                       Some (d', k) \<Rightarrow> if d' = d then Wr k v else Idle | None \<Rightarrow> Idle))"

definition soc_gpio_pins :: "pins \<Rightarrow> soc \<Rightarrow> gpio_pins" where
  "soc_gpio_pins p s = \<lparr>pin_in = pin_gpio p, pin_pwm0 = tm_pwm0_out (soc_timer s),
                        pin_pwm1 = tm_pwm1_out (soc_timer s)\<rparr>"

definition soc_step :: "pins \<Rightarrow> access \<Rightarrow> soc \<Rightarrow> soc" where
  "soc_step p acc s =
     \<lparr>soc_gpio = gpio_step (soc_gpio_pins p s) (soc_port GPIO acc) (soc_gpio s),
      soc_uart = ua_step (pin_uart_rx p) (soc_port UART0 acc) (soc_uart s),
      soc_spi = spi_step (pin_spi_miso p) (soc_port SPI0 acc) (soc_spi s),
      soc_i2c = i2c_step (pin_i2c_sda p) (soc_port I2C0 acc) (soc_i2c s),
      soc_can = can_step (soc_port CAN0 acc) (soc_can s),
      soc_timer = timer_step (soc_port TIMER0 acc) (soc_timer s),
      soc_adc = adc_step (pin_adc p) (soc_port ADC0 acc) (soc_adc s)\<rparr>"

definition soc_reset :: "soc \<Rightarrow> soc" where
  "soc_reset s =
     \<lparr>soc_gpio = gpio_reset (soc_gpio s), soc_uart = ua_reset (soc_uart s),
      soc_spi = spi_reset (soc_spi s), soc_i2c = i2c_reset (soc_i2c s),
      soc_can = can_reset (soc_can s), soc_timer = timer_reset (soc_timer s),
      soc_adc = adc_reset (soc_adc s)\<rparr>"

definition dev_rdata :: "pins \<Rightarrow> dev \<Rightarrow> nat \<Rightarrow> soc \<Rightarrow> u32" where
  "dev_rdata p d k s =
     (case d of
        GPIO \<Rightarrow> gpio_rdata (soc_gpio_pins p s) k (soc_gpio s)
      | UART0 \<Rightarrow> ua_rdata k (soc_uart s)
      | SPI0 \<Rightarrow> spi_rdata k (soc_spi s)
      | I2C0 \<Rightarrow> i2c_rdata k (soc_i2c s)
      | CAN0 \<Rightarrow> can_rdata k (soc_can s)
      | TIMER0 \<Rightarrow> timer_rdata k (soc_timer s)
      | ADC0 \<Rightarrow> adc_rdata k (soc_adc s))"

text \<open>The interrupt requests that leave the peripherals for the core.\<close>

definition soc_external_irq :: "soc \<Rightarrow> bool" where
  "soc_external_irq s \<longleftrightarrow> ua_irq (soc_uart s) \<or> can_irq (soc_can s) \<or> gp_irq (soc_gpio s) \<or>
     spi_irq (soc_spi s) \<or> i2c_irq (soc_i2c s) \<or> adc_irq (soc_adc s)"

definition soc_timer_irq :: "soc \<Rightarrow> bool" where
  "soc_timer_irq s \<longleftrightarrow> timer_irq (soc_timer s)"

subsection \<open>The running system\<close>

record world =
  w_soc :: soc
  w_now :: nat
  w_pins :: "nat \<Rightarrow> pins"
  w_gap :: "nat \<Rightarrow> nat"
  w_dmem :: "nat \<Rightarrow> u32"
  w_dmem_stores :: "(u32 \<times> u32) list"

definition soc_tick :: "access \<Rightarrow> world \<Rightarrow> world" where
  "soc_tick acc w = w\<lparr>w_soc := soc_step (w_pins w (w_now w)) acc (w_soc w), w_now := Suc (w_now w)\<rparr>"

definition soc_idle :: "nat \<Rightarrow> world \<Rightarrow> world" where
  "soc_idle n w = (soc_tick NoAccess ^^ n) w"

definition soc_wait :: "world \<Rightarrow> world" where
  "soc_wait w = soc_idle (w_gap w (w_now w)) w"

definition soc_load :: "u32 \<Rightarrow> world \<Rightarrow> u32" where
  "soc_load a w =
     (case soc_decode a of
        Some (d, k) \<Rightarrow> dev_rdata (w_pins w (w_now w)) d k (w_soc w)
      | None \<Rightarrow> w_dmem w (w_now w))"

definition soc_rd :: "u32 \<Rightarrow> world \<Rightarrow> u32 \<times> world" where
  "soc_rd a w = (let w = soc_wait w in (soc_load a w, soc_tick (Load a) w))"

definition soc_wr :: "u32 \<Rightarrow> u32 \<Rightarrow> world \<Rightarrow> world" where
  "soc_wr a v w =
     (let w = soc_tick (Store a v) (soc_wait w)
      in if soc_decode a = None then w\<lparr>w_dmem_stores := w_dmem_stores w @ [(a, v)]\<rparr> else w)"

definition soc_bus :: "world bus" where
  "soc_bus = \<lparr>bus_rd = soc_rd, bus_wr = soc_wr\<rparr>"

subsection \<open>Projections\<close>

lemma soc_step_sel [simp]:
  "soc_gpio (soc_step p acc s) = gpio_step (soc_gpio_pins p s) (soc_port GPIO acc) (soc_gpio s)"
  "soc_uart (soc_step p acc s) = ua_step (pin_uart_rx p) (soc_port UART0 acc) (soc_uart s)"
  "soc_spi (soc_step p acc s) = spi_step (pin_spi_miso p) (soc_port SPI0 acc) (soc_spi s)"
  "soc_i2c (soc_step p acc s) = i2c_step (pin_i2c_sda p) (soc_port I2C0 acc) (soc_i2c s)"
  "soc_can (soc_step p acc s) = can_step (soc_port CAN0 acc) (soc_can s)"
  "soc_timer (soc_step p acc s) = timer_step (soc_port TIMER0 acc) (soc_timer s)"
  "soc_adc (soc_step p acc s) = adc_step (pin_adc p) (soc_port ADC0 acc) (soc_adc s)"
  by (simp_all add: soc_step_def)

lemma soc_port_NoAccess [simp]: "soc_port d NoAccess = Idle"
  by (simp add: soc_port_def)

lemma soc_port_Load: "soc_port d (Load a) =
    (case soc_decode a of Some (d', k) \<Rightarrow> if d' = d then Rd k else Idle | None \<Rightarrow> Idle)"
  by (simp add: soc_port_def)

lemma soc_port_Store: "soc_port d (Store a v) =
    (case soc_decode a of Some (d', k) \<Rightarrow> if d' = d then Wr k v else Idle | None \<Rightarrow> Idle)"
  by (simp add: soc_port_def)

lemma soc_tick_sel [simp]:
  "w_soc (soc_tick acc w) = soc_step (w_pins w (w_now w)) acc (w_soc w)"
  "w_now (soc_tick acc w) = Suc (w_now w)"
  "w_pins (soc_tick acc w) = w_pins w"
  "w_gap (soc_tick acc w) = w_gap w"
  "w_dmem_stores (soc_tick acc w) = w_dmem_stores w"
  by (simp_all add: soc_tick_def)

lemma soc_idle_0 [simp]: "soc_idle 0 w = w"
  by (simp add: soc_idle_def)

lemma soc_idle_Suc: "soc_idle (Suc n) w = soc_tick NoAccess (soc_idle n w)"
  by (simp add: soc_idle_def)

lemma soc_idle_env [simp]:
  "w_pins (soc_idle n w) = w_pins w" "w_gap (soc_idle n w) = w_gap w"
  "w_now (soc_idle n w) = w_now w + n" "w_dmem_stores (soc_idle n w) = w_dmem_stores w"
  by (induction n) (simp_all add: soc_idle_Suc)

lemma soc_wait_env [simp]:
  "w_pins (soc_wait w) = w_pins w" "w_gap (soc_wait w) = w_gap w"
  "w_dmem_stores (soc_wait w) = w_dmem_stores w"
  by (simp_all add: soc_wait_def)

text \<open>
  What cycles without an access keep, a wait keeps: the rule by which facts about a single
  clock cycle of a peripheral reach the running system.
\<close>

lemma soc_idle_keeps:
  assumes "\<And>p s. P s \<Longrightarrow> P (soc_step p NoAccess s)" and "P (w_soc w)"
  shows "P (w_soc (soc_idle n w))"
  using assms by (induction n) (simp_all add: soc_idle_Suc)

lemma soc_wait_keeps:
  assumes "\<And>p s. P s \<Longrightarrow> P (soc_step p NoAccess s)" and "P (w_soc w)"
  shows "P (w_soc (soc_wait w))"
  unfolding soc_wait_def using assms by (rule soc_idle_keeps)

lemma w_soc_wr: "w_soc (soc_wr a v w) =
    soc_step (w_pins w (w_now (soc_wait w))) (Store a v) (w_soc (soc_wait w))"
  by (simp add: soc_wr_def Let_def)

lemma w_soc_rd: "w_soc (snd (soc_rd a w)) =
    soc_step (w_pins w (w_now (soc_wait w))) (Load a) (w_soc (soc_wait w))"
  by (simp add: soc_rd_def Let_def)

lemma soc_wr_env [simp]:
  "w_pins (soc_wr a v w) = w_pins w" "w_gap (soc_wr a v w) = w_gap w"
  by (simp_all add: soc_wr_def Let_def)

lemma soc_rd_env [simp]:
  "w_pins (snd (soc_rd a w)) = w_pins w" "w_gap (snd (soc_rd a w)) = w_gap w"
  by (simp_all add: soc_rd_def Let_def)

end
