(* ===== verification/Soc_Config.thy ===== *)
theory Soc_Config
  imports Soc
begin

text \<open>
  The configuration registers of the chip as a plain store. A register is a configuration
  register when only a store by the core changes it and a load returns it; \<open>soc_effect\<close> is the
  abstract specification of a store on all of them. The chip refines it (\<open>cfg_step\<close>), whatever
  the peripherals do meanwhile, and \<open>soc_bus\<close> therefore satisfies the contract
  \<open>register_file\<close> that the driver lemmas assume.
\<close>

subsection \<open>The abstract store\<close>

definition config_reg :: "dev \<Rightarrow> nat \<Rightarrow> bool" where
  "config_reg d k =
     (case d of
        GPIO \<Rightarrow> k \<in> {0, 1, 5, 7, 8, 9, 10, 11}
      | UART0 \<Rightarrow> k \<in> {2, 3, 4, 6, 7, 8, 9, 10, 12}
      | SPI0 \<Rightarrow> k \<in> {0, 2, 5, 6}
      | I2C0 \<Rightarrow> k \<in> {0, 1, 3}
      | CAN0 \<Rightarrow> k \<in> {0, 2, 4, 6, 7, 8, 9, 10, 11}
      | TIMER0 \<Rightarrow> k \<in> {0, 1, 4, 6, 8, 9, 10, 12, 13, 14, 15, 17}
      | ADC0 \<Rightarrow> k \<in> {0, 3, 5, 6})"

text \<open>
  What a load returns after a store of \<open>v\<close>: narrow registers keep their low bits, the control
  register of the ADC is read back in another layout than it is written.
\<close>

definition cfg_trunc :: "dev \<Rightarrow> nat \<Rightarrow> u32 \<Rightarrow> u32" where
  "cfg_trunc d k v =
     (if d = GPIO \<and> k = 11 then ucast (ucast v :: u16)
      else if d = UART0 \<and> k = 10 then ucast (ucast v :: u8)
      else if d = TIMER0 \<and> k = 10 then bit_at 0 (bit v 0)
      else if d = ADC0 \<and> k = 0
        then push_bit 2 (ucast (ucast (drop_bit 4 v) :: 2 word)) OR bit_at 1 (bit v 1) OR
             bit_at 0 (bit v 0)
      else if d = ADC0 \<and> k = 5 then ucast (ucast v :: 4 word)
      else if d = ADC0 \<and> k = 6 then ucast (ucast v :: u16)
      else v)"

text \<open>A store to one block: the two set and clear ports of the GPIO act on its output register.\<close>

definition dev_effect :: "dev \<Rightarrow> nat \<Rightarrow> u32 \<Rightarrow> (nat \<Rightarrow> u32) \<Rightarrow> nat \<Rightarrow> u32" where
  "dev_effect d k v m =
     (if config_reg d k then m(k := cfg_trunc d k v)
      else if d = GPIO \<and> k = 3 then m(1 := m 1 OR v)
      else if d = GPIO \<and> k = 4 then m(1 := m 1 AND NOT v)
      else m)"

definition soc_effect ::
  "(dev \<times> nat) option \<Rightarrow> u32 \<Rightarrow> ((dev \<times> nat) option \<Rightarrow> u32) \<Rightarrow> (dev \<times> nat) option \<Rightarrow> u32" where
  "soc_effect sel v m =
     (case sel of
        None \<Rightarrow> m
      | Some (d, k) \<Rightarrow> (\<lambda>r. case r of
            Some (d', k') \<Rightarrow> if d' = d then dev_effect d k v (\<lambda>j. m (Some (d, j))) k' else m r
          | None \<Rightarrow> m r))"

definition no_pins :: pins where
  "no_pins = \<lparr>pin_gpio = 0, pin_uart_rx = False, pin_spi_miso = False, pin_i2c_sda = False,
              pin_adc = \<lparr>pin_ch0 = 0, pin_ch1 = 0, pin_ch2 = 0, pin_ch3 = 0\<rparr>\<rparr>"

definition dev_store :: "dev \<Rightarrow> soc \<Rightarrow> nat \<Rightarrow> u32" where
  "dev_store d s k = (if config_reg d k then dev_rdata no_pins d k s else 0)"

definition soc_store :: "world \<Rightarrow> (dev \<times> nat) option \<Rightarrow> u32" where
  "soc_store w r = (case r of Some (d, k) \<Rightarrow> dev_store d (w_soc w) k | None \<Rightarrow> 0)"

definition config_sel :: "(dev \<times> nat) option \<Rightarrow> bool" where
  "config_sel r = (case r of Some (d, k) \<Rightarrow> config_reg d k | None \<Rightarrow> False)"

definition bus_effect :: "dev \<Rightarrow> busop \<Rightarrow> (nat \<Rightarrow> u32) \<Rightarrow> nat \<Rightarrow> u32" where
  "bus_effect d bop m = (case bop of Wr k v \<Rightarrow> dev_effect d k v m | _ \<Rightarrow> m)"

lemma bus_effect_simps [simp]:
  "bus_effect d Idle m = m" "bus_effect d (Rd k) m = m"
  "bus_effect d (Wr k v) m = dev_effect d k v m"
  by (simp_all add: bus_effect_def)

subsection \<open>Every block keeps and updates its configuration registers this way\<close>

lemma gp_pin_step_cfg [simp]:
  "gp_dir (gp_pin_step p s i n) = gp_dir n" "gp_out_reg (gp_pin_step p s i n) = gp_out_reg n"
  "gp_alt_pwm_sel (gp_pin_step p s i n) = gp_alt_pwm_sel n"
  "gp_irq_enable (gp_pin_step p s i n) = gp_irq_enable n"
  "gp_irq_rise_mask (gp_pin_step p s i n) = gp_irq_rise_mask n"
  "gp_irq_fall_mask (gp_pin_step p s i n) = gp_irq_fall_mask n"
  "gp_debounce_enable (gp_pin_step p s i n) = gp_debounce_enable n"
  "gp_debounce_cycles (gp_pin_step p s i n) = gp_debounce_cycles n"
  by (simp_all add: gp_pin_step_def Let_def)

lemma gp_pin_loop_cfg [simp]:
  "gp_dir (gp_pin_loop p s m n) = gp_dir n" "gp_out_reg (gp_pin_loop p s m n) = gp_out_reg n"
  "gp_alt_pwm_sel (gp_pin_loop p s m n) = gp_alt_pwm_sel n"
  "gp_irq_enable (gp_pin_loop p s m n) = gp_irq_enable n"
  "gp_irq_rise_mask (gp_pin_loop p s m n) = gp_irq_rise_mask n"
  "gp_irq_fall_mask (gp_pin_loop p s m n) = gp_irq_fall_mask n"
  "gp_debounce_enable (gp_pin_loop p s m n) = gp_debounce_enable n"
  "gp_debounce_cycles (gp_pin_loop p s m n) = gp_debounce_cycles n"
  by (induction m) (simp_all add: gp_pin_loop_def)

lemma gpio_cfg:
  "config_reg GPIO j \<Longrightarrow> gpio_rdata p' j (gpio_step p bop s) =
     bus_effect GPIO bop (\<lambda>k. gpio_rdata q k s) j"
  by (cases bop)
     (auto simp: config_reg_def gpio_rdata_def gpio_step_def gp_write_def dev_effect_def
        cfg_trunc_def Let_def)

text \<open>The nine configuration fields of the UART pass through every stage of its clock cycle.\<close>

definition ua_cfg :: "uart \<Rightarrow> u32 \<times> u32 \<times> u32 \<times> u32 \<times> u32 \<times> u32 \<times> u32 \<times> u8 \<times> u32" where
  "ua_cfg n = (ua_ctrl n, ua_baud_div n, ua_irq_en n, ua_rs485_ctrl n, ua_idle_cfg n, ua_lin_ctrl n,
               ua_lin_cmd n, ua_lin_tx_header_id n, ua_lin_slave_ctrl n)"

lemma ua_cfg_upd [simp]:
  "ua_cfg (n\<lparr>ua_irq_status := x0\<rparr>) = ua_cfg n"
  "ua_cfg (n\<lparr>ua_status := x1\<rparr>) = ua_cfg n"
  "ua_cfg (n\<lparr>ua_lin_sync_byte := x2\<rparr>) = ua_cfg n"
  "ua_cfg (n\<lparr>ua_lin_id_byte := x3\<rparr>) = ua_cfg n"
  "ua_cfg (n\<lparr>ua_lin_header_valid := x4\<rparr>) = ua_cfg n"
  "ua_cfg (n\<lparr>ua_lin_sync_error := x5\<rparr>) = ua_cfg n"
  "ua_cfg (n\<lparr>ua_lin_header_state := x6\<rparr>) = ua_cfg n"
  "ua_cfg (n\<lparr>ua_lin_wait_delimiter := x7\<rparr>) = ua_cfg n"
  "ua_cfg (n\<lparr>ua_lin_auto_header_pending := x8\<rparr>) = ua_cfg n"
  "ua_cfg (n\<lparr>ua_lin_auto_state := x9\<rparr>) = ua_cfg n"
  "ua_cfg (n\<lparr>ua_lin_slave_armed := x10\<rparr>) = ua_cfg n"
  "ua_cfg (n\<lparr>ua_lin_slave_tx_pending := x11\<rparr>) = ua_cfg n"
  "ua_cfg (n\<lparr>ua_lin_slave_bytes_remaining := x12\<rparr>) = ua_cfg n"
  "ua_cfg (n\<lparr>ua_lin_slave_underflow := x13\<rparr>) = ua_cfg n"
  "ua_cfg (n\<lparr>ua_tx_fifo := x14\<rparr>) = ua_cfg n"
  "ua_cfg (n\<lparr>ua_tx_head := x15\<rparr>) = ua_cfg n"
  "ua_cfg (n\<lparr>ua_tx_tail := x16\<rparr>) = ua_cfg n"
  "ua_cfg (n\<lparr>ua_rx_fifo := x17\<rparr>) = ua_cfg n"
  "ua_cfg (n\<lparr>ua_rx_head := x18\<rparr>) = ua_cfg n"
  "ua_cfg (n\<lparr>ua_rx_tail := x19\<rparr>) = ua_cfg n"
  "ua_cfg (n\<lparr>ua_tx := x20\<rparr>) = ua_cfg n"
  "ua_cfg (n\<lparr>ua_tx_shift := x21\<rparr>) = ua_cfg n"
  "ua_cfg (n\<lparr>ua_tx_bits_remaining := x22\<rparr>) = ua_cfg n"
  "ua_cfg (n\<lparr>ua_tx_counter := x23\<rparr>) = ua_cfg n"
  "ua_cfg (n\<lparr>ua_rx_counter := x24\<rparr>) = ua_cfg n"
  "ua_cfg (n\<lparr>ua_idle_counter := x25\<rparr>) = ua_cfg n"
  "ua_cfg (n\<lparr>ua_idle_irq_pending := x26\<rparr>) = ua_cfg n"
  "ua_cfg (n\<lparr>ua_rx_busy := x27\<rparr>) = ua_cfg n"
  "ua_cfg (n\<lparr>ua_rx_sync1 := x28\<rparr>) = ua_cfg n"
  "ua_cfg (n\<lparr>ua_rx_sync2 := x29\<rparr>) = ua_cfg n"
  "ua_cfg (n\<lparr>ua_rx_bit_index := x30\<rparr>) = ua_cfg n"
  "ua_cfg (n\<lparr>ua_rx_total_bits := x31\<rparr>) = ua_cfg n"
  "ua_cfg (n\<lparr>ua_rx_data_latch := x32\<rparr>) = ua_cfg n"
  "ua_cfg (n\<lparr>ua_rx_parity_latch := x33\<rparr>) = ua_cfg n"
  "ua_cfg (n\<lparr>ua_rx_parity_enable_latch := x34\<rparr>) = ua_cfg n"
  "ua_cfg (n\<lparr>ua_rx_parity_odd_latch := x35\<rparr>) = ua_cfg n"
  "ua_cfg (n\<lparr>ua_rx_two_stop_latch := x36\<rparr>) = ua_cfg n"
  "ua_cfg (n\<lparr>ua_rx_stop_error := x37\<rparr>) = ua_cfg n"
  "ua_cfg (n\<lparr>ua_rx_start_error := x38\<rparr>) = ua_cfg n"
  "ua_cfg (n\<lparr>ua_lin_break_pending := x39\<rparr>) = ua_cfg n"
  "ua_cfg (n\<lparr>ua_lin_break_active := x40\<rparr>) = ua_cfg n"
  "ua_cfg (n\<lparr>ua_lin_break_counter := x41\<rparr>) = ua_cfg n"
  "ua_cfg (n\<lparr>ua_lin_break_tick := x42\<rparr>) = ua_cfg n"
  "ua_cfg (n\<lparr>ua_lin_rx_low_counter := x43\<rparr>) = ua_cfg n"
  "ua_cfg (n\<lparr>ua_lin_rx_tick := x44\<rparr>) = ua_cfg n"
  by (simp_all add: ua_cfg_def)

lemma ua_cfg_if: "ua_cfg (if c then a else b) = (if c then ua_cfg a else ua_cfg b)"
  by simp

lemmas ua_bit_defs =
  ua_set_status_def ua_clear_status_def ua_set_irq_bit_def ua_clear_irq_bit_def

lemma ua_cfg_bits [simp]:
  "ua_cfg (ua_set_status i n) = ua_cfg n" "ua_cfg (ua_clear_status i n) = ua_cfg n"
  "ua_cfg (ua_set_irq_bit i n) = ua_cfg n" "ua_cfg (ua_clear_irq_bit i n) = ua_cfg n"
  by (simp_all add: ua_bit_defs)

lemma ua_cfg_read [simp]: "ua_cfg (ua_read_effect k s n) = ua_cfg n"
  by (simp add: ua_read_effect_def Let_def ua_cfg_if)

lemma ua_cfg_status [simp]: "ua_cfg (ua_status_stage s n) = ua_cfg n"
  by (simp add: ua_status_stage_def)

lemma ua_cfg_break [simp]: "ua_cfg (ua_break_stage s n) = ua_cfg n"
  by (simp add: ua_break_stage_def)

lemma ua_cfg_tx [simp]: "ua_cfg (ua_tx_stage s n) = ua_cfg n"
  by (simp add: ua_tx_stage_def ua_tx_break_def ua_tx_idle_def ua_tx_shift_out_def
      ua_load_frame_def Let_def ua_cfg_if)

lemma ua_cfg_rx_parts [simp]:
  "ua_cfg (ua_rx_sample s n) = ua_cfg n" "ua_cfg (ua_lin_header_byte s n) = ua_cfg n"
  "ua_cfg (ua_rx_begin s n) = ua_cfg n" "ua_cfg (ua_rx_idle s n) = ua_cfg n"
  by (simp_all add: ua_rx_sample_def ua_lin_header_byte_def ua_rx_begin_def ua_rx_idle_def
      Let_def ua_cfg_if)

lemma ua_cfg_rx_frame_end [simp]: "ua_cfg (ua_rx_frame_end s n) = ua_cfg n"
  by (simp add: ua_rx_frame_end_def Let_def ua_cfg_if)

lemma ua_cfg_rx_receive [simp]: "ua_cfg (ua_rx_receive s n) = ua_cfg n"
  by (simp add: ua_rx_receive_def Let_def ua_cfg_if)

lemma ua_cfg_rx [simp]: "ua_cfg (ua_rx_stage s n) = ua_cfg n"
  by (simp add: ua_rx_stage_def ua_cfg_if)

lemma ua_cfg_lin_rx [simp]: "ua_cfg (ua_lin_rx_stage s n) = ua_cfg n"
  by (simp add: ua_lin_rx_stage_def ua_lin_break_detected_def Let_def ua_cfg_if)

lemma ua_cfg_write_data [simp]:
  "ua_cfg (ua_data_write v s n) = ua_cfg n" "ua_cfg (ua_irq_status_write v s n) = ua_cfg n"
  "ua_cfg (ua_lin_cmd_write v s n) = ua_cfg (n\<lparr>ua_lin_cmd := v\<rparr>)"
  "ua_cfg (ua_lin_slave_write v n) = ua_cfg (n\<lparr>ua_lin_slave_ctrl := v\<rparr>)"
  by (simp_all add: ua_data_write_def ua_irq_status_write_def ua_lin_cmd_write_def
      ua_lin_slave_write_def Let_def ua_cfg_if)

text \<open>The effect of a register write on the configuration fields.\<close>

definition ua_cfg_wr :: "nat \<Rightarrow> u32 \<Rightarrow> uart \<Rightarrow> uart" where
  "ua_cfg_wr k v n =
     (if k = 0x2 then n\<lparr>ua_ctrl := v\<rparr>
      else if k = 0x3 then n\<lparr>ua_baud_div := v\<rparr>
      else if k = 0x4 then n\<lparr>ua_irq_en := v\<rparr>
      else if k = 0x6 then n\<lparr>ua_rs485_ctrl := v\<rparr>
      else if k = 0x7 then n\<lparr>ua_idle_cfg := v\<rparr>
      else if k = 0x8 then n\<lparr>ua_lin_ctrl := v\<rparr>
      else if k = 0x9 then n\<lparr>ua_lin_cmd := v\<rparr>
      else if k = 0xA then n\<lparr>ua_lin_tx_header_id := ucast v\<rparr>
      else if k = 0xC then n\<lparr>ua_lin_slave_ctrl := v\<rparr>
      else n)"

lemma ua_cfg_write: "ua_cfg (ua_write k v s n) = ua_cfg (ua_cfg_wr k v n)"
  by (simp add: ua_write_def ua_cfg_wr_def ua_cfg_if)

lemma ua_cfg_wr_cong: "ua_cfg m = ua_cfg n \<Longrightarrow> ua_cfg (ua_cfg_wr k v m) = ua_cfg (ua_cfg_wr k v n)"
  by (simp add: ua_cfg_wr_def ua_cfg_def)

lemma ua_cfg_step:
  "ua_cfg (ua_step rx bop s) = ua_cfg (case bop of Wr k v \<Rightarrow> ua_cfg_wr k v s | _ \<Rightarrow> s)"
  by (cases bop) (auto simp: ua_step_def Let_def ua_cfg_write intro: ua_cfg_wr_cong)

lemma ua_rdata_cfg:
  "config_reg UART0 j \<Longrightarrow> ua_cfg m = ua_cfg n \<Longrightarrow> ua_rdata j m = ua_rdata j n"
  by (auto simp: ua_cfg_def config_reg_def ua_rdata_def)

lemma uart_cfg:
  assumes "config_reg UART0 j"
  shows "ua_rdata j (ua_step rx bop s) = bus_effect UART0 bop (\<lambda>k. ua_rdata k s) j"
proof -
  have "ua_rdata j (ua_step rx bop s) = ua_rdata j (case bop of Wr k v \<Rightarrow> ua_cfg_wr k v s | _ \<Rightarrow> s)"
    using assms ua_cfg_step by (rule ua_rdata_cfg)
  also have "\<dots> = bus_effect UART0 bop (\<lambda>k. ua_rdata k s) j"
    using assms by (cases bop)
      (auto simp: ua_cfg_wr_def config_reg_def ua_rdata_def dev_effect_def cfg_trunc_def)
  finally show ?thesis .
qed

lemma spi_cfg:
  assumes "config_reg SPI0 j"
  shows "spi_rdata j (spi_step miso bop s) = bus_effect SPI0 bop (\<lambda>k. spi_rdata k s) j"
proof -
  define cfg where "cfg = (\<lambda>n :: spi. (spi_ctrl n, spi_clkdiv n, spi_cs_select n, spi_irq_en n))"
  have sh: "cfg (spi_shift m s n) = cfg n" for m n
    by (simp add: cfg_def spi_shift_def spi_byte_done_def Let_def)
  have st: "cfg (spi_start s n) = cfg n" for n
    by (simp add: cfg_def spi_start_def Let_def)
  have "cfg (spi_step miso bop s) =
          (case bop of Wr k v \<Rightarrow> (if k = 0 then v else spi_ctrl s, if k = 2 then v else spi_clkdiv s,
                                if k = 5 then v else spi_cs_select s, if k = 6 then v else spi_irq_en s)
                     | _ \<Rightarrow> cfg s)"
    by (cases bop)
       (simp_all add: spi_step_def sh st Let_def,
        simp_all add: cfg_def spi_rx_pop_def spi_write_def spi_irq_status_write_def
          spi_txdata_write_def Let_def)
  with assms show ?thesis
    by (cases bop) (auto simp: cfg_def config_reg_def spi_rdata_def dev_effect_def cfg_trunc_def)
qed

lemma i2c_cfg:
  assumes "config_reg I2C0 j"
  shows "i2c_rdata j (i2c_step sda bop s) = bus_effect I2C0 bop (\<lambda>k. i2c_rdata k s) j"
proof -
  define cfg where "cfg = (\<lambda>n :: i2c. (i2c_ctrl n, i2c_clkdiv n, i2c_irq_en n))"
  have "cfg (i2c_idle_state s n) = cfg n" "cfg (i2c_start_state s n) = cfg n"
    "cfg (i2c_write_state s n) = cfg n" "cfg (i2c_ack_state sda s n) = cfg n"
    "cfg (i2c_read_state sda s n) = cfg n" "cfg (i2c_stop_state s n) = cfg n" for n
    by (simp_all add: cfg_def i2c_idle_state_def i2c_start_state_def i2c_write_state_def
        i2c_ack_state_def i2c_read_state_def i2c_stop_state_def Let_def)
  then have step: "cfg (i2c_step sda bop s) =
      cfg (case bop of Wr k v \<Rightarrow> i2c_write k v s | Rd k \<Rightarrow> i2c_rx_pop k s s | Idle \<Rightarrow> s)"
    by (simp add: i2c_step_def Let_def split: i2c_state.split)
  have "cfg (i2c_step sda bop s) =
          (case bop of Wr k v \<Rightarrow> (if k = 0 then v else i2c_ctrl s, if k = 1 then v else i2c_clkdiv s,
                                if k = 3 then v else i2c_irq_en s)
                     | _ \<Rightarrow> cfg s)"
    unfolding step by (cases bop)
       (simp_all add: cfg_def i2c_rx_pop_def i2c_write_def i2c_irq_status_write_def
          i2c_status_write_def i2c_txdata_write_def Let_def)
  with assms show ?thesis
    by (cases bop) (auto simp: cfg_def config_reg_def i2c_rdata_def dev_effect_def cfg_trunc_def)
qed

lemma can_cfg:
  assumes "config_reg CAN0 j"
  shows "can_rdata j (can_step bop s) = bus_effect CAN0 bop (\<lambda>k. can_rdata k s) j"
proof -
  define cfg where "cfg = (\<lambda>n :: can. (can_ctrl n, can_bittime n, can_irq_en n, can_filter_id n,
     can_filter_mask n, can_tx_id n, can_tx_dlc n, can_tx_data0 n, can_tx_data1 n))"
  have parts: "cfg (can_tx_cmd s) = cfg s" "cfg (can_irq_status_write v s) = cfg s"
    "cfg (can_rx_fifo_ctrl v s) = cfg s" for v
    by (simp_all add: cfg_def can_tx_cmd_def can_rx_push_def can_irq_status_write_def
        can_rx_fifo_ctrl_def Let_def)
  have "cfg (can_write k v s) =
      (if k = 0 then v else can_ctrl s, if k = 2 then v else can_bittime s,
       if k = 4 then v else can_irq_en s, if k = 6 then v else can_filter_id s,
       if k = 7 then v else can_filter_mask s, if k = 8 then v else can_tx_id s,
       if k = 9 then v else can_tx_dlc s, if k = 10 then v else can_tx_data0 s,
       if k = 11 then v else can_tx_data1 s)" for k v
    by (simp add: can_write_def parts) (simp add: cfg_def)
  then show ?thesis using assms
    by (cases bop)
       (auto simp: can_step_def cfg_def config_reg_def can_rdata_def dev_effect_def cfg_trunc_def)
qed

definition tm_cfg :: "timer \<Rightarrow> u32 \<times> u32 \<times> u32 \<times> u32 \<times> u32 \<times> u32 \<times> bool \<times> u32 \<times> u32 \<times> u32 \<times> u32 \<times> u32" where
  "tm_cfg n = (tm_ctrl n, tm_prescale n, tm_irq_en n, tm_cmp0_period n,
     tm_cmp1_period n, tm_wdt_load n, tm_wdt_enable n, tm_pwm0_period n, tm_pwm0_duty n,
     tm_pwm1_period n, tm_pwm1_duty n, tm_capture_ctrl n)"

lemma tm_cfg_tick: "tm_cfg (tm_tick s n) = tm_cfg n"
proof -
  have "tm_cfg (tm_tick_pwm s n) = tm_cfg n" "tm_cfg (tm_tick_cmp1 s n) = tm_cfg n"
    "tm_cfg (tm_tick_cmp0 s n) = tm_cfg n" "tm_cfg (tm_tick_wdt s n) = tm_cfg n" for n
    by (simp_all add: tm_cfg_def tm_tick_pwm_def tm_tick_cmp0_def tm_tick_cmp1_def tm_tick_wdt_def Let_def)
  then show ?thesis by (simp add: tm_tick_def) (simp add: tm_cfg_def)
qed

lemma tm_cfg_write: "tm_cfg (tm_write k v s) =
    (if k = 0 then v else tm_ctrl s, if k = 1 then v else tm_prescale s,
     if k = 4 then v else tm_irq_en s, if k = 6 then v else tm_cmp0_period s,
     if k = 8 then v else tm_cmp1_period s, if k = 9 then v else tm_wdt_load s,
     if k = 10 then bit v 0 else tm_wdt_enable s, if k = 12 then v else tm_pwm0_period s,
     if k = 13 then v else tm_pwm0_duty s, if k = 14 then v else tm_pwm1_period s,
     if k = 15 then v else tm_pwm1_duty s, if k = 17 then v else tm_capture_ctrl s)"
proof -
  have "tm_cfg (tm_wdt_ctrl_write v s) = tm_cfg (s\<lparr>tm_wdt_enable := bit v 0\<rparr>)"
    "tm_cfg (tm_capture_write v s) = tm_cfg (s\<lparr>tm_capture_ctrl := v\<rparr>)"
    by (simp_all add: tm_cfg_def tm_wdt_ctrl_write_def tm_capture_write_def Let_def)
  then show ?thesis by (simp add: tm_write_def) (simp add: tm_cfg_def Let_def)
qed

lemma timer_cfg:
  assumes "config_reg TIMER0 j"
  shows "timer_rdata j (timer_step bop s) = bus_effect TIMER0 bop (\<lambda>k. timer_rdata k s) j"
proof (cases bop)
  case (Wr k v)
  have "tm_cfg (timer_step (Wr k v) s) = tm_cfg (tm_write k v s)"
    by (simp add: timer_step_def tm_cfg_tick)
  then have "timer_rdata j (timer_step (Wr k v) s) = dev_effect TIMER0 k v (\<lambda>k. timer_rdata k s) j"
    using assms unfolding tm_cfg_write unfolding tm_cfg_def prod.inject config_reg_def dev.case
    by (elim insertE emptyE conjE)
       (simp_all add: timer_rdata_def dev_effect_def cfg_trunc_def config_reg_def)
  with Wr show ?thesis by simp
next
  case Idle
  have "tm_cfg (timer_step Idle s) = tm_cfg s" by (simp add: timer_step_def tm_cfg_tick)
  with assms Idle show ?thesis by (auto simp: tm_cfg_def config_reg_def timer_rdata_def)
next
  case (Rd k)
  have "tm_cfg (timer_step (Rd k) s) = tm_cfg s" by (simp add: timer_step_def tm_cfg_tick)
  with assms Rd show ?thesis by (auto simp: tm_cfg_def config_reg_def timer_rdata_def)
qed

lemma adc_cfg:
  assumes "config_reg ADC0 j"
  shows "adc_rdata j (adc_step p bop s) = bus_effect ADC0 bop (\<lambda>k. adc_rdata k s) j"
proof -
  define cfg where "cfg = (\<lambda>n :: adc. (adc_ctrl_enable n, adc_ctrl_continuous n, adc_ctrl_channel n,
     adc_irq_en n, adc_seq_mask n, adc_sample_div n))"
  have parts: "cfg (adc_idle_cycle p s n) = cfg n" "cfg (adc_busy_cycle s n) = cfg n"
    "cfg (n\<lparr>adc_sample_counter := c\<rparr>) = cfg n" "cfg (adc_read_effect k n) = cfg n" for n c k
    by (simp_all add: cfg_def adc_idle_cycle_def adc_busy_cycle_def adc_start_def adc_read_effect_def
        Let_def)
  have "cfg (adc_write k v s) =
      (if k = 0 then bit v 0 else adc_ctrl_enable s, if k = 0 then bit v 1 else adc_ctrl_continuous s,
       if k = 0 then ucast (drop_bit 4 v) else adc_ctrl_channel s, if k = 3 then v else adc_irq_en s,
       if k = 5 then ucast v else adc_seq_mask s, if k = 6 then ucast v else adc_sample_div s)" for k v
    by (simp add: cfg_def adc_write_def Let_def)
  then have "cfg (adc_step p bop s) = (case bop of Wr k v \<Rightarrow>
      (if k = 0 then bit v 0 else adc_ctrl_enable s, if k = 0 then bit v 1 else adc_ctrl_continuous s,
       if k = 0 then ucast (drop_bit 4 v) else adc_ctrl_channel s, if k = 3 then v else adc_irq_en s,
       if k = 5 then ucast v else adc_seq_mask s, if k = 6 then ucast v else adc_sample_div s)
      | _ \<Rightarrow> cfg s)"
    by (simp add: adc_step_def Let_def parts split: busop.split)
  with assms show ?thesis
    by (cases bop) (auto simp: cfg_def config_reg_def adc_rdata_def dev_effect_def cfg_trunc_def)
qed

subsection \<open>The chip refines the abstract store\<close>

lemma bus_effect_other: "\<not> config_reg d j \<Longrightarrow> bus_effect d bop m j = m j"
  by (cases bop) (auto simp: dev_effect_def config_reg_def)

lemma bus_effect_cong:
  assumes "config_reg d j" and "\<And>k. config_reg d k \<Longrightarrow> m k = m' k"
  shows "bus_effect d bop m j = bus_effect d bop m' j"
proof -
  have "d = GPIO \<Longrightarrow> m 1 = m' 1" using assms(2) by (simp add: config_reg_def)
  then show ?thesis using assms by (cases bop) (auto simp: dev_effect_def)
qed

lemma dev_store_step: "dev_store d (soc_step p acc s) = bus_effect d (soc_port d acc) (dev_store d s)"
proof
  fix j
  let ?m = "\<lambda>k. dev_rdata no_pins d k s"
  show "dev_store d (soc_step p acc s) j = bus_effect d (soc_port d acc) (dev_store d s) j"
  proof (cases "config_reg d j")
    case True
    then have "dev_store d (soc_step p acc s) j = bus_effect d (soc_port d acc) ?m j"
      by (cases d)
         (simp_all add: dev_store_def dev_rdata_def uart_cfg spi_cfg i2c_cfg can_cfg
            timer_cfg adc_cfg gpio_cfg [where q = "soc_gpio_pins no_pins s"])
    also have "\<dots> = bus_effect d (soc_port d acc) (dev_store d s) j"
      using True by (rule bus_effect_cong) (simp add: dev_store_def)
    finally show ?thesis .
  next
    case False
    then show ?thesis by (simp add: bus_effect_other dev_store_def)
  qed
qed

lemma dev_store_wait [simp]: "dev_store d (w_soc (soc_wait w)) = dev_store d (w_soc w)"
  by (rule soc_wait_keeps [where P = "\<lambda>s. dev_store d s = dev_store d (w_soc w)"])
     (simp_all add: dev_store_step)

lemma dev_rdata_config:
  "config_reg d k \<Longrightarrow> dev_rdata p d k s = dev_store d s k"
  by (cases d) (auto simp: dev_store_def dev_rdata_def config_reg_def gpio_rdata_def)

lemma soc_store_rd: "soc_store (snd (soc_rd a w)) = soc_store w"
proof -
  have "bus_effect d (soc_port d (Load a)) m = m" for d m
    by (auto simp: soc_port_Load split: option.split)
  then show ?thesis
    by (auto simp: soc_store_def fun_eq_iff w_soc_rd dev_store_step split: option.split)
qed

lemma soc_store_wr: "soc_store (soc_wr a v w) = soc_effect (soc_decode a) v (soc_store w)"
proof
  fix r
  show "soc_store (soc_wr a v w) r = soc_effect (soc_decode a) v (soc_store w) r"
    by (auto simp: soc_store_def soc_effect_def w_soc_wr dev_store_step soc_port_Store
        split: option.split)
qed

lemma soc_rd_config:
  assumes "config_sel (soc_decode a)"
  shows "fst (soc_rd a w) = soc_store w (soc_decode a)"
proof -
  obtain d k where "soc_decode a = Some (d, k)" "config_reg d k"
    using assms by (auto simp: config_sel_def split: option.splits)
  then show ?thesis
    by (simp add: soc_rd_def Let_def soc_load_def dev_rdata_config soc_store_def)
qed

interpretation soc_regs: register_file soc_bus soc_store soc_decode config_sel soc_effect
  by unfold_locales (simp_all add: soc_bus_def soc_rd_config soc_store_rd soc_store_wr)

end
