(* ===== verification/Soc_Boot.thy ===== *)
theory Soc_Boot
  imports Soc_Config
begin

text \<open>
  A concrete chip: every peripheral with cleared memories, just out of reset, nothing connected to
  the pins, and a schedule without idle cycles. It is the input of the concrete instances that
  accompany the properties.
\<close>

definition gpio_zero :: gpio where
  "gpio_zero = \<lparr>gp_dir = 0, gp_out_reg = 0, gp_alt_pwm_sel = 0, gp_irq_enable = 0,
     gp_irq_status = 0, gp_irq_rise_mask = 0, gp_irq_fall_mask = 0, gp_last_input = 0,
     gp_debounce_enable = 0, gp_debounce_cycles = 0, gp_debounced_input = 0,
     gp_debounce_counter = (\<lambda>_. 0)\<rparr>"

definition uart_zero :: uart where
  "uart_zero = \<lparr>ua_ctrl = 0, ua_baud_div = 0, ua_irq_en = 0, ua_irq_status = 0,
     ua_rs485_ctrl = 0, ua_status = 0, ua_idle_cfg = 0, ua_lin_ctrl = 0, ua_lin_cmd = 0,
     ua_lin_slave_ctrl = 0, ua_lin_sync_byte = 0, ua_lin_id_byte = 0, ua_lin_header_valid = False,
     ua_lin_sync_error = False, ua_lin_header_state = 0, ua_lin_wait_delimiter = False,
     ua_lin_tx_header_id = 0, ua_lin_auto_header_pending = False, ua_lin_auto_state = 0,
     ua_lin_slave_armed = False, ua_lin_slave_tx_pending = False, ua_lin_slave_bytes_remaining = 0,
     ua_lin_slave_underflow = False, ua_tx_fifo = (\<lambda>_. 0), ua_tx_head = 0, ua_tx_tail = 0,
     ua_rx_fifo = (\<lambda>_. 0), ua_rx_head = 0, ua_rx_tail = 0, ua_tx = False, ua_tx_shift = 0,
     ua_tx_bits_remaining = 0, ua_tx_counter = 0, ua_rx_counter = 0, ua_idle_counter = 0,
     ua_idle_irq_pending = False, ua_rx_busy = False, ua_rx_sync1 = False, ua_rx_sync2 = False,
     ua_rx_bit_index = 0, ua_rx_total_bits = 0, ua_rx_data_latch = 0, ua_rx_parity_latch = False,
     ua_rx_parity_enable_latch = False, ua_rx_parity_odd_latch = False,
     ua_rx_two_stop_latch = False, ua_rx_stop_error = False, ua_rx_start_error = False,
     ua_lin_break_pending = False, ua_lin_break_active = False, ua_lin_break_counter = 0,
     ua_lin_break_tick = 0, ua_lin_rx_low_counter = 0, ua_lin_rx_tick = 0\<rparr>"

definition spi_zero :: spi where
  "spi_zero = \<lparr>spi_ctrl = 0, spi_clkdiv = 0, spi_cs_select = 0, spi_irq_en = 0,
     spi_irq_status = 0, spi_cs_active = 0, spi_cs_auto_count = 0, spi_tx_overflow = False,
     spi_rx_overflow = False, spi_cs_error = False, spi_last_fault_code = 0,
     spi_last_fault_byte = 0, spi_last_fault_cs = 0, spi_tx_head = 0, spi_tx_tail = 0,
     spi_tx_fifo = (\<lambda>_. 0), spi_rx_head = 0, spi_rx_tail = 0,
     spi_rx_fifo = (\<lambda>_. 0), spi_busy = False, spi_tx_shift = 0, spi_active_tx_byte = 0,
     spi_rx_shift = 0, spi_bit_index = 0, spi_div_counter = 0, spi_sck_phase = False\<rparr>"

definition i2c_zero :: i2c where
  "i2c_zero = \<lparr>i2c_ctrl = 0, i2c_clkdiv = 0, i2c_irq_en = 0, i2c_irq_status = 0,
     i2c_cmd_reg = 0, i2c_ack_error = False, i2c_rx_overflow = False, i2c_tx_overflow = False,
     i2c_last_fault_code = 0, i2c_last_fault_cmd = 0, i2c_last_fault_byte = 0, i2c_tx_head = 0,
     i2c_tx_tail = 0, i2c_tx_fifo = (\<lambda>_. 0), i2c_rx_head = 0, i2c_rx_tail = 0,
     i2c_rx_fifo = (\<lambda>_. 0), i2c_st = STATE_IDLE, i2c_scl_state = False,
     i2c_sda_state = False, i2c_sda_drive = False, i2c_bit_index = 0, i2c_shift_reg = 0,
     i2c_div_counter = 0\<rparr>"

definition can_zero :: can where
  "can_zero = \<lparr>can_ctrl = 0, can_status = 0, can_bittime = 0, can_err_counter = 0,
     can_irq_en = 0, can_irq_status = 0, can_filter_id = 0, can_filter_mask = 0, can_tx_id = 0,
     can_tx_dlc = 0, can_tx_data0 = 0, can_tx_data1 = 0, can_rx_fifo_id = (\<lambda>_. 0),
     can_rx_fifo_dlc = (\<lambda>_. 0), can_rx_fifo_data0 = (\<lambda>_. 0),
     can_rx_fifo_data1 = (\<lambda>_. 0), can_rx_head = 0, can_rx_tail = 0\<rparr>"

definition timer_zero :: timer where
  "timer_zero = \<lparr>tm_ctrl = 0, tm_prescale = 0, tm_counter = 0, tm_status = 0, tm_irq_en = 0,
     tm_cmp0 = 0, tm_cmp0_period = 0, tm_cmp1 = 0, tm_cmp1_period = 0, tm_wdt_load = 0,
     tm_wdt_counter = 0, tm_wdt_enable = False, tm_pwm0_period = 0, tm_pwm0_duty = 0,
     tm_pwm1_period = 0, tm_pwm1_duty = 0, tm_capture_ctrl = 0, tm_capture0_value = 0,
     tm_capture1_value = 0, tm_pwm0_counter = 0, tm_pwm1_counter = 0, tm_pwm0_out = False,
     tm_pwm1_out = False, tm_prescale_cnt = 0\<rparr>"

definition adc_zero :: adc where
  "adc_zero = \<lparr>adc_ctrl_enable = False, adc_ctrl_continuous = False, adc_ctrl_channel = 0,
     adc_manual_start_pending = False, adc_seq_mask = 0, adc_sample_div = 0,
     adc_sample_counter = 0, adc_seq_channel = 0, adc_busy = False, adc_active_channel = 0,
     adc_sample_hold = 0, adc_conv_counter = 0, adc_data_valid = False, adc_result_value = 0,
     adc_result_channel = 0, adc_data_overrun = False, adc_irq_en = 0, adc_irq_status = 0\<rparr>"

definition soc_at_reset :: soc where
  "soc_at_reset = soc_reset \<lparr>soc_gpio = gpio_zero, soc_uart = uart_zero, soc_spi = spi_zero,
     soc_i2c = i2c_zero, soc_can = can_zero, soc_timer = timer_zero, soc_adc = adc_zero\<rparr>"

definition world_at_reset :: world where
  "world_at_reset = \<lparr>w_soc = soc_at_reset, w_now = 0, w_pins = (\<lambda>_. no_pins), w_gap = (\<lambda>_. 0),
     w_dmem = (\<lambda>_. 0), w_dmem_stores = []\<rparr>"

lemma soc_at_reset_sel [simp]:
  "soc_gpio soc_at_reset = gpio_reset gpio_zero" "soc_uart soc_at_reset = ua_reset uart_zero"
  "soc_spi soc_at_reset = spi_reset spi_zero" "soc_i2c soc_at_reset = i2c_reset i2c_zero"
  "soc_can soc_at_reset = can_reset can_zero" "soc_timer soc_at_reset = timer_reset timer_zero"
  "soc_adc soc_at_reset = adc_reset adc_zero"
  by (simp_all add: soc_at_reset_def soc_reset_def)

lemma world_at_reset_sel [simp]:
  "w_soc world_at_reset = soc_at_reset" "w_now world_at_reset = 0"
  "w_pins world_at_reset = (\<lambda>_. no_pins)" "w_gap world_at_reset = (\<lambda>_. 0)"
  "w_dmem_stores world_at_reset = []"
  by (simp_all add: world_at_reset_def)

end
