(* ===== verification/Bounded_Fifo.thy ===== *)
theory Bounded_Fifo
  imports Ring_Fifo
begin

text \<open>
  The contract of a hardware receive queue as its driver sees it: a state stands for a list of at
  most \<open>cap\<close> entries, an arrival appends unless the queue is full, a pop removes the oldest entry.
  The receive FIFO of the CAN controller is an instance (theory Can_Queue).
\<close>

locale bounded_fifo =
  fixes q :: "'s \<Rightarrow> 'a list" and ok :: "'s \<Rightarrow> bool" and takes :: "'s \<Rightarrow> bool"
    and item :: "'s \<Rightarrow> 'a" and push :: "'s \<Rightarrow> 's" and pop :: "'s \<Rightarrow> 's" and cap :: nat
  assumes len_q: "ok s \<Longrightarrow> length (q s) \<le> cap"
    and push_ok: "ok s \<Longrightarrow> ok (push s)"
    and pop_ok: "ok s \<Longrightarrow> ok (pop s)"
    and push_q: "ok s \<Longrightarrow>
          q (push s) = (if takes s \<and> length (q s) < cap then q s @ [item s] else q s)"
    and pop_q: "ok s \<Longrightarrow> q (pop s) = tl (q s)"
begin

lemma pops_ok: "ok s \<Longrightarrow> ok ((pop ^^ n) s)"
  by (induction n) (simp_all add: pop_ok)

text \<open>\<open>n\<close> pops drop the \<open>n\<close> oldest entries, in order.\<close>

lemma pops_q: "ok s \<Longrightarrow> q ((pop ^^ n) s) = drop n (q s)"
  by (induction n) (simp_all add: pops_ok pop_q drop_Suc tl_drop)

lemma pops_drain: "ok s \<Longrightarrow> q ((pop ^^ cap) s) = []"
  by (simp add: pops_q len_q)

lemma pops_hd: "ok s \<Longrightarrow> n < length (q s) \<Longrightarrow> hd (q ((pop ^^ n) s)) = q s ! n"
  by (simp add: pops_q hd_drop_conv_nth)

text \<open>An arrival never disturbs the entries that are already queued.\<close>

lemma push_prefix: "ok s \<Longrightarrow> take (length (q s)) (q (push s)) = q s"
  by (simp add: push_q)

lemma push_full: "ok s \<Longrightarrow> length (q s) = cap \<Longrightarrow> q (push s) = q s"
  by (simp add: push_q)

lemma push_takes: "ok s \<Longrightarrow> takes s \<Longrightarrow> length (q s) < cap \<Longrightarrow> q (push s) = q s @ [item s]"
  by (simp add: push_q)

end

end
