(* ===== verification/Can_Queue.thy ===== *)
theory Can_Queue
  imports Soc_Boot Bounded_Fifo
begin

text \<open>
  The receive FIFO of the CAN controller as a bounded queue of frames: the frames in the FIFO
  in order of arrival, the abstract effect of every bus access on it, and the invariant of the
  controller's reachable states.
\<close>

subsection \<open>The queue a controller state stands for\<close>

record can_frame =
  fr_id :: u32
  fr_dlc :: u32
  fr_data0 :: u32
  fr_data1 :: u32

definition can_frame_at :: "can \<Rightarrow> nat \<Rightarrow> can_frame" where
  "can_frame_at s i = \<lparr>fr_id = can_rx_fifo_id s i, fr_dlc = can_rx_fifo_dlc s i,
     fr_data0 = can_rx_fifo_data0 s i, fr_data1 = can_rx_fifo_data1 s i\<rparr>"

definition can_tx_frame :: "can \<Rightarrow> can_frame" where
  "can_tx_frame s = \<lparr>fr_id = can_tx_id s, fr_dlc = can_tx_dlc s,
     fr_data0 = can_tx_data0 s, fr_data1 = can_tx_data1 s\<rparr>"

definition can_rx_queue :: "can \<Rightarrow> can_frame list" where
  "can_rx_queue s = ring_list 4 (can_frame_at s) (can_rx_head s) (can_rx_tail s)"

definition can_ok :: "can \<Rightarrow> bool" where
  "can_ok s \<longleftrightarrow> ring_count (can_rx_head s) (can_rx_tail s) \<le> 4"

definition can_copies :: "can \<Rightarrow> bool" where
  "can_copies s \<longleftrightarrow> bit (can_ctrl s) 0 \<and> can_accepts s"

lemma length_can_rx_queue: "length (can_rx_queue s) = unat (can_rx_entries s)"
  by (simp add: can_rx_queue_def ring_count_def can_rx_entries_def)

lemma can_ok_length: "can_ok s \<longleftrightarrow> length (can_rx_queue s) \<le> 4"
  by (simp add: can_ok_def can_rx_queue_def)

lemma can_entries_less: "can_rx_entries s < 4 \<longleftrightarrow> length (can_rx_queue s) < 4"
  by (simp add: length_can_rx_queue word_less_nat_alt)

lemma can_entries_0: "can_rx_entries s = 0 \<longleftrightarrow> can_rx_queue s = []"
  by (simp add: can_rx_entries_def can_rx_queue_def)

lemma can_rx_queue_cong:
  "can_rx_head n = can_rx_head s \<Longrightarrow> can_rx_tail n = can_rx_tail s \<Longrightarrow>
   can_frame_at n = can_frame_at s \<Longrightarrow> can_rx_queue n = can_rx_queue s"
  by (simp add: can_rx_queue_def)

subsection \<open>The abstract effect of an access\<close>

datatype can_event = Deliver can_frame | Discard | Flush | Keep

definition can_event_of :: "busop \<Rightarrow> can \<Rightarrow> can_event" where
  "can_event_of bop s =
     (case bop of
        Wr k v \<Rightarrow> if k = 0xC then (if can_copies s then Deliver (can_tx_frame s) else Keep)
                  else if k = 0x11 then (if bit v 1 then Flush else if bit v 0 then Discard else Keep)
                  else Keep
      | _ \<Rightarrow> Keep)"

fun can_queue_step :: "can_event \<Rightarrow> can_frame list \<Rightarrow> can_frame list" where
  "can_queue_step (Deliver f) q = (if length q < 4 then q @ [f] else q)"
| "can_queue_step Discard q = tl q"
| "can_queue_step Flush q = []"
| "can_queue_step Keep q = q"

lemma can_queue_step_bound: "length q \<le> 4 \<Longrightarrow> length (can_queue_step e q) \<le> 4"
  by (cases e) auto

lemma can_rx_push_queue:
  assumes "length (can_rx_queue s) < 4"
    and n: "can_frame_at n = can_frame_at s" "can_rx_tail n = can_rx_tail s"
  shows "can_rx_queue (can_rx_push s n) = can_rx_queue s @ [can_tx_frame s]"
proof -
  have "can_frame_at (can_rx_push s n) =
          (can_frame_at n)(unat (can_rx_head s) mod 4 := can_tx_frame s)"
    by (auto simp: can_rx_push_def can_frame_at_def can_tx_frame_def Let_def)
  moreover have "can_rx_head (can_rx_push s n) = can_rx_head s + 1"
    "can_rx_tail (can_rx_push s n) = can_rx_tail s"
    using n by (simp_all add: can_rx_push_def Let_def)
  ultimately show ?thesis
    using assms ring_list_push [of "can_rx_head s" "can_rx_tail s" 4]
    by (simp add: can_rx_queue_def)
qed

lemma can_frame_at_upd [simp]:
  "can_frame_at (s\<lparr>can_status := a\<rparr>) = can_frame_at s"
  "can_frame_at (s\<lparr>can_irq_status := a\<rparr>) = can_frame_at s"
  "can_frame_at (s\<lparr>can_err_counter := a\<rparr>) = can_frame_at s"
  "can_frame_at (s\<lparr>can_rx_tail := t\<rparr>) = can_frame_at s"
  "can_frame_at (s\<lparr>can_ctrl := a\<rparr>) = can_frame_at s"
  "can_frame_at (s\<lparr>can_bittime := a\<rparr>) = can_frame_at s"
  "can_frame_at (s\<lparr>can_irq_en := a\<rparr>) = can_frame_at s"
  "can_frame_at (s\<lparr>can_filter_id := a\<rparr>) = can_frame_at s"
  "can_frame_at (s\<lparr>can_filter_mask := a\<rparr>) = can_frame_at s"
  "can_frame_at (s\<lparr>can_tx_id := a\<rparr>) = can_frame_at s"
  "can_frame_at (s\<lparr>can_tx_dlc := a\<rparr>) = can_frame_at s"
  "can_frame_at (s\<lparr>can_tx_data0 := a\<rparr>) = can_frame_at s"
  "can_frame_at (s\<lparr>can_tx_data1 := a\<rparr>) = can_frame_at s"
  by (simp_all add: can_frame_at_def fun_eq_iff)

lemma can_rx_queue_upd [simp]:
  "can_rx_queue (s\<lparr>can_status := a\<rparr>) = can_rx_queue s"
  "can_rx_queue (s\<lparr>can_irq_status := a\<rparr>) = can_rx_queue s"
  "can_rx_queue (s\<lparr>can_err_counter := a\<rparr>) = can_rx_queue s"
  by (simp_all add: can_rx_queue_def)

lemma can_tx_cmd_queue:
  "can_rx_queue (can_tx_cmd s) =
     (if can_copies s then can_queue_step (Deliver (can_tx_frame s)) (can_rx_queue s)
      else can_rx_queue s)"
  by (simp add: can_tx_cmd_def can_copies_def Let_def can_entries_less can_rx_push_queue)

lemma can_pop_queue:
  "can_rx_queue (s\<lparr>can_rx_tail := can_rx_tail s + 1\<rparr>) =
     (if can_rx_queue s = [] then can_rx_queue (s\<lparr>can_rx_tail := can_rx_tail s + 1\<rparr>)
      else tl (can_rx_queue s))"
  using ring_list_pop [of "can_rx_head s" "can_rx_tail s" 4 "can_frame_at s"]
  by (simp add: can_rx_queue_def)

lemma can_fifo_ctrl_queue:
  "can_rx_queue (can_rx_fifo_ctrl v s) =
     (if bit v 1 then [] else if bit v 0 then tl (can_rx_queue s) else can_rx_queue s)"
  using can_pop_queue [of s]
  by (auto simp: can_rx_fifo_ctrl_def Let_def can_entries_0 can_rx_queue_def [of "_\<lparr>can_rx_tail := _\<rparr>"])

lemma can_irq_status_write_queue: "can_rx_queue (can_irq_status_write v s) = can_rx_queue s"
  by (simp add: can_irq_status_write_def Let_def)

lemma can_write_queue:
  assumes "k \<noteq> 0xC" "k \<noteq> 0x11"
  shows "can_rx_queue (can_write k v s) = can_rx_queue s"
  using assms
  by (simp add: can_write_def can_irq_status_write_queue) (simp add: can_rx_queue_def)

text \<open>Every access acts on the queue as its event does: the controller refines the queue.\<close>

lemma can_step_queue:
  "can_rx_queue (can_step bop s) = can_queue_step (can_event_of bop s) (can_rx_queue s)"
proof (cases bop)
  case (Wr k v)
  consider "k = 0xC" | "k = 0x11" | "k \<noteq> 0xC" "k \<noteq> 0x11" by blast
  then show ?thesis
    by cases (simp_all add: Wr can_step_def can_event_of_def can_write_def [of "0xC"]
        can_write_def [of "0x11"] can_tx_cmd_queue can_fifo_ctrl_queue can_write_queue)
qed (simp_all add: can_step_def can_event_of_def)

lemma can_step_ok: "can_ok s \<Longrightarrow> can_ok (can_step bop s)"
  by (simp add: can_ok_length can_step_queue can_queue_step_bound)

interpretation can_rx: bounded_fifo can_rx_queue can_ok can_copies can_tx_frame
    "can_step (Wr 0xC 1)" "can_step (Wr 0x11 1)" 4
  by unfold_locales (simp_all add: can_step_queue can_step_ok can_event_of_def can_ok_length)

subsection \<open>Reachable states\<close>

inductive can_reach :: "can \<Rightarrow> bool" where
  reset: "can_reach (can_reset s)"
| step: "can_reach s \<Longrightarrow> can_reach (can_step bop s)"

inductive_cases can_reach_cases: "can_reach s"

text \<open>
  The pending flag is only ever set while the queue holds a frame. The converse fails: a write
  of one to \<open>IRQ_STATUS[0]\<close> clears the flag and leaves the queue.
\<close>

definition can_pending_sound :: "can \<Rightarrow> bool" where
  "can_pending_sound s \<longleftrightarrow> (bit (can_status s) 0 \<longrightarrow> can_rx_queue s \<noteq> [])"

lemma can_reset_queue: "can_rx_queue (can_reset s) = []"
  by (simp add: can_rx_queue_def can_reset_def)

lemma can_tx_cmd_bit0:
  "bit (can_status (can_tx_cmd s)) 0 \<longleftrightarrow>
     bit (can_status s) 0 \<or> can_copies s \<and> length (can_rx_queue s) < 4"
  by (auto simp: can_tx_cmd_def can_copies_def can_rx_push_def can_entries_less Let_def)

lemma can_fifo_ctrl_bit0:
  "bit (can_status (can_rx_fifo_ctrl v s)) 0 \<longleftrightarrow>
     bit (can_status s) 0 \<and> \<not> bit v 1 \<and> (bit v 0 \<longrightarrow> length (can_rx_queue s) \<noteq> 1)"
proof -
  have one: "can_rx_entries s = 1 \<longleftrightarrow> length (can_rx_queue s) = 1"
    by (simp add: length_can_rx_queue word_unat_eq_iff)
  have "length (can_rx_queue s) = 1 \<Longrightarrow> can_rx_queue s \<noteq> []" by auto
  then show ?thesis by (auto simp: can_rx_fifo_ctrl_def Let_def can_entries_0 one)
qed

lemma can_write_bit0:
  assumes "k \<noteq> 0xC" "k \<noteq> 0x11"
  shows "bit (can_status (can_write k v s)) 0 \<longrightarrow> bit (can_status s) 0"
  using assms by (simp add: can_write_def can_irq_status_write_def Let_def)

lemma can_step_pending:
  assumes "can_pending_sound s"
  shows "can_pending_sound (can_step bop s)"
proof (cases bop)
  case (Wr k v)
  have tl: "tl q = [] \<longleftrightarrow> q = [] \<or> length q = 1" for q :: "can_frame list"
    by (cases q) auto
  consider "k = 0xC" | "k = 0x11" | "k \<noteq> 0xC" "k \<noteq> 0x11" by blast
  then show ?thesis
  proof cases
    case 1
    with assms Wr show ?thesis
      by (auto simp: can_pending_sound_def can_step_def can_write_def can_tx_cmd_queue can_tx_cmd_bit0)
  next
    case 2
    with assms Wr show ?thesis
      by (auto simp: can_pending_sound_def can_step_def can_write_def can_fifo_ctrl_queue
          can_fifo_ctrl_bit0 tl)
  next
    case 3
    with assms Wr can_write_bit0 [OF 3, of v s] show ?thesis
      by (simp add: can_pending_sound_def can_step_def can_write_queue)
  qed
qed (use assms in \<open>simp_all add: can_step_def\<close>)

lemma can_reach_inv: "can_reach s \<Longrightarrow> can_ok s \<and> can_pending_sound s"
proof (induction rule: can_reach.induct)
  case (reset s)
  show ?case by (simp add: can_ok_length can_pending_sound_def can_reset_queue)
      (simp add: can_reset_def)
qed (simp add: can_step_ok can_step_pending)

subsection \<open>Properties\<close>

text \<open>
  C14. The controller refines a bounded queue of four frames: whatever the bus does in a cycle, the
  frames in the receive FIFO afterwards are those of the abstract queue after the corresponding
  event (a delivered frame is appended unless four are waiting, a pop drops the oldest, a flush
  drops all, every other access keeps the queue).
\<close>

theorem can_refines_queue:
  "can_rx_queue (can_step bop s) = can_queue_step (can_event_of bop s) (can_rx_queue s)"
  by (rule can_step_queue)

text \<open>
  In every state the controller reaches from reset, under any sequence of bus accesses, at
  most four frames wait and the pending flag \<open>STATUS[0]\<close> is raised only while a frame waits.
\<close>

theorem can_reach_bounded:
  assumes "can_reach s"
  shows "length (can_rx_queue s) \<le> 4 \<and> (bit (can_status s) 0 \<longrightarrow> can_rx_queue s \<noteq> [])"
  using can_reach_inv [OF assms] by (simp add: can_ok_length can_pending_sound_def)

text \<open>A reset controller put into loopback that copied one frame: the flag is up, the frame waits.\<close>

definition can_one_frame :: can where
  "can_one_frame = can_step (Wr 0xC 1) (can_step (Wr 0x0 3) (can_reset can_zero))"

lemma can_reach_bounded_witness:
  "length (can_rx_queue can_one_frame) \<le> 4 \<and> can_rx_queue can_one_frame \<noteq> []"
proof -
  have "can_reach can_one_frame"
    unfolding can_one_frame_def by (intro can_reach.intros)
  moreover have "bit (can_status can_one_frame) 0"
    by (simp add: can_one_frame_def can_step_def can_write_def can_tx_cmd_def can_accepts_def
        can_rx_entries_def can_rx_push_def can_reset_def Let_def)
  ultimately show ?thesis using can_reach_bounded [of can_one_frame] by blast
qed

end
