(* ===== verification/Hal_Gpio.thy ===== *)
theory Hal_Gpio
  imports Mmio
begin

text \<open>
  The GPIO driver \<^verbatim>\<open>devkit/hal/gpio.h\<close>: register addresses and the operations on them.
\<close>

subsection \<open>Registers and fields\<close>

definition QAR_GPIO0_BASE :: u32 where
  [reg_addr]: "QAR_GPIO0_BASE = 0x40000000"

definition QAR_GPIO_REG :: "u32 \<Rightarrow> u32 \<Rightarrow> u32" where
  [reg_addr]: "QAR_GPIO_REG base offset = QAR_MMIO32 base offset"

definition QAR_GPIO_DIR :: "u32 \<Rightarrow> u32" where
  [reg_addr]: "QAR_GPIO_DIR base = QAR_GPIO_REG base 0x00"

definition QAR_GPIO_OUT :: "u32 \<Rightarrow> u32" where
  [reg_addr]: "QAR_GPIO_OUT base = QAR_GPIO_REG base 0x04"

definition QAR_GPIO_IN :: "u32 \<Rightarrow> u32" where
  [reg_addr]: "QAR_GPIO_IN base = QAR_GPIO_REG base 0x08"

definition QAR_GPIO_OUT_SET :: "u32 \<Rightarrow> u32" where
  [reg_addr]: "QAR_GPIO_OUT_SET base = QAR_GPIO_REG base 0x0C"

definition QAR_GPIO_OUT_CLR :: "u32 \<Rightarrow> u32" where
  [reg_addr]: "QAR_GPIO_OUT_CLR base = QAR_GPIO_REG base 0x10"

definition QAR_GPIO_IRQ_EN :: "u32 \<Rightarrow> u32" where
  [reg_addr]: "QAR_GPIO_IRQ_EN base = QAR_GPIO_REG base 0x14"

definition QAR_GPIO_IRQ_STATUS :: "u32 \<Rightarrow> u32" where
  [reg_addr]: "QAR_GPIO_IRQ_STATUS base = QAR_GPIO_REG base 0x18"

definition QAR_GPIO_ALT_PWM :: "u32 \<Rightarrow> u32" where
  [reg_addr]: "QAR_GPIO_ALT_PWM base = QAR_GPIO_REG base 0x1C"

definition QAR_GPIO_IRQ_RISE :: "u32 \<Rightarrow> u32" where
  [reg_addr]: "QAR_GPIO_IRQ_RISE base = QAR_GPIO_REG base 0x20"

definition QAR_GPIO_IRQ_FALL :: "u32 \<Rightarrow> u32" where
  [reg_addr]: "QAR_GPIO_IRQ_FALL base = QAR_GPIO_REG base 0x24"

definition QAR_GPIO_DB_EN :: "u32 \<Rightarrow> u32" where
  [reg_addr]: "QAR_GPIO_DB_EN base = QAR_GPIO_REG base 0x28"

definition QAR_GPIO_DB_CYCLES :: "u32 \<Rightarrow> u32" where
  [reg_addr]: "QAR_GPIO_DB_CYCLES base = QAR_GPIO_REG base 0x2C"

subsection \<open>Operations\<close>

definition qar_gpio_config_dir :: "'w bus \<Rightarrow> u32 \<Rightarrow> u32 \<Rightarrow> 'w \<Rightarrow> 'w" where
  [hal_defs]: "qar_gpio_config_dir B base dir_mask w = mmio_write B (QAR_GPIO_DIR base) dir_mask w"

definition qar_gpio_write :: "'w bus \<Rightarrow> u32 \<Rightarrow> u32 \<Rightarrow> 'w \<Rightarrow> 'w" where
  [hal_defs]: "qar_gpio_write B base value w = mmio_write B (QAR_GPIO_OUT base) value w"

definition qar_gpio_set :: "'w bus \<Rightarrow> u32 \<Rightarrow> u32 \<Rightarrow> 'w \<Rightarrow> 'w" where
  [hal_defs]: "qar_gpio_set B base msk w = mmio_write B (QAR_GPIO_OUT_SET base) msk w"

definition qar_gpio_clear :: "'w bus \<Rightarrow> u32 \<Rightarrow> u32 \<Rightarrow> 'w \<Rightarrow> 'w" where
  [hal_defs]: "qar_gpio_clear B base msk w = mmio_write B (QAR_GPIO_OUT_CLR base) msk w"

definition qar_gpio_read :: "'w bus \<Rightarrow> u32 \<Rightarrow> 'w \<Rightarrow> u32 \<times> 'w" where
  [hal_defs]: "qar_gpio_read B base w = mmio_read B (QAR_GPIO_IN base) w"

definition qar_gpio_config_irq :: "'w bus \<Rightarrow> u32 \<Rightarrow> u32 \<Rightarrow> u32 \<Rightarrow> u32 \<Rightarrow> 'w \<Rightarrow> 'w" where
  [hal_defs]: "qar_gpio_config_irq B base enable_mask rise_mask fall_mask w =
    (let w = mmio_write B (QAR_GPIO_IRQ_EN base) enable_mask w;
         w = mmio_write B (QAR_GPIO_IRQ_RISE base) rise_mask w
     in mmio_write B (QAR_GPIO_IRQ_FALL base) fall_mask w)"

definition qar_gpio_config_debounce :: "'w bus \<Rightarrow> u32 \<Rightarrow> u32 \<Rightarrow> u16 \<Rightarrow> 'w \<Rightarrow> 'w" where
  [hal_defs]: "qar_gpio_config_debounce B base msk cycles w =
    (let w = mmio_write B (QAR_GPIO_DB_EN base) msk w
     in mmio_write B (QAR_GPIO_DB_CYCLES base) (ucast cycles) w)"

definition qar_gpio_clear_irq :: "'w bus \<Rightarrow> u32 \<Rightarrow> u32 \<Rightarrow> 'w \<Rightarrow> 'w" where
  [hal_defs]: "qar_gpio_clear_irq B base msk w = mmio_write B (QAR_GPIO_IRQ_STATUS base) msk w"

end
