(* ===== verification/Hal_Timer.thy ===== *)
theory Hal_Timer
  imports Mmio
begin

text \<open>
  The timer, watchdog, PWM and capture driver \<^verbatim>\<open>devkit/hal/timer.h\<close>.
\<close>

subsection \<open>Registers and fields\<close>

definition QAR_TIMER0_BASE :: u32 where
  [reg_addr]: "QAR_TIMER0_BASE = 0x40005000"

definition QAR_TIMER_REG :: "u32 \<Rightarrow> u32 \<Rightarrow> u32" where
  [reg_addr]: "QAR_TIMER_REG base offset = QAR_MMIO32 base offset"

definition QAR_TIMER_CTRL :: "u32 \<Rightarrow> u32" where
  [reg_addr]: "QAR_TIMER_CTRL base = QAR_TIMER_REG base 0x00"

definition QAR_TIMER_PRESCALE :: "u32 \<Rightarrow> u32" where
  [reg_addr]: "QAR_TIMER_PRESCALE base = QAR_TIMER_REG base 0x04"

definition QAR_TIMER_COUNTER :: "u32 \<Rightarrow> u32" where
  [reg_addr]: "QAR_TIMER_COUNTER base = QAR_TIMER_REG base 0x08"

definition QAR_TIMER_STATUS :: "u32 \<Rightarrow> u32" where
  [reg_addr]: "QAR_TIMER_STATUS base = QAR_TIMER_REG base 0x0C"

definition QAR_TIMER_IRQ_EN :: "u32 \<Rightarrow> u32" where
  [reg_addr]: "QAR_TIMER_IRQ_EN base = QAR_TIMER_REG base 0x10"

definition QAR_TIMER_CMP0 :: "u32 \<Rightarrow> u32" where
  [reg_addr]: "QAR_TIMER_CMP0 base = QAR_TIMER_REG base 0x14"

definition QAR_TIMER_CMP0_PERIOD :: "u32 \<Rightarrow> u32" where
  [reg_addr]: "QAR_TIMER_CMP0_PERIOD base = QAR_TIMER_REG base 0x18"

definition QAR_TIMER_CMP1 :: "u32 \<Rightarrow> u32" where
  [reg_addr]: "QAR_TIMER_CMP1 base = QAR_TIMER_REG base 0x1C"

definition QAR_TIMER_CMP1_PERIOD :: "u32 \<Rightarrow> u32" where
  [reg_addr]: "QAR_TIMER_CMP1_PERIOD base = QAR_TIMER_REG base 0x20"

definition QAR_TIMER_WDT_LOAD :: "u32 \<Rightarrow> u32" where
  [reg_addr]: "QAR_TIMER_WDT_LOAD base = QAR_TIMER_REG base 0x24"

definition QAR_TIMER_WDT_CTRL :: "u32 \<Rightarrow> u32" where
  [reg_addr]: "QAR_TIMER_WDT_CTRL base = QAR_TIMER_REG base 0x28"

definition QAR_TIMER_WDT_COUNT :: "u32 \<Rightarrow> u32" where
  [reg_addr]: "QAR_TIMER_WDT_COUNT base = QAR_TIMER_REG base 0x2C"

definition QAR_TIMER_PWM0_PERIOD :: "u32 \<Rightarrow> u32" where
  [reg_addr]: "QAR_TIMER_PWM0_PERIOD base = QAR_TIMER_REG base 0x30"

definition QAR_TIMER_PWM0_DUTY :: "u32 \<Rightarrow> u32" where
  [reg_addr]: "QAR_TIMER_PWM0_DUTY base = QAR_TIMER_REG base 0x34"

definition QAR_TIMER_PWM1_PERIOD :: "u32 \<Rightarrow> u32" where
  [reg_addr]: "QAR_TIMER_PWM1_PERIOD base = QAR_TIMER_REG base 0x38"

definition QAR_TIMER_PWM1_DUTY :: "u32 \<Rightarrow> u32" where
  [reg_addr]: "QAR_TIMER_PWM1_DUTY base = QAR_TIMER_REG base 0x3C"

definition QAR_TIMER_PWM_STATUS :: "u32 \<Rightarrow> u32" where
  [reg_addr]: "QAR_TIMER_PWM_STATUS base = QAR_TIMER_REG base 0x40"

definition QAR_TIMER_CAPTURE_CTRL :: "u32 \<Rightarrow> u32" where
  [reg_addr]: "QAR_TIMER_CAPTURE_CTRL base = QAR_TIMER_REG base 0x44"

definition QAR_TIMER_CAPTURE0_VALUE :: "u32 \<Rightarrow> u32" where
  [reg_addr]: "QAR_TIMER_CAPTURE0_VALUE base = QAR_TIMER_REG base 0x48"

definition QAR_TIMER_CAPTURE1_VALUE :: "u32 \<Rightarrow> u32" where
  [reg_addr]: "QAR_TIMER_CAPTURE1_VALUE base = QAR_TIMER_REG base 0x4C"

definition QAR_TIMER_CTRL_ENABLE :: u32 where
  [reg_bits]: "QAR_TIMER_CTRL_ENABLE = push_bit 0 1"

definition QAR_TIMER_CTRL_CMP0_AUTO :: u32 where
  [reg_bits]: "QAR_TIMER_CTRL_CMP0_AUTO = push_bit 1 1"

definition QAR_TIMER_CTRL_CMP1_AUTO :: u32 where
  [reg_bits]: "QAR_TIMER_CTRL_CMP1_AUTO = push_bit 2 1"

definition QAR_TIMER_STATUS_CMP0 :: u32 where
  [reg_bits]: "QAR_TIMER_STATUS_CMP0 = push_bit 0 1"

definition QAR_TIMER_STATUS_CMP1 :: u32 where
  [reg_bits]: "QAR_TIMER_STATUS_CMP1 = push_bit 1 1"

definition QAR_TIMER_STATUS_WDT :: u32 where
  [reg_bits]: "QAR_TIMER_STATUS_WDT = push_bit 2 1"

definition QAR_TIMER_STATUS_CAPTURE0 :: u32 where
  [reg_bits]: "QAR_TIMER_STATUS_CAPTURE0 = push_bit 3 1"

definition QAR_TIMER_STATUS_CAPTURE1 :: u32 where
  [reg_bits]: "QAR_TIMER_STATUS_CAPTURE1 = push_bit 4 1"

subsection \<open>Operations\<close>

definition qar_timer_init :: "'w bus \<Rightarrow> u32 \<Rightarrow> u32 \<Rightarrow> u32 \<Rightarrow> 'w \<Rightarrow> 'w" where
  [hal_defs]: "qar_timer_init B base prescale ctrl_flags w =
    (let w = mmio_write B (QAR_TIMER_PRESCALE base) prescale w
     in mmio_write B (QAR_TIMER_CTRL base) (ctrl_flags OR QAR_TIMER_CTRL_ENABLE) w)"

definition qar_timer_set_compare0 :: "'w bus \<Rightarrow> u32 \<Rightarrow> u32 \<Rightarrow> u32 \<Rightarrow> 'w \<Rightarrow> 'w" where
  [hal_defs]: "qar_timer_set_compare0 B base value period w =
    (let w = mmio_write B (QAR_TIMER_CMP0 base) value w
     in mmio_write B (QAR_TIMER_CMP0_PERIOD base) period w)"

definition qar_timer_set_compare1 :: "'w bus \<Rightarrow> u32 \<Rightarrow> u32 \<Rightarrow> u32 \<Rightarrow> 'w \<Rightarrow> 'w" where
  [hal_defs]: "qar_timer_set_compare1 B base value period w =
    (let w = mmio_write B (QAR_TIMER_CMP1 base) value w
     in mmio_write B (QAR_TIMER_CMP1_PERIOD base) period w)"

definition qar_timer_enable_irq :: "'w bus \<Rightarrow> u32 \<Rightarrow> u32 \<Rightarrow> 'w \<Rightarrow> 'w" where
  [hal_defs]: "qar_timer_enable_irq B base msk w =
    mmio_update B (QAR_TIMER_IRQ_EN base) (\<lambda>v. v OR msk) w"

definition qar_timer_disable_irq :: "'w bus \<Rightarrow> u32 \<Rightarrow> u32 \<Rightarrow> 'w \<Rightarrow> 'w" where
  [hal_defs]: "qar_timer_disable_irq B base msk w =
    mmio_update B (QAR_TIMER_IRQ_EN base) (\<lambda>v. v AND NOT msk) w"

definition qar_timer_clear_status :: "'w bus \<Rightarrow> u32 \<Rightarrow> u32 \<Rightarrow> 'w \<Rightarrow> 'w" where
  [hal_defs]: "qar_timer_clear_status B base msk w = mmio_write B (QAR_TIMER_STATUS base) msk w"

definition qar_timer_counter :: "'w bus \<Rightarrow> u32 \<Rightarrow> 'w \<Rightarrow> u32 \<times> 'w" where
  [hal_defs]: "qar_timer_counter B base w = mmio_read B (QAR_TIMER_COUNTER base) w"

definition qar_timer_config_wdt :: "'w bus \<Rightarrow> u32 \<Rightarrow> u32 \<Rightarrow> c_int \<Rightarrow> 'w \<Rightarrow> 'w" where
  [hal_defs]: "qar_timer_config_wdt B base load enable_now w =
    (let w = mmio_write B (QAR_TIMER_WDT_LOAD base) load w
     in mmio_write B (QAR_TIMER_WDT_CTRL base)
          ((if c_true enable_now then 0x1 else 0x0) OR (if c_true enable_now then 0x2 else 0x0)) w)"

definition qar_timer_kick_wdt :: "'w bus \<Rightarrow> u32 \<Rightarrow> 'w \<Rightarrow> 'w" where
  [hal_defs]: "qar_timer_kick_wdt B base w = mmio_write B (QAR_TIMER_WDT_CTRL base) 0x3 w"

definition qar_timer_config_pwm :: "'w bus \<Rightarrow> u32 \<Rightarrow> u32 \<Rightarrow> u32 \<Rightarrow> u32 \<Rightarrow> 'w \<Rightarrow> 'w" where
  [hal_defs]: "qar_timer_config_pwm B base channel period duty w =
    (if channel = 0
     then (let w = mmio_write B (QAR_TIMER_PWM0_PERIOD base) period w
           in mmio_write B (QAR_TIMER_PWM0_DUTY base) duty w)
     else (let w = mmio_write B (QAR_TIMER_PWM1_PERIOD base) period w
           in mmio_write B (QAR_TIMER_PWM1_DUTY base) duty w))"

definition qar_timer_pwm_status :: "'w bus \<Rightarrow> u32 \<Rightarrow> 'w \<Rightarrow> u32 \<times> 'w" where
  [hal_defs]: "qar_timer_pwm_status B base w =
    (case mmio_read B (QAR_TIMER_PWM_STATUS base) w of (v, w) \<Rightarrow> (v AND 0x3, w))"

definition qar_timer_manual_capture :: "'w bus \<Rightarrow> u32 \<Rightarrow> u32 \<Rightarrow> 'w \<Rightarrow> u32 \<times> 'w" where
  [hal_defs]: "qar_timer_manual_capture B base channel w =
    (let msk = (if channel = 0 then 0x1 else 0x2);
         w = mmio_write B (QAR_TIMER_CAPTURE_CTRL base) msk w
     in if channel = 0 then mmio_read B (QAR_TIMER_CAPTURE0_VALUE base) w
        else mmio_read B (QAR_TIMER_CAPTURE1_VALUE base) w)"

end
