(* ===== verification/Hal_Uart.thy ===== *)
theory Hal_Uart
  imports Mmio
begin

text \<open>
  The UART, RS-485 and LIN driver \<^verbatim>\<open>devkit/hal/uart.h\<close>. \<open>qar_uart_write\<close> waits for room in the
  transmit FIFO, so it need not return: its result is an option.
\<close>

subsection \<open>Registers and fields\<close>

definition QAR_UART0_BASE :: u32 where
  [reg_addr]: "QAR_UART0_BASE = 0x40001000"

definition QAR_UART1_BASE :: u32 where
  [reg_addr]: "QAR_UART1_BASE = 0x40002000"

definition QAR_UART_REG :: "u32 \<Rightarrow> u32 \<Rightarrow> u32" where
  [reg_addr]: "QAR_UART_REG base offset = QAR_MMIO32 base offset"

definition QAR_UART_DATA :: "u32 \<Rightarrow> u32" where
  [reg_addr]: "QAR_UART_DATA base = QAR_UART_REG base 0x00"

definition QAR_UART_STATUS :: "u32 \<Rightarrow> u32" where
  [reg_addr]: "QAR_UART_STATUS base = QAR_UART_REG base 0x04"

definition QAR_UART_CTRL :: "u32 \<Rightarrow> u32" where
  [reg_addr]: "QAR_UART_CTRL base = QAR_UART_REG base 0x08"

definition QAR_UART_BAUD :: "u32 \<Rightarrow> u32" where
  [reg_addr]: "QAR_UART_BAUD base = QAR_UART_REG base 0x0C"

definition QAR_UART_IRQ_EN :: "u32 \<Rightarrow> u32" where
  [reg_addr]: "QAR_UART_IRQ_EN base = QAR_UART_REG base 0x10"

definition QAR_UART_IRQ_STATUS :: "u32 \<Rightarrow> u32" where
  [reg_addr]: "QAR_UART_IRQ_STATUS base = QAR_UART_REG base 0x14"

definition QAR_UART_RS485 :: "u32 \<Rightarrow> u32" where
  [reg_addr]: "QAR_UART_RS485 base = QAR_UART_REG base 0x18"

definition QAR_UART_IDLE_CFG :: "u32 \<Rightarrow> u32" where
  [reg_addr]: "QAR_UART_IDLE_CFG base = QAR_UART_REG base 0x1C"

definition QAR_UART_LIN_CTRL :: "u32 \<Rightarrow> u32" where
  [reg_addr]: "QAR_UART_LIN_CTRL base = QAR_UART_REG base 0x20"

definition QAR_UART_LIN_CMD :: "u32 \<Rightarrow> u32" where
  [reg_addr]: "QAR_UART_LIN_CMD base = QAR_UART_REG base 0x24"

definition QAR_UART_LIN_TX_ID :: "u32 \<Rightarrow> u32" where
  [reg_addr]: "QAR_UART_LIN_TX_ID base = QAR_UART_REG base 0x28"

definition QAR_UART_LIN_HEADER :: "u32 \<Rightarrow> u32" where
  [reg_addr]: "QAR_UART_LIN_HEADER base = QAR_UART_REG base 0x2C"

definition QAR_UART_LIN_SLAVE :: "u32 \<Rightarrow> u32" where
  [reg_addr]: "QAR_UART_LIN_SLAVE base = QAR_UART_REG base 0x30"

definition QAR_UART_CTRL_ENABLE :: u32 where
  [reg_bits]: "QAR_UART_CTRL_ENABLE = push_bit 0 1"

definition QAR_UART_CTRL_PARITY_EN :: u32 where
  [reg_bits]: "QAR_UART_CTRL_PARITY_EN = push_bit 1 1"

definition QAR_UART_CTRL_PARITY_ODD :: u32 where
  [reg_bits]: "QAR_UART_CTRL_PARITY_ODD = push_bit 2 1"

definition QAR_UART_CTRL_TWO_STOP :: u32 where
  [reg_bits]: "QAR_UART_CTRL_TWO_STOP = push_bit 3 1"

definition QAR_UART_STATUS_RX_READY :: u32 where
  [reg_bits]: "QAR_UART_STATUS_RX_READY = push_bit 0 1"

definition QAR_UART_STATUS_TX_SPACE :: u32 where
  [reg_bits]: "QAR_UART_STATUS_TX_SPACE = push_bit 1 1"

definition QAR_UART_STATUS_FRAMING :: u32 where
  [reg_bits]: "QAR_UART_STATUS_FRAMING = push_bit 2 1"

definition QAR_UART_STATUS_OVERRUN :: u32 where
  [reg_bits]: "QAR_UART_STATUS_OVERRUN = push_bit 3 1"

definition QAR_UART_STATUS_TX_BUSY :: u32 where
  [reg_bits]: "QAR_UART_STATUS_TX_BUSY = push_bit 4 1"

definition QAR_UART_STATUS_PARITY :: u32 where
  [reg_bits]: "QAR_UART_STATUS_PARITY = push_bit 5 1"

definition QAR_UART_STATUS_IDLE :: u32 where
  [reg_bits]: "QAR_UART_STATUS_IDLE = push_bit 6 1"

definition QAR_UART_STATUS_LIN_BREAK :: u32 where
  [reg_bits]: "QAR_UART_STATUS_LIN_BREAK = push_bit 7 1"

definition QAR_UART_STATUS_LIN_HEADER :: u32 where
  [reg_bits]: "QAR_UART_STATUS_LIN_HEADER = push_bit 8 1"

definition QAR_UART_STATUS_LIN_SYNCERR :: u32 where
  [reg_bits]: "QAR_UART_STATUS_LIN_SYNCERR = push_bit 9 1"

definition QAR_UART_STATUS_LIN_RESP :: u32 where
  [reg_bits]: "QAR_UART_STATUS_LIN_RESP = push_bit 10 1"

definition QAR_UART_STATUS_LIN_UNDERFLOW :: u32 where
  [reg_bits]: "QAR_UART_STATUS_LIN_UNDERFLOW = push_bit 11 1"

definition QAR_UART_IRQ_RX_READY :: u32 where
  [reg_bits]: "QAR_UART_IRQ_RX_READY = push_bit 0 1"

definition QAR_UART_IRQ_TX_EMPTY :: u32 where
  [reg_bits]: "QAR_UART_IRQ_TX_EMPTY = push_bit 1 1"

definition QAR_UART_IRQ_ERROR :: u32 where
  [reg_bits]: "QAR_UART_IRQ_ERROR = push_bit 2 1"

definition QAR_UART_IRQ_IDLE :: u32 where
  [reg_bits]: "QAR_UART_IRQ_IDLE = push_bit 3 1"

definition QAR_UART_IRQ_LIN_BREAK :: u32 where
  [reg_bits]: "QAR_UART_IRQ_LIN_BREAK = push_bit 4 1"

definition QAR_UART_IRQ_LIN_HEADER :: u32 where
  [reg_bits]: "QAR_UART_IRQ_LIN_HEADER = push_bit 5 1"

definition QAR_UART_IRQ_LIN_SLAVE :: u32 where
  [reg_bits]: "QAR_UART_IRQ_LIN_SLAVE = push_bit 6 1"

subsection \<open>Operations\<close>

definition qar_uart_init :: "'w bus \<Rightarrow> u32 \<Rightarrow> u32 \<Rightarrow> u32 \<Rightarrow> 'w \<Rightarrow> 'w" where
  [hal_defs]: "qar_uart_init B base baud_divider ctrl_flags w =
    (let w = mmio_write B (QAR_UART_BAUD base) baud_divider w;
         w = mmio_write B (QAR_UART_CTRL base) (ctrl_flags OR QAR_UART_CTRL_ENABLE) w;
         w = mmio_write B (QAR_UART_IRQ_EN base) 0x0 w;
         w = mmio_write B (QAR_UART_IDLE_CFG base) 0 w
     in mmio_write B (QAR_UART_LIN_CTRL base) 13 w)"

definition qar_uart_set_idle_cycles :: "'w bus \<Rightarrow> u32 \<Rightarrow> u32 \<Rightarrow> 'w \<Rightarrow> 'w" where
  [hal_defs]: "qar_uart_set_idle_cycles B base cycles w =
    mmio_write B (QAR_UART_IDLE_CFG base) cycles w"

definition qar_uart_enable_irq :: "'w bus \<Rightarrow> u32 \<Rightarrow> u32 \<Rightarrow> 'w \<Rightarrow> 'w" where
  [hal_defs]: "qar_uart_enable_irq B base msk w =
    mmio_update B (QAR_UART_IRQ_EN base) (\<lambda>v. v OR msk) w"

definition qar_uart_disable_irq :: "'w bus \<Rightarrow> u32 \<Rightarrow> u32 \<Rightarrow> 'w \<Rightarrow> 'w" where
  [hal_defs]: "qar_uart_disable_irq B base msk w =
    mmio_update B (QAR_UART_IRQ_EN base) (\<lambda>v. v AND NOT msk) w"

definition qar_uart_clear_irq :: "'w bus \<Rightarrow> u32 \<Rightarrow> u32 \<Rightarrow> 'w \<Rightarrow> 'w" where
  [hal_defs]: "qar_uart_clear_irq B base msk w = mmio_write B (QAR_UART_IRQ_STATUS base) msk w"

definition qar_uart_config_rs485 :: "'w bus \<Rightarrow> u32 \<Rightarrow> u32 \<Rightarrow> 'w \<Rightarrow> 'w" where
  [hal_defs]: "qar_uart_config_rs485 B base value w = mmio_write B (QAR_UART_RS485 base) value w"

definition qar_uart_lin_set_break :: "'w bus \<Rightarrow> u32 \<Rightarrow> u32 \<Rightarrow> 'w \<Rightarrow> 'w" where
  [hal_defs]: "qar_uart_lin_set_break B base bit_periods w =
    mmio_write B (QAR_UART_LIN_CTRL base) bit_periods w"

definition qar_uart_lin_request_break :: "'w bus \<Rightarrow> u32 \<Rightarrow> 'w \<Rightarrow> 'w" where
  [hal_defs]: "qar_uart_lin_request_break B base w = mmio_write B (QAR_UART_LIN_CMD base) 0x1 w"

definition qar_uart_lin_clear_break :: "'w bus \<Rightarrow> u32 \<Rightarrow> 'w \<Rightarrow> 'w" where
  [hal_defs]: "qar_uart_lin_clear_break B base w = mmio_write B (QAR_UART_LIN_CMD base) 0x2 w"

definition qar_uart_lin_arm_header :: "'w bus \<Rightarrow> u32 \<Rightarrow> 'w \<Rightarrow> 'w" where
  [hal_defs]: "qar_uart_lin_arm_header B base w = mmio_write B (QAR_UART_LIN_CMD base) 0x4 w"

definition qar_uart_lin_set_tx_id :: "'w bus \<Rightarrow> u32 \<Rightarrow> u8 \<Rightarrow> 'w \<Rightarrow> 'w" where
  [hal_defs]: "qar_uart_lin_set_tx_id B base ident w =
    mmio_write B (QAR_UART_LIN_TX_ID base) (ucast ident) w"

definition qar_uart_lin_start_auto_header :: "'w bus \<Rightarrow> u32 \<Rightarrow> 'w \<Rightarrow> 'w" where
  [hal_defs]: "qar_uart_lin_start_auto_header B base w = mmio_write B (QAR_UART_LIN_CMD base) 0x8 w"

definition qar_uart_lin_config_slave :: "'w bus \<Rightarrow> u32 \<Rightarrow> u8 \<Rightarrow> u8 \<Rightarrow> c_int \<Rightarrow> 'w \<Rightarrow> 'w" where
  [hal_defs]: "qar_uart_lin_config_slave B base match_id len enable w =
    (let value = push_bit 8 (ucast match_id) OR (ucast len AND 0xFF);
         value = (if c_true enable then value OR push_bit 16 1 else value)
     in mmio_write B (QAR_UART_LIN_SLAVE base) value w)"

definition qar_uart_lin_arm_slave :: "'w bus \<Rightarrow> u32 \<Rightarrow> 'w \<Rightarrow> 'w" where
  [hal_defs]: "qar_uart_lin_arm_slave B base w = mmio_write B (QAR_UART_LIN_CMD base) 0x10 w"

definition qar_uart_lin_cancel_slave :: "'w bus \<Rightarrow> u32 \<Rightarrow> 'w \<Rightarrow> 'w" where
  [hal_defs]: "qar_uart_lin_cancel_slave B base w = mmio_write B (QAR_UART_LIN_CMD base) 0x20 w"

definition qar_uart_lin_header :: "'w bus \<Rightarrow> u32 \<Rightarrow> 'w \<Rightarrow> u32 \<times> 'w" where
  [hal_defs]: "qar_uart_lin_header B base w = mmio_read B (QAR_UART_LIN_HEADER base) w"

definition qar_uart_status :: "'w bus \<Rightarrow> u32 \<Rightarrow> 'w \<Rightarrow> u32 \<times> 'w" where
  [hal_defs]: "qar_uart_status B base w = mmio_read B (QAR_UART_STATUS base) w"

definition qar_uart_can_write :: "'w bus \<Rightarrow> u32 \<Rightarrow> 'w \<Rightarrow> c_int \<times> 'w" where
  [hal_defs]: "qar_uart_can_write B base w =
    (case mmio_read B (QAR_UART_STATUS base) w of
       (v, w) \<Rightarrow> (c_bool (v AND QAR_UART_STATUS_TX_SPACE \<noteq> 0), w))"

definition qar_uart_write :: "'w bus \<Rightarrow> u32 \<Rightarrow> u8 \<Rightarrow> 'w \<Rightarrow> 'w option" where
  [hal_defs]: "qar_uart_write B base byte w =
    (case poll_until (qar_uart_can_write B base) c_true w of
       None \<Rightarrow> None
     | Some (_, w) \<Rightarrow> Some (mmio_write B (QAR_UART_DATA base) (ucast byte) w))"

definition qar_uart_available :: "'w bus \<Rightarrow> u32 \<Rightarrow> 'w \<Rightarrow> c_int \<times> 'w" where
  [hal_defs]: "qar_uart_available B base w =
    (case mmio_read B (QAR_UART_STATUS base) w of
       (v, w) \<Rightarrow> (c_bool (v AND QAR_UART_STATUS_RX_READY \<noteq> 0), w))"

definition qar_uart_read :: "'w bus \<Rightarrow> u32 \<Rightarrow> 'w \<Rightarrow> c_int \<times> 'w" where
  [hal_defs]: "qar_uart_read B base w =
    (case qar_uart_available B base w of
       (avail, w) \<Rightarrow>
         if \<not> c_true avail then (-1, w)
         else (case mmio_read B (QAR_UART_DATA base) w of (v, w) \<Rightarrow> (v AND 0xFF, w)))"

end
