(* ===== verification/Hal_Can.thy ===== *)
theory Hal_Can
  imports Mmio
begin

text \<open>
  The CAN driver \<^verbatim>\<open>devkit/hal/can.h\<close>. A pointer argument of \<open>qar_can_read_payload\<close> is given by
  whether it is non-null; what is stored through it is the \<open>Some\<close> of the result.
\<close>

subsection \<open>Registers and fields\<close>

definition QAR_CAN0_BASE :: u32 where
  [reg_addr]: "QAR_CAN0_BASE = 0x40003000"

definition QAR_CAN_REG :: "u32 \<Rightarrow> u32 \<Rightarrow> u32" where
  [reg_addr]: "QAR_CAN_REG base offset = QAR_MMIO32 base offset"

definition QAR_CAN_CTRL :: "u32 \<Rightarrow> u32" where
  [reg_addr]: "QAR_CAN_CTRL base = QAR_CAN_REG base 0x00"

definition QAR_CAN_STATUS :: "u32 \<Rightarrow> u32" where
  [reg_addr]: "QAR_CAN_STATUS base = QAR_CAN_REG base 0x04"

definition QAR_CAN_BITTIME :: "u32 \<Rightarrow> u32" where
  [reg_addr]: "QAR_CAN_BITTIME base = QAR_CAN_REG base 0x08"

definition QAR_CAN_FILTER_ID :: "u32 \<Rightarrow> u32" where
  [reg_addr]: "QAR_CAN_FILTER_ID base = QAR_CAN_REG base 0x18"

definition QAR_CAN_FILTER_MASK :: "u32 \<Rightarrow> u32" where
  [reg_addr]: "QAR_CAN_FILTER_MASK base = QAR_CAN_REG base 0x1C"

definition QAR_CAN_IRQ_EN :: "u32 \<Rightarrow> u32" where
  [reg_addr]: "QAR_CAN_IRQ_EN base = QAR_CAN_REG base 0x10"

definition QAR_CAN_IRQ_STATUS :: "u32 \<Rightarrow> u32" where
  [reg_addr]: "QAR_CAN_IRQ_STATUS base = QAR_CAN_REG base 0x14"

definition QAR_CAN_TX_ID :: "u32 \<Rightarrow> u32" where
  [reg_addr]: "QAR_CAN_TX_ID base = QAR_CAN_REG base 0x20"

definition QAR_CAN_TX_DLC :: "u32 \<Rightarrow> u32" where
  [reg_addr]: "QAR_CAN_TX_DLC base = QAR_CAN_REG base 0x24"

definition QAR_CAN_TX_DATA0 :: "u32 \<Rightarrow> u32" where
  [reg_addr]: "QAR_CAN_TX_DATA0 base = QAR_CAN_REG base 0x28"

definition QAR_CAN_TX_DATA1 :: "u32 \<Rightarrow> u32" where
  [reg_addr]: "QAR_CAN_TX_DATA1 base = QAR_CAN_REG base 0x2C"

definition QAR_CAN_TX_CMD :: "u32 \<Rightarrow> u32" where
  [reg_addr]: "QAR_CAN_TX_CMD base = QAR_CAN_REG base 0x30"

definition QAR_CAN_RX_ID :: "u32 \<Rightarrow> u32" where
  [reg_addr]: "QAR_CAN_RX_ID base = QAR_CAN_REG base 0x34"

definition QAR_CAN_RX_DLC :: "u32 \<Rightarrow> u32" where
  [reg_addr]: "QAR_CAN_RX_DLC base = QAR_CAN_REG base 0x38"

definition QAR_CAN_RX_DATA0 :: "u32 \<Rightarrow> u32" where
  [reg_addr]: "QAR_CAN_RX_DATA0 base = QAR_CAN_REG base 0x3C"

definition QAR_CAN_RX_DATA1 :: "u32 \<Rightarrow> u32" where
  [reg_addr]: "QAR_CAN_RX_DATA1 base = QAR_CAN_REG base 0x40"

definition QAR_CAN_RX_FIFO :: "u32 \<Rightarrow> u32" where
  [reg_addr]: "QAR_CAN_RX_FIFO base = QAR_CAN_REG base 0x44"

definition QAR_CAN_CTRL_ENABLE :: u32 where
  [reg_bits]: "QAR_CAN_CTRL_ENABLE = push_bit 0 1"

definition QAR_CAN_CTRL_LOOPBACK :: u32 where
  [reg_bits]: "QAR_CAN_CTRL_LOOPBACK = push_bit 1 1"

definition QAR_CAN_CTRL_LISTEN_ONLY :: u32 where
  [reg_bits]: "QAR_CAN_CTRL_LISTEN_ONLY = push_bit 2 1"

definition QAR_CAN_CTRL_FILTER_BYPASS :: u32 where
  [reg_bits]: "QAR_CAN_CTRL_FILTER_BYPASS = push_bit 3 1"

definition QAR_CAN_STATUS_RX_PENDING :: u32 where
  [reg_bits]: "QAR_CAN_STATUS_RX_PENDING = push_bit 0 1"

definition QAR_CAN_STATUS_TX_IDLE :: u32 where
  [reg_bits]: "QAR_CAN_STATUS_TX_IDLE = push_bit 1 1"

definition QAR_CAN_STATUS_RX_OVERFLOW :: u32 where
  [reg_bits]: "QAR_CAN_STATUS_RX_OVERFLOW = push_bit 2 1"

definition QAR_CAN_IRQ_RX_READY :: u32 where
  [reg_bits]: "QAR_CAN_IRQ_RX_READY = push_bit 0 1"

definition QAR_CAN_IRQ_TX_DONE :: u32 where
  [reg_bits]: "QAR_CAN_IRQ_TX_DONE = push_bit 1 1"

definition QAR_CAN_IRQ_RX_OVF :: u32 where
  [reg_bits]: "QAR_CAN_IRQ_RX_OVF = push_bit 2 1"

subsection \<open>Operations\<close>

definition qar_can_init :: "'w bus \<Rightarrow> u32 \<Rightarrow> u32 \<Rightarrow> u32 \<Rightarrow> 'w \<Rightarrow> 'w" where
  [hal_defs]: "qar_can_init B base bittime ctrl_flags w =
    (let w = mmio_write B (QAR_CAN_BITTIME base) bittime w
     in mmio_write B (QAR_CAN_CTRL base) (ctrl_flags OR QAR_CAN_CTRL_ENABLE) w)"

definition qar_can_set_ctrl :: "'w bus \<Rightarrow> u32 \<Rightarrow> u32 \<Rightarrow> 'w \<Rightarrow> 'w" where
  [hal_defs]: "qar_can_set_ctrl B base ctrl_flags w = mmio_write B (QAR_CAN_CTRL base) ctrl_flags w"

definition qar_can_enable_irq :: "'w bus \<Rightarrow> u32 \<Rightarrow> u32 \<Rightarrow> 'w \<Rightarrow> 'w" where
  [hal_defs]: "qar_can_enable_irq B base msk w =
    (let w = mmio_write B (QAR_CAN_IRQ_STATUS base) msk w
     in mmio_update B (QAR_CAN_IRQ_EN base) (\<lambda>v. v OR msk) w)"

definition qar_can_disable_irq :: "'w bus \<Rightarrow> u32 \<Rightarrow> u32 \<Rightarrow> 'w \<Rightarrow> 'w" where
  [hal_defs]: "qar_can_disable_irq B base msk w =
    mmio_update B (QAR_CAN_IRQ_EN base) (\<lambda>v. v AND NOT msk) w"

definition qar_can_clear_irq :: "'w bus \<Rightarrow> u32 \<Rightarrow> u32 \<Rightarrow> 'w \<Rightarrow> 'w" where
  [hal_defs]: "qar_can_clear_irq B base msk w = mmio_write B (QAR_CAN_IRQ_STATUS base) msk w"

definition qar_can_send_word ::
  "'w bus \<Rightarrow> u32 \<Rightarrow> u32 \<Rightarrow> u32 \<Rightarrow> u32 \<Rightarrow> u8 \<Rightarrow> 'w \<Rightarrow> 'w" where
  [hal_defs]: "qar_can_send_word B base ident data0 data1 dlc w =
    (let w = mmio_write B (QAR_CAN_TX_ID base) ident w;
         w = mmio_write B (QAR_CAN_TX_DLC base) (ucast dlc) w;
         w = mmio_write B (QAR_CAN_TX_DATA0 base) data0 w;
         w = mmio_write B (QAR_CAN_TX_DATA1 base) data1 w
     in mmio_write B (QAR_CAN_TX_CMD base) 1 w)"

definition qar_can_rx_ready :: "'w bus \<Rightarrow> u32 \<Rightarrow> 'w \<Rightarrow> c_int \<times> 'w" where
  [hal_defs]: "qar_can_rx_ready B base w =
    (case mmio_read B (QAR_CAN_STATUS base) w of
       (v, w) \<Rightarrow> (c_bool (v AND QAR_CAN_STATUS_RX_PENDING \<noteq> 0), w))"

text \<open>\<open>if (p) *p = REG;\<close>\<close>

definition read_through :: "'w bus \<Rightarrow> bool \<Rightarrow> u32 \<Rightarrow> 'w \<Rightarrow> u32 option \<times> 'w" where
  [hal_defs]: "read_through B p a w =
    (if p then (case mmio_read B a w of (v, w) \<Rightarrow> (Some v, w)) else (None, w))"

definition qar_can_read_payload ::
  "'w bus \<Rightarrow> u32 \<Rightarrow> bool \<Rightarrow> bool \<Rightarrow> bool \<Rightarrow> 'w \<Rightarrow> (u32 option \<times> u32 option \<times> u32 option) \<times> 'w" where
  [hal_defs]: "qar_can_read_payload B base ident data0 data1 w =
    (case read_through B ident (QAR_CAN_RX_ID base) w of (i, w) \<Rightarrow>
       (case read_through B data0 (QAR_CAN_RX_DATA0 base) w of (d0, w) \<Rightarrow>
          (case read_through B data1 (QAR_CAN_RX_DATA1 base) w of (d1, w) \<Rightarrow> ((i, d0, d1), w))))"

definition qar_can_pop_rx :: "'w bus \<Rightarrow> u32 \<Rightarrow> 'w \<Rightarrow> 'w" where
  [hal_defs]: "qar_can_pop_rx B base w = mmio_write B (QAR_CAN_RX_FIFO base) 0x1 w"

definition qar_can_flush_rx :: "'w bus \<Rightarrow> u32 \<Rightarrow> 'w \<Rightarrow> 'w" where
  [hal_defs]: "qar_can_flush_rx B base w = mmio_write B (QAR_CAN_RX_FIFO base) 0x2 w"

definition qar_can_rx_count :: "'w bus \<Rightarrow> u32 \<Rightarrow> 'w \<Rightarrow> u32 \<times> 'w" where
  [hal_defs]: "qar_can_rx_count B base w =
    (case mmio_read B (QAR_CAN_RX_FIFO base) w of (v, w) \<Rightarrow> (v AND 0x7, w))"

end
