(* ===== verification/Hal_Spi.thy ===== *)
theory Hal_Spi
  imports Mmio
begin

text \<open>
  The SPI master driver \<^verbatim>\<open>devkit/hal/spi.h\<close>. The blocking read and write poll the status register
  and need not return.
\<close>

subsection \<open>Registers and fields\<close>

definition QAR_SPI0_BASE :: u32 where
  [reg_addr]: "QAR_SPI0_BASE = 0x40004000"

definition QAR_SPI_REG :: "u32 \<Rightarrow> u32 \<Rightarrow> u32" where
  [reg_addr]: "QAR_SPI_REG base offset = QAR_MMIO32 base offset"

definition QAR_SPI_CTRL :: "u32 \<Rightarrow> u32" where
  [reg_addr]: "QAR_SPI_CTRL base = QAR_SPI_REG base 0x00"

definition QAR_SPI_STATUS :: "u32 \<Rightarrow> u32" where
  [reg_addr]: "QAR_SPI_STATUS base = QAR_SPI_REG base 0x04"

definition QAR_SPI_CLKDIV :: "u32 \<Rightarrow> u32" where
  [reg_addr]: "QAR_SPI_CLKDIV base = QAR_SPI_REG base 0x08"

definition QAR_SPI_TXDATA :: "u32 \<Rightarrow> u32" where
  [reg_addr]: "QAR_SPI_TXDATA base = QAR_SPI_REG base 0x0C"

definition QAR_SPI_RXDATA :: "u32 \<Rightarrow> u32" where
  [reg_addr]: "QAR_SPI_RXDATA base = QAR_SPI_REG base 0x10"

definition QAR_SPI_CS :: "u32 \<Rightarrow> u32" where
  [reg_addr]: "QAR_SPI_CS base = QAR_SPI_REG base 0x14"

definition QAR_SPI_IRQ_EN :: "u32 \<Rightarrow> u32" where
  [reg_addr]: "QAR_SPI_IRQ_EN base = QAR_SPI_REG base 0x18"

definition QAR_SPI_IRQ_STATUS :: "u32 \<Rightarrow> u32" where
  [reg_addr]: "QAR_SPI_IRQ_STATUS base = QAR_SPI_REG base 0x1C"

definition QAR_SPI_FAULT_STATUS :: "u32 \<Rightarrow> u32" where
  [reg_addr]: "QAR_SPI_FAULT_STATUS base = QAR_SPI_REG base 0x20"

definition QAR_SPI_CTRL_ENABLE :: u32 where
  [reg_bits]: "QAR_SPI_CTRL_ENABLE = push_bit 0 1"

definition QAR_SPI_CTRL_CPOL :: u32 where
  [reg_bits]: "QAR_SPI_CTRL_CPOL = push_bit 1 1"

definition QAR_SPI_CTRL_CPHA :: u32 where
  [reg_bits]: "QAR_SPI_CTRL_CPHA = push_bit 2 1"

definition QAR_SPI_CTRL_LSB_FIRST :: u32 where
  [reg_bits]: "QAR_SPI_CTRL_LSB_FIRST = push_bit 3 1"

definition QAR_SPI_CTRL_LOOPBACK :: u32 where
  [reg_bits]: "QAR_SPI_CTRL_LOOPBACK = push_bit 4 1"

definition QAR_SPI_STATUS_TX_READY :: u32 where
  [reg_bits]: "QAR_SPI_STATUS_TX_READY = push_bit 0 1"

definition QAR_SPI_STATUS_RX_VALID :: u32 where
  [reg_bits]: "QAR_SPI_STATUS_RX_VALID = push_bit 1 1"

definition QAR_SPI_STATUS_BUSY :: u32 where
  [reg_bits]: "QAR_SPI_STATUS_BUSY = push_bit 2 1"

definition QAR_SPI_STATUS_FAULT :: u32 where
  [reg_bits]: "QAR_SPI_STATUS_FAULT = push_bit 3 1"

definition QAR_SPI_STATUS_TX_OVF :: u32 where
  [reg_bits]: "QAR_SPI_STATUS_TX_OVF = push_bit 4 1"

definition QAR_SPI_STATUS_RX_OVF :: u32 where
  [reg_bits]: "QAR_SPI_STATUS_RX_OVF = push_bit 5 1"

definition QAR_SPI_STATUS_CS_FAULT :: u32 where
  [reg_bits]: "QAR_SPI_STATUS_CS_FAULT = push_bit 6 1"

definition QAR_SPI_IRQ_RX_READY :: u32 where
  [reg_bits]: "QAR_SPI_IRQ_RX_READY = push_bit 0 1"

definition QAR_SPI_IRQ_TX_EMPTY :: u32 where
  [reg_bits]: "QAR_SPI_IRQ_TX_EMPTY = push_bit 1 1"

definition QAR_SPI_IRQ_FAULT :: u32 where
  [reg_bits]: "QAR_SPI_IRQ_FAULT = push_bit 2 1"

definition QAR_SPI_IRQ_TX_OVF :: u32 where
  [reg_bits]: "QAR_SPI_IRQ_TX_OVF = push_bit 3 1"

definition QAR_SPI_IRQ_RX_OVF :: u32 where
  [reg_bits]: "QAR_SPI_IRQ_RX_OVF = push_bit 4 1"

definition QAR_SPI_IRQ_CS_FAULT :: u32 where
  [reg_bits]: "QAR_SPI_IRQ_CS_FAULT = push_bit 5 1"

subsection \<open>Operations\<close>

definition qar_spi_init :: "'w bus \<Rightarrow> u32 \<Rightarrow> u32 \<Rightarrow> u32 \<Rightarrow> 'w \<Rightarrow> 'w" where
  [hal_defs]: "qar_spi_init B base clk_div ctrl_flags w =
    (let w = mmio_write B (QAR_SPI_CLKDIV base) clk_div w
     in mmio_write B (QAR_SPI_CTRL base) (ctrl_flags OR QAR_SPI_CTRL_ENABLE) w)"

definition qar_spi_set_cs :: "'w bus \<Rightarrow> u32 \<Rightarrow> u32 \<Rightarrow> 'w \<Rightarrow> 'w" where
  [hal_defs]: "qar_spi_set_cs B base msk w = mmio_write B (QAR_SPI_CS base) msk w"

definition qar_spi_write :: "'w bus \<Rightarrow> u32 \<Rightarrow> u32 \<Rightarrow> 'w \<Rightarrow> 'w option" where
  [hal_defs]: "qar_spi_write B base value w =
    (case poll_until (mmio_read B (QAR_SPI_STATUS base))
            (\<lambda>v. v AND QAR_SPI_STATUS_TX_READY \<noteq> 0) w of
       None \<Rightarrow> None
     | Some (_, w) \<Rightarrow> Some (mmio_write B (QAR_SPI_TXDATA base) value w))"

definition qar_spi_read :: "'w bus \<Rightarrow> u32 \<Rightarrow> 'w \<Rightarrow> (u32 \<times> 'w) option" where
  [hal_defs]: "qar_spi_read B base w =
    (case poll_until (mmio_read B (QAR_SPI_STATUS base))
            (\<lambda>v. v AND QAR_SPI_STATUS_RX_VALID \<noteq> 0) w of
       None \<Rightarrow> None
     | Some (_, w) \<Rightarrow> Some (mmio_read B (QAR_SPI_RXDATA base) w))"

definition qar_spi_fault_status :: "'w bus \<Rightarrow> u32 \<Rightarrow> 'w \<Rightarrow> u32 \<times> 'w" where
  [hal_defs]: "qar_spi_fault_status B base w = mmio_read B (QAR_SPI_FAULT_STATUS base) w"

end
