(* ===== verification/Hal_I2c.thy ===== *)
theory Hal_I2c
  imports Mmio
begin

text \<open>
  The I2C master driver \<^verbatim>\<open>devkit/hal/i2c.h\<close>.
\<close>

subsection \<open>Registers and fields\<close>

definition QAR_I2C0_BASE :: u32 where
  [reg_addr]: "QAR_I2C0_BASE = 0x40004400"

definition QAR_I2C_REG :: "u32 \<Rightarrow> u32 \<Rightarrow> u32" where
  [reg_addr]: "QAR_I2C_REG base offset = QAR_MMIO32 base offset"

definition QAR_I2C_CTRL :: "u32 \<Rightarrow> u32" where
  [reg_addr]: "QAR_I2C_CTRL base = QAR_I2C_REG base 0x00"

definition QAR_I2C_CLKDIV :: "u32 \<Rightarrow> u32" where
  [reg_addr]: "QAR_I2C_CLKDIV base = QAR_I2C_REG base 0x04"

definition QAR_I2C_STATUS :: "u32 \<Rightarrow> u32" where
  [reg_addr]: "QAR_I2C_STATUS base = QAR_I2C_REG base 0x08"

definition QAR_I2C_IRQ_EN :: "u32 \<Rightarrow> u32" where
  [reg_addr]: "QAR_I2C_IRQ_EN base = QAR_I2C_REG base 0x0C"

definition QAR_I2C_IRQ_STATUS :: "u32 \<Rightarrow> u32" where
  [reg_addr]: "QAR_I2C_IRQ_STATUS base = QAR_I2C_REG base 0x10"

definition QAR_I2C_TXDATA :: "u32 \<Rightarrow> u32" where
  [reg_addr]: "QAR_I2C_TXDATA base = QAR_I2C_REG base 0x14"

definition QAR_I2C_RXDATA :: "u32 \<Rightarrow> u32" where
  [reg_addr]: "QAR_I2C_RXDATA base = QAR_I2C_REG base 0x18"

definition QAR_I2C_CMD :: "u32 \<Rightarrow> u32" where
  [reg_addr]: "QAR_I2C_CMD base = QAR_I2C_REG base 0x1C"

definition QAR_I2C_FAULT_STATUS :: "u32 \<Rightarrow> u32" where
  [reg_addr]: "QAR_I2C_FAULT_STATUS base = QAR_I2C_REG base 0x20"

definition QAR_I2C_CTRL_ENABLE :: u32 where
  [reg_bits]: "QAR_I2C_CTRL_ENABLE = push_bit 0 1"

definition QAR_I2C_STATUS_BUSY :: u32 where
  [reg_bits]: "QAR_I2C_STATUS_BUSY = push_bit 0 1"

definition QAR_I2C_STATUS_RX_RDY :: u32 where
  [reg_bits]: "QAR_I2C_STATUS_RX_RDY = push_bit 1 1"

definition QAR_I2C_STATUS_TX_EMPTY :: u32 where
  [reg_bits]: "QAR_I2C_STATUS_TX_EMPTY = push_bit 2 1"

definition QAR_I2C_STATUS_FAULT :: u32 where
  [reg_bits]: "QAR_I2C_STATUS_FAULT = push_bit 3 1"

definition QAR_I2C_STATUS_RX_OVF :: u32 where
  [reg_bits]: "QAR_I2C_STATUS_RX_OVF = push_bit 4 1"

definition QAR_I2C_STATUS_TX_OVF :: u32 where
  [reg_bits]: "QAR_I2C_STATUS_TX_OVF = push_bit 5 1"

definition QAR_I2C_IRQ_RX_READY :: u32 where
  [reg_bits]: "QAR_I2C_IRQ_RX_READY = push_bit 0 1"

definition QAR_I2C_IRQ_TX_EMPTY :: u32 where
  [reg_bits]: "QAR_I2C_IRQ_TX_EMPTY = push_bit 1 1"

definition QAR_I2C_IRQ_FAULT :: u32 where
  [reg_bits]: "QAR_I2C_IRQ_FAULT = push_bit 2 1"

definition QAR_I2C_IRQ_TX_OVF :: u32 where
  [reg_bits]: "QAR_I2C_IRQ_TX_OVF = push_bit 3 1"

definition QAR_I2C_IRQ_RX_OVF :: u32 where
  [reg_bits]: "QAR_I2C_IRQ_RX_OVF = push_bit 4 1"

definition QAR_I2C_IRQ_NACK :: u32 where
  [reg_bits]: "QAR_I2C_IRQ_NACK = push_bit 5 1"

definition QAR_I2C_CMD_START :: u32 where
  [reg_bits]: "QAR_I2C_CMD_START = push_bit 0 1"

definition QAR_I2C_CMD_STOP :: u32 where
  [reg_bits]: "QAR_I2C_CMD_STOP = push_bit 1 1"

definition QAR_I2C_CMD_WRITE :: u32 where
  [reg_bits]: "QAR_I2C_CMD_WRITE = push_bit 2 1"

definition QAR_I2C_CMD_READ :: u32 where
  [reg_bits]: "QAR_I2C_CMD_READ = push_bit 3 1"

subsection \<open>Operations\<close>

definition qar_i2c_init :: "'w bus \<Rightarrow> u32 \<Rightarrow> u32 \<Rightarrow> 'w \<Rightarrow> 'w" where
  [hal_defs]: "qar_i2c_init B base clk_divider w =
    (let w = mmio_write B (QAR_I2C_CLKDIV base) clk_divider w
     in mmio_write B (QAR_I2C_CTRL base) QAR_I2C_CTRL_ENABLE w)"

definition qar_i2c_stage_tx :: "'w bus \<Rightarrow> u32 \<Rightarrow> u8 \<Rightarrow> 'w \<Rightarrow> 'w" where
  [hal_defs]: "qar_i2c_stage_tx B base byte w = mmio_write B (QAR_I2C_TXDATA base) (ucast byte) w"

definition qar_i2c_issue_cmd :: "'w bus \<Rightarrow> u32 \<Rightarrow> u32 \<Rightarrow> 'w \<Rightarrow> 'w" where
  [hal_defs]: "qar_i2c_issue_cmd B base cmd w = mmio_write B (QAR_I2C_CMD base) cmd w"

definition qar_i2c_pop_rx :: "'w bus \<Rightarrow> u32 \<Rightarrow> 'w \<Rightarrow> u8 \<times> 'w" where
  [hal_defs]: "qar_i2c_pop_rx B base w =
    (case mmio_read B (QAR_I2C_RXDATA base) w of (v, w) \<Rightarrow> (ucast (v AND 0xFF), w))"

definition qar_i2c_fault_status :: "'w bus \<Rightarrow> u32 \<Rightarrow> 'w \<Rightarrow> u32 \<times> 'w" where
  [hal_defs]: "qar_i2c_fault_status B base w = mmio_read B (QAR_I2C_FAULT_STATUS base) w"

end
