(* ===== verification/Hal_Adc.thy ===== *)
theory Hal_Adc
  imports Mmio
begin

text \<open>
  The ADC driver \<^verbatim>\<open>devkit/hal/adc.h\<close>.
\<close>

subsection \<open>Registers and fields\<close>

definition QAR_ADC0_BASE :: u32 where
  [reg_addr]: "QAR_ADC0_BASE = 0x40006000"

definition QAR_ADC_REG :: "u32 \<Rightarrow> u32 \<Rightarrow> u32" where
  [reg_addr]: "QAR_ADC_REG base offset = QAR_MMIO32 base offset"

definition QAR_ADC_CTRL :: "u32 \<Rightarrow> u32" where
  [reg_addr]: "QAR_ADC_CTRL base = QAR_ADC_REG base 0x00"

definition QAR_ADC_STATUS :: "u32 \<Rightarrow> u32" where
  [reg_addr]: "QAR_ADC_STATUS base = QAR_ADC_REG base 0x04"

definition QAR_ADC_RESULT :: "u32 \<Rightarrow> u32" where
  [reg_addr]: "QAR_ADC_RESULT base = QAR_ADC_REG base 0x08"

definition QAR_ADC_IRQ_EN :: "u32 \<Rightarrow> u32" where
  [reg_addr]: "QAR_ADC_IRQ_EN base = QAR_ADC_REG base 0x0C"

definition QAR_ADC_IRQ_STATUS :: "u32 \<Rightarrow> u32" where
  [reg_addr]: "QAR_ADC_IRQ_STATUS base = QAR_ADC_REG base 0x10"

definition QAR_ADC_SEQ_MASK :: "u32 \<Rightarrow> u32" where
  [reg_addr]: "QAR_ADC_SEQ_MASK base = QAR_ADC_REG base 0x14"

definition QAR_ADC_SAMPLE_DIV :: "u32 \<Rightarrow> u32" where
  [reg_addr]: "QAR_ADC_SAMPLE_DIV base = QAR_ADC_REG base 0x18"

definition QAR_ADC_CTRL_ENABLE :: u32 where
  [reg_bits]: "QAR_ADC_CTRL_ENABLE = push_bit 0 1"

definition QAR_ADC_CTRL_CONTINUOUS :: u32 where
  [reg_bits]: "QAR_ADC_CTRL_CONTINUOUS = push_bit 1 1"

definition QAR_ADC_CTRL_START :: u32 where
  [reg_bits]: "QAR_ADC_CTRL_START = push_bit 2 1"

definition QAR_ADC_STATUS_BUSY :: u32 where
  [reg_bits]: "QAR_ADC_STATUS_BUSY = push_bit 0 1"

definition QAR_ADC_STATUS_READY :: u32 where
  [reg_bits]: "QAR_ADC_STATUS_READY = push_bit 1 1"

definition QAR_ADC_STATUS_OVERRUN :: u32 where
  [reg_bits]: "QAR_ADC_STATUS_OVERRUN = push_bit 2 1"

definition QAR_ADC_STATUS_CONT_MASK :: u32 where
  [reg_bits]: "QAR_ADC_STATUS_CONT_MASK = push_bit 3 1"

definition QAR_ADC_IRQ_DATA_READY :: u32 where
  [reg_bits]: "QAR_ADC_IRQ_DATA_READY = push_bit 0 1"

definition QAR_ADC_IRQ_OVERRUN :: u32 where
  [reg_bits]: "QAR_ADC_IRQ_OVERRUN = push_bit 1 1"

definition QAR_ADC_CTRL_CHANNEL_SHIFT :: nat where
  [reg_bits]: "QAR_ADC_CTRL_CHANNEL_SHIFT = 4"

subsection \<open>Operations\<close>

definition QAR_ADC_RESULT_VALUE :: "u32 \<Rightarrow> u32" where
  "QAR_ADC_RESULT_VALUE val = val AND 0xFFF"

definition QAR_ADC_RESULT_CHANNEL :: "u32 \<Rightarrow> u32" where
  "QAR_ADC_RESULT_CHANNEL val = drop_bit 16 val AND 0xF"

definition qar_adc_set_sequence :: "'w bus \<Rightarrow> u32 \<Rightarrow> u32 \<Rightarrow> u16 \<Rightarrow> 'w \<Rightarrow> 'w" where
  [hal_defs]: "qar_adc_set_sequence B base msk sample_div w =
    (let w = mmio_write B (QAR_ADC_SEQ_MASK base) (msk AND 0xF) w
     in mmio_write B (QAR_ADC_SAMPLE_DIV base) (ucast sample_div) w)"

definition qar_adc_enable_continuous :: "'w bus \<Rightarrow> u32 \<Rightarrow> u32 \<Rightarrow> u16 \<Rightarrow> 'w \<Rightarrow> 'w" where
  [hal_defs]: "qar_adc_enable_continuous B base msk sample_div w =
    (let w = qar_adc_set_sequence B base msk sample_div w
     in mmio_write B (QAR_ADC_CTRL base) (QAR_ADC_CTRL_ENABLE OR QAR_ADC_CTRL_CONTINUOUS) w)"

definition qar_adc_disable_continuous :: "'w bus \<Rightarrow> u32 \<Rightarrow> 'w \<Rightarrow> 'w" where
  [hal_defs]: "qar_adc_disable_continuous B base w =
    mmio_write B (QAR_ADC_CTRL base) QAR_ADC_CTRL_ENABLE w"

definition qar_adc_start_single :: "'w bus \<Rightarrow> u32 \<Rightarrow> u32 \<Rightarrow> 'w \<Rightarrow> 'w" where
  [hal_defs]: "qar_adc_start_single B base channel w =
    (let ctrl = QAR_ADC_CTRL_ENABLE OR
                push_bit QAR_ADC_CTRL_CHANNEL_SHIFT (channel AND 0x3) OR
                QAR_ADC_CTRL_START
     in mmio_write B (QAR_ADC_CTRL base) ctrl w)"

definition qar_adc_status :: "'w bus \<Rightarrow> u32 \<Rightarrow> 'w \<Rightarrow> u32 \<times> 'w" where
  [hal_defs]: "qar_adc_status B base w = mmio_read B (QAR_ADC_STATUS base) w"

definition qar_adc_read :: "'w bus \<Rightarrow> u32 \<Rightarrow> 'w \<Rightarrow> u32 \<times> 'w" where
  [hal_defs]: "qar_adc_read B base w = mmio_read B (QAR_ADC_RESULT base) w"

definition qar_adc_enable_irq :: "'w bus \<Rightarrow> u32 \<Rightarrow> u32 \<Rightarrow> 'w \<Rightarrow> 'w" where
  [hal_defs]: "qar_adc_enable_irq B base msk w =
    mmio_update B (QAR_ADC_IRQ_EN base) (\<lambda>v. v OR msk) w"

definition qar_adc_clear_irq :: "'w bus \<Rightarrow> u32 \<Rightarrow> u32 \<Rightarrow> 'w \<Rightarrow> 'w" where
  [hal_defs]: "qar_adc_clear_irq B base msk w = mmio_write B (QAR_ADC_IRQ_STATUS base) msk w"

end
