(* ===== verification/Hal_Decode.thy ===== *)
theory Hal_Decode
  imports Soc_Boot Hal_Gpio Hal_Timer Hal_Uart Hal_Can Hal_Spi Hal_I2c Hal_Adc
begin

text \<open>
  Where the register macros of the HAL lead on the chip: the block and the register index that the
  decoder derives from each address. The drivers and the hardware agree on the memory map, except
  for the second UART, which the chip does not have.
\<close>

lemma decode_gpio [simp]:
  "soc_decode (QAR_GPIO_DIR QAR_GPIO0_BASE) = Some (GPIO, 0)"
  "soc_decode (QAR_GPIO_OUT QAR_GPIO0_BASE) = Some (GPIO, 1)"
  "soc_decode (QAR_GPIO_IN QAR_GPIO0_BASE) = Some (GPIO, 2)"
  "soc_decode (QAR_GPIO_OUT_SET QAR_GPIO0_BASE) = Some (GPIO, 3)"
  "soc_decode (QAR_GPIO_OUT_CLR QAR_GPIO0_BASE) = Some (GPIO, 4)"
  "soc_decode (QAR_GPIO_IRQ_EN QAR_GPIO0_BASE) = Some (GPIO, 5)"
  "soc_decode (QAR_GPIO_IRQ_STATUS QAR_GPIO0_BASE) = Some (GPIO, 6)"
  "soc_decode (QAR_GPIO_ALT_PWM QAR_GPIO0_BASE) = Some (GPIO, 7)"
  "soc_decode (QAR_GPIO_IRQ_RISE QAR_GPIO0_BASE) = Some (GPIO, 8)"
  "soc_decode (QAR_GPIO_IRQ_FALL QAR_GPIO0_BASE) = Some (GPIO, 9)"
  "soc_decode (QAR_GPIO_DB_EN QAR_GPIO0_BASE) = Some (GPIO, 10)"
  "soc_decode (QAR_GPIO_DB_CYCLES QAR_GPIO0_BASE) = Some (GPIO, 11)"
  by (simp_all add: reg_addr soc_decode_def Let_def)

lemma decode_timer [simp]:
  "soc_decode (QAR_TIMER_CTRL QAR_TIMER0_BASE) = Some (TIMER0, 0)"
  "soc_decode (QAR_TIMER_PRESCALE QAR_TIMER0_BASE) = Some (TIMER0, 1)"
  "soc_decode (QAR_TIMER_COUNTER QAR_TIMER0_BASE) = Some (TIMER0, 2)"
  "soc_decode (QAR_TIMER_STATUS QAR_TIMER0_BASE) = Some (TIMER0, 3)"
  "soc_decode (QAR_TIMER_IRQ_EN QAR_TIMER0_BASE) = Some (TIMER0, 4)"
  "soc_decode (QAR_TIMER_CMP0 QAR_TIMER0_BASE) = Some (TIMER0, 5)"
  "soc_decode (QAR_TIMER_CMP0_PERIOD QAR_TIMER0_BASE) = Some (TIMER0, 6)"
  "soc_decode (QAR_TIMER_CMP1 QAR_TIMER0_BASE) = Some (TIMER0, 7)"
  "soc_decode (QAR_TIMER_CMP1_PERIOD QAR_TIMER0_BASE) = Some (TIMER0, 8)"
  "soc_decode (QAR_TIMER_WDT_LOAD QAR_TIMER0_BASE) = Some (TIMER0, 9)"
  "soc_decode (QAR_TIMER_WDT_CTRL QAR_TIMER0_BASE) = Some (TIMER0, 10)"
  "soc_decode (QAR_TIMER_WDT_COUNT QAR_TIMER0_BASE) = Some (TIMER0, 11)"
  "soc_decode (QAR_TIMER_PWM0_PERIOD QAR_TIMER0_BASE) = Some (TIMER0, 12)"
  "soc_decode (QAR_TIMER_PWM0_DUTY QAR_TIMER0_BASE) = Some (TIMER0, 13)"
  "soc_decode (QAR_TIMER_PWM1_PERIOD QAR_TIMER0_BASE) = Some (TIMER0, 14)"
  "soc_decode (QAR_TIMER_PWM1_DUTY QAR_TIMER0_BASE) = Some (TIMER0, 15)"
  "soc_decode (QAR_TIMER_PWM_STATUS QAR_TIMER0_BASE) = Some (TIMER0, 16)"
  "soc_decode (QAR_TIMER_CAPTURE_CTRL QAR_TIMER0_BASE) = Some (TIMER0, 17)"
  "soc_decode (QAR_TIMER_CAPTURE0_VALUE QAR_TIMER0_BASE) = Some (TIMER0, 18)"
  "soc_decode (QAR_TIMER_CAPTURE1_VALUE QAR_TIMER0_BASE) = Some (TIMER0, 19)"
  by (simp_all add: reg_addr soc_decode_def Let_def)

lemma decode_uart [simp]:
  "soc_decode (QAR_UART_DATA QAR_UART0_BASE) = Some (UART0, 0)"
  "soc_decode (QAR_UART_STATUS QAR_UART0_BASE) = Some (UART0, 1)"
  "soc_decode (QAR_UART_CTRL QAR_UART0_BASE) = Some (UART0, 2)"
  "soc_decode (QAR_UART_BAUD QAR_UART0_BASE) = Some (UART0, 3)"
  "soc_decode (QAR_UART_IRQ_EN QAR_UART0_BASE) = Some (UART0, 4)"
  "soc_decode (QAR_UART_IRQ_STATUS QAR_UART0_BASE) = Some (UART0, 5)"
  "soc_decode (QAR_UART_RS485 QAR_UART0_BASE) = Some (UART0, 6)"
  "soc_decode (QAR_UART_IDLE_CFG QAR_UART0_BASE) = Some (UART0, 7)"
  "soc_decode (QAR_UART_LIN_CTRL QAR_UART0_BASE) = Some (UART0, 8)"
  "soc_decode (QAR_UART_LIN_CMD QAR_UART0_BASE) = Some (UART0, 9)"
  "soc_decode (QAR_UART_LIN_TX_ID QAR_UART0_BASE) = Some (UART0, 10)"
  "soc_decode (QAR_UART_LIN_HEADER QAR_UART0_BASE) = Some (UART0, 11)"
  "soc_decode (QAR_UART_LIN_SLAVE QAR_UART0_BASE) = Some (UART0, 12)"
  by (simp_all add: reg_addr soc_decode_def Let_def)

text \<open>No block answers at the addresses of the second UART.\<close>

lemma decode_uart1 [simp]:
  "soc_decode (QAR_UART_DATA QAR_UART1_BASE) = None"
  "soc_decode (QAR_UART_STATUS QAR_UART1_BASE) = None"
  "soc_decode (QAR_UART_CTRL QAR_UART1_BASE) = None"
  "soc_decode (QAR_UART_BAUD QAR_UART1_BASE) = None"
  "soc_decode (QAR_UART_IRQ_EN QAR_UART1_BASE) = None"
  "soc_decode (QAR_UART_IRQ_STATUS QAR_UART1_BASE) = None"
  "soc_decode (QAR_UART_RS485 QAR_UART1_BASE) = None"
  "soc_decode (QAR_UART_IDLE_CFG QAR_UART1_BASE) = None"
  "soc_decode (QAR_UART_LIN_CTRL QAR_UART1_BASE) = None"
  "soc_decode (QAR_UART_LIN_CMD QAR_UART1_BASE) = None"
  "soc_decode (QAR_UART_LIN_TX_ID QAR_UART1_BASE) = None"
  "soc_decode (QAR_UART_LIN_HEADER QAR_UART1_BASE) = None"
  "soc_decode (QAR_UART_LIN_SLAVE QAR_UART1_BASE) = None"
  by (simp_all add: reg_addr soc_decode_def Let_def)

lemma decode_can [simp]:
  "soc_decode (QAR_CAN_CTRL QAR_CAN0_BASE) = Some (CAN0, 0)"
  "soc_decode (QAR_CAN_STATUS QAR_CAN0_BASE) = Some (CAN0, 1)"
  "soc_decode (QAR_CAN_BITTIME QAR_CAN0_BASE) = Some (CAN0, 2)"
  "soc_decode (QAR_CAN_FILTER_ID QAR_CAN0_BASE) = Some (CAN0, 6)"
  "soc_decode (QAR_CAN_FILTER_MASK QAR_CAN0_BASE) = Some (CAN0, 7)"
  "soc_decode (QAR_CAN_IRQ_EN QAR_CAN0_BASE) = Some (CAN0, 4)"
  "soc_decode (QAR_CAN_IRQ_STATUS QAR_CAN0_BASE) = Some (CAN0, 5)"
  "soc_decode (QAR_CAN_TX_ID QAR_CAN0_BASE) = Some (CAN0, 8)"
  "soc_decode (QAR_CAN_TX_DLC QAR_CAN0_BASE) = Some (CAN0, 9)"
  "soc_decode (QAR_CAN_TX_DATA0 QAR_CAN0_BASE) = Some (CAN0, 10)"
  "soc_decode (QAR_CAN_TX_DATA1 QAR_CAN0_BASE) = Some (CAN0, 11)"
  "soc_decode (QAR_CAN_TX_CMD QAR_CAN0_BASE) = Some (CAN0, 12)"
  "soc_decode (QAR_CAN_RX_ID QAR_CAN0_BASE) = Some (CAN0, 13)"
  "soc_decode (QAR_CAN_RX_DLC QAR_CAN0_BASE) = Some (CAN0, 14)"
  "soc_decode (QAR_CAN_RX_DATA0 QAR_CAN0_BASE) = Some (CAN0, 15)"
  "soc_decode (QAR_CAN_RX_DATA1 QAR_CAN0_BASE) = Some (CAN0, 16)"
  "soc_decode (QAR_CAN_RX_FIFO QAR_CAN0_BASE) = Some (CAN0, 17)"
  by (simp_all add: reg_addr soc_decode_def Let_def)

lemma decode_spi [simp]:
  "soc_decode (QAR_SPI_CTRL QAR_SPI0_BASE) = Some (SPI0, 0)"
  "soc_decode (QAR_SPI_STATUS QAR_SPI0_BASE) = Some (SPI0, 1)"
  "soc_decode (QAR_SPI_CLKDIV QAR_SPI0_BASE) = Some (SPI0, 2)"
  "soc_decode (QAR_SPI_TXDATA QAR_SPI0_BASE) = Some (SPI0, 3)"
  "soc_decode (QAR_SPI_RXDATA QAR_SPI0_BASE) = Some (SPI0, 4)"
  "soc_decode (QAR_SPI_CS QAR_SPI0_BASE) = Some (SPI0, 5)"
  "soc_decode (QAR_SPI_IRQ_EN QAR_SPI0_BASE) = Some (SPI0, 6)"
  "soc_decode (QAR_SPI_IRQ_STATUS QAR_SPI0_BASE) = Some (SPI0, 7)"
  "soc_decode (QAR_SPI_FAULT_STATUS QAR_SPI0_BASE) = Some (SPI0, 8)"
  by (simp_all add: reg_addr soc_decode_def Let_def)

lemma decode_i2c [simp]:
  "soc_decode (QAR_I2C_CTRL QAR_I2C0_BASE) = Some (I2C0, 0)"
  "soc_decode (QAR_I2C_CLKDIV QAR_I2C0_BASE) = Some (I2C0, 1)"
  "soc_decode (QAR_I2C_STATUS QAR_I2C0_BASE) = Some (I2C0, 2)"
  "soc_decode (QAR_I2C_IRQ_EN QAR_I2C0_BASE) = Some (I2C0, 3)"
  "soc_decode (QAR_I2C_IRQ_STATUS QAR_I2C0_BASE) = Some (I2C0, 4)"
  "soc_decode (QAR_I2C_TXDATA QAR_I2C0_BASE) = Some (I2C0, 5)"
  "soc_decode (QAR_I2C_RXDATA QAR_I2C0_BASE) = Some (I2C0, 6)"
  "soc_decode (QAR_I2C_CMD QAR_I2C0_BASE) = Some (I2C0, 7)"
  "soc_decode (QAR_I2C_FAULT_STATUS QAR_I2C0_BASE) = Some (I2C0, 8)"
  by (simp_all add: reg_addr soc_decode_def Let_def)

lemma decode_adc [simp]:
  "soc_decode (QAR_ADC_CTRL QAR_ADC0_BASE) = Some (ADC0, 0)"
  "soc_decode (QAR_ADC_STATUS QAR_ADC0_BASE) = Some (ADC0, 1)"
  "soc_decode (QAR_ADC_RESULT QAR_ADC0_BASE) = Some (ADC0, 2)"
  "soc_decode (QAR_ADC_IRQ_EN QAR_ADC0_BASE) = Some (ADC0, 3)"
  "soc_decode (QAR_ADC_IRQ_STATUS QAR_ADC0_BASE) = Some (ADC0, 4)"
  "soc_decode (QAR_ADC_SEQ_MASK QAR_ADC0_BASE) = Some (ADC0, 5)"
  "soc_decode (QAR_ADC_SAMPLE_DIV QAR_ADC0_BASE) = Some (ADC0, 6)"
  by (simp_all add: reg_addr soc_decode_def Let_def)

subsection \<open>Configuration registers by block\<close>

definition cfg :: "dev \<Rightarrow> world \<Rightarrow> nat \<Rightarrow> u32" where
  "cfg d w k = soc_store w (Some (d, k))"

lemma cfg_write:
  "cfg d (mmio_write soc_bus a v w) =
     (case soc_decode a of
        Some (d', k) \<Rightarrow> if d = d' then dev_effect d' k v (cfg d w) else cfg d w
      | None \<Rightarrow> cfg d w)"
  unfolding cfg_def [abs_def]
  by (simp add: fun_eq_iff soc_effect_def split: option.split)

lemma cfg_read [simp]: "cfg d (snd (mmio_read soc_bus a w)) = cfg d w"
  by (simp add: cfg_def [abs_def])

lemma cfg_value:
  "soc_decode a = Some (d, k) \<Longrightarrow> config_reg d k \<Longrightarrow> fst (mmio_read soc_bus a w) = cfg d w k"
  by (simp add: soc_regs.fst_read config_sel_def cfg_def)

lemma cfg_update:
  assumes "soc_decode a = Some (d', k)" and "config_reg d' k"
  shows "cfg d (mmio_update soc_bus a f w) =
     (if d = d' then dev_effect d' k (f (cfg d' w k)) (cfg d w) else cfg d w)"
  using assms cfg_read [of d a w] cfg_read [of d' a w] cfg_value [OF assms, of w]
  by (cases "mmio_read soc_bus a w") (simp add: mmio_update_def cfg_write)

lemma cfg_update_None:
  "soc_decode a = None \<Longrightarrow> cfg d (mmio_update soc_bus a f w) = cfg d w"
  using cfg_read [of d a w]
  by (cases "mmio_read soc_bus a w") (simp add: mmio_update_def cfg_write)

lemma cfg_idle [simp]: "cfg d (soc_idle n w) = cfg d w"
  unfolding cfg_def soc_store_def option.case prod.case
  by (rule soc_idle_keeps [where P = "\<lambda>s. (\<lambda>k. dev_store d s k) = (\<lambda>k. dev_store d (w_soc w) k)"])
     (simp_all add: dev_store_step)

text \<open>The stored words of a block are what its read multiplexer returns.\<close>

lemma cfg_rdata: "config_reg d k \<Longrightarrow> dev_rdata p d k (w_soc w) = cfg d w k"
  by (simp add: cfg_def soc_store_def dev_rdata_config)

lemma dev_effect_cfg: "config_reg d k \<Longrightarrow> dev_effect d k v m = m(k := cfg_trunc d k v)"
  by (simp add: dev_effect_def)

end
