(* ===== verification/Can_Driver.thy ===== *)
theory Can_Driver
  imports Can_Queue Hal_Decode
begin

text \<open>
  The CAN driver on the chip, and the firmware of \<^verbatim>\<open>devkit/examples/c/can_loopback.c\<close>. The
  controller has no activity of its own, so its state after a driver call depends on the stores
  of the call alone, whatever the schedule.
\<close>

subsection \<open>The controller seen through the bus\<close>

definition can_at :: "world \<Rightarrow> can" where
  "can_at w = soc_can (w_soc w)"

lemma can_at_wait [simp]: "can_at (soc_wait w) = can_at w"
  unfolding can_at_def
  by (rule soc_wait_keeps [where P = "\<lambda>s. soc_can s = soc_can (w_soc w)"]) (simp_all add: can_step_def)

lemma can_at_read [simp]: "can_at (snd (mmio_read soc_bus a w)) = can_at w"
proof -
  have "can_step (soc_port CAN0 (Load a)) s = s" for s
    by (simp add: soc_port_Load can_step_def split: option.split)
  then show ?thesis
    using can_at_wait [of w] by (simp add: mmio_read_def soc_bus_def can_at_def w_soc_rd)
qed

lemma can_at_write:
  "can_at (mmio_write soc_bus a v w) =
     (case soc_decode a of Some (d, k) \<Rightarrow> if d = CAN0 then can_write k v (can_at w) else can_at w
      | None \<Rightarrow> can_at w)"
  using can_at_wait [of w]
  by (simp add: mmio_write_def soc_bus_def can_at_def w_soc_wr soc_port_Store can_step_def
      split: option.split)

lemma can_at_value:
  "soc_decode a = Some (CAN0, k) \<Longrightarrow> fst (mmio_read soc_bus a w) = can_rdata k (can_at w)"
  using can_at_wait [of w]
  by (simp add: mmio_read_def soc_bus_def soc_rd_def soc_load_def dev_rdata_def can_at_def Let_def)

lemma can_read_eq:
  assumes "soc_decode a = Some (CAN0, k)"
  shows "\<exists>w'. mmio_read soc_bus a w = (can_rdata k (can_at w), w') \<and> can_at w' = can_at w"
  using can_at_value [OF assms, of w] can_at_read [of a w]
  by (cases "mmio_read soc_bus a w") simp

subsection \<open>Driver calls\<close>

definition can_stage :: "u32 \<Rightarrow> u32 \<Rightarrow> u32 \<Rightarrow> u8 \<Rightarrow> can \<Rightarrow> can" where
  "can_stage ident data0 data1 dlc s =
     s\<lparr>can_tx_id := ident, can_tx_dlc := ucast dlc, can_tx_data0 := data0, can_tx_data1 := data1\<rparr>"

lemma can_at_send:
  "can_at (qar_can_send_word soc_bus QAR_CAN0_BASE ident data0 data1 dlc w) =
     can_tx_cmd (can_stage ident data0 data1 dlc (can_at w))"
  by (simp add: qar_can_send_word_def can_at_write can_write_def can_stage_def)

lemma can_stage_queue [simp]:
  "can_rx_queue (can_stage i a b l s) = can_rx_queue s" "can_ok (can_stage i a b l s) = can_ok s"
  "can_ctrl (can_stage i a b l s) = can_ctrl s" "can_rx_entries (can_stage i a b l s) = can_rx_entries s"
  by (simp_all add: can_stage_def can_rx_queue_def can_ok_def can_rx_entries_def)

lemma can_stage_tx_frame [simp]:
  "can_tx_frame (can_stage i a b l s) = \<lparr>fr_id = i, fr_dlc = ucast l, fr_data0 = a, fr_data1 = b\<rparr>"
  by (simp add: can_stage_def can_tx_frame_def)

text \<open>What the controller does with a frame of identifier \<open>ident\<close>.\<close>

definition can_receives :: "u32 \<Rightarrow> can \<Rightarrow> bool" where
  "can_receives ident s \<longleftrightarrow> bit (can_ctrl s) 0 \<and> bit (can_ctrl s) 1 \<and> \<not> bit (can_ctrl s) 2 \<and>
     (bit (can_ctrl s) 3 \<or> ident AND can_filter_mask s = can_filter_id s AND can_filter_mask s)"

lemma can_stage_copies [simp]: "can_copies (can_stage i a b l s) = can_receives i s"
  by (simp add: can_copies_def can_accepts_def can_receives_def can_stage_def)

lemma can_send_queue:
  "can_rx_queue (can_at (qar_can_send_word soc_bus QAR_CAN0_BASE i a b l w)) =
     (if can_receives i (can_at w) \<and> length (can_rx_queue (can_at w)) < 4
      then can_rx_queue (can_at w) @ [\<lparr>fr_id = i, fr_dlc = ucast l, fr_data0 = a, fr_data1 = b\<rparr>]
      else can_rx_queue (can_at w))"
  by (simp add: can_at_send can_tx_cmd_queue)

definition can_cfg :: "can \<Rightarrow> u32 \<times> u32 \<times> u32 \<times> u32 \<times> u32" where
  "can_cfg s = (can_ctrl s, can_filter_id s, can_filter_mask s, can_bittime s, can_irq_en s)"

lemma can_receives_cong: "can_cfg s = can_cfg s' \<Longrightarrow> can_receives i s = can_receives i s'"
  by (simp add: can_cfg_def can_receives_def)

lemma can_cfg_tx_cmd [simp]: "can_cfg (can_tx_cmd s) = can_cfg s"
  by (simp add: can_tx_cmd_def can_rx_push_def can_cfg_def Let_def)

lemma can_cfg_stage [simp]: "can_cfg (can_stage i a b l s) = can_cfg s"
  by (simp add: can_stage_def can_cfg_def)

lemma can_cfg_send [simp]:
  "can_cfg (can_at (qar_can_send_word soc_bus QAR_CAN0_BASE i a b l w)) = can_cfg (can_at w)"
  by (simp add: can_at_send)

lemma can_count_value:
  "\<exists>w'. qar_can_rx_count soc_bus QAR_CAN0_BASE w =
      (of_nat (length (can_rx_queue (can_at w))), w') \<and> can_at w' = can_at w"
proof -
  have "can_rdata 0x11 s AND 0x7 = of_nat (length (can_rx_queue s))" for s
  proof -
    have "can_rdata 0x11 s AND mask 3 = ucast (can_rx_entries s)"
      by (auto simp: can_rdata_def Let_def bit_eq_iff [where 'a = u32] bit_simps
          dest: bit_imp_le_length)
    then show ?thesis by (simp add: length_can_rx_queue mask_eq_exp_minus_1)
  qed
  then show ?thesis
    using can_read_eq [of "QAR_CAN_RX_FIFO QAR_CAN0_BASE" "0x11" w]
    by (auto simp: qar_can_rx_count_def)
qed

text \<open>Reading the receive registers through three non-null pointers gives the oldest frame.\<close>

lemma can_rdata_head:
  assumes "can_rx_queue s \<noteq> []"
  shows "can_rdata 0xD s = fr_id (hd (can_rx_queue s))"
    "can_rdata 0xE s = fr_dlc (hd (can_rx_queue s))"
    "can_rdata 0xF s = fr_data0 (hd (can_rx_queue s))"
    "can_rdata 0x10 s = fr_data1 (hd (can_rx_queue s))"
  using assms by (simp_all add: can_rdata_def Let_def can_rx_queue_def ring_list_hd can_frame_at_def)

lemma can_payload_value:
  assumes "can_rx_queue (can_at w) \<noteq> []"
  shows "\<exists>w'. qar_can_read_payload soc_bus QAR_CAN0_BASE True True True w =
    ((Some (fr_id (hd (can_rx_queue (can_at w)))), Some (fr_data0 (hd (can_rx_queue (can_at w)))),
      Some (fr_data1 (hd (can_rx_queue (can_at w))))), w') \<and> can_at w' = can_at w"
proof -
  obtain w1 where 1: "mmio_read soc_bus (QAR_CAN_RX_ID QAR_CAN0_BASE) w =
      (can_rdata 0xD (can_at w), w1)" "can_at w1 = can_at w"
    using can_read_eq [of "QAR_CAN_RX_ID QAR_CAN0_BASE" "0xD" w] by auto
  obtain w2 where 2: "mmio_read soc_bus (QAR_CAN_RX_DATA0 QAR_CAN0_BASE) w1 =
      (can_rdata 0xF (can_at w), w2)" "can_at w2 = can_at w"
    using can_read_eq [of "QAR_CAN_RX_DATA0 QAR_CAN0_BASE" "0xF" w1] 1 by auto
  obtain w3 where 3: "mmio_read soc_bus (QAR_CAN_RX_DATA1 QAR_CAN0_BASE) w2 =
      (can_rdata 0x10 (can_at w), w3)" "can_at w3 = can_at w"
    using can_read_eq [of "QAR_CAN_RX_DATA1 QAR_CAN0_BASE" "0x10" w2] 2 by auto
  from 1 2 3 show ?thesis
    by (simp add: qar_can_read_payload_def read_through_def can_rdata_head [OF assms])
qed

lemma can_pop_rx_queue:
  "can_rx_queue (can_at (qar_can_pop_rx soc_bus QAR_CAN0_BASE w)) = tl (can_rx_queue (can_at w))"
  by (simp add: qar_can_pop_rx_def can_at_write can_write_def can_fifo_ctrl_queue)

lemma can_flush_rx_queue:
  "can_rx_queue (can_at (qar_can_flush_rx soc_bus QAR_CAN0_BASE w)) = []"
  by (simp add: qar_can_flush_rx_def can_at_write can_write_def can_fifo_ctrl_queue)

lemma can_cfg_fifo_ctrl [simp]: "can_cfg (can_rx_fifo_ctrl v s) = can_cfg s"
  by (simp add: can_rx_fifo_ctrl_def can_cfg_def Let_def)

lemma can_cfg_pop_rx [simp]:
  "can_cfg (can_at (qar_can_pop_rx soc_bus QAR_CAN0_BASE w)) = can_cfg (can_at w)"
  by (simp add: qar_can_pop_rx_def can_at_write can_write_def)

lemma can_rx_ready_value:
  "\<exists>w'. qar_can_rx_ready soc_bus QAR_CAN0_BASE w = (c_bool (bit (can_status (can_at w)) 0), w') \<and>
        can_at w' = can_at w"
  using can_read_eq [of "QAR_CAN_STATUS QAR_CAN0_BASE" "0x1" w] and_bit_mask [of 0]
  by (auto simp: qar_can_rx_ready_def QAR_CAN_STATUS_RX_PENDING_def can_rdata_def Let_def)

lemma can_at_clear_irq:
  "can_at (qar_can_clear_irq soc_bus QAR_CAN0_BASE m w) = can_irq_status_write m (can_at w)"
  by (simp add: qar_can_clear_irq_def can_at_write can_write_def)

lemma can_at_enable_irq:
  "can_at (qar_can_enable_irq soc_bus QAR_CAN0_BASE m w) =
     (can_irq_status_write m (can_at w))\<lparr>can_irq_en := can_irq_en (can_at w) OR m\<rparr>"
proof -
  let ?w = "mmio_write soc_bus (QAR_CAN_IRQ_STATUS QAR_CAN0_BASE) m w"
  have 1: "can_at ?w = can_irq_status_write m (can_at w)" by (simp add: can_at_write can_write_def)
  have 2: "can_irq_en (can_irq_status_write m s) = can_irq_en s" for s
    by (simp add: can_irq_status_write_def Let_def)
  obtain w2 where "mmio_read soc_bus (QAR_CAN_IRQ_EN QAR_CAN0_BASE) ?w =
      (can_rdata 0x4 (can_at ?w), w2)" "can_at w2 = can_at ?w"
    using can_read_eq [of "QAR_CAN_IRQ_EN QAR_CAN0_BASE" "0x4" ?w] by auto
  then show ?thesis
    by (simp add: qar_can_enable_irq_def mmio_update_def can_at_write can_write_def 1 2 can_rdata_def)
qed

subsection \<open>Sending and draining a batch\<close>

definition can_send_batch :: "can_frame list \<Rightarrow> world \<Rightarrow> world" where
  "can_send_batch fs w = fold (\<lambda>f. qar_can_send_word soc_bus QAR_CAN0_BASE (fr_id f) (fr_data0 f)
     (fr_data1 f) (ucast (fr_dlc f))) fs w"

fun can_receive_batch :: "nat \<Rightarrow> world \<Rightarrow> (u32 option \<times> u32 option \<times> u32 option) list \<times> world" where
  "can_receive_batch 0 w = ([], w)"
| "can_receive_batch (Suc n) w =
     (case qar_can_read_payload soc_bus QAR_CAN0_BASE True True True w of (m, w) \<Rightarrow>
        (case can_receive_batch n (qar_can_pop_rx soc_bus QAR_CAN0_BASE w) of (ms, w) \<Rightarrow> (m # ms, w)))"

definition can_payload :: "can_frame \<Rightarrow> u32 option \<times> u32 option \<times> u32 option" where
  "can_payload f = (Some (fr_id f), Some (fr_data0 f), Some (fr_data1 f))"

lemma can_receive_batch_queue:
  "n \<le> length (can_rx_queue (can_at w)) \<Longrightarrow>
   fst (can_receive_batch n w) = map can_payload (take n (can_rx_queue (can_at w)))"
proof (induction n arbitrary: w)
  case (Suc n)
  then obtain f q where q: "can_rx_queue (can_at w) = f # q" by (cases "can_rx_queue (can_at w)") auto
  then obtain w1 where w1: "qar_can_read_payload soc_bus QAR_CAN0_BASE True True True w =
      (can_payload f, w1)" "can_at w1 = can_at w"
    using can_payload_value [of w] by (auto simp: can_payload_def)
  with q have q2: "can_rx_queue (can_at (qar_can_pop_rx soc_bus QAR_CAN0_BASE w1)) = q"
    by (simp add: can_pop_rx_queue)
  have len: "n \<le> length q" using Suc.prems q by simp
  show ?case
    using Suc.IH [of "qar_can_pop_rx soc_bus QAR_CAN0_BASE w1"] len w1 q q2
    by (auto split: prod.splits)
qed simp

lemma can_send_batch_queue:
  "\<forall>f \<in> set fs. can_receives (fr_id f) (can_at w) \<Longrightarrow>
   length (can_rx_queue (can_at w)) + length fs \<le> 4 \<Longrightarrow>
   map can_payload (can_rx_queue (can_at (can_send_batch fs w))) =
     map can_payload (can_rx_queue (can_at w) @ fs)"
proof (induction fs arbitrary: w)
  case (Cons f fs)
  let ?w = "qar_can_send_word soc_bus QAR_CAN0_BASE (fr_id f) (fr_data0 f) (fr_data1 f)
      (ucast (fr_dlc f)) w"
  have "\<forall>g \<in> set fs. can_receives (fr_id g) (can_at ?w)"
    using Cons.prems can_receives_cong [OF can_cfg_send] by auto
  moreover have "can_rx_queue (can_at ?w) = can_rx_queue (can_at w) @ [\<lparr>fr_id = fr_id f,
      fr_dlc = ucast (ucast (fr_dlc f) :: u8), fr_data0 = fr_data0 f, fr_data1 = fr_data1 f\<rparr>]"
    using Cons.prems by (simp add: can_send_queue)
  ultimately show ?case
    using Cons.IH [of ?w] Cons.prems by (simp add: can_send_batch_def can_payload_def)
qed (simp add: can_send_batch_def)

subsection \<open>Properties\<close>

text \<open>
  C15. \<open>qar_can_send_word\<close> on the chip, in every state of the controller and under every schedule:
  the frame is appended to the receive queue exactly when the controller is enabled, loops back,
  is not in listen-only mode, accepts the identifier and holds fewer than four frames; a frame
  that would be accepted while four wait is dropped and counted in \<open>ERR_COUNTER\<close>; the configuration
  is unchanged.
\<close>

theorem can_send_word_effect:
  "can_rx_queue (can_at (qar_can_send_word soc_bus QAR_CAN0_BASE i a b l w)) =
     (if can_receives i (can_at w) \<and> length (can_rx_queue (can_at w)) < 4
      then can_rx_queue (can_at w) @ [\<lparr>fr_id = i, fr_dlc = ucast l, fr_data0 = a, fr_data1 = b\<rparr>]
      else can_rx_queue (can_at w)) \<and>
   can_err_counter (can_at (qar_can_send_word soc_bus QAR_CAN0_BASE i a b l w)) =
     (if can_receives i (can_at w) \<and> \<not> length (can_rx_queue (can_at w)) < 4
      then can_err_counter (can_at w) + 1 else can_err_counter (can_at w)) \<and>
   can_cfg (can_at (qar_can_send_word soc_bus QAR_CAN0_BASE i a b l w)) = can_cfg (can_at w)"
proof -
  have rec: "can_receives i s \<longleftrightarrow> bit (can_ctrl s) 0 \<and> can_accepts (can_stage i a b l s)" for s
    by (simp add: can_receives_def can_accepts_def can_stage_def)
  have err: "can_err_counter (can_stage i a b l s) = can_err_counter s" for s
    by (simp add: can_stage_def)
  have "can_err_counter (can_tx_cmd (can_stage i a b l s)) =
     (if can_receives i s \<and> \<not> length (can_rx_queue s) < 4 then can_err_counter s + 1
      else can_err_counter s)" for s
    by (simp add: can_tx_cmd_def rec can_entries_less [of s] Let_def can_rx_push_def err)
  then show ?thesis by (simp add: can_at_send can_tx_cmd_queue)
qed

text \<open>
  C16. Frames come out of the driver in the order they went in: after any batch of at most four
  accepted frames sent on an empty receive queue, reading and popping as many times returns the
  identifiers and data words of the batch, in order.
\<close>

theorem can_batch_roundtrip:
  assumes "can_rx_queue (can_at w) = []" and "length fs \<le> 4"
    and "\<forall>f \<in> set fs. can_receives (fr_id f) (can_at w)"
  shows "fst (can_receive_batch (length fs) (can_send_batch fs w)) = map can_payload fs"
proof -
  have q: "map can_payload (can_rx_queue (can_at (can_send_batch fs w))) = map can_payload fs"
    using can_send_batch_queue [of fs w] assms by simp
  then have "length (can_rx_queue (can_at (can_send_batch fs w))) = length fs"
    by (metis length_map)
  then show ?thesis using can_receive_batch_queue [of "length fs"] q by simp
qed

text \<open>Loopback with filter bypass, programmed on a chip out of reset.\<close>

definition can_ready_world :: world where
  "can_ready_world = qar_can_init soc_bus QAR_CAN0_BASE 0x13
     (QAR_CAN_CTRL_LOOPBACK OR QAR_CAN_CTRL_FILTER_BYPASS) world_at_reset"

lemma can_ready_world_queue: "can_rx_queue (can_at can_ready_world) = []"
  by (simp add: can_ready_world_def qar_can_init_def can_at_write can_write_def)
     (simp add: can_at_def can_rx_queue_def can_reset_def)

lemma can_ready_world_receives: "can_receives i (can_at can_ready_world)"
  by (simp add: can_ready_world_def qar_can_init_def can_at_write can_write_def can_receives_def
      reg_bits)

lemma can_batch_roundtrip_witness:
  "let f = \<lparr>fr_id = 0x123, fr_dlc = 8, fr_data0 = 1, fr_data1 = 2\<rparr>;
       g = \<lparr>fr_id = 0x321, fr_dlc = 4, fr_data0 = 3, fr_data1 = 0\<rparr>
   in fst (can_receive_batch 2 (can_send_batch [f, g] can_ready_world)) =
        [(Some 0x123, Some 1, Some 2), (Some 0x321, Some 3, Some 0)]"
  using can_batch_roundtrip [of can_ready_world "[\<lparr>fr_id = 0x123, fr_dlc = 8, fr_data0 = 1, fr_data1 = 2\<rparr>,
      \<lparr>fr_id = 0x321, fr_dlc = 4, fr_data0 = 3, fr_data1 = 0\<rparr>]"]
  by (simp add: can_ready_world_queue can_ready_world_receives can_payload_def numeral_2_eq_2)

text \<open>
  Acknowledging the receive interrupt loses the pending indication of frames that are still
  queued: after \<open>qar_can_clear_irq\<close> with \<open>QAR_CAN_IRQ_RX_READY\<close> (and likewise after
  \<open>qar_can_enable_irq\<close>, which acknowledges first), \<open>qar_can_rx_ready\<close> reports no frame while
  \<open>qar_can_rx_count\<close> still counts the whole queue.
\<close>

theorem can_clear_irq_hides_frames:
  "(let w' = qar_can_clear_irq soc_bus QAR_CAN0_BASE QAR_CAN_IRQ_RX_READY w in
      fst (qar_can_rx_ready soc_bus QAR_CAN0_BASE w') = 0 \<and>
      fst (qar_can_rx_count soc_bus QAR_CAN0_BASE w') = of_nat (length (can_rx_queue (can_at w)))) \<and>
   (let w' = qar_can_enable_irq soc_bus QAR_CAN0_BASE QAR_CAN_IRQ_RX_READY w in
      fst (qar_can_rx_ready soc_bus QAR_CAN0_BASE w') = 0 \<and>
      fst (qar_can_rx_count soc_bus QAR_CAN0_BASE w') = of_nat (length (can_rx_queue (can_at w))))"
proof -
  have irq: "\<not> bit (can_status (can_irq_status_write QAR_CAN_IRQ_RX_READY s)) 0"
    "can_rx_queue ((can_irq_status_write QAR_CAN_IRQ_RX_READY s)\<lparr>can_irq_en := e\<rparr>) = can_rx_queue s"
    "can_rx_queue (can_irq_status_write QAR_CAN_IRQ_RX_READY s) = can_rx_queue s" for s e
    by (simp_all add: can_irq_status_write_def reg_bits Let_def can_rx_queue_def)
  have rd: "fst (qar_can_rx_ready soc_bus QAR_CAN0_BASE v) = c_bool (bit (can_status (can_at v)) 0)"
    "fst (qar_can_rx_count soc_bus QAR_CAN0_BASE v) = of_nat (length (can_rx_queue (can_at v)))" for v
    using can_rx_ready_value [of v] can_count_value [of v] by auto
  show ?thesis
    by (simp add: rd can_at_clear_irq can_at_enable_irq irq Let_def c_bool_def)
qed

end
