(* ===== verification/Fw_Can_Loopback.thy ===== *)
theory Fw_Can_Loopback
  imports Can_Driver
begin

text \<open>
  The firmware \<^verbatim>\<open>devkit/examples/c/can_loopback.c\<close> on the chip. \<open>main\<close> ends in an empty endless
  loop; the value of its model is the pair of payloads the two calls of \<open>drain_rx\<close> keep and the
  world in which that loop spins, \<open>None\<close> when the polling loop never ends.
\<close>

definition can_send_frame :: "'w bus \<Rightarrow> u32 \<Rightarrow> u32 \<Rightarrow> u32 \<Rightarrow> u8 \<Rightarrow> 'w \<Rightarrow> 'w" where
  "can_send_frame B ident data0 data1 dlc w = qar_can_send_word B QAR_CAN0_BASE ident data0 data1 dlc w"

text \<open>The three volatile locals; each pointer is non-null, so each of them is assigned.\<close>

definition can_drain_rx :: "'w bus \<Rightarrow> 'w \<Rightarrow> (u32 \<times> u32 \<times> u32) \<times> 'w" where
  "can_drain_rx B w =
    (case qar_can_read_payload B QAR_CAN0_BASE True True True w of ((i, d0, d1), w) \<Rightarrow>
       let w = qar_can_pop_rx B QAR_CAN0_BASE w;
           last = (\<lambda>x. case x of Some v \<Rightarrow> v | None \<Rightarrow> 0)
       in ((last i, last d0, last d1), w))"

definition can_loopback_setup :: "'w bus \<Rightarrow> u32 \<Rightarrow> 'w \<Rightarrow> 'w" where
  "can_loopback_setup B ctrl_flags w =
    (let w = qar_can_init B QAR_CAN0_BASE 0x00000013 ctrl_flags w;
         w = mmio_write B (QAR_CAN_FILTER_ID QAR_CAN0_BASE) 0x123 w;
         w = mmio_write B (QAR_CAN_FILTER_MASK QAR_CAN0_BASE) 0x7FF w
     in qar_can_enable_irq B QAR_CAN0_BASE (QAR_CAN_IRQ_RX_READY OR QAR_CAN_IRQ_TX_DONE) w)"

definition can_loopback_main ::
  "'w bus \<Rightarrow> 'w \<Rightarrow> (((u32 \<times> u32 \<times> u32) \<times> (u32 \<times> u32 \<times> u32)) \<times> 'w) option" where
  "can_loopback_main B w =
    (let ctrl_flags = QAR_CAN_CTRL_LOOPBACK OR QAR_CAN_CTRL_FILTER_BYPASS;
         w = can_loopback_setup B ctrl_flags w;
         w = can_send_frame B 0x123 0xDEADBEEF 0 4 w;
         w = can_send_frame B 0x321 0xCAFEBABE 0x01020304 8 w
     in case poll_until (qar_can_rx_count B QAR_CAN0_BASE) (\<lambda>n. \<not> n < 2) w of
          None \<Rightarrow> None
        | Some (_, w) \<Rightarrow>
            (case can_drain_rx B w of (m1, w) \<Rightarrow>
               (case can_drain_rx B w of (m2, w) \<Rightarrow>
                  let ctrl_flags = ctrl_flags OR QAR_CAN_CTRL_LISTEN_ONLY;
                      w = qar_can_set_ctrl B QAR_CAN0_BASE ctrl_flags w
                  in Some ((m1, m2), can_send_frame B 0x200 0x11111111 0 4 w))))"

subsection \<open>What the steps of the program do to the receive queue\<close>

lemma can_drain_rx_queue:
  assumes "can_rx_queue (can_at w) = f # q"
  shows "\<exists>w'. can_drain_rx soc_bus w = ((fr_id f, fr_data0 f, fr_data1 f), w') \<and>
              can_rx_queue (can_at w') = q \<and> can_cfg (can_at w') = can_cfg (can_at w)"
proof -
  obtain w1 where "qar_can_read_payload soc_bus QAR_CAN0_BASE True True True w =
      ((Some (fr_id f), Some (fr_data0 f), Some (fr_data1 f)), w1)" "can_at w1 = can_at w"
    using can_payload_value [of w] assms by auto
  then show ?thesis using assms by (simp add: can_drain_rx_def can_pop_rx_queue)
qed

lemma can_setup_queue:
  "can_rx_queue (can_at (can_loopback_setup soc_bus fl w)) = can_rx_queue (can_at w)"
  by (simp add: can_loopback_setup_def qar_can_init_def can_at_enable_irq can_at_write can_write_def
      Let_def) (simp add: can_rx_queue_def can_irq_status_write_def Let_def)

lemma can_setup_receives:
  "can_receives i (can_at (can_loopback_setup soc_bus
     (QAR_CAN_CTRL_LOOPBACK OR QAR_CAN_CTRL_FILTER_BYPASS) w))"
  by (simp add: can_loopback_setup_def qar_can_init_def can_at_enable_irq can_at_write can_write_def
      Let_def can_receives_def can_irq_status_write_def reg_bits)

lemma can_listen_only_receives:
  "\<not> can_receives i (can_at (qar_can_set_ctrl soc_bus QAR_CAN0_BASE (fl OR QAR_CAN_CTRL_LISTEN_ONLY) w))"
  by (simp add: qar_can_set_ctrl_def can_at_write can_write_def can_receives_def reg_bits bit_simps)

lemma can_set_ctrl_queue:
  "can_rx_queue (can_at (qar_can_set_ctrl soc_bus QAR_CAN0_BASE fl w)) = can_rx_queue (can_at w)"
  by (simp add: qar_can_set_ctrl_def can_at_write can_write_def) (simp add: can_rx_queue_def)

subsection \<open>The whole program\<close>

lemma can_demo_from_empty:
  assumes "can_rx_queue (can_at w) = []"
  shows "\<exists>w'. can_loopback_main soc_bus w =
           Some (((0x123, 0xDEADBEEF, 0), (0x321, 0xCAFEBABE, 0x01020304)), w') \<and>
           can_rx_queue (can_at w') = []"
proof -
  let ?fl = "QAR_CAN_CTRL_LOOPBACK OR QAR_CAN_CTRL_FILTER_BYPASS"
  define w1 where "w1 = can_loopback_setup soc_bus ?fl w"
  define w2 where "w2 = can_send_frame soc_bus 0x123 0xDEADBEEF 0 4 w1"
  define w3 where "w3 = can_send_frame soc_bus 0x321 0xCAFEBABE 0x01020304 8 w2"
  define f1 where "f1 = \<lparr>fr_id = 0x123, fr_dlc = 4, fr_data0 = 0xDEADBEEF, fr_data1 = 0 :: u32\<rparr>"
  define f2 where "f2 = \<lparr>fr_id = 0x321, fr_dlc = 8, fr_data0 = 0xCAFEBABE, fr_data1 = 0x01020304 :: u32\<rparr>"
  have "can_rx_queue (can_at w1) = []" using assms by (simp add: w1_def can_setup_queue)
  then have q2: "can_rx_queue (can_at w2) = [f1]"
    using can_setup_receives by (simp add: w2_def can_send_frame_def can_send_queue w1_def f1_def)
  have "can_cfg (can_at w2) = can_cfg (can_at w1)"
    by (simp add: w2_def can_send_frame_def)
  then have "can_receives 0x321 (can_at w2)"
    using can_receives_cong can_setup_receives w1_def by blast
  with q2 have q3: "can_rx_queue (can_at w3) = [f1, f2]"
    by (simp add: w3_def can_send_frame_def can_send_queue f2_def)
  obtain w4 where c: "qar_can_rx_count soc_bus QAR_CAN0_BASE w3 = (2, w4)" "can_at w4 = can_at w3"
    using can_count_value [of w3] q3 by auto
  have poll: "poll_until (qar_can_rx_count soc_bus QAR_CAN0_BASE) (\<lambda>n. \<not> n < 2) w3 = Some (2, w4)"
    using c by (simp add: poll_until_hit)
  obtain w5 where d1: "can_drain_rx soc_bus w4 = ((0x123, 0xDEADBEEF, 0), w5)"
      "can_rx_queue (can_at w5) = [f2]"
    using can_drain_rx_queue [of w4 f1 "[f2]"] q3 c by (auto simp: f1_def)
  obtain w6 where d2: "can_drain_rx soc_bus w5 = ((0x321, 0xCAFEBABE, 0x01020304), w6)"
      "can_rx_queue (can_at w6) = []"
    using can_drain_rx_queue [of w5 f2 "[]"] d1 by (auto simp: f2_def)
  have "can_rx_queue (can_at (can_send_frame soc_bus 0x200 0x11111111 0 4
      (qar_can_set_ctrl soc_bus QAR_CAN0_BASE (?fl OR QAR_CAN_CTRL_LISTEN_ONLY) w6))) = []"
    using d2 by (simp add: can_send_frame_def can_send_queue can_listen_only_receives can_set_ctrl_queue)
  then show ?thesis
    using poll d1 d2
    by (simp add: can_loopback_main_def Let_def w3_def [symmetric] w2_def [symmetric] w1_def [symmetric])
qed

subsection \<open>Properties\<close>

text \<open>
  C17. Started on an empty receive queue, under every schedule, the CAN demo leaves its polling
  loop, the two payloads it reads back are those of its two frames in order, and the frame it
  sends in listen-only mode does not come back.
\<close>

theorem can_loopback_run:
  assumes "can_rx_queue (can_at w) = []"
  shows "\<exists>w'. can_loopback_main soc_bus w =
           Some (((0x123, 0xDEADBEEF, 0), (0x321, 0xCAFEBABE, 0x01020304)), w') \<and>
           can_rx_queue (can_at w') = []"
  using assms by (rule can_demo_from_empty)

lemma can_loopback_run_witness:
  "\<exists>w'. can_loopback_main soc_bus world_at_reset =
     Some (((0x123, 0xDEADBEEF, 0), (0x321, 0xCAFEBABE, 0x01020304)), w') \<and>
     can_rx_queue (can_at w') = []"
proof -
  have "can_rx_queue (can_at world_at_reset) = []"
    by (simp add: can_at_def can_rx_queue_def can_reset_def)
  then show ?thesis by (rule can_loopback_run)
qed

end
