(* ===== verification/Sdk_Init.thy ===== *)
theory Sdk_Init
  imports Hal_Gpio Hal_Timer Hal_Uart Hal_Can Hal_Spi Hal_I2c Hal_Adc
begin

text \<open>
  The boot code of the SDK: \<^verbatim>\<open>devkit/sdk/hal_init.c\<close> and the constructor of
  \<^verbatim>\<open>devkit/sdk/runtime.c\<close>, written as the sequence of bus accesses they perform. They hold on
  any bus; theory Sdk_Init_Soc runs them on the chip.
\<close>

subsection \<open>Constants\<close>

definition QAR_UART_BOOT_DIV :: u32 where
  [reg_bits]: "QAR_UART_BOOT_DIV = 500"

definition QAR_CAN_BOOT_BITTIME :: u32 where
  [reg_bits]: "QAR_CAN_BOOT_BITTIME = 0x00000013"

definition QAR_SPI_BOOT_CLKDIV :: u32 where
  [reg_bits]: "QAR_SPI_BOOT_CLKDIV = 4"

definition QAR_I2C_BOOT_CLKDIV :: u32 where
  [reg_bits]: "QAR_I2C_BOOT_CLKDIV = 64"

definition QAR_UART_IRQ_ALL :: u32 where
  [reg_bits]: "QAR_UART_IRQ_ALL =
     QAR_UART_IRQ_RX_READY OR QAR_UART_IRQ_TX_EMPTY OR QAR_UART_IRQ_ERROR OR QAR_UART_IRQ_IDLE OR
     QAR_UART_IRQ_LIN_BREAK OR QAR_UART_IRQ_LIN_HEADER OR QAR_UART_IRQ_LIN_SLAVE"

definition QAR_CAN_IRQ_ALL :: u32 where
  [reg_bits]: "QAR_CAN_IRQ_ALL = QAR_CAN_IRQ_RX_READY OR QAR_CAN_IRQ_TX_DONE OR QAR_CAN_IRQ_RX_OVF"

definition QAR_TIMER_STATUS_ALL :: u32 where
  [reg_bits]: "QAR_TIMER_STATUS_ALL =
     QAR_TIMER_STATUS_CMP0 OR QAR_TIMER_STATUS_CMP1 OR QAR_TIMER_STATUS_WDT OR
     QAR_TIMER_STATUS_CAPTURE0 OR QAR_TIMER_STATUS_CAPTURE1"

definition QAR_SPI_IRQ_ALL :: u32 where
  [reg_bits]: "QAR_SPI_IRQ_ALL =
     QAR_SPI_IRQ_RX_READY OR QAR_SPI_IRQ_TX_EMPTY OR QAR_SPI_IRQ_FAULT OR QAR_SPI_IRQ_TX_OVF OR
     QAR_SPI_IRQ_RX_OVF OR QAR_SPI_IRQ_CS_FAULT"

definition QAR_I2C_IRQ_ALL :: u32 where
  [reg_bits]: "QAR_I2C_IRQ_ALL =
     QAR_I2C_IRQ_RX_READY OR QAR_I2C_IRQ_TX_EMPTY OR QAR_I2C_IRQ_FAULT OR QAR_I2C_IRQ_TX_OVF OR
     QAR_I2C_IRQ_RX_OVF OR QAR_I2C_IRQ_NACK"

definition QAR_ADC_IRQ_ALL :: u32 where
  [reg_bits]: "QAR_ADC_IRQ_ALL = QAR_ADC_IRQ_DATA_READY OR QAR_ADC_IRQ_OVERRUN"

subsection \<open>One block per peripheral\<close>

definition init_gpio_block :: "'w bus \<Rightarrow> u32 \<Rightarrow> 'w \<Rightarrow> 'w" where
  [hal_defs]: "init_gpio_block B base w =
    (let w = qar_gpio_config_dir B base 0x0 w;
         w = qar_gpio_write B base 0x0 w;
         w = mmio_write B (QAR_GPIO_ALT_PWM base) 0x0 w;
         w = qar_gpio_config_irq B base 0x0 0x0 0x0 w;
         w = qar_gpio_config_debounce B base 0x0 0 w
     in qar_gpio_clear_irq B base 0xFFFFFFFF w)"

definition init_timer_block :: "'w bus \<Rightarrow> u32 \<Rightarrow> 'w \<Rightarrow> 'w" where
  [hal_defs]: "init_timer_block B base w =
    (let w = mmio_write B (QAR_TIMER_CTRL base) 0x0 w;
         w = mmio_write B (QAR_TIMER_IRQ_EN base) 0x0 w;
         w = mmio_write B (QAR_TIMER_STATUS base) QAR_TIMER_STATUS_ALL w;
         w = mmio_write B (QAR_TIMER_PRESCALE base) 0x0 w;
         w = mmio_write B (QAR_TIMER_CMP0 base) 0x0 w;
         w = mmio_write B (QAR_TIMER_CMP0_PERIOD base) 0x0 w;
         w = mmio_write B (QAR_TIMER_CMP1 base) 0x0 w;
         w = mmio_write B (QAR_TIMER_CMP1_PERIOD base) 0x0 w;
         w = mmio_write B (QAR_TIMER_PWM0_PERIOD base) 0x0 w;
         w = mmio_write B (QAR_TIMER_PWM0_DUTY base) 0x0 w;
         w = mmio_write B (QAR_TIMER_PWM1_PERIOD base) 0x0 w;
         w = mmio_write B (QAR_TIMER_PWM1_DUTY base) 0x0 w;
         w = mmio_write B (QAR_TIMER_WDT_LOAD base) 0x0 w;
         w = mmio_write B (QAR_TIMER_WDT_CTRL base) 0x0 w
     in mmio_write B (QAR_TIMER_CAPTURE_CTRL base) 0x0 w)"

definition init_uart_block :: "'w bus \<Rightarrow> u32 \<Rightarrow> 'w \<Rightarrow> 'w" where
  [hal_defs]: "init_uart_block B base w =
    (let w = mmio_write B (QAR_UART_CTRL base) 0x0 w;
         w = mmio_write B (QAR_UART_BAUD base) QAR_UART_BOOT_DIV w;
         w = mmio_write B (QAR_UART_RS485 base) 0x0 w;
         w = mmio_write B (QAR_UART_IDLE_CFG base) 0x0 w;
         w = mmio_write B (QAR_UART_LIN_CTRL base) 13 w;
         w = mmio_write B (QAR_UART_LIN_SLAVE base) 0x0 w;
         w = qar_uart_disable_irq B base QAR_UART_IRQ_ALL w;
         w = qar_uart_clear_irq B base QAR_UART_IRQ_ALL w
     in qar_uart_lin_clear_break B base w)"

definition init_can_block :: "'w bus \<Rightarrow> u32 \<Rightarrow> 'w \<Rightarrow> 'w" where
  [hal_defs]: "init_can_block B base w =
    (let w = mmio_write B (QAR_CAN_CTRL base) 0x0 w;
         w = mmio_write B (QAR_CAN_BITTIME base) QAR_CAN_BOOT_BITTIME w;
         w = mmio_write B (QAR_CAN_FILTER_ID base) 0x0 w;
         w = mmio_write B (QAR_CAN_FILTER_MASK base) 0x0 w;
         w = qar_can_disable_irq B base QAR_CAN_IRQ_ALL w;
         w = qar_can_clear_irq B base QAR_CAN_IRQ_ALL w
     in qar_can_flush_rx B base w)"

definition init_spi_block :: "'w bus \<Rightarrow> u32 \<Rightarrow> 'w \<Rightarrow> 'w" where
  [hal_defs]: "init_spi_block B base w =
    (let w = mmio_write B (QAR_SPI_CTRL base) 0x0 w;
         w = mmio_write B (QAR_SPI_CLKDIV base) QAR_SPI_BOOT_CLKDIV w;
         w = mmio_write B (QAR_SPI_CS base) 0xFFFFFFFF w;
         w = mmio_write B (QAR_SPI_IRQ_EN base) 0x0 w
     in mmio_write B (QAR_SPI_IRQ_STATUS base) QAR_SPI_IRQ_ALL w)"

definition init_i2c_block :: "'w bus \<Rightarrow> u32 \<Rightarrow> 'w \<Rightarrow> 'w" where
  [hal_defs]: "init_i2c_block B base w =
    (let w = mmio_write B (QAR_I2C_CTRL base) 0x0 w;
         w = mmio_write B (QAR_I2C_CLKDIV base) QAR_I2C_BOOT_CLKDIV w;
         w = mmio_write B (QAR_I2C_IRQ_EN base) 0x0 w
     in mmio_write B (QAR_I2C_IRQ_STATUS base) QAR_I2C_IRQ_ALL w)"

definition init_adc_block :: "'w bus \<Rightarrow> u32 \<Rightarrow> 'w \<Rightarrow> 'w" where
  [hal_defs]: "init_adc_block B base w =
    (let w = mmio_write B (QAR_ADC_CTRL base) 0x0 w;
         w = mmio_write B (QAR_ADC_SEQ_MASK base) 0x0 w;
         w = mmio_write B (QAR_ADC_SAMPLE_DIV base) 0x0 w;
         w = mmio_write B (QAR_ADC_IRQ_EN base) 0x0 w
     in mmio_write B (QAR_ADC_IRQ_STATUS base) QAR_ADC_IRQ_ALL w)"

definition qar_sdk_init :: "'w bus \<Rightarrow> 'w \<Rightarrow> 'w" where
  [hal_defs]: "qar_sdk_init B w =
    (let w = init_gpio_block B QAR_GPIO0_BASE w;
         w = init_timer_block B QAR_TIMER0_BASE w;
         w = init_uart_block B QAR_UART0_BASE w;
         w = init_uart_block B QAR_UART1_BASE w;
         w = init_can_block B QAR_CAN0_BASE w;
         w = init_spi_block B QAR_SPI0_BASE w;
         w = init_i2c_block B QAR_I2C0_BASE w
     in init_adc_block B QAR_ADC0_BASE w)"

text \<open>
  The constructor of the runtime calls \<open>qar_sdk_init\<close>, a weak symbol, when the link gave it a
  definition: the SDK's own or one of the firmware. \<open>None\<close> is the unresolved weak symbol.
\<close>

definition qar_call_init :: "('w \<Rightarrow> 'w) option \<Rightarrow> 'w \<Rightarrow> 'w" where
  "qar_call_init sdk_init w = (case sdk_init of Some f \<Rightarrow> f w | None \<Rightarrow> w)"

end
