(* ===== verification/Sdk_Init_Soc.thy ===== *)
theory Sdk_Init_Soc
  imports Sdk_Init Can_Driver
begin

text \<open>
  The boot code of the SDK on the chip: the configuration it leaves behind, on any chip state and
  under any schedule, and what follows from it.
\<close>

subsection \<open>Block by block\<close>

lemmas cfg_simps = cfg_write cfg_update cfg_update_None dev_effect_def config_reg_def

lemma cfg_init_gpio:
  "cfg d (init_gpio_block soc_bus QAR_GPIO0_BASE w) =
     (if d = GPIO
      then (cfg GPIO w)(0 := 0, 1 := 0, 7 := 0, 5 := 0, 8 := 0, 9 := 0, 10 := 0, 11 := 0)
      else cfg d w)"
  by (simp add: hal_defs cfg_simps cfg_trunc_def Let_def)

lemma cfg_init_timer:
  "cfg d (init_timer_block soc_bus QAR_TIMER0_BASE w) =
     (if d = TIMER0
      then (cfg TIMER0 w)(0 := 0, 4 := 0, 1 := 0, 6 := 0, 8 := 0, 12 := 0, 13 := 0, 14 := 0,
             15 := 0, 9 := 0, 10 := 0, 17 := 0)
      else cfg d w)"
  by (simp add: hal_defs cfg_simps cfg_trunc_def Let_def)

lemma cfg_init_uart0:
  "cfg d (init_uart_block soc_bus QAR_UART0_BASE w) =
     (if d = UART0
      then (cfg UART0 w)(2 := 0, 3 := 500, 6 := 0, 7 := 0, 8 := 13, 12 := 0,
             4 := cfg UART0 w 4 AND NOT QAR_UART_IRQ_ALL, 9 := 2)
      else cfg d w)"
  by (simp add: hal_defs cfg_simps cfg_trunc_def Let_def QAR_UART_BOOT_DIV_def)

lemma cfg_init_uart1: "cfg d (init_uart_block soc_bus QAR_UART1_BASE w) = cfg d w"
  by (simp add: hal_defs cfg_simps Let_def)

lemma cfg_init_can:
  "cfg d (init_can_block soc_bus QAR_CAN0_BASE w) =
     (if d = CAN0
      then (cfg CAN0 w)(0 := 0, 2 := 0x13, 6 := 0, 7 := 0, 4 := cfg CAN0 w 4 AND NOT QAR_CAN_IRQ_ALL)
      else cfg d w)"
  by (simp add: hal_defs cfg_simps cfg_trunc_def Let_def QAR_CAN_BOOT_BITTIME_def)

lemma cfg_init_spi:
  "cfg d (init_spi_block soc_bus QAR_SPI0_BASE w) =
     (if d = SPI0 then (cfg SPI0 w)(0 := 0, 2 := 4, 5 := 0xFFFFFFFF, 6 := 0) else cfg d w)"
  by (simp add: hal_defs cfg_simps cfg_trunc_def Let_def QAR_SPI_BOOT_CLKDIV_def)

lemma cfg_init_i2c:
  "cfg d (init_i2c_block soc_bus QAR_I2C0_BASE w) =
     (if d = I2C0 then (cfg I2C0 w)(0 := 0, 1 := 64, 3 := 0) else cfg d w)"
  by (simp add: hal_defs cfg_simps cfg_trunc_def Let_def QAR_I2C_BOOT_CLKDIV_def)

lemma cfg_init_adc:
  "cfg d (init_adc_block soc_bus QAR_ADC0_BASE w) =
     (if d = ADC0 then (cfg ADC0 w)(0 := 0, 5 := 0, 6 := 0, 3 := 0) else cfg d w)"
  by (simp add: hal_defs cfg_simps cfg_trunc_def Let_def)

lemmas cfg_init_blocks = cfg_init_gpio cfg_init_timer cfg_init_uart0 cfg_init_uart1 cfg_init_can
  cfg_init_spi cfg_init_i2c cfg_init_adc

text \<open>The whole boot code on one block.\<close>

lemma cfg_sdk_init:
  "cfg GPIO (qar_sdk_init soc_bus w) =
     (cfg GPIO w)(0 := 0, 1 := 0, 7 := 0, 5 := 0, 8 := 0, 9 := 0, 10 := 0, 11 := 0)"
  "cfg TIMER0 (qar_sdk_init soc_bus w) =
     (cfg TIMER0 w)(0 := 0, 4 := 0, 1 := 0, 6 := 0, 8 := 0, 12 := 0, 13 := 0, 14 := 0, 15 := 0,
        9 := 0, 10 := 0, 17 := 0)"
  "cfg UART0 (qar_sdk_init soc_bus w) =
     (cfg UART0 w)(2 := 0, 3 := 500, 6 := 0, 7 := 0, 8 := 13, 12 := 0,
        4 := cfg UART0 w 4 AND NOT QAR_UART_IRQ_ALL, 9 := 2)"
  "cfg CAN0 (qar_sdk_init soc_bus w) =
     (cfg CAN0 w)(0 := 0, 2 := 0x13, 6 := 0, 7 := 0, 4 := cfg CAN0 w 4 AND NOT QAR_CAN_IRQ_ALL)"
  "cfg SPI0 (qar_sdk_init soc_bus w) = (cfg SPI0 w)(0 := 0, 2 := 4, 5 := 0xFFFFFFFF, 6 := 0)"
  "cfg I2C0 (qar_sdk_init soc_bus w) = (cfg I2C0 w)(0 := 0, 1 := 64, 3 := 0)"
  "cfg ADC0 (qar_sdk_init soc_bus w) = (cfg ADC0 w)(0 := 0, 5 := 0, 6 := 0, 3 := 0)"
  by (simp_all add: qar_sdk_init_def Let_def cfg_init_blocks)

subsection \<open>Interrupt requests\<close>

lemma no_irq_of_cfg:
  "cfg UART0 w 4 = 0 \<Longrightarrow> \<not> ua_irq (soc_uart (w_soc w))"
  "cfg CAN0 w 4 = 0 \<Longrightarrow> \<not> can_irq (soc_can (w_soc w))"
  "cfg GPIO w 5 = 0 \<Longrightarrow> \<not> gp_irq (soc_gpio (w_soc w))"
  "cfg SPI0 w 6 = 0 \<Longrightarrow> \<not> spi_irq (soc_spi (w_soc w))"
  "cfg I2C0 w 3 = 0 \<Longrightarrow> \<not> i2c_irq (soc_i2c (w_soc w))"
  "cfg ADC0 w 3 = 0 \<Longrightarrow> \<not> adc_irq (soc_adc (w_soc w))"
  "cfg TIMER0 w 4 = 0 \<Longrightarrow> \<not> timer_irq (soc_timer (w_soc w))"
  using cfg_rdata [of UART0 4 no_pins w] cfg_rdata [of CAN0 4 no_pins w]
    cfg_rdata [of GPIO 5 no_pins w] cfg_rdata [of SPI0 6 no_pins w] cfg_rdata [of I2C0 3 no_pins w]
    cfg_rdata [of ADC0 3 no_pins w] cfg_rdata [of TIMER0 4 no_pins w]
  by (simp_all add: config_reg_def dev_rdata_def ua_rdata_def can_rdata_def gpio_rdata_def
      spi_rdata_def i2c_rdata_def adc_rdata_def timer_rdata_def ua_irq_def can_irq_def gp_irq_def
      spi_irq_def i2c_irq_def adc_irq_def timer_irq_def Let_def)

lemma no_irq_after_init:
  assumes "cfg UART0 w 4 AND NOT QAR_UART_IRQ_ALL = 0" "cfg CAN0 w 4 AND NOT QAR_CAN_IRQ_ALL = 0"
  shows "\<not> soc_external_irq (w_soc (soc_idle n (qar_sdk_init soc_bus w))) \<and>
         \<not> soc_timer_irq (w_soc (soc_idle n (qar_sdk_init soc_bus w)))"
  using assms no_irq_of_cfg [of "soc_idle n (qar_sdk_init soc_bus w)"]
  by (simp add: soc_external_irq_def soc_timer_irq_def cfg_sdk_init)

subsection \<open>The CAN controller after boot\<close>

lemma can_at_other:
  "(\<And>k. soc_decode a \<noteq> Some (CAN0, k)) \<Longrightarrow> can_at (mmio_write soc_bus a v w) = can_at w"
  by (auto simp: can_at_write split: option.split)

lemma can_at_update_other:
  "(\<And>k. soc_decode a \<noteq> Some (CAN0, k)) \<Longrightarrow> can_at (mmio_update soc_bus a f w) = can_at w"
  using can_at_read [of a w]
  by (cases "mmio_read soc_bus a w") (simp add: mmio_update_def can_at_other)

lemma can_after_init_queue: "can_rx_queue (can_at (qar_sdk_init soc_bus w)) = []"
proof -
  have "can_rx_queue (can_at (init_can_block soc_bus QAR_CAN0_BASE w)) = []" for w
    by (simp add: init_can_block_def can_flush_rx_queue Let_def)
  then show ?thesis
    by (simp add: qar_sdk_init_def Let_def init_adc_block_def init_i2c_block_def init_spi_block_def
        can_at_other)
qed

subsection \<open>The second UART\<close>

text \<open>What the stores to an address without a block leave in the data memory's store history.\<close>

lemma dmem_write:
  "w_dmem_stores (mmio_write soc_bus a v w) =
     (if soc_decode a = None then w_dmem_stores w @ [(a, v)] else w_dmem_stores w)"
  by (simp add: mmio_write_def soc_bus_def soc_wr_def Let_def)

lemma dmem_read [simp]: "w_dmem_stores (snd (mmio_read soc_bus a w)) = w_dmem_stores w"
  by (simp add: mmio_read_def soc_bus_def soc_rd_def Let_def)

lemma dmem_update:
  "map fst (w_dmem_stores (mmio_update soc_bus a f w)) =
     (if soc_decode a = None then map fst (w_dmem_stores w) @ [a] else map fst (w_dmem_stores w))"
  using dmem_read [of a w]
  by (cases "mmio_read soc_bus a w") (simp add: mmio_update_def dmem_write)

lemma dmem_write_addr:
  "map fst (w_dmem_stores (mmio_write soc_bus a v w)) =
     (if soc_decode a = None then map fst (w_dmem_stores w) @ [a] else map fst (w_dmem_stores w))"
  by (simp add: dmem_write)

lemmas dmem_simps = dmem_write_addr dmem_update

lemma dmem_init_blocks:
  "map fst (w_dmem_stores (init_gpio_block soc_bus QAR_GPIO0_BASE w)) = map fst (w_dmem_stores w)"
  "map fst (w_dmem_stores (init_timer_block soc_bus QAR_TIMER0_BASE w)) = map fst (w_dmem_stores w)"
  "map fst (w_dmem_stores (init_uart_block soc_bus QAR_UART0_BASE w)) = map fst (w_dmem_stores w)"
  "map fst (w_dmem_stores (init_can_block soc_bus QAR_CAN0_BASE w)) = map fst (w_dmem_stores w)"
  "map fst (w_dmem_stores (init_spi_block soc_bus QAR_SPI0_BASE w)) = map fst (w_dmem_stores w)"
  "map fst (w_dmem_stores (init_i2c_block soc_bus QAR_I2C0_BASE w)) = map fst (w_dmem_stores w)"
  "map fst (w_dmem_stores (init_adc_block soc_bus QAR_ADC0_BASE w)) = map fst (w_dmem_stores w)"
  by (simp_all add: hal_defs dmem_simps Let_def)

lemma dmem_init_uart1:
  "map fst (w_dmem_stores (init_uart_block soc_bus QAR_UART1_BASE w)) = map fst (w_dmem_stores w) @
     map (\<lambda>off. 0x40002000 + off) [0x08, 0x0C, 0x18, 0x1C, 0x20, 0x30, 0x10, 0x14, 0x24]"
  by (simp add: hal_defs dmem_simps Let_def)
     (simp add: reg_addr)

subsection \<open>Properties\<close>

text \<open>
  C23. \<open>qar_sdk_init\<close> brings the configuration registers of the chip to one known state from every
  chip state and under every schedule: all GPIO pins inputs with outputs, masks and filters off;
  the timer stopped with compares, PWM, watchdog and capture off; the UART, CAN, SPI, I2C and ADC
  disabled with the boot dividers (500 for the UART, 0x13 for CAN, 4 for SPI, 64 for I2C) and every
  interrupt enable that the SDK knows cleared.
\<close>

theorem sdk_init_config:
  "let w' = qar_sdk_init soc_bus w in
     map (cfg GPIO w') [0, 1, 5, 7, 8, 9, 10, 11] = replicate 8 0 \<and>
     map (cfg TIMER0 w') [0, 1, 4, 6, 8, 9, 10, 12, 13, 14, 15, 17] = replicate 12 0 \<and>
     map (cfg UART0 w') [2, 3, 6, 7, 8, 12] = [0, 500, 0, 0, 13, 0] \<and>
     cfg UART0 w' 4 AND QAR_UART_IRQ_ALL = 0 \<and>
     map (cfg CAN0 w') [0, 2, 6, 7] = [0, 0x13, 0, 0] \<and> cfg CAN0 w' 4 AND QAR_CAN_IRQ_ALL = 0 \<and>
     map (cfg SPI0 w') [0, 2, 5, 6] = [0, 4, 0xFFFFFFFF, 0] \<and>
     map (cfg I2C0 w') [0, 1, 3] = [0, 64, 0] \<and> map (cfg ADC0 w') [0, 3, 5, 6] = [0, 0, 0, 0]"
proof -
  have m: "(x AND NOT m) AND m = 0" for x m :: u32
    by (simp add: bit_eq_iff [where 'a = u32] bit_and_iff bit_not_iff)
  show ?thesis by (simp add: cfg_sdk_init numeral_eq_Suc m Let_def)
qed

text \<open>
  After \<open>qar_sdk_init\<close> no peripheral requests an interrupt, for as long as the core makes no
  further access and whatever happens on the pins, provided the UART and the CAN controller had no
  enable bit set outside those the SDK clears (as after reset).
\<close>

theorem sdk_init_quiet:
  assumes "cfg UART0 w 4 AND NOT QAR_UART_IRQ_ALL = 0" and "cfg CAN0 w 4 AND NOT QAR_CAN_IRQ_ALL = 0"
  shows "\<not> soc_external_irq (w_soc (soc_idle n (qar_sdk_init soc_bus w))) \<and>
         \<not> soc_timer_irq (w_soc (soc_idle n (qar_sdk_init soc_bus w)))"
  using assms by (rule no_irq_after_init)

lemma sdk_init_quiet_witness:
  "\<not> soc_external_irq (w_soc (soc_idle 1000 (qar_sdk_init soc_bus world_at_reset))) \<and>
   \<not> soc_timer_irq (w_soc (soc_idle 1000 (qar_sdk_init soc_bus world_at_reset)))"
proof -
  have "cfg UART0 world_at_reset 4 = 0" "cfg CAN0 world_at_reset 4 = 0"
    using cfg_rdata [of UART0 4 no_pins world_at_reset] cfg_rdata [of CAN0 4 no_pins world_at_reset]
    by (simp_all add: config_reg_def dev_rdata_def ua_rdata_def can_rdata_def ua_reset_def
        can_reset_def Let_def)
  then show ?thesis using sdk_init_quiet [of world_at_reset 1000] by simp
qed

text \<open>
  The chip has no second UART: the nine stores of \<open>qar_sdk_init\<close> to \<open>QAR_UART1_BASE\<close> hit no
  block and go to the data memory port, at the addresses 0x40002008 to 0x40002030, in this order;
  no other store of the boot code does.
\<close>

theorem sdk_init_uart1_hits_dmem:
  "map fst (w_dmem_stores (qar_sdk_init soc_bus w)) = map fst (w_dmem_stores w) @
     map (\<lambda>off. 0x40002000 + off) [0x08, 0x0C, 0x18, 0x1C, 0x20, 0x30, 0x10, 0x14, 0x24]"
  by (simp add: qar_sdk_init_def Let_def dmem_init_blocks dmem_init_uart1)

end
