(* ===== verification/Soc_Rules.thy ===== *)
theory Soc_Rules
  imports Hal_Decode
begin

text \<open>
  Rules that lift facts about single clock cycles to bus accesses of the running system. An access
  waits some cycles and then takes one; what a cycle without an access keeps holds in the cycle of
  the access itself.
\<close>

lemma soc_idle_world:
  assumes "\<And>w. I w \<Longrightarrow> I (soc_tick NoAccess w)" and "I w"
  shows "I (soc_idle n w)"
  using assms by (induction n) (simp_all add: soc_idle_Suc)

lemma soc_wait_world:
  assumes "\<And>w. I w \<Longrightarrow> I (soc_tick NoAccess w)" and "I w"
  shows "I (soc_wait w)"
  unfolding soc_wait_def using assms by (rule soc_idle_world)

text \<open>Together with a measure that no cycle increases.\<close>

lemma soc_wait_measure:
  fixes f :: "world \<Rightarrow> nat"
  assumes "\<And>w. I w \<Longrightarrow> I (soc_tick NoAccess w) \<and> f (soc_tick NoAccess w) \<le> f w" and "I w"
  shows "I (soc_wait w) \<and> f (soc_wait w) \<le> f w"
proof -
  have "I (soc_wait w) \<and> f (soc_wait w) \<le> f w"
  proof (rule soc_wait_world [where I = "\<lambda>x. I x \<and> f x \<le> f w"])
    fix x assume "I x \<and> f x \<le> f w"
    with assms(1) [of x] show "I (soc_tick NoAccess x) \<and> f (soc_tick NoAccess x) \<le> f w"
      using le_trans by blast
  qed (simp add: assms(2))
  then show ?thesis .
qed

lemma mmio_read_soc:
  "mmio_read soc_bus a w = (soc_load a (soc_wait w), soc_tick (Load a) (soc_wait w))"
  by (simp add: mmio_read_def soc_bus_def soc_rd_def Let_def)

lemma mmio_write_soc:
  "w_soc (mmio_write soc_bus a v w) = w_soc (soc_tick (Store a v) (soc_wait w))"
  "w_now (mmio_write soc_bus a v w) = w_now (soc_tick (Store a v) (soc_wait w))"
  "w_pins (mmio_write soc_bus a v w) = w_pins w"
  "w_gap (mmio_write soc_bus a v w) = w_gap w"
  by (simp_all add: mmio_write_def soc_bus_def soc_wr_def Let_def)

lemma mmio_read_soc_env [simp]:
  "w_pins (snd (mmio_read soc_bus a w)) = w_pins w" "w_gap (snd (mmio_read soc_bus a w)) = w_gap w"
  by (simp_all add: mmio_read_soc)

lemma soc_load_dev:
  "soc_decode a = Some (d, k) \<Longrightarrow> soc_load a w = dev_rdata (w_pins w (w_now w)) d k (w_soc w)"
  by (simp add: soc_load_def)

text \<open>The port a block sees when it is, or is not, the one addressed.\<close>

lemma soc_port_hit:
  "soc_decode a = Some (d, k) \<Longrightarrow> soc_port d (Store a v) = Wr k v"
  "soc_decode a = Some (d, k) \<Longrightarrow> soc_port d (Load a) = Rd k"
  by (simp_all add: soc_port_def)

lemma soc_port_miss:
  "(\<And>k. soc_decode a \<noteq> Some (d, k)) \<Longrightarrow> soc_port d (Store a v) = Idle"
  "(\<And>k. soc_decode a \<noteq> Some (d, k)) \<Longrightarrow> soc_port d (Load a) = Idle"
  by (auto simp: soc_port_def split: option.split)

text \<open>
  What the chip keeps while the core makes no access, it keeps until the next access is made.
\<close>

locale soc_invariant =
  fixes keeps :: "world \<Rightarrow> bool"
  assumes keeps_idle: "keeps w \<Longrightarrow> keeps (soc_tick NoAccess w)"
begin

lemma keeps_wait: "keeps w \<Longrightarrow> keeps (soc_wait w)"
  using keeps_idle by (rule soc_wait_world)

end

text \<open>
  A flag on the chip: an invariant of the wait, a measure that no idle cycle raises, and a cycle with
  a load that misses the flag keeps the invariant and lowers the measure. A loop that polls it ends
  with a load in a world of the invariant that shows the flag.
\<close>

locale soc_flag = soc_invariant waiting
  for waiting :: "world \<Rightarrow> bool" +
  fixes reg :: u32 and ok :: "u32 \<Rightarrow> bool" and left :: "world \<Rightarrow> nat"
  assumes left_idle: "waiting w \<Longrightarrow> left (soc_tick NoAccess w) \<le> left w"
    and waiting_miss: "waiting w \<Longrightarrow> \<not> ok (soc_load reg w) \<Longrightarrow> waiting (soc_tick (Load reg) w)"
    and left_miss: "waiting w \<Longrightarrow> \<not> ok (soc_load reg w) \<Longrightarrow> left (soc_tick (Load reg) w) < left w"
begin

lemma left_wait: "waiting w \<Longrightarrow> waiting (soc_wait w) \<and> left (soc_wait w) \<le> left w"
  using soc_wait_measure [of waiting left w] keeps_idle left_idle by blast

end

sublocale soc_flag \<subseteq> poll: polled_flag "mmio_read soc_bus reg" ok waiting left
proof
  fix w assume w: "waiting w" and no: "\<not> ok (fst (mmio_read soc_bus reg w))"
  have wait: "waiting (soc_wait w)" "left (soc_wait w) \<le> left w" using left_wait [OF w] by simp_all
  have miss: "\<not> ok (soc_load reg (soc_wait w))" using no by (simp add: mmio_read_soc)
  show "waiting (snd (mmio_read soc_bus reg w))"
    using waiting_miss [OF wait(1) miss] by (simp add: mmio_read_soc)
  show "left (snd (mmio_read soc_bus reg w)) < left w"
    using left_miss [OF wait(1) miss] wait(2) by (simp add: mmio_read_soc)
qed

context soc_flag
begin

lemma poll_sees:
  assumes "waiting w"
  shows "\<exists>x. waiting x \<and> ok (soc_load reg x) \<and> left x \<le> left w \<and>
           poll_until (mmio_read soc_bus reg) ok w = Some (soc_load reg x, soc_tick (Load reg) x)"
proof -
  obtain y where y: "waiting y" "ok (fst (mmio_read soc_bus reg y))" "left y \<le> left w"
    "poll_until (mmio_read soc_bus reg) ok w = Some (mmio_read soc_bus reg y)"
    using poll.poll_returns [OF assms] by blast
  then show ?thesis using left_wait [OF y(1)] by (intro exI [of _ "soc_wait y"]) (auto simp: mmio_read_soc)
qed

end

end
