(* ===== verification/Adc_Driver.thy ===== *)
theory Adc_Driver
  imports Soc_Rules
begin

text \<open>
  The ADC and its driver: the sequencer, the invariant of the reachable states, and the timing of a
  single conversion started and polled through the driver on the chip.
\<close>

subsection \<open>Reachable states\<close>

inductive adc_reach :: "adc \<Rightarrow> bool" where
  reset: "adc_reach (adc_reset s)"
| step: "adc_reach s \<Longrightarrow> adc_reach (adc_step p bop s)"

text \<open>
  While a conversion is in progress no result is pending: a conversion starts by dropping the old
  result. The overrun branch therefore never runs.
\<close>

definition adc_inv :: "adc \<Rightarrow> bool" where
  "adc_inv s \<longleftrightarrow> (adc_busy s \<longrightarrow> \<not> adc_data_valid s) \<and> \<not> adc_data_overrun s \<and>
     \<not> bit (adc_irq_status s) 1 \<and> adc_conv_counter s \<le> 7"

lemma adc_write_inv:
  assumes "adc_inv s"
  shows "adc_inv (adc_write k v s)" "adc_busy (adc_write k v s) = adc_busy s"
    "adc_conv_counter (adc_write k v s) = adc_conv_counter s"
  using assms by (auto simp: adc_write_def adc_inv_def Let_def bit_and_iff)

lemma adc_read_inv:
  assumes "adc_inv s"
  shows "adc_inv (adc_read_effect k s)" "adc_busy (adc_read_effect k s) = adc_busy s"
    "adc_conv_counter (adc_read_effect k s) = adc_conv_counter s"
  using assms by (auto simp: adc_read_effect_def adc_inv_def)

lemma adc_idle_inv: "adc_inv n \<Longrightarrow> \<not> adc_busy n \<Longrightarrow> adc_inv (adc_idle_cycle p s n)"
  by (auto simp: adc_idle_cycle_def adc_start_def adc_inv_def)

lemma adc_busy_inv:
  "adc_inv s \<Longrightarrow> adc_busy s \<Longrightarrow> adc_inv n \<Longrightarrow> adc_busy n \<Longrightarrow> adc_inv (adc_busy_cycle s n)"
  by (auto simp: adc_busy_cycle_def adc_inv_def Let_def word_le_nat_alt unat_word_ariths)

lemma adc_counter_inv: "adc_inv n \<Longrightarrow> adc_inv (n\<lparr>adc_sample_counter := c\<rparr>)"
  by (simp add: adc_inv_def)

lemma adc_step_inv:
  assumes "adc_inv s"
  shows "adc_inv (adc_step p bop s)"
proof -
  define n where "n = (case bop of Wr k v \<Rightarrow> adc_write k v s | Rd k \<Rightarrow> adc_read_effect k s | Idle \<Rightarrow> s)"
  define m where "m = (if \<not> adc_ctrl_continuous s then n\<lparr>adc_sample_counter := 0\<rparr> else n)"
  have n: "adc_inv n" "adc_busy n = adc_busy s"
    using assms adc_write_inv adc_read_inv by (auto simp: n_def split: busop.split)
  have m: "adc_inv m" "adc_busy m = adc_busy s" using n by (auto simp: m_def adc_counter_inv)
  have "adc_step p bop s = (if \<not> adc_busy s then adc_idle_cycle p s m else adc_busy_cycle s m)"
    by (simp add: adc_step_def n_def m_def Let_def)
  then show ?thesis
    using assms m adc_idle_inv [of m p s] adc_busy_inv [of s m] by auto
qed

lemma adc_reach_inv: "adc_reach s \<Longrightarrow> adc_inv s"
proof (induction rule: adc_reach.induct)
  case (reset s)
  show ?case by (simp add: adc_inv_def adc_reset_def)
qed (simp add: adc_step_inv)

subsection \<open>The sequencer\<close>

text \<open>The channels enabled in a mask, and the next one in cyclic order.\<close>

lemma two_word_cases: "(c :: 2 word) = 0 \<or> c = 1 \<or> c = 2 \<or> c = 3"
proof -
  have "unat c < 4" using unsigned_less [where 'a = nat, of c] by simp
  then have "unat c \<in> {0, 1, 2, 3}" by auto
  then show ?thesis by (auto simp: word_unat_eq_iff)
qed

definition ch_enabled :: "4 word \<Rightarrow> 2 word \<Rightarrow> bool" where
  "ch_enabled m c \<longleftrightarrow> bit m (unat c)"

lemma adc_next_enabled: "m \<noteq> 0 \<Longrightarrow> ch_enabled m c \<Longrightarrow> ch_enabled m (adc_next_channel m c)"
  using two_word_cases [of c] by (auto simp: adc_next_channel_def ch_enabled_def)

lemma adc_first_enabled:
  assumes "m \<noteq> 0"
  shows "ch_enabled m (adc_first_channel m)"
proof -
  obtain i where "i < 4" "bit m i" using assms by (auto simp: word_ne_0_bit)
  then have "bit m 0 \<or> bit m 1 \<or> bit m 2 \<or> bit m 3"
    by (auto simp: numeral_eq_Suc less_Suc_eq)
  then show ?thesis by (auto simp: adc_first_channel_def ch_enabled_def)
qed

lemma adc_round_robin:
  assumes "ch_enabled m c" "ch_enabled m d"
  shows "let n = adc_next_channel m in n c = d \<or> n (n c) = d \<or> n (n (n c)) = d \<or> n (n (n (n c))) = d"
  using two_word_cases [of c] two_word_cases [of d] assms
  by (elim disjE; cases "bit m 0"; cases "bit m 1"; cases "bit m 2"; cases "bit m 3")
     (simp_all add: adc_next_channel_def ch_enabled_def Let_def)

subsection \<open>A single conversion on the chip\<close>

definition adc_at :: "world \<Rightarrow> adc" where
  "adc_at w = soc_adc (w_soc w)"

lemma adc_at_tick:
  "adc_at (soc_tick acc w) = adc_step (pin_adc (w_pins w (w_now w))) (soc_port ADC0 acc) (adc_at w)"
  by (simp add: adc_at_def)

text \<open>
  No conversion runs, none is requested, no result is unread, and the sequencer is off. (With an
  unread result the ready flag would still be up in the cycle after the start request.)
\<close>

definition adc_quiet :: "adc \<Rightarrow> bool" where
  "adc_quiet s \<longleftrightarrow> \<not> adc_busy s \<and> \<not> adc_manual_start_pending s \<and> \<not> adc_ctrl_continuous s \<and>
     \<not> adc_data_valid s"

lemma adc_quiet_idle: "adc_quiet s \<Longrightarrow> adc_quiet (adc_step p Idle s)"
  by (simp add: adc_quiet_def adc_step_def adc_idle_cycle_def adc_continuous_ready_def Let_def)

text \<open>
  The phases of a conversion of channel \<open>ch\<close> whose sample is taken in cycle \<open>t0\<close>: requested,
  converting, done. \<open>adc_left\<close> is the number of cycles until the result is there.
\<close>

definition adc_single :: "(nat \<Rightarrow> pins) \<Rightarrow> nat \<Rightarrow> 2 word \<Rightarrow> world \<Rightarrow> bool" where
  "adc_single P t0 ch w \<longleftrightarrow>
     (let s = adc_at w; x = adc_channel_value (pin_adc (P t0)) ch in
      w_pins w = P \<and> adc_ctrl_enable s \<and> \<not> adc_ctrl_continuous s \<and>
      (adc_manual_start_pending s \<and> \<not> adc_busy s \<and> adc_ctrl_channel s = ch \<and> w_now w = t0 \<and>
         \<not> adc_data_valid s \<or>
       \<not> adc_manual_start_pending s \<and> adc_busy s \<and> adc_active_channel s = ch \<and>
         adc_sample_hold s = x \<and> adc_conv_counter s \<le> 7 \<and> \<not> adc_data_valid s \<or>
       \<not> adc_manual_start_pending s \<and> \<not> adc_busy s \<and> adc_data_valid s \<and>
         adc_result_value s = x \<and> adc_result_channel s = ch))"

definition adc_left :: "world \<Rightarrow> nat" where
  "adc_left w =
     (let s = adc_at w in
      if adc_manual_start_pending s then 9
      else if adc_busy s then 8 - unat (adc_conv_counter s) else 0)"

lemma adc_step_keep:
  assumes "bop = Idle \<or> bop = Rd 1"
  shows "adc_step p bop s = adc_step p Idle s"
  using assms by (auto simp: adc_step_def adc_read_effect_def)

lemma conv_counter_Suc:
  assumes "c \<le> (7 :: u8)" "\<not> 7 \<le> c"
  shows "c + 1 \<le> 7" "unat (c + 1) = unat c + 1" "unat c < 7"
  using assms by (auto simp: word_le_nat_alt unat_word_ariths)

lemma adc_single_tick:
  assumes w: "adc_single P t0 ch w" and acc: "soc_port ADC0 acc = Idle \<or> soc_port ADC0 acc = Rd 1"
  shows "adc_single P t0 ch (soc_tick acc w) \<and> adc_left (soc_tick acc w) \<le> adc_left w - 1"
proof -
  let ?s = "adc_at w"
  have at: "adc_at (soc_tick acc w) = adc_step (pin_adc (w_pins w (w_now w))) Idle ?s"
    using adc_step_keep [OF acc] by (simp add: adc_at_tick)
  consider (req) "adc_manual_start_pending ?s" "\<not> adc_busy ?s"
    | (conv) "\<not> adc_manual_start_pending ?s" "adc_busy ?s"
    | (fin) "\<not> adc_manual_start_pending ?s" "\<not> adc_busy ?s"
    using w by (auto simp: adc_single_def Let_def)
  then show ?thesis
  proof cases
    case req
    with w show ?thesis
      by (auto simp: adc_single_def adc_left_def at adc_step_def adc_idle_cycle_def adc_start_def Let_def)
  next
    case conv
    with w conv_counter_Suc [of "adc_conv_counter ?s"] show ?thesis
      by (auto simp: adc_single_def adc_left_def at adc_step_def adc_busy_cycle_def Let_def)
  next
    case fin
    with w show ?thesis
      by (auto simp: adc_single_def adc_left_def at adc_step_def adc_idle_cycle_def
          adc_continuous_ready_def Let_def)
  qed
qed

lemma adc_status_ready:
  "soc_load (QAR_ADC_STATUS QAR_ADC0_BASE) w AND QAR_ADC_STATUS_READY \<noteq> 0 \<longleftrightarrow>
     adc_data_valid (adc_at w)"
proof -
  have "(v AND QAR_ADC_STATUS_READY = 0) = (\<not> bit v 1)" for v
    unfolding QAR_ADC_STATUS_READY_def by (rule and_bit_mask) simp
  then show ?thesis
    by (simp add: soc_load_dev dev_rdata_def adc_rdata_def adc_at_def bit_or_iff)
qed

lemma adc_left_0: "adc_single P t0 ch w \<Longrightarrow> adc_left w = 0 \<longleftrightarrow> adc_data_valid (adc_at w)"
  by (auto simp: adc_single_def adc_left_def Let_def word_le_nat_alt)

text \<open>The polling loop on the ready flag meets the contract: it returns.\<close>

interpretation adc_poll: soc_flag "adc_single P t0 ch" "QAR_ADC_STATUS QAR_ADC0_BASE"
    "\<lambda>v. v AND QAR_ADC_STATUS_READY \<noteq> 0" adc_left for P t0 ch
proof
  fix w assume w: "adc_single P t0 ch w"
  show "adc_single P t0 ch (soc_tick NoAccess w)" "adc_left (soc_tick NoAccess w) \<le> adc_left w"
    using adc_single_tick [OF w, of NoAccess] by auto
  let ?t = "soc_tick (Load (QAR_ADC_STATUS QAR_ADC0_BASE)) w"
  assume "\<not> soc_load (QAR_ADC_STATUS QAR_ADC0_BASE) w AND QAR_ADC_STATUS_READY \<noteq> 0"
  then have "adc_left w \<noteq> 0" using adc_status_ready adc_left_0 [OF w] by blast
  then show "adc_single P t0 ch ?t" "adc_left ?t < adc_left w"
    using adc_single_tick [OF w, of "Load (QAR_ADC_STATUS QAR_ADC0_BASE)"] soc_port_hit(2) [OF decode_adc(2)]
    by fastforce+
qed

lemma adc_quiet_wait:
  assumes "adc_quiet (adc_at w)"
  shows "adc_quiet (adc_at (soc_wait w))"
  using assms unfolding adc_at_def
  by (intro soc_wait_keeps [where P = "\<lambda>s. adc_quiet (soc_adc s)"]) (simp_all add: adc_quiet_idle)

lemma adc_start_ctrl:
  fixes channel :: u32
  defines "v \<equiv> QAR_ADC_CTRL_ENABLE OR push_bit QAR_ADC_CTRL_CHANNEL_SHIFT (channel AND 0x3) OR
                QAR_ADC_CTRL_START"
  shows "bit v 0" "\<not> bit v 1" "bit v 2" "ucast (drop_bit 4 v) = (ucast channel :: 2 word)"
proof -
  have three: "(0x3 :: u32) = mask 2" by (simp add: mask_eq_exp_minus_1)
  show "bit v 0" "\<not> bit v 1" "bit v 2" by (simp_all add: v_def reg_bits bit_simps)
  show "ucast (drop_bit 4 v) = (ucast channel :: 2 word)"
    by (rule bit_word_eqI) (auto simp: v_def reg_bits three bit_simps)
qed

lemma adc_start_single_begins:
  assumes "adc_quiet (adc_at w)"
  shows "adc_single (w_pins w) (w_now (qar_adc_start_single soc_bus QAR_ADC0_BASE channel w))
           (ucast channel) (qar_adc_start_single soc_bus QAR_ADC0_BASE channel w)"
proof -
  let ?v = "QAR_ADC_CTRL_ENABLE OR push_bit QAR_ADC_CTRL_CHANNEL_SHIFT (channel AND 0x3) OR
    QAR_ADC_CTRL_START"
  let ?w = "qar_adc_start_single soc_bus QAR_ADC0_BASE channel w"
  let ?q = "adc_at (soc_wait w)"
  have q: "adc_quiet ?q" using assms by (rule adc_quiet_wait)
  have "adc_at ?w = adc_step (pin_adc (w_pins w (w_now (soc_wait w)))) (Wr 0 ?v) ?q"
    by (simp add: qar_adc_start_single_def Let_def adc_at_def mmio_write_soc soc_port_hit(1)
        [OF decode_adc(1)])
  then have "adc_at ?w = (adc_write 0 ?v ?q)\<lparr>adc_sample_counter := 0\<rparr>"
    using q by (simp add: adc_step_def adc_idle_cycle_def adc_quiet_def adc_continuous_ready_def Let_def)
  then show ?thesis
    using q adc_start_ctrl [of channel]
    by (simp add: adc_single_def adc_write_def adc_quiet_def Let_def)
       (simp add: qar_adc_start_single_def mmio_write_soc Let_def)
qed

lemma adc_status_read: "qar_adc_status soc_bus QAR_ADC0_BASE = mmio_read soc_bus (QAR_ADC_STATUS QAR_ADC0_BASE)"
  by (rule ext) (simp add: qar_adc_status_def)

text \<open>A load of the status register that finds the flag up leaves it up.\<close>

lemma adc_status_load_keeps:
  assumes w: "adc_single P t0 ch w"
    and up: "soc_load (QAR_ADC_STATUS QAR_ADC0_BASE) w AND QAR_ADC_STATUS_READY \<noteq> 0"
  shows "adc_single P t0 ch (soc_tick (Load (QAR_ADC_STATUS QAR_ADC0_BASE)) w) \<and>
         adc_data_valid (adc_at (soc_tick (Load (QAR_ADC_STATUS QAR_ADC0_BASE)) w))"
proof -
  let ?t = "soc_tick (Load (QAR_ADC_STATUS QAR_ADC0_BASE)) w"
  have "soc_port ADC0 (Load (QAR_ADC_STATUS QAR_ADC0_BASE)) = Rd 1" by (rule soc_port_hit(2)) simp
  then have tick: "adc_single P t0 ch ?t" "adc_left ?t \<le> adc_left w - 1"
    using adc_single_tick [OF w] by blast+
  moreover have "adc_left w = 0" using up adc_status_ready adc_left_0 [OF w] by blast
  ultimately show ?thesis using adc_left_0 [OF tick(1)] by simp
qed

text \<open>The result word after the poll.\<close>

lemma adc_result_word:
  "QAR_ADC_RESULT_VALUE (adc_rdata 2 s) = ucast (adc_result_value s)"
  "QAR_ADC_RESULT_CHANNEL (adc_rdata 2 s) = ucast (adc_result_channel s)"
proof -
  have m: "(0xFFF :: u32) = mask 12" "(0xF :: u32) = mask 4"
    by (simp_all add: mask_eq_exp_minus_1)
  have b: "bit (x :: 12 word) n \<Longrightarrow> n < 12" "bit (y :: 2 word) n \<Longrightarrow> n < 2" for x y n
    using bit_imp_le_length [of x n] bit_imp_le_length [of y n] by simp_all
  show "QAR_ADC_RESULT_VALUE (adc_rdata 2 s) = ucast (adc_result_value s)"
    by (rule bit_word_eqI) (auto simp: QAR_ADC_RESULT_VALUE_def adc_rdata_def m bit_simps dest: b)
  show "QAR_ADC_RESULT_CHANNEL (adc_rdata 2 s) = ucast (adc_result_channel s)"
    by (rule bit_word_eqI) (auto simp: QAR_ADC_RESULT_CHANNEL_def adc_rdata_def m bit_simps dest: b)
qed

lemma adc_single_read:
  assumes w: "adc_single P t0 ch w" and valid: "adc_data_valid (adc_at w)"
  shows "QAR_ADC_RESULT_VALUE (fst (qar_adc_read soc_bus QAR_ADC0_BASE w)) =
           ucast (adc_channel_value (pin_adc (P t0)) ch) \<and>
         QAR_ADC_RESULT_CHANNEL (fst (qar_adc_read soc_bus QAR_ADC0_BASE w)) = ucast ch"
proof -
  have "adc_single P t0 ch (soc_wait w) \<and> adc_left (soc_wait w) \<le> adc_left w"
    using w by (rule adc_poll.left_wait)
  moreover have "adc_left w = 0" using adc_left_0 [OF w] valid by simp
  ultimately have done_: "adc_single P t0 ch (soc_wait w)" "adc_left (soc_wait w) = 0" by simp_all
  have "adc_result_value (adc_at (soc_wait w)) = adc_channel_value (pin_adc (P t0)) ch \<and>
        adc_result_channel (adc_at (soc_wait w)) = ch"
    using done_ adc_left_0 [OF done_(1)] by (auto simp: adc_single_def Let_def)
  then show ?thesis
    by (simp add: qar_adc_read_def mmio_read_soc soc_load_dev dev_rdata_def adc_result_word
        flip: adc_at_def)
qed

lemma adc_status_bits:
  "bit (adc_rdata 1 s) 0 = adc_busy s" "bit (adc_rdata 1 s) 1 = adc_data_valid s"
  "bit (adc_rdata 1 s) 2 = adc_continuous_ready s" "bit (adc_rdata 1 s) 3 = adc_data_overrun s"
  by (simp_all add: adc_rdata_def bit_or_iff)

subsection \<open>Properties\<close>

text \<open>
  C24. A single conversion through the driver on an idle ADC without an unread result:
  \<open>qar_adc_start_single\<close> followed by polling \<open>qar_adc_status\<close> for \<open>QAR_ADC_STATUS_READY\<close> always
  returns, under every schedule, and \<open>qar_adc_read\<close> then delivers the value that the requested
  channel (modulo 4) had in the cycle after the request, with its channel number.
\<close>

theorem adc_single_conversion:
  assumes "adc_quiet (adc_at w)"
  shows "let w1 = qar_adc_start_single soc_bus QAR_ADC0_BASE channel w; ch = ucast channel :: 2 word in
    \<exists>v w2. poll_until (qar_adc_status soc_bus QAR_ADC0_BASE)
             (\<lambda>v. v AND QAR_ADC_STATUS_READY \<noteq> 0) w1 = Some (v, w2) \<and>
           QAR_ADC_RESULT_VALUE (fst (qar_adc_read soc_bus QAR_ADC0_BASE w2)) =
             ucast (adc_channel_value (pin_adc (w_pins w (w_now w1))) ch) \<and>
           QAR_ADC_RESULT_CHANNEL (fst (qar_adc_read soc_bus QAR_ADC0_BASE w2)) = ucast ch"
proof -
  let ?w1 = "qar_adc_start_single soc_bus QAR_ADC0_BASE channel w"
  let ?ch = "ucast channel :: 2 word"
  let ?P = "w_pins w" and ?a = "QAR_ADC_STATUS QAR_ADC0_BASE"
  have start: "adc_single ?P (w_now ?w1) ?ch ?w1" using assms by (rule adc_start_single_begins)
  from adc_poll.poll_sees [OF start]
  obtain x where x: "adc_single ?P (w_now ?w1) ?ch x" "soc_load ?a x AND QAR_ADC_STATUS_READY \<noteq> 0"
    "poll_until (mmio_read soc_bus ?a) (\<lambda>v. v AND QAR_ADC_STATUS_READY \<noteq> 0) ?w1 =
       Some (soc_load ?a x, soc_tick (Load ?a) x)" by auto
  have "adc_single ?P (w_now ?w1) ?ch (soc_tick (Load ?a) x) \<and> adc_data_valid (adc_at (soc_tick (Load ?a) x))"
    using x(1,2) by (rule adc_status_load_keeps)
  then show ?thesis
    using adc_single_read [of ?P "w_now ?w1" ?ch "soc_tick (Load ?a) x"] x(3)
    by (auto simp: Let_def adc_status_read)
qed

lemma adc_single_conversion_witness:
  "let w1 = qar_adc_start_single soc_bus QAR_ADC0_BASE 2 world_at_reset in
    \<exists>v w2. poll_until (qar_adc_status soc_bus QAR_ADC0_BASE)
             (\<lambda>v. v AND QAR_ADC_STATUS_READY \<noteq> 0) w1 = Some (v, w2) \<and>
           QAR_ADC_RESULT_VALUE (fst (qar_adc_read soc_bus QAR_ADC0_BASE w2)) = 0 \<and>
           QAR_ADC_RESULT_CHANNEL (fst (qar_adc_read soc_bus QAR_ADC0_BASE w2)) = 2"
  using adc_single_conversion [of world_at_reset 2]
  by (simp add: adc_quiet_def adc_at_def adc_reset_def adc_channel_value_def no_pins_def Let_def)

text \<open>
  The overrun indication never occurs: in no state that the ADC reaches from reset, under any
  bus accesses and inputs, is the overrun flag or its interrupt bit set; the bit that the driver
  names \<open>QAR_ADC_STATUS_OVERRUN\<close> reads as the state of the sequencer instead.
\<close>

theorem adc_never_overruns:
  assumes "adc_reach s"
  shows "\<not> adc_data_overrun s \<and> adc_irq_status s AND QAR_ADC_IRQ_OVERRUN = 0 \<and>
         (adc_rdata 1 s AND QAR_ADC_STATUS_OVERRUN = 0) = (\<not> adc_continuous_ready s)"
proof -
  have m: "(v AND QAR_ADC_IRQ_OVERRUN = 0) = (\<not> bit v 1)"
    "(v AND QAR_ADC_STATUS_OVERRUN = 0) = (\<not> bit v 2)" for v
    unfolding QAR_ADC_IRQ_OVERRUN_def QAR_ADC_STATUS_OVERRUN_def by (rule and_bit_mask, simp)+
  show ?thesis
    using adc_reach_inv [OF assms] adc_status_bits(3) [of s] by (simp add: adc_inv_def m)
qed

lemma adc_never_overruns_witness:
  "\<not> adc_data_overrun (adc_step (pin_adc no_pins) (Wr 0 5) (adc_reset adc_zero)) \<and>
   adc_manual_start_pending (adc_step (pin_adc no_pins) (Wr 0 5) (adc_reset adc_zero))"
  using adc_never_overruns [of "adc_step (pin_adc no_pins) (Wr 0 5) (adc_reset adc_zero)",
      OF adc_reach.step [OF adc_reach.reset]]
  by (simp add: adc_step_def adc_write_def adc_reset_def adc_idle_cycle_def
      adc_continuous_ready_def Let_def)

text \<open>
  The sequencer is fair: from any enabled channel it moves only to enabled channels, and it
  reaches every enabled channel within four conversions; a new mask restarts it at an enabled one.
\<close>

theorem adc_sequencer_fair:
  assumes "ch_enabled m c" and "ch_enabled m d"
  shows "(let n = adc_next_channel m in
            ch_enabled m (n c) \<and> (n c = d \<or> n (n c) = d \<or> n (n (n c)) = d \<or> n (n (n (n c))) = d)) \<and>
         ch_enabled m (adc_first_channel m)"
proof -
  have "m \<noteq> 0" using assms by (auto simp: ch_enabled_def)
  then show ?thesis
    using assms adc_next_enabled adc_first_enabled adc_round_robin [of m c d] by (simp add: Let_def)
qed

lemma adc_sequencer_fair_witness:
  "(let n = adc_next_channel 0xA in
      ch_enabled 0xA (n 1) \<and> (n 1 = 3 \<or> n (n 1) = 3 \<or> n (n (n 1)) = 3 \<or> n (n (n (n 1))) = 3)) \<and>
   ch_enabled 0xA (adc_first_channel 0xA)"
  by (rule adc_sequencer_fair) (simp_all add: ch_enabled_def)

end
