(* ===== verification/Spi_Driver.thy ===== *)
theory Spi_Driver
  imports Soc_Rules
begin

text \<open>
  The SPI master in internal loopback, seen through the driver: the phases of the transfer of one
  byte, their duration, and the contract of the receive poll.
\<close>

subsection \<open>One byte in flight\<close>

definition spi_at :: "world \<Rightarrow> spi" where
  "spi_at w = soc_spi (w_soc w)"

lemma spi_at_tick:
  "spi_at (soc_tick acc w) = spi_step (pin_spi_miso (w_pins w (w_now w))) (soc_port SPI0 acc) (spi_at w)"
  by (simp add: spi_at_def)

text \<open>Enabled, looped back, with a chip select chosen.\<close>

definition spi_loop :: "spi \<Rightarrow> bool" where
  "spi_loop s \<longleftrightarrow> bit (spi_ctrl s) 0 \<and> bit (spi_ctrl s) 4 \<and> (ucast (spi_cs_select s) :: 4 word) \<noteq> 0"

definition spi_ready :: "spi \<Rightarrow> bool" where
  "spi_ready s \<longleftrightarrow> spi_loop s \<and> \<not> spi_busy s \<and> spi_tx_empty s \<and> spi_rx_empty s"

definition spi_queued :: "u8 \<Rightarrow> spi \<Rightarrow> bool" where
  "spi_queued b s \<longleftrightarrow> spi_loop s \<and> \<not> spi_busy s \<and> spi_rx_empty s \<and>
     spi_tx_head s = spi_tx_tail s + 1 \<and> spi_tx_fifo s (unat (spi_tx_tail s) mod 4) = b"

definition spi_shifting :: "u8 \<Rightarrow> spi \<Rightarrow> bool" where
  "spi_shifting b s \<longleftrightarrow> spi_loop s \<and> spi_busy s \<and> spi_tx_empty s \<and> spi_rx_empty s \<and>
     spi_active_tx_byte s = b \<and> spi_div_counter s \<le> spi_effective_div s"

definition spi_received :: "u8 \<Rightarrow> spi \<Rightarrow> bool" where
  "spi_received b s \<longleftrightarrow> spi_loop s \<and> \<not> spi_busy s \<and> spi_tx_empty s \<and>
     spi_rx_head s = spi_rx_tail s + 1 \<and> spi_rx_fifo s (unat (spi_rx_tail s) mod 4) = b"

lemmas spi_phase_defs = spi_ready_def spi_queued_def spi_shifting_def spi_received_def
  spi_loop_def spi_tx_empty_def spi_rx_empty_def

text \<open>
  Clock half periods still to come before the last sample, and the cycles they take: a half
  period lasts \<open>effective_div + 1\<close> cycles.
\<close>

definition spi_halves :: "spi \<Rightarrow> nat" where
  "spi_halves s = 2 * unat (spi_bit_index s) + (if spi_sck_phase s \<noteq> bit (spi_ctrl s) 2 then 0 else 1)"

definition spi_left :: "spi \<Rightarrow> nat" where
  "spi_left s =
     (let d = unat (spi_effective_div s) in
      if spi_busy s then spi_halves s * (d + 1) + (d - unat (spi_div_counter s)) + 1
      else if \<not> spi_tx_empty s then 16 * (d + 1) + 1 else 0)"

lemma spi_step_keep:
  "bop = Idle \<or> bop = Rd 1 \<Longrightarrow> spi_step m bop s = spi_shift m s (spi_start s s)"
  by (auto simp: spi_step_def spi_rx_pop_def)

lemma spi_same_div: "spi_clkdiv n = spi_clkdiv s \<Longrightarrow> spi_effective_div n = spi_effective_div s"
  by (simp add: spi_effective_div_def)

lemma spi_ready_step: "spi_ready s \<Longrightarrow> spi_ready (spi_shift m s (spi_start s s))"
  by (simp add: spi_phase_defs spi_start_def spi_shift_def Let_def)

lemma spi_received_step:
  "spi_received b s \<Longrightarrow> spi_received b (spi_shift m s (spi_start s s)) \<and>
     spi_left (spi_shift m s (spi_start s s)) = 0"
  by (simp add: spi_phase_defs spi_start_def spi_shift_def spi_left_def Let_def)

lemma ptr_next: "(t + 1 :: 3 word) - t = 1" "t + 1 \<noteq> (t :: 3 word)"
  by simp_all

lemma spi_queued_step:
  assumes "spi_queued b s"
  shows "spi_shifting b (spi_shift m s (spi_start s s)) \<and>
         spi_left (spi_shift m s (spi_start s s)) < spi_left s"
proof -
  let ?n = "spi_shift m s (spi_start s s)"
  have n: "spi_shifting b ?n" "spi_bit_index ?n = 7" "spi_sck_phase ?n = False"
    "spi_div_counter ?n = 0" "spi_clkdiv ?n = spi_clkdiv s"
    using assms by (simp_all add: spi_phase_defs spi_start_def spi_shift_def Let_def)
  then have "spi_halves ?n \<le> 15" by (simp add: spi_halves_def)
  then have "spi_halves ?n * (unat (spi_effective_div s) + 1) \<le> 15 * (unat (spi_effective_div s) + 1)"
    by (rule mult_le_mono1)
  then show ?thesis
    using n assms spi_same_div [OF n(5)]
    by (simp add: spi_left_def spi_phase_defs Let_def)
qed

lemma spi_shifting_wait:
  assumes s: "spi_shifting b s" and div: "\<not> spi_effective_div s \<le> spi_div_counter s"
  shows "spi_shifting b (spi_shift m s (spi_start s s)) \<and>
         spi_left (spi_shift m s (spi_start s s)) < spi_left s"
proof -
  let ?n = "spi_shift m s (spi_start s s)"
  have n: "?n = s\<lparr>spi_div_counter := spi_div_counter s + 1\<rparr>"
    using s div by (simp add: spi_phase_defs spi_start_def spi_shift_def Let_def)
  have lt: "unat (spi_div_counter s) < unat (spi_effective_div s)"
    using div by (simp add: word_le_nat_alt)
  then have u: "unat (spi_div_counter s + 1) = unat (spi_div_counter s) + 1"
    by (rule unat_inc)
  have le: "spi_div_counter s + 1 \<le> spi_effective_div s"
    using lt by (simp only: word_le_nat_alt u)
  have e: "spi_effective_div (s\<lparr>spi_div_counter := x\<rparr>) = spi_effective_div s" for x
    by (rule spi_same_div) simp
  have "spi_shifting b (s\<lparr>spi_div_counter := spi_div_counter s + 1\<rparr>)"
    using s le by (simp add: spi_shifting_def spi_loop_def spi_tx_empty_def spi_rx_empty_def e)
  moreover have "spi_left (s\<lparr>spi_div_counter := spi_div_counter s + 1\<rparr>) < spi_left s"
    using s lt by (simp add: spi_left_def spi_halves_def spi_shifting_def e Let_def u)
  ultimately show ?thesis by (simp only: n)
qed

lemma spi_shifting_toggle:
  assumes s: "spi_shifting b s" and div: "spi_effective_div s \<le> spi_div_counter s"
    and more: "spi_halves s \<noteq> 0"
  shows "spi_shifting b (spi_shift m s (spi_start s s)) \<and>
         spi_left (spi_shift m s (spi_start s s)) < spi_left s"
proof -
  let ?n = "spi_shift m s (spi_start s s)"
  let ?d = "unat (spi_effective_div s)"
  have b: "spi_busy s" using s by (simp add: spi_shifting_def)
  have eq: "spi_div_counter s = spi_effective_div s" using s div by (simp add: spi_shifting_def)
  have dec: "unat (x - 1) = unat x - 1" if "x \<noteq> 0" for x :: "3 word"
    using that by (simp add: unat_minus_one)
  have n: "spi_shifting b ?n \<and> spi_div_counter ?n = 0 \<and> spi_clkdiv ?n = spi_clkdiv s \<and>
      spi_halves ?n = spi_halves s - 1"
  proof (cases "spi_sck_phase s \<noteq> bit (spi_ctrl s) 2")
    case True
    then have nz: "spi_bit_index s \<noteq> 0" using more by (auto simp: spi_halves_def)
    then have "0 < unat (spi_bit_index s)" by (simp add: unat_gt_0)
    with True nz s div show ?thesis
      by (simp add: spi_phase_defs spi_start_def spi_shift_def spi_halves_def dec Let_def)
  next
    case False
    with s div show ?thesis
      by (simp add: spi_phase_defs spi_start_def spi_shift_def spi_halves_def Let_def)
  qed
  have busy: "spi_busy ?n" using n by (simp add: spi_shifting_def)
  obtain j where j: "spi_halves s = Suc j" using more by (cases "spi_halves s") auto
  have "spi_left s = Suc j * (?d + 1) + 1" using b eq j by (simp add: spi_left_def Let_def)
  moreover have "spi_left ?n = j * (?d + 1) + ?d + 1"
    using n busy spi_same_div [of ?n s] j by (simp add: spi_left_def Let_def)
  ultimately show ?thesis using n by simp
qed

lemma spi_shifting_end:
  assumes s: "spi_shifting b s" and div: "spi_effective_div s \<le> spi_div_counter s"
    and last: "spi_halves s = 0"
  shows "spi_received b (spi_shift m s (spi_start s s)) \<and>
         spi_left (spi_shift m s (spi_start s s)) < spi_left s"
proof -
  have last: "spi_sck_phase s \<noteq> bit (spi_ctrl s) 2" "spi_bit_index s = 0"
    using last by (auto simp: spi_halves_def unat_eq_0 split: if_splits)
  have "\<not> spi_rx_full s"
    using s by (simp add: spi_phase_defs spi_rx_full_def wide_diff_def)
  with s div last show ?thesis
    by (simp add: spi_phase_defs spi_start_def spi_shift_def spi_byte_done_def spi_left_def Let_def)
qed

text \<open>A byte given to the transmitter, anywhere on its way to the receive FIFO.\<close>

definition spi_xfer :: "u8 \<Rightarrow> world \<Rightarrow> bool" where
  "spi_xfer b w \<longleftrightarrow> spi_queued b (spi_at w) \<or> spi_shifting b (spi_at w) \<or> spi_received b (spi_at w)"

lemma spi_xfer_tick:
  assumes w: "spi_xfer b w" and acc: "soc_port SPI0 acc = Idle \<or> soc_port SPI0 acc = Rd 1"
  shows "spi_xfer b (soc_tick acc w) \<and>
         (spi_left (spi_at (soc_tick acc w)) < spi_left (spi_at w) \<or>
          spi_received b (spi_at w) \<and> spi_left (spi_at (soc_tick acc w)) = 0)"
proof -
  let ?m = "pin_spi_miso (w_pins w (w_now w))" and ?s = "spi_at w"
  have at: "spi_at (soc_tick acc w) = spi_shift ?m ?s (spi_start ?s ?s)"
    using spi_step_keep [OF acc] by (simp add: spi_at_tick)
  consider "spi_queued b ?s" | "spi_shifting b ?s" | "spi_received b ?s"
    using w by (auto simp: spi_xfer_def)
  then show ?thesis
  proof cases
    case 1
    then show ?thesis using spi_queued_step [of b ?s ?m] by (simp add: spi_xfer_def at)
  next
    case 2
    then show ?thesis
      using spi_shifting_wait [OF 2] spi_shifting_toggle [OF 2] spi_shifting_end [OF 2]
      by (auto simp: spi_xfer_def at)
  next
    case 3
    then show ?thesis using spi_received_step [OF 3] by (simp add: spi_xfer_def at)
  qed
qed

lemma spi_status_rx_valid:
  "(soc_load (QAR_SPI_STATUS QAR_SPI0_BASE) w AND QAR_SPI_STATUS_RX_VALID \<noteq> 0) =
     (\<not> spi_rx_empty (spi_at w))"
proof -
  have "(v AND QAR_SPI_STATUS_RX_VALID = 0) = (\<not> bit v 1)" for v
    unfolding QAR_SPI_STATUS_RX_VALID_def by (rule and_bit_mask) simp
  then show ?thesis
    by (simp add: soc_load_dev dev_rdata_def spi_rdata_def spi_status_value_def spi_at_def bit_or_iff)
qed

lemma spi_xfer_empty: "spi_xfer b w \<Longrightarrow> (\<not> spi_rx_empty (spi_at w)) = spi_received b (spi_at w)"
  by (auto simp: spi_xfer_def spi_phase_defs)

lemma spi_received_left: "spi_received b s \<Longrightarrow> spi_left s = 0"
  by (simp add: spi_phase_defs spi_left_def)

interpretation spi_poll: soc_flag "spi_xfer b" "QAR_SPI_STATUS QAR_SPI0_BASE"
    "\<lambda>v. v AND QAR_SPI_STATUS_RX_VALID \<noteq> 0" "\<lambda>w. spi_left (spi_at w)" for b
proof
  fix w assume w: "spi_xfer b w"
  show "spi_xfer b (soc_tick NoAccess w)" "spi_left (spi_at (soc_tick NoAccess w)) \<le> spi_left (spi_at w)"
    using spi_xfer_tick [OF w, of NoAccess] by auto
  let ?t = "soc_tick (Load (QAR_SPI_STATUS QAR_SPI0_BASE)) w"
  assume "\<not> soc_load (QAR_SPI_STATUS QAR_SPI0_BASE) w AND QAR_SPI_STATUS_RX_VALID \<noteq> 0"
  then have "\<not> spi_received b (spi_at w)" using spi_status_rx_valid spi_xfer_empty [OF w] by blast
  then show "spi_xfer b ?t" "spi_left (spi_at ?t) < spi_left (spi_at w)"
    using spi_xfer_tick [OF w, of "Load (QAR_SPI_STATUS QAR_SPI0_BASE)"]
      soc_port_hit(2) [of "QAR_SPI_STATUS QAR_SPI0_BASE" SPI0 1] by simp_all
qed

end
