(* ===== verification/Fw_Spi_Loopback.thy ===== *)
theory Fw_Spi_Loopback
  imports Spi_Driver
begin

text \<open>
  The firmware \<^verbatim>\<open>devkit/examples/c/spi_loopback.c\<close> on the chip. The value of \<open>main\<close> is the pair of
  bytes received and the world in which its final loop spins, \<open>None\<close> when a poll never ends.
\<close>

definition spi_exchange :: "'w bus \<Rightarrow> u8 \<Rightarrow> 'w \<Rightarrow> (u8 \<times> 'w) option" where
  "spi_exchange B value w =
    (case qar_spi_write B QAR_SPI0_BASE (ucast value) w of
       None \<Rightarrow> None
     | Some w \<Rightarrow>
         (case poll_until (mmio_read B (QAR_SPI_STATUS QAR_SPI0_BASE))
                 (\<lambda>v. v AND QAR_SPI_STATUS_RX_VALID \<noteq> 0) w of
            None \<Rightarrow> None
          | Some (_, w) \<Rightarrow>
              (case mmio_read B (QAR_SPI_RXDATA QAR_SPI0_BASE) w of
                 (v, w) \<Rightarrow> Some (ucast (v AND 0xFF), w))))"

definition spi_loopback_main :: "'w bus \<Rightarrow> 'w \<Rightarrow> ((u8 \<times> u8) \<times> 'w) option" where
  "spi_loopback_main B w =
    (let w = qar_spi_init B QAR_SPI0_BASE 1 QAR_SPI_CTRL_LOOPBACK w;
         w = qar_spi_set_cs B QAR_SPI0_BASE 0x1 w
     in case spi_exchange B 0xA5 w of
          None \<Rightarrow> None
        | Some (rx0, w) \<Rightarrow>
            (case spi_exchange B 0x3C w of
               None \<Rightarrow> None
             | Some (rx1, w) \<Rightarrow> Some ((rx0, rx1), w)))"

subsection \<open>Accesses of an idle SPI master\<close>

text \<open>Both FIFOs empty and no transfer running, in any mode.\<close>

definition spi_quiet :: "spi \<Rightarrow> bool" where
  "spi_quiet s \<longleftrightarrow> \<not> spi_busy s \<and> spi_tx_empty s \<and> spi_rx_empty s"

lemma spi_ready_quiet: "spi_ready s \<longleftrightarrow> spi_loop s \<and> spi_quiet s"
  by (auto simp: spi_ready_def spi_quiet_def)

lemma spi_quiet_step:
  "spi_quiet s \<Longrightarrow> spi_quiet (spi_shift m s (spi_start s s)) \<and>
     spi_ctrl (spi_shift m s (spi_start s s)) = spi_ctrl s \<and>
     spi_cs_select (spi_shift m s (spi_start s s)) = spi_cs_select s"
  by (simp add: spi_quiet_def spi_tx_empty_def spi_rx_empty_def spi_start_def spi_shift_def)

lemma spi_quiet_wait:
  assumes "spi_quiet (spi_at w)"
  shows "spi_quiet (spi_at (soc_wait w)) \<and> spi_ctrl (spi_at (soc_wait w)) = spi_ctrl (spi_at w) \<and>
         spi_cs_select (spi_at (soc_wait w)) = spi_cs_select (spi_at w)"
  unfolding spi_at_def
proof (rule soc_wait_keeps [where P = "\<lambda>s. spi_quiet (soc_spi s) \<and>
    spi_ctrl (soc_spi s) = spi_ctrl (soc_spi (w_soc w)) \<and>
    spi_cs_select (soc_spi s) = spi_cs_select (soc_spi (w_soc w))"])
  fix p and s :: soc
  assume "spi_quiet (soc_spi s) \<and> spi_ctrl (soc_spi s) = spi_ctrl (soc_spi (w_soc w)) \<and>
    spi_cs_select (soc_spi s) = spi_cs_select (soc_spi (w_soc w))"
  then show "spi_quiet (soc_spi (soc_step p NoAccess s)) \<and>
      spi_ctrl (soc_spi (soc_step p NoAccess s)) = spi_ctrl (soc_spi (w_soc w)) \<and>
      spi_cs_select (soc_spi (soc_step p NoAccess s)) = spi_cs_select (soc_spi (w_soc w))"
    using spi_quiet_step [of "soc_spi s" "pin_spi_miso p"] spi_step_keep [of Idle "pin_spi_miso p" "soc_spi s"]
    by simp
qed (use assms in \<open>simp add: spi_at_def\<close>)

lemma spi_ready_wait: "spi_ready (spi_at w) \<Longrightarrow> spi_ready (spi_at (soc_wait w))"
  using spi_quiet_wait [of w] by (simp add: spi_ready_quiet spi_loop_def)

lemma spi_quiet_write:
  assumes q: "spi_quiet (spi_at w)" and a: "soc_decode a = Some (SPI0, k)" and k: "k \<in> {0, 2, 5}"
  shows "spi_quiet (spi_at (mmio_write soc_bus a v w)) \<and>
         spi_ctrl (spi_at (mmio_write soc_bus a v w)) = (if k = 0 then v else spi_ctrl (spi_at w)) \<and>
         spi_cs_select (spi_at (mmio_write soc_bus a v w)) =
           (if k = 5 then v else spi_cs_select (spi_at w))"
proof -
  have "spi_at (mmio_write soc_bus a v w) = spi_step (pin_spi_miso (w_pins w (w_now (soc_wait w))))
      (Wr k v) (spi_at (soc_wait w))"
    by (simp add: spi_at_def mmio_write_soc soc_port_hit(1) [OF a])
  then show ?thesis
    using spi_quiet_wait [OF q] k
    by (auto simp: spi_step_def spi_write_def spi_start_def spi_shift_def spi_quiet_def
        spi_tx_empty_def spi_rx_empty_def)
qed

lemma spi_init_ready:
  assumes "spi_quiet (spi_at w)"
  shows "spi_ready (spi_at (qar_spi_set_cs soc_bus QAR_SPI0_BASE 0x1
           (qar_spi_init soc_bus QAR_SPI0_BASE 1 QAR_SPI_CTRL_LOOPBACK w)))"
proof -
  define w1 where "w1 = mmio_write soc_bus (QAR_SPI_CLKDIV QAR_SPI0_BASE) 1 w"
  define w2 where "w2 = mmio_write soc_bus (QAR_SPI_CTRL QAR_SPI0_BASE)
      (QAR_SPI_CTRL_LOOPBACK OR QAR_SPI_CTRL_ENABLE) w1"
  define w3 where "w3 = mmio_write soc_bus (QAR_SPI_CS QAR_SPI0_BASE) 0x1 w2"
  have 1: "spi_quiet (spi_at w1)"
    using spi_quiet_write [OF assms, of "QAR_SPI_CLKDIV QAR_SPI0_BASE" 2 1] by (simp add: w1_def)
  have 2: "spi_quiet (spi_at w2)" "spi_ctrl (spi_at w2) = QAR_SPI_CTRL_LOOPBACK OR QAR_SPI_CTRL_ENABLE"
    using spi_quiet_write [OF 1, of "QAR_SPI_CTRL QAR_SPI0_BASE" 0] by (simp_all add: w2_def)
  have 3: "spi_quiet (spi_at w3)" "spi_ctrl (spi_at w3) = QAR_SPI_CTRL_LOOPBACK OR QAR_SPI_CTRL_ENABLE"
    "spi_cs_select (spi_at w3) = 1"
    using spi_quiet_write [OF 2(1), of "QAR_SPI_CS QAR_SPI0_BASE" 5 1] 2(2) by (simp_all add: w3_def)
  then have "spi_ready (spi_at w3)" by (simp add: spi_ready_quiet spi_loop_def reg_bits)
  then show ?thesis by (simp add: qar_spi_set_cs_def qar_spi_init_def w1_def w2_def w3_def Let_def)
qed

subsection \<open>The exchange of a byte\<close>

lemma spi_write_queues:
  assumes r: "spi_ready (spi_at w)"
  shows "\<exists>w'. qar_spi_write soc_bus QAR_SPI0_BASE v w = Some w' \<and> spi_xfer (ucast v) w'"
proof -
  let ?st = "QAR_SPI_STATUS QAR_SPI0_BASE" and ?tx = "QAR_SPI_TXDATA QAR_SPI0_BASE"
  have r0: "spi_ready (spi_at (soc_wait w))" using r by (rule spi_ready_wait)
  then have full: "\<not> spi_tx_full (spi_at (soc_wait w))"
    by (simp add: spi_ready_def spi_tx_empty_def spi_tx_full_def wide_diff_def)
  have m: "(x AND QAR_SPI_STATUS_TX_READY = 0) = (\<not> bit x 0)" for x
    unfolding QAR_SPI_STATUS_TX_READY_def by (rule and_bit_mask) simp
  have hit: "soc_load ?st (soc_wait w) AND QAR_SPI_STATUS_TX_READY \<noteq> 0"
    using full
    by (simp add: m soc_load_dev dev_rdata_def spi_rdata_def spi_status_value_def spi_at_def bit_or_iff)
  define w1 where "w1 = soc_tick (Load ?st) (soc_wait w)"
  have poll: "poll_until (mmio_read soc_bus ?st) (\<lambda>v. v AND QAR_SPI_STATUS_TX_READY \<noteq> 0) w =
      Some (soc_load ?st (soc_wait w), w1)"
    using hit by (simp add: poll_until_hit mmio_read_soc w1_def)
  have "spi_ready (spi_at w1)"
    using r0 spi_ready_step [OF r0]
    by (simp add: w1_def spi_at_tick soc_port_hit(2) [of ?st SPI0 1] spi_step_keep)
  then have r1: "spi_ready (spi_at (soc_wait w1))" by (rule spi_ready_wait)
  have "spi_at (mmio_write soc_bus ?tx v w1) = spi_step (pin_spi_miso (w_pins w1 (w_now (soc_wait w1))))
      (Wr 3 v) (spi_at (soc_wait w1))"
    by (simp add: spi_at_def mmio_write_soc soc_port_hit(1) [of ?tx SPI0 3])
  then have "spi_queued (ucast v) (spi_at (mmio_write soc_bus ?tx v w1))"
    using r1
    by (simp add: spi_phase_defs spi_step_def spi_write_def spi_txdata_write_def spi_tx_full_def
        wide_diff_def spi_start_def spi_shift_def)
  then show ?thesis by (simp add: qar_spi_write_def poll spi_xfer_def)
qed

lemma spi_read_received:
  assumes "spi_received b (spi_at w)"
  shows "\<exists>w'. mmio_read soc_bus (QAR_SPI_RXDATA QAR_SPI0_BASE) w = (ucast b, w') \<and> spi_ready (spi_at w')"
proof -
  let ?rx = "QAR_SPI_RXDATA QAR_SPI0_BASE"
  have r: "spi_received b (spi_at (soc_wait w))"
  proof (rule soc_wait_world [where I = "\<lambda>x. spi_received b (spi_at x)"])
    fix x assume "spi_received b (spi_at x)"
    then show "spi_received b (spi_at (soc_tick NoAccess x))"
      using spi_received_step [of b "spi_at x"] by (simp add: spi_at_tick spi_step_keep)
  qed (rule assms)
  have "spi_ready (spi_at (soc_tick (Load ?rx) (soc_wait w)))"
    using r by (simp add: spi_at_tick soc_port_hit(2) [of ?rx SPI0 4] spi_step_def spi_rx_pop_def
        spi_start_def spi_shift_def spi_phase_defs Let_def)
  moreover have "soc_load ?rx (soc_wait w) = ucast b"
    using r by (simp add: soc_load_dev dev_rdata_def spi_rdata_def spi_received_def flip: spi_at_def)
  ultimately show ?thesis by (simp add: mmio_read_soc)
qed

lemma spi_exchange_returns:
  assumes "spi_ready (spi_at w)"
  shows "\<exists>w'. spi_exchange soc_bus b w = Some (b, w') \<and> spi_ready (spi_at w')"
proof -
  let ?a = "QAR_SPI_STATUS QAR_SPI0_BASE"
  obtain w1 where w1: "qar_spi_write soc_bus QAR_SPI0_BASE (ucast b) w = Some w1" "spi_xfer b w1"
    using spi_write_queues [OF assms, of "ucast b", unfolded ucast_u8_u32] by blast
  from spi_poll.poll_sees [OF w1(2)]
  obtain x where x: "spi_xfer b x" "soc_load ?a x AND QAR_SPI_STATUS_RX_VALID \<noteq> 0"
    "poll_until (mmio_read soc_bus ?a) (\<lambda>v. v AND QAR_SPI_STATUS_RX_VALID \<noteq> 0) w1 =
       Some (soc_load ?a x, soc_tick (Load ?a) x)" by auto
  have "spi_received b (spi_at x)" using x(2) spi_status_rx_valid spi_xfer_empty [OF x(1)] by simp
  then have "spi_received b (spi_at (soc_tick (Load ?a) x))"
    using spi_received_step [of b "spi_at x"]
    by (simp add: spi_at_tick spi_step_keep soc_port_hit(2) [of _ SPI0 1])
  then obtain w2 where "mmio_read soc_bus (QAR_SPI_RXDATA QAR_SPI0_BASE) (soc_tick (Load ?a) x) = (ucast b, w2)"
    "spi_ready (spi_at w2)" using spi_read_received by blast
  then show ?thesis using w1 x(3) by (simp add: spi_exchange_def)
qed

subsection \<open>Properties\<close>

text \<open>
  In loopback the exchange of a byte always returns, under every schedule and clock divider,
  and returns the byte that was sent; the master is then ready for the next byte.
\<close>

theorem spi_exchange_loopback:
  assumes "spi_ready (spi_at w)"
  shows "\<exists>w'. spi_exchange soc_bus b w = Some (b, w') \<and> spi_ready (spi_at w')"
  using assms by (rule spi_exchange_returns)

text \<open>
  C25. The SPI demo, started with empty FIFOs and no transfer running, sets the master up, reads
  back the two bytes it sends (0xA5, then 0x3C) and reaches its final loop.
\<close>

theorem spi_loopback_run:
  assumes "spi_quiet (spi_at w)"
  shows "\<exists>w'. spi_loopback_main soc_bus w = Some ((0xA5, 0x3C), w')"
proof -
  let ?w = "qar_spi_set_cs soc_bus QAR_SPI0_BASE 0x1
    (qar_spi_init soc_bus QAR_SPI0_BASE 1 QAR_SPI_CTRL_LOOPBACK w)"
  obtain w1 where 1: "spi_exchange soc_bus 0xA5 ?w = Some (0xA5, w1)" "spi_ready (spi_at w1)"
    using spi_exchange_returns [OF spi_init_ready [OF assms]] by blast
  obtain w2 where 2: "spi_exchange soc_bus 0x3C w1 = Some (0x3C, w2)"
    using spi_exchange_returns [OF 1(2)] by blast
  show ?thesis using 1 2 by (simp add: spi_loopback_main_def Let_def)
qed

lemma spi_quiet_reset: "spi_quiet (spi_at world_at_reset)"
  by (simp add: spi_quiet_def spi_at_def spi_reset_def spi_tx_empty_def spi_rx_empty_def)

lemma spi_loopback_run_witness:
  "\<exists>w'. spi_loopback_main soc_bus world_at_reset = Some ((0xA5, 0x3C), w')"
  using spi_quiet_reset by (rule spi_loopback_run)

lemma spi_exchange_loopback_witness:
  "\<exists>w'. spi_exchange soc_bus 0x42 (qar_spi_set_cs soc_bus QAR_SPI0_BASE 0x1
     (qar_spi_init soc_bus QAR_SPI0_BASE 1 QAR_SPI_CTRL_LOOPBACK world_at_reset)) = Some (0x42, w') \<and>
     spi_ready (spi_at w')"
  by (rule spi_exchange_loopback) (rule spi_init_ready [OF spi_quiet_reset])

end
