(* ===== verification/Timer_Driver.thy ===== *)
theory Timer_Driver
  imports Soc_Rules
begin

text \<open>
  The timer seen through the driver: how fast the counter runs, when the watchdog expires and what
  kicking it does, and the heartbeat of a compare channel with auto-reload.
\<close>

subsection \<open>The timer between accesses\<close>

definition tm_at :: "world \<Rightarrow> timer" where
  "tm_at w = soc_timer (w_soc w)"

definition tm_idle :: "nat \<Rightarrow> timer \<Rightarrow> timer" where
  "tm_idle n s = (timer_step Idle ^^ n) s"

lemma tm_idle_0 [simp]: "tm_idle 0 s = s"
  by (simp add: tm_idle_def)

lemma tm_idle_Suc: "tm_idle (Suc n) s = timer_step Idle (tm_idle n s)"
  by (simp add: tm_idle_def)

lemma tm_at_tick: "tm_at (soc_tick acc w) = timer_step (soc_port TIMER0 acc) (tm_at w)"
  by (simp add: tm_at_def)

lemma tm_at_idle: "tm_at (soc_idle n w) = tm_idle n (tm_at w)"
  by (induction n) (simp_all add: soc_idle_Suc tm_idle_Suc tm_at_tick)

lemma tm_idle_add: "tm_idle m (tm_idle n s) = tm_idle (m + n) s"
  by (simp add: tm_idle_def funpow_add)

lemma timer_step_Rd: "timer_step (Rd k) s = timer_step Idle s"
  by (simp add: timer_step_def)

lemma tm_at_wait: "tm_at (soc_wait w) = tm_idle (w_gap w (w_now w)) (tm_at w)"
  by (simp add: soc_wait_def tm_at_idle)

lemma w_now_wait: "w_now (soc_wait w) = w_now w + w_gap w (w_now w)"
  by (simp add: soc_wait_def)

text \<open>A read of any register, and a write to another block, is a cycle like any other.\<close>

lemma tm_at_read:
  "tm_at (snd (mmio_read soc_bus a w)) = tm_idle (Suc (w_gap w (w_now w))) (tm_at w)"
  by (simp add: mmio_read_soc tm_at_tick soc_port_Load timer_step_Rd tm_at_wait tm_idle_Suc
      split: option.split)

lemma tm_at_write:
  "tm_at (mmio_write soc_bus a v w) =
     (case soc_decode a of
        Some (d, k) \<Rightarrow> if d = TIMER0 then timer_step (Wr k v) (tm_idle (w_gap w (w_now w)) (tm_at w))
                       else tm_idle (Suc (w_gap w (w_now w))) (tm_at w)
      | None \<Rightarrow> tm_idle (Suc (w_gap w (w_now w))) (tm_at w))"
  using mmio_write_soc(1) [of a v w] tm_at_tick [of "Store a v" "soc_wait w"]
  by (simp add: tm_at_def [of "mmio_write soc_bus a v w"] soc_port_Store tm_at_wait tm_idle_Suc
      tm_at_def [symmetric] split: option.split)

lemma w_now_access:
  "w_now (snd (mmio_read soc_bus a w)) = Suc (w_now w + w_gap w (w_now w))"
  "w_now (mmio_write soc_bus a v w) = Suc (w_now w + w_gap w (w_now w))"
  by (simp_all add: mmio_read_soc mmio_write_soc w_now_wait)

text \<open>What a register write assigns, and what the tick of the cycle leaves of it.\<close>

lemma tm_write_sel [simp]:
  "tm_ctrl (tm_write k v s) = (if k = 0 then v else tm_ctrl s)"
  "tm_prescale (tm_write k v s) = (if k = 1 then v else tm_prescale s)"
  "tm_pwm0_period (tm_write k v s) = (if k = 12 then v else tm_pwm0_period s)"
  "tm_pwm0_duty (tm_write k v s) = (if k = 13 then v else tm_pwm0_duty s)"
  "tm_pwm1_period (tm_write k v s) = (if k = 14 then v else tm_pwm1_period s)"
  "tm_pwm1_duty (tm_write k v s) = (if k = 15 then v else tm_pwm1_duty s)"
  "tm_wdt_load (tm_write k v s) = (if k = 9 then v else tm_wdt_load s)"
  "tm_wdt_enable (tm_write k v s) = (if k = 10 then bit v 0 else tm_wdt_enable s)"
  "tm_cmp0_period (tm_write k v s) = (if k = 6 then v else tm_cmp0_period s)"
  by (simp_all add: tm_write_def tm_wdt_ctrl_write_def tm_capture_write_def Let_def)

lemma tm_tick_keep [simp]:
  "tm_ctrl (tm_tick s n) = tm_ctrl n" "tm_prescale (tm_tick s n) = tm_prescale n"
  "tm_pwm0_period (tm_tick s n) = tm_pwm0_period n" "tm_pwm0_duty (tm_tick s n) = tm_pwm0_duty n"
  "tm_pwm1_period (tm_tick s n) = tm_pwm1_period n" "tm_pwm1_duty (tm_tick s n) = tm_pwm1_duty n"
  "tm_wdt_load (tm_tick s n) = tm_wdt_load n" "tm_wdt_enable (tm_tick s n) = tm_wdt_enable n"
  "tm_cmp0_period (tm_tick s n) = tm_cmp0_period n"
  by (simp_all add: tm_tick_def tm_tick_pwm_def tm_tick_cmp1_def tm_tick_cmp0_def tm_tick_wdt_def Let_def)

text \<open>The configuration does not change between accesses.\<close>

lemma tm_step_config:
  "tm_ctrl (timer_step Idle s) = tm_ctrl s" "tm_prescale (timer_step Idle s) = tm_prescale s"
  "tm_pwm0_period (timer_step Idle s) = tm_pwm0_period s"
  "tm_pwm0_duty (timer_step Idle s) = tm_pwm0_duty s"
  "tm_pwm1_period (timer_step Idle s) = tm_pwm1_period s"
  "tm_pwm1_duty (timer_step Idle s) = tm_pwm1_duty s"
  "tm_wdt_enable (timer_step Idle s) = tm_wdt_enable s"
  "tm_wdt_load (timer_step Idle s) = tm_wdt_load s"
  "tm_cmp0_period (timer_step Idle s) = tm_cmp0_period s"
  by (simp_all add: timer_step_def)

lemma tm_idle_config [simp]:
  "tm_ctrl (tm_idle n s) = tm_ctrl s" "tm_prescale (tm_idle n s) = tm_prescale s"
  "tm_pwm0_period (tm_idle n s) = tm_pwm0_period s" "tm_pwm0_duty (tm_idle n s) = tm_pwm0_duty s"
  "tm_pwm1_period (tm_idle n s) = tm_pwm1_period s" "tm_pwm1_duty (tm_idle n s) = tm_pwm1_duty s"
  "tm_wdt_enable (tm_idle n s) = tm_wdt_enable s" "tm_wdt_load (tm_idle n s) = tm_wdt_load s"
  "tm_cmp0_period (tm_idle n s) = tm_cmp0_period s"
  by (induction n) (simp_all add: tm_idle_Suc tm_step_config)

text \<open>The fields a clock cycle changes, when the counter is enabled.\<close>

lemma tm_step_counter:
  assumes "bit (tm_ctrl s) 0"
  shows "tm_counter (timer_step Idle s) =
           (if tm_prescale s \<le> tm_prescale_cnt s then tm_counter s + 1 else tm_counter s)"
    and "tm_prescale_cnt (timer_step Idle s) =
           (if tm_prescale s \<le> tm_prescale_cnt s then 0 else tm_prescale_cnt s + 1)"
  using assms
  by (simp_all add: timer_step_def tm_tick_def tm_tick_pwm_def tm_tick_cmp1_def tm_tick_cmp0_def
      tm_tick_wdt_def Let_def)

text \<open>Without prescaler every cycle is a tick.\<close>

definition tm_running :: "timer \<Rightarrow> bool" where
  "tm_running s \<longleftrightarrow> bit (tm_ctrl s) 0 \<and> tm_prescale s = 0"

lemma tm_running_idle [simp]: "tm_running (tm_idle n s) = tm_running s"
  by (simp add: tm_running_def)

text \<open>A write to any register but control and prescaler keeps the timer running.\<close>

lemma tm_running_write: "tm_running s \<Longrightarrow> 2 \<le> k \<Longrightarrow> tm_running (timer_step (Wr k v) s)"
  by (simp add: tm_running_def timer_step_def)

lemma tm_step_running:
  assumes "tm_running s"
  shows "tm_counter (timer_step Idle s) = tm_counter s + 1"
    and "tm_wdt_counter (timer_step Idle s) =
           (if tm_wdt_enable s \<and> tm_wdt_counter s \<noteq> 0 then tm_wdt_counter s - 1 else tm_wdt_counter s)"
    and "bit (tm_status (timer_step Idle s)) 2 =
           (bit (tm_status s) 2 \<or> tm_wdt_enable s \<and> tm_wdt_counter s = 1)"
    and "bit (tm_status (timer_step Idle s)) 0 =
           (bit (tm_status s) 0 \<or> tm_cmp0 s \<noteq> 0 \<and> tm_counter s = tm_cmp0 s)"
    and "tm_cmp0 (timer_step Idle s) =
           (if tm_cmp0 s \<noteq> 0 \<and> tm_counter s = tm_cmp0 s \<and> bit (tm_ctrl s) 1 \<and> tm_cmp0_period s \<noteq> 0
            then tm_cmp0 s + tm_cmp0_period s else tm_cmp0 s)"
  using assms
  by (auto simp: tm_running_def timer_step_def tm_tick_def tm_tick_pwm_def tm_tick_cmp1_def
      tm_tick_cmp0_def tm_tick_wdt_def Let_def)

subsection \<open>The counter\<close>

lemma tm_idle_counter:
  assumes "bit (tm_ctrl s) 0" and "tm_prescale_cnt s \<le> tm_prescale s"
  shows "tm_counter (tm_idle n s) =
           tm_counter s + of_nat ((unat (tm_prescale_cnt s) + n) div (unat (tm_prescale s) + 1)) \<and>
         unat (tm_prescale_cnt (tm_idle n s)) =
           (unat (tm_prescale_cnt s) + n) mod (unat (tm_prescale s) + 1)"
proof (induction n)
  case 0
  then show ?case using assms by (simp add: word_le_nat_alt)
next
  case (Suc n)
  let ?t = "tm_idle n s" and ?p = "unat (tm_prescale s)" and ?m = "unat (tm_prescale_cnt s) + n"
  have lt: "?p \<le> ?m mod (?p + 1) \<longleftrightarrow> ?m mod (?p + 1) = ?p"
    using mod_less_divisor [of "?p + 1" ?m] by linarith
  have le: "tm_prescale ?t \<le> tm_prescale_cnt ?t \<longleftrightarrow> ?m mod (?p + 1) = ?p"
    using Suc by (simp only: word_le_nat_alt lt tm_idle_config)
  show ?case
  proof (cases "?m mod (?p + 1) = ?p")
    case True
    then have "Suc ?m mod (?p + 1) = 0" "Suc ?m div (?p + 1) = Suc (?m div (?p + 1))"
      by (simp_all add: mod_Suc div_Suc)
    then show ?thesis
      using Suc True le assms by (simp add: tm_idle_Suc tm_step_counter algebra_simps)
  next
    case False
    then have "Suc ?m mod (?p + 1) = Suc (?m mod (?p + 1))" "Suc ?m div (?p + 1) = ?m div (?p + 1)"
      by (simp_all add: mod_Suc div_Suc)
    moreover have "?m mod (?p + 1) < ?p"
      using False mod_less_divisor [of "?p + 1" ?m] by linarith
    then have "unat (tm_prescale_cnt ?t) < unat (tm_prescale s)" using Suc by simp
    then have "unat (tm_prescale_cnt ?t + 1) = unat (tm_prescale_cnt ?t) + 1" by (rule unat_inc)
    ultimately show ?thesis
      using Suc False le assms by (simp add: tm_idle_Suc tm_step_counter)
  qed
qed

lemma tm_running_counter: "tm_running s \<Longrightarrow> tm_counter (tm_idle n s) = tm_counter s + of_nat n"
  by (induction n) (simp_all add: tm_idle_Suc tm_step_running)

subsection \<open>The watchdog\<close>

text \<open>The watchdog counts down to zero and stops there.\<close>

lemma tm_wdt_idle:
  assumes "tm_running s" and "tm_wdt_enable s"
  shows "unat (tm_wdt_counter (tm_idle n s)) = unat (tm_wdt_counter s) - n \<and>
         bit (tm_status (tm_idle n s)) 2 =
           (bit (tm_status s) 2 \<or> 0 < unat (tm_wdt_counter s) \<and> unat (tm_wdt_counter s) \<le> n)"
proof (induction n)
  case (Suc n)
  let ?c = "tm_wdt_counter (tm_idle n s)"
  have "unat (?c - 1) = unat ?c - 1" if "?c \<noteq> 0" using that by (simp add: unat_minus_one)
  moreover have "?c = 1 \<longleftrightarrow> unat ?c = 1" by (simp add: word_eq_iff_unsigned [where 'a = nat])
  moreover have "?c = 0 \<longleftrightarrow> unat ?c = 0" by (simp add: unat_eq_0)
  ultimately show ?case
    using Suc assms by (auto simp: tm_idle_Suc tm_step_running)
qed auto

text \<open>Starting a stopped watchdog: the write that starts it also loads it.\<close>

lemma tm_wdt_start:
  assumes "tm_running s" and "\<not> tm_wdt_enable s"
  defines "t \<equiv> timer_step (Wr 10 3) s"
  shows "tm_running t" "tm_wdt_enable t" "tm_wdt_counter t = tm_wdt_load s" "\<not> bit (tm_status t) 2"
  using assms
  by (simp_all add: timer_step_def tm_write_def tm_wdt_ctrl_write_def tm_tick_def tm_tick_pwm_def
      tm_tick_cmp1_def tm_tick_cmp0_def tm_tick_wdt_def tm_running_def Let_def)

lemma tm_write_wdt_load:
  fixes v :: u32
  assumes "tm_running s" and "\<not> tm_wdt_enable s"
  defines "t \<equiv> timer_step (Wr 9 v) s"
  shows "tm_running t" "\<not> tm_wdt_enable t" "tm_wdt_load t = v"
  using assms
  by (simp_all add: timer_step_def tm_write_def tm_tick_def tm_tick_pwm_def
      tm_tick_cmp1_def tm_tick_cmp0_def tm_tick_wdt_def tm_running_def Let_def)

text \<open>
  Kicking a running watchdog at prescale 0: the tick of the same cycle assigns the counter after
  the register write does.
\<close>

lemma tm_wdt_kick:
  assumes "tm_running s" and "tm_wdt_enable s" and "tm_wdt_counter s \<noteq> 0"
  defines "t \<equiv> timer_step (Wr 10 3) s"
  shows "tm_running t" "tm_wdt_enable t" "tm_wdt_counter t = tm_wdt_counter s - 1"
  using assms
  by (simp_all add: timer_step_def tm_write_def tm_wdt_ctrl_write_def tm_tick_def tm_tick_pwm_def
      tm_tick_cmp1_def tm_tick_cmp0_def tm_tick_wdt_def tm_running_def Let_def)

lemma tm_kick_once:
  assumes "tm_running (tm_at w)" and "tm_wdt_enable (tm_at w)"
  defines "w' \<equiv> qar_timer_kick_wdt soc_bus QAR_TIMER0_BASE w"
  assumes "w_now w' - w_now w \<le> unat (tm_wdt_counter (tm_at w))"
  shows "tm_running (tm_at w') \<and> tm_wdt_enable (tm_at w') \<and>
         unat (tm_wdt_counter (tm_at w')) + (w_now w' - w_now w) = unat (tm_wdt_counter (tm_at w))"
proof -
  let ?g = "w_gap w (w_now w)"
  let ?s = "tm_idle ?g (tm_at w)"
  have now: "w_now w' - w_now w = Suc ?g" by (simp add: w'_def qar_timer_kick_wdt_def w_now_access)
  have c: "unat (tm_wdt_counter ?s) = unat (tm_wdt_counter (tm_at w)) - ?g"
    using assms(1,2) tm_wdt_idle by blast
  then have nz: "tm_wdt_counter ?s \<noteq> 0" using assms(4) now by auto
  have "tm_at w' = timer_step (Wr 10 3) ?s"
    by (simp add: w'_def qar_timer_kick_wdt_def tm_at_write)
  with tm_wdt_kick [of ?s] nz assms(1,2)
  have "tm_running (tm_at w')" "tm_wdt_enable (tm_at w')" "tm_wdt_counter (tm_at w') = tm_wdt_counter ?s - 1"
    by simp_all
  moreover have "unat (tm_wdt_counter ?s - 1) = unat (tm_wdt_counter ?s) - 1"
    using nz by (simp add: unat_minus_one)
  ultimately show ?thesis using c now assms(4) by simp
qed

subsection \<open>The compare heartbeat\<close>

text \<open>How often a compare channel with period \<open>p\<close>, \<open>d\<close> ticks ahead, has fired after \<open>n\<close> ticks.\<close>

definition tm_beats :: "nat \<Rightarrow> nat \<Rightarrow> nat \<Rightarrow> nat" where
  "tm_beats p d n = (n + (p - 1) - d) div p"

lemma tm_beats_0: "0 < p \<Longrightarrow> tm_beats p d 0 = 0"
  by (simp add: tm_beats_def)

lemma tm_beats_Suc:
  assumes "0 < p"
  shows "tm_beats p d (Suc n) =
           (if n = d + p * tm_beats p d n then Suc (tm_beats p d n) else tm_beats p d n)"
proof (cases "d \<le> n + (p - 1)")
  case True
  define x where "x = n + (p - 1) - d"
  have sx: "Suc n + (p - 1) - d = Suc x" using True by (simp add: x_def)
  have "n + (p - 1) = d + x" using True by (simp add: x_def)
  also have "\<dots> = d + p * (x div p) + x mod p" by simp
  finally have "n = d + p * (x div p) \<longleftrightarrow> x mod p = p - 1" by linarith
  also have "\<dots> \<longleftrightarrow> Suc x mod p = 0" using assms by (auto simp: mod_Suc)
  finally have "n = d + p * (x div p) \<longleftrightarrow> Suc x mod p = 0" .
  then show ?thesis unfolding tm_beats_def sx x_def [symmetric] div_Suc by auto
qed (use assms in \<open>simp add: tm_beats_def\<close>)

lemma tm_beats_pos: "0 < p \<Longrightarrow> 0 < tm_beats p d n \<longleftrightarrow> d < n"
  by (auto simp: tm_beats_def div_greater_zero_iff)

lemma tm_cmp0_idle:
  assumes run: "tm_running s" and auto: "bit (tm_ctrl s) 1"
    and ahead: "unat (tm_cmp0 s) = unat (tm_counter s) + d" and nz: "tm_cmp0 s \<noteq> 0"
    and d: "0 < unat (tm_cmp0_period s)"
    and room: "unat (tm_counter s) + n + unat (tm_cmp0_period s) < 2 ^ 32"
  shows "unat (tm_cmp0 (tm_idle n s)) =
           unat (tm_cmp0 s) + unat (tm_cmp0_period s) * tm_beats (unat (tm_cmp0_period s)) d n \<and>
         bit (tm_status (tm_idle n s)) 0 = (bit (tm_status s) 0 \<or> d < n)"
  using room
proof (induction n)
  case 0
  then show ?case using d by (simp add: tm_beats_0)
next
  case (Suc n)
  let ?p = "unat (tm_cmp0_period s)" and ?t = "tm_idle n s"
  have cnt: "unat (tm_counter ?t) = unat (tm_counter s) + n"
    using tm_running_counter [OF run, of n] Suc.prems by (simp add: unat_word_ariths unat_of_nat)
  have IH: "unat (tm_cmp0 ?t) = unat (tm_counter s) + d + ?p * tm_beats ?p d n"
    "bit (tm_status ?t) 0 = (bit (tm_status s) 0 \<or> d < n)"
    using Suc ahead by simp_all
  then have nz': "tm_cmp0 ?t \<noteq> 0" using nz ahead by (metis add_is_0 unat_eq_0)
  have fire: "tm_counter ?t = tm_cmp0 ?t \<longleftrightarrow> n = d + ?p * tm_beats ?p d n"
    using cnt IH by (auto simp: word_eq_iff_unsigned [where 'a = nat])
  show ?case
  proof (cases "n = d + ?p * tm_beats ?p d n")
    case True
    have p0: "tm_cmp0_period s \<noteq> 0" using d by auto
    have "unat (tm_cmp0 ?t + tm_cmp0_period s) = unat (tm_cmp0 ?t) + ?p"
      using True IH Suc.prems by (simp add: unat_word_ariths)
    then show ?thesis
      using True fire nz' auto run p0 IH ahead d
      by (simp add: tm_idle_Suc tm_step_running tm_beats_Suc)
  next
    case False
    then have "d < Suc n \<longleftrightarrow> d < n"
      using tm_beats_pos [OF d, of n] by (cases "tm_beats ?p d n = 0") (auto simp: less_Suc_eq)
    then show ?thesis
      using False fire run IH ahead d by (simp add: tm_idle_Suc tm_step_running tm_beats_Suc)
  qed
qed

subsection \<open>Properties\<close>

text \<open>
  An enabled timer counts one tick every \<open>prescale + 1\<close> clock cycles, in every schedule, and the
  prescaler phase carries over exactly.
\<close>

theorem timer_counter_rate:
  assumes "bit (tm_ctrl (tm_at w)) 0" and "tm_prescale_cnt (tm_at w) \<le> tm_prescale (tm_at w)"
  shows "tm_counter (tm_at (soc_idle n w)) = tm_counter (tm_at w) +
           of_nat ((unat (tm_prescale_cnt (tm_at w)) + n) div (unat (tm_prescale (tm_at w)) + 1))"
  using tm_idle_counter [OF assms, of n] by (simp add: tm_at_idle)

text \<open>A timer for the witnesses: running without prescaler, as the driver sets it up.\<close>

definition world_timer :: "timer \<Rightarrow> world" where
  "world_timer t = world_at_reset\<lparr>w_soc := soc_at_reset\<lparr>soc_timer := t\<rparr>\<rparr>"

lemma tm_at_world_timer [simp]: "tm_at (world_timer t) = t"
  by (simp add: tm_at_def world_timer_def)

lemma timer_counter_rate_witness:
  "tm_counter (tm_at (soc_idle 100
     (world_timer (timer_zero\<lparr>tm_ctrl := 1, tm_prescale := 9\<rparr>)))) = 10"
proof -
  let ?w = "world_timer (timer_zero\<lparr>tm_ctrl := 1, tm_prescale := 9\<rparr>)"
  have "bit (tm_ctrl (tm_at ?w)) 0" "tm_prescale_cnt (tm_at ?w) \<le> tm_prescale (tm_at ?w)"
    by (simp_all add: timer_zero_def)
  from timer_counter_rate [OF this, of 100] show ?thesis by (simp add: timer_zero_def)
qed

text \<open>
  C26. A stopped watchdog that the driver configures with \<open>load\<close> and enables, on a timer without
  prescaler, raises its status flag after exactly \<open>load\<close> clock cycles, whatever happened before; with
  load 0 it never does.
\<close>

theorem wdt_expires_after_load:
  fixes load :: u32
  assumes "tm_running (tm_at w)" and "\<not> tm_wdt_enable (tm_at w)"
  defines "w' \<equiv> qar_timer_config_wdt soc_bus QAR_TIMER0_BASE load 1 w"
  shows "bit (tm_status (tm_at (soc_idle n w'))) 2 \<longleftrightarrow> 0 < unat load \<and> unat load \<le> n"
proof -
  let ?s1 = "tm_idle (w_gap w (w_now w)) (tm_at w)"
  let ?w1 = "mmio_write soc_bus (QAR_TIMER_WDT_LOAD QAR_TIMER0_BASE) load w"
  let ?s2 = "tm_idle (w_gap ?w1 (w_now ?w1)) (tm_at ?w1)"
  have "tm_at ?w1 = timer_step (Wr 9 load) ?s1" by (simp add: tm_at_write)
  with tm_write_wdt_load [of ?s1 load] assms(1,2)
  have s2: "tm_running ?s2" "\<not> tm_wdt_enable ?s2" "tm_wdt_load ?s2 = load" by simp_all
  have "tm_at w' = timer_step (Wr 10 3) ?s2"
    by (simp add: w'_def qar_timer_config_wdt_def Let_def tm_at_write c_true_def)
  with tm_wdt_start [of ?s2] s2 tm_wdt_idle [of "tm_at w'" n] show ?thesis
    by (simp add: tm_at_idle)
qed

lemma wdt_expires_after_load_witness:
  "bit (tm_status (tm_at (soc_idle 50000 (qar_timer_config_wdt soc_bus QAR_TIMER0_BASE 50000 1
     (world_timer (timer_zero\<lparr>tm_ctrl := 1\<rparr>)))))) 2"
proof -
  let ?w = "world_timer (timer_zero\<lparr>tm_ctrl := 1\<rparr>)"
  have "tm_running (tm_at ?w)" "\<not> tm_wdt_enable (tm_at ?w)"
    by (simp_all add: timer_zero_def tm_running_def)
  from wdt_expires_after_load [OF this, of 50000 50000] show ?thesis by simp
qed

text \<open>
  Without prescaler a running watchdog cannot be kicked: after any number of kicks, in any
  schedule, it stands exactly as many cycles below its earlier value as have passed, so it expires
  as if it had not been kicked.
\<close>

theorem wdt_kicks_lost:
  assumes "tm_running (tm_at w)" and "tm_wdt_enable (tm_at w)"
    and "w_now ((qar_timer_kick_wdt soc_bus QAR_TIMER0_BASE ^^ m) w) - w_now w \<le> unat (tm_wdt_counter (tm_at w))"
  shows "unat (tm_wdt_counter (tm_at ((qar_timer_kick_wdt soc_bus QAR_TIMER0_BASE ^^ m) w))) =
         unat (tm_wdt_counter (tm_at w)) -
         (w_now ((qar_timer_kick_wdt soc_bus QAR_TIMER0_BASE ^^ m) w) - w_now w)"
proof -
  let ?k = "qar_timer_kick_wdt soc_bus QAR_TIMER0_BASE"
  have "tm_running (tm_at ((?k ^^ m) w)) \<and> tm_wdt_enable (tm_at ((?k ^^ m) w)) \<and>
      w_now w \<le> w_now ((?k ^^ m) w) \<and>
      unat (tm_wdt_counter (tm_at ((?k ^^ m) w))) + (w_now ((?k ^^ m) w) - w_now w) =
        unat (tm_wdt_counter (tm_at w))"
    using assms(3)
  proof (induction m)
    case (Suc m)
    let ?v = "(?k ^^ m) w"
    have now: "w_now ?v \<le> w_now (?k ?v)" by (simp add: qar_timer_kick_wdt_def w_now_access)
    moreover have "w_now (?k ?v) - w_now w \<le> unat (tm_wdt_counter (tm_at w))" using Suc.prems by simp
    ultimately have IH: "tm_running (tm_at ?v)" "tm_wdt_enable (tm_at ?v)" "w_now w \<le> w_now ?v"
      "unat (tm_wdt_counter (tm_at ?v)) + (w_now ?v - w_now w) = unat (tm_wdt_counter (tm_at w))"
      "w_now (?k ?v) - w_now ?v \<le> unat (tm_wdt_counter (tm_at ?v))"
      using Suc.IH by linarith+
    from tm_kick_once [OF IH(1,2,5)] IH(3,4) now
    have "unat (tm_wdt_counter (tm_at (?k ?v))) + (w_now (?k ?v) - w_now w) =
        unat (tm_wdt_counter (tm_at w))" by linarith
    with tm_kick_once [OF IH(1,2,5)] IH(3) now show ?case by simp
  qed (simp add: assms)
  then show ?thesis by linarith
qed

lemma wdt_kicks_lost_witness:
  "unat (tm_wdt_counter (tm_at ((qar_timer_kick_wdt soc_bus QAR_TIMER0_BASE ^^ 3)
     (world_timer (timer_zero\<lparr>tm_ctrl := 1, tm_wdt_enable := True, tm_wdt_load := 50000,
        tm_wdt_counter := 7\<rparr>))))) = 4"
proof -
  let ?w = "world_timer (timer_zero\<lparr>tm_ctrl := 1, tm_wdt_enable := True, tm_wdt_load := 50000,
        tm_wdt_counter := 7\<rparr>)"
  let ?k = "qar_timer_kick_wdt soc_bus QAR_TIMER0_BASE"
  have gap: "w_gap (?k v) = w_gap v" for v by (simp add: qar_timer_kick_wdt_def mmio_write_soc)
  have g0: "w_gap ?w = (\<lambda>_. 0)" by (simp add: world_timer_def world_at_reset_def)
  have now: "w_now ((?k ^^ 3) ?w) - w_now ?w = 3"
    by (simp add: numeral_3_eq_3 gap g0 qar_timer_kick_wdt_def w_now_access mmio_write_soc)
  have "tm_running (tm_at ?w)" "tm_wdt_enable (tm_at ?w)"
    "w_now ((?k ^^ 3) ?w) - w_now ?w \<le> unat (tm_wdt_counter (tm_at ?w))"
    unfolding now by (simp_all add: timer_zero_def tm_running_def)
  from wdt_kicks_lost [OF this] show ?thesis unfolding now by (simp add: timer_zero_def)
qed

text \<open>
  The compare heartbeat: on a running timer whose compare value lies \<open>d\<close> ticks ahead the
  channel reloads after \<open>d\<close> ticks and then once every period, as long as the counter does not wrap;
  the status flag is set from the first match on.
\<close>

theorem cmp0_heartbeat:
  assumes "tm_running (tm_at w)" and "bit (tm_ctrl (tm_at w)) 1"
    and "unat (tm_cmp0 (tm_at w)) = unat (tm_counter (tm_at w)) + d" and "tm_cmp0 (tm_at w) \<noteq> 0"
    and "0 < unat (tm_cmp0_period (tm_at w))"
    and "unat (tm_counter (tm_at w)) + n + unat (tm_cmp0_period (tm_at w)) < 2 ^ 32"
  shows "unat (tm_cmp0 (tm_at (soc_idle n w))) = unat (tm_cmp0 (tm_at w)) +
           unat (tm_cmp0_period (tm_at w)) * tm_beats (unat (tm_cmp0_period (tm_at w))) d n \<and>
         bit (tm_status (tm_at (soc_idle n w))) 0 = (bit (tm_status (tm_at w)) 0 \<or> d < n)"
  using tm_cmp0_idle [OF assms] by (simp add: tm_at_idle)

lemma cmp0_heartbeat_witness:
  "unat (tm_cmp0 (tm_at (soc_idle 1600
     (world_timer (timer_zero\<lparr>tm_ctrl := 3, tm_cmp0 := 500, tm_cmp0_period := 500\<rparr>))))) = 2000"
proof -
  let ?w = "world_timer (timer_zero\<lparr>tm_ctrl := 3, tm_cmp0 := 500, tm_cmp0_period := 500\<rparr>)"
  have "tm_running (tm_at ?w)" "bit (tm_ctrl (tm_at ?w)) 1"
    "unat (tm_cmp0 (tm_at ?w)) = unat (tm_counter (tm_at ?w)) + 500" "tm_cmp0 (tm_at ?w) \<noteq> 0"
    "0 < unat (tm_cmp0_period (tm_at ?w))"
    "unat (tm_counter (tm_at ?w)) + 1600 + unat (tm_cmp0_period (tm_at ?w)) < 2 ^ 32"
    by (simp_all add: timer_zero_def tm_running_def bit_numeral_rec)
  from cmp0_heartbeat [OF this] show ?thesis by (simp add: timer_zero_def tm_beats_def)
qed

end
