(* ===== verification/Timer_Pwm.thy ===== *)
theory Timer_Pwm
  imports Timer_Driver
begin

text \<open>
  Pulse width modulation: the two PWM channels of the timer as the driver configures them, and the
  pins they reach through the alternate function of the GPIO block.
\<close>

subsection \<open>The channels\<close>

text \<open>The driver numbers the channels; every number but 0 means the second one.\<close>

definition pwm_period :: "u32 \<Rightarrow> timer \<Rightarrow> u32" where
  "pwm_period ch s = (if ch = 0 then tm_pwm0_period s else tm_pwm1_period s)"

definition pwm_duty :: "u32 \<Rightarrow> timer \<Rightarrow> u32" where
  "pwm_duty ch s = (if ch = 0 then tm_pwm0_duty s else tm_pwm1_duty s)"

definition pwm_counter :: "u32 \<Rightarrow> timer \<Rightarrow> u32" where
  "pwm_counter ch s = (if ch = 0 then tm_pwm0_counter s else tm_pwm1_counter s)"

definition pwm_out :: "u32 \<Rightarrow> timer \<Rightarrow> bool" where
  "pwm_out ch s = (if ch = 0 then tm_pwm0_out s else tm_pwm1_out s)"

lemmas pwm_sel = pwm_period_def pwm_duty_def pwm_counter_def pwm_out_def

lemma pwm_step_config:
  "pwm_period ch (timer_step Idle s) = pwm_period ch s" "pwm_duty ch (timer_step Idle s) = pwm_duty ch s"
  by (simp_all add: pwm_sel tm_step_config)

lemma pwm_idle_config [simp]:
  "pwm_period ch (tm_idle n s) = pwm_period ch s" "pwm_duty ch (tm_idle n s) = pwm_duty ch s"
  by (induction n) (simp_all add: tm_idle_Suc pwm_step_config)

text \<open>One cycle of a channel while the timer runs without prescaler, with or without a write.\<close>

lemma tm_tick_pwm_running:
  assumes "tm_running s"
  shows "pwm_counter ch (tm_tick s n) = tm_pwm_next (pwm_period ch s) (pwm_counter ch s)"
    and "pwm_out ch (tm_tick s n) = (pwm_period ch s \<noteq> 0 \<and> pwm_counter ch s < pwm_duty ch s)"
  using assms by (simp_all add: pwm_sel tm_running_def tm_tick_def tm_tick_pwm_def)

lemma pwm_step_running:
  assumes "tm_running s"
  shows "pwm_counter ch (timer_step bop s) = tm_pwm_next (pwm_period ch s) (pwm_counter ch s)"
    and "pwm_out ch (timer_step bop s) = (pwm_period ch s \<noteq> 0 \<and> pwm_counter ch s < pwm_duty ch s)"
  using assms by (simp_all add: timer_step_def tm_tick_pwm_running)

text \<open>The registers of a channel.\<close>

definition pwm_period_reg :: "u32 \<Rightarrow> nat" where
  "pwm_period_reg ch = (if ch = 0 then 12 else 14)"

definition pwm_duty_reg :: "u32 \<Rightarrow> nat" where
  "pwm_duty_reg ch = (if ch = 0 then 13 else 15)"

lemmas pwm_reg = pwm_period_reg_def pwm_duty_reg_def

lemma pwm_write:
  "pwm_period ch (timer_step (Wr k v) s) = (if k = pwm_period_reg ch then v else pwm_period ch s)"
  "pwm_duty ch (timer_step (Wr k v) s) = (if k = pwm_duty_reg ch then v else pwm_duty ch s)"
  by (simp_all add: pwm_sel pwm_reg timer_step_def)

lemma tm_pwm_next_less: "q \<noteq> 0 \<Longrightarrow> tm_pwm_next q c < q"
  by (auto simp: tm_pwm_next_def not_le word_greater_zero_iff)

text \<open>A configured channel: running, with a counter below the period.\<close>

definition pwm_set :: "u32 \<Rightarrow> u32 \<Rightarrow> u32 \<Rightarrow> timer \<Rightarrow> bool" where
  "pwm_set ch q d s \<longleftrightarrow> tm_running s \<and> pwm_period ch s = q \<and> pwm_duty ch s = d \<and> pwm_counter ch s < q"

text \<open>
  One cycle after its period is written a channel is configured; later writes to other registers
  keep it so, with the duty last written.
\<close>

lemma pwm_set_write:
  assumes "tm_running s" and "pwm_period ch s = q" and "q \<noteq> 0" and "2 \<le> k" and "k \<noteq> pwm_period_reg ch"
  shows "pwm_set ch q (if k = pwm_duty_reg ch then v else pwm_duty ch s) (timer_step (Wr k v) s)"
  using assms by (simp add: pwm_set_def tm_running_write pwm_write pwm_step_running tm_pwm_next_less)

lemma pwm_set_step:
  assumes "tm_running s" and "pwm_period ch s = q" and "q \<noteq> 0"
  shows "pwm_set ch q (pwm_duty ch s) (timer_step Idle s)"
  using assms
  by (simp add: pwm_set_def tm_running_def tm_step_config pwm_step_config pwm_step_running tm_pwm_next_less)

lemma pwm_counter_idle:
  assumes set: "pwm_set ch q d s"
  shows "unat (pwm_counter ch (tm_idle n s)) = (unat (pwm_counter ch s) + n) mod unat q"
proof (induction n)
  case 0
  then show ?case using set by (simp add: pwm_set_def word_less_nat_alt)
next
  case (Suc n)
  let ?c = "pwm_counter ch (tm_idle n s)"
  have q: "0 < unat q" "q \<noteq> 0" using set by (auto simp: pwm_set_def word_less_nat_alt)
  then have c: "unat ?c < unat q" using Suc by simp
  then have inc: "unat (?c + 1) = unat ?c + 1" by (rule unat_inc)
  have "unat (tm_pwm_next q ?c) = (unat ?c + 1) mod unat q"
    using c q inc by (auto simp: tm_pwm_next_def word_le_nat_alt mod_if)
  then show ?case
    using Suc set by (simp add: tm_idle_Suc pwm_step_running pwm_set_def mod_Suc_eq)
qed

lemma pwm_set_idle: "pwm_set ch q d s \<Longrightarrow> pwm_set ch q d (tm_idle n s)"
  using pwm_counter_idle [of ch q d s n]
  by (auto simp: pwm_set_def word_less_nat_alt)

lemma pwm_out_idle:
  assumes "pwm_set ch q d s"
  shows "pwm_out ch (tm_idle (Suc n) s) \<longleftrightarrow> (unat (pwm_counter ch s) + n) mod unat q < unat d"
proof -
  have "q \<noteq> 0" using assms by (auto simp: pwm_set_def)
  then have "pwm_out ch (tm_idle (Suc n) s) \<longleftrightarrow> unat (pwm_counter ch (tm_idle n s)) < unat d"
    using assms by (simp add: tm_idle_Suc pwm_step_running pwm_set_def word_less_nat_alt)
  then show ?thesis by (simp add: pwm_counter_idle [OF assms])
qed

subsection \<open>Counting high cycles\<close>

lemma shift_mod_inj:
  assumes "i \<le> j" and "j < q" and "(c + i) mod q = (c + j) mod (q :: nat)"
  shows "i = j"
proof -
  have "q dvd (c + j) - (c + i)" using assms mod_eq_dvd_iff_nat [of "c + i" "c + j" q] by simp
  then show ?thesis using assms by (auto dest: dvd_imp_le)
qed

lemma count_below_in_period:
  "card {i \<in> {..<q}. (c + i) mod q < d} = min d (q :: nat)"
proof (cases "q = 0")
  case False
  let ?f = "\<lambda>i. (c + i) mod q"
  have inj: "inj_on ?f {..<q}"
  proof (rule inj_onI)
    fix i j assume "i \<in> {..<q}" "j \<in> {..<q}" "?f i = ?f j"
    then show "i = j" using shift_mod_inj [of i j q c] shift_mod_inj [of j i q c] by force
  qed
  have surj: "?f ` {..<q} = {..<q}"
    using False inj by (intro card_subset_eq) (auto simp: card_image)
  have "?f ` {i \<in> {..<q}. ?f i < d} = {..<min d q}"
  proof (intro equalityI subsetI)
    fix j assume "j \<in> {..<min d q}"
    moreover from this obtain i where "i \<in> {..<q}" "j = ?f i" using surj by auto
    ultimately show "j \<in> ?f ` {i \<in> {..<q}. ?f i < d}" by auto
  qed (use surj in auto)
  moreover have "inj_on ?f {i \<in> {..<q}. ?f i < d}" by (rule inj_on_subset [OF inj]) auto
  ultimately show ?thesis by (metis card_image card_lessThan)
qed simp

lemma pwm_high_cycles:
  assumes "pwm_set ch q d s"
  shows "card {i \<in> {..<unat q}. pwm_out ch (tm_idle (t + Suc i) s)} = min (unat d) (unat q)"
proof -
  have "pwm_out ch (tm_idle (t + Suc i) s) \<longleftrightarrow>
      (unat (pwm_counter ch (tm_idle t s)) + i) mod unat q < unat d" for i
    using pwm_out_idle [OF pwm_set_idle [OF assms, of t], of i] by (simp add: tm_idle_add add.commute)
  then show ?thesis
    using count_below_in_period [of "unat q" "unat (pwm_counter ch (tm_idle t s))" "unat d"] by simp
qed

subsection \<open>Configuring a channel\<close>

lemma tm_at_config_pwm:
  "\<exists>m n. tm_at (qar_timer_config_pwm soc_bus QAR_TIMER0_BASE ch q d w) =
     timer_step (Wr (pwm_duty_reg ch) d) (tm_idle m
       (timer_step (Wr (pwm_period_reg ch) q) (tm_idle n (tm_at w))))"
  by (auto simp: qar_timer_config_pwm_def Let_def tm_at_write pwm_reg)

lemma pwm_config_set:
  assumes "tm_running (tm_at w)" and "q \<noteq> 0"
  shows "pwm_set ch q d (tm_at (qar_timer_config_pwm soc_bus QAR_TIMER0_BASE ch q d w))"
proof -
  obtain m n where at: "tm_at (qar_timer_config_pwm soc_bus QAR_TIMER0_BASE ch q d w) =
     timer_step (Wr (pwm_duty_reg ch) d) (tm_idle m
       (timer_step (Wr (pwm_period_reg ch) q) (tm_idle n (tm_at w))))"
    using tm_at_config_pwm by blast
  let ?s = "tm_idle m (timer_step (Wr (pwm_period_reg ch) q) (tm_idle n (tm_at w)))"
  have "tm_running ?s" "pwm_period ch ?s = q"
    using assms(1) by (simp_all add: tm_running_write pwm_reg pwm_write)
  then show ?thesis
    using pwm_set_write [of ?s ch q "pwm_duty_reg ch" d] assms(2) by (simp add: at pwm_reg split: if_splits)
qed

text \<open>The level of an output pin of the GPIO block.\<close>

definition pin_level :: "nat \<Rightarrow> world \<Rightarrow> bool" where
  "pin_level i w = bit (gp_hw_out (soc_gpio_pins (w_pins w (w_now w)) (w_soc w)) (soc_gpio (w_soc w))) i"

lemma pin_level_pwm:
  assumes "bit (cfg GPIO w 7) i" and "i = (if ch = 0 then 0 else 1)"
  shows "pin_level i w = pwm_out ch (tm_at w)"
proof -
  have "gp_alt_pwm_sel (soc_gpio (w_soc w)) = cfg GPIO w 7"
    by (simp add: cfg_def soc_store_def dev_store_def config_reg_def dev_rdata_def gpio_rdata_def)
  with assms show ?thesis
    by (auto simp: pin_level_def gp_hw_out_def gp_pwm_override_mask_def gp_pwm_override_values_def
        soc_gpio_pins_def pwm_out_def tm_at_def bit_simps)
qed

lemma cfg_gpio_timer_pwm: "cfg GPIO (qar_timer_config_pwm soc_bus QAR_TIMER0_BASE ch q d w) = cfg GPIO w"
  by (simp add: qar_timer_config_pwm_def Let_def cfg_write)

subsection \<open>Properties\<close>

text \<open>
  C27. After the driver configures a PWM channel with period \<open>q\<close> and duty \<open>d\<close> on a running timer
  without prescaler, the pin with the alternate function selected is high for exactly
  \<open>min d q\<close> cycles of every window of \<open>q\<close> consecutive clock cycles, from the first cycle after the
  call on.
\<close>

theorem pwm_duty_cycle:
  fixes q d ch :: u32
  assumes "tm_running (tm_at w)" and "q \<noteq> 0" and "i = (if ch = 0 then 0 else 1)"
    and "bit (cfg GPIO w 7) i"
  defines "w' \<equiv> qar_timer_config_pwm soc_bus QAR_TIMER0_BASE ch q d w"
  shows "card {k \<in> {..<unat q}. pin_level i (soc_idle (t + Suc k) w')} = min (unat d) (unat q)"
proof -
  have "pin_level i (soc_idle n w') = pwm_out ch (tm_idle n (tm_at w'))" for n
    using pin_level_pwm [of "soc_idle n w'" i ch] assms(3,4)
    by (simp add: w'_def cfg_gpio_timer_pwm tm_at_idle)
  then show ?thesis
    using pwm_high_cycles [OF pwm_config_set [OF assms(1,2), of ch d], of t] by (simp add: w'_def)
qed

lemma pwm_duty_cycle_witness:
  "card {k \<in> {..<128}. pin_level 1 (soc_idle (77 + Suc k)
     (qar_timer_config_pwm soc_bus QAR_TIMER0_BASE 1 128 32
       (mmio_write soc_bus (QAR_GPIO_ALT_PWM QAR_GPIO0_BASE) 3
         (world_timer (timer_zero\<lparr>tm_ctrl := 1\<rparr>)))))} = 32"
proof -
  let ?v = "world_timer (timer_zero\<lparr>tm_ctrl := 1\<rparr>)"
  let ?w = "mmio_write soc_bus (QAR_GPIO_ALT_PWM QAR_GPIO0_BASE) 3 ?v"
  have "tm_running (tm_at ?v)" by (simp add: timer_zero_def tm_running_def)
  then have "tm_running (tm_at ?w)" by (simp add: tm_at_write)
  moreover have "bit (cfg GPIO ?w 7) 1"
    by (simp add: cfg_write dev_effect_cfg config_reg_def cfg_trunc_def bit_numeral_rec)
  ultimately show ?thesis
    using pwm_duty_cycle [of ?w 128 1 1 77 32] by simp
qed

end
