(* ===== verification/Fw_Timer.thy ===== *)
theory Fw_Timer
  imports Timer_Pwm
begin

text \<open>
  The timer firmware on the chip: the PWM ramp of \<^verbatim>\<open>devkit/examples/c/timer_pwm_demo.c\<close> and the tour
  of the timer driver in \<^verbatim>\<open>devkit/examples/timer_hal_example.c\<close>.
\<close>

subsection \<open>The PWM demo\<close>

definition pwm_config :: "'w bus \<Rightarrow> u32 \<Rightarrow> u32 \<Rightarrow> u32 \<Rightarrow> 'w \<Rightarrow> 'w" where
  "pwm_config B period duty0 duty1 w =
    (let w = mmio_write B (QAR_TIMER_PWM0_PERIOD QAR_TIMER0_BASE) period w;
         w = mmio_write B (QAR_TIMER_PWM0_DUTY QAR_TIMER0_BASE) duty0 w;
         w = mmio_write B (QAR_TIMER_PWM1_PERIOD QAR_TIMER0_BASE) period w
     in mmio_write B (QAR_TIMER_PWM1_DUTY QAR_TIMER0_BASE) duty1 w)"

definition capture_start :: "'w bus \<Rightarrow> 'w \<Rightarrow> 'w" where
  "capture_start B w = mmio_write B (QAR_TIMER_CAPTURE_CTRL QAR_TIMER0_BASE) 0x3 w"

definition capture_read :: "'w bus \<Rightarrow> u32 \<Rightarrow> 'w \<Rightarrow> u32 \<times> 'w" where
  "capture_read B channel w =
    (if channel = 0 then mmio_read B (QAR_TIMER_CAPTURE0_VALUE QAR_TIMER0_BASE) w
     else mmio_read B (QAR_TIMER_CAPTURE1_VALUE QAR_TIMER0_BASE) w)"

definition pwm_demo_setup :: "'w bus \<Rightarrow> 'w \<Rightarrow> 'w" where
  "pwm_demo_setup B w =
    (let w = mmio_write B (QAR_GPIO_ALT_PWM QAR_GPIO0_BASE) 0x3 w;
         w = qar_timer_init B QAR_TIMER0_BASE 0
               (QAR_TIMER_CTRL_ENABLE OR QAR_TIMER_CTRL_CMP0_AUTO OR QAR_TIMER_CTRL_CMP1_AUTO) w;
         w = pwm_config B 1024 256 768 w
     in capture_start B w)"

text \<open>The body of the \<open>for\<close> loop, and the loop; the two captured values are discarded.\<close>

definition pwm_demo_body :: "'w bus \<Rightarrow> u32 \<Rightarrow> 'w \<Rightarrow> 'w" where
  "pwm_demo_body B duty w =
    (let w = mmio_write B (QAR_TIMER_PWM0_DUTY QAR_TIMER0_BASE) duty w;
         w = mmio_write B (QAR_TIMER_PWM1_DUTY QAR_TIMER0_BASE) (1023 - duty) w;
         w = snd (capture_read B 0 w)
     in snd (capture_read B 1 w))"

lemma duty_step: "duty < 1024 \<Longrightarrow> unat (duty + 64 :: u32) = unat duty + 64"
  by (simp add: word_less_nat_alt unat_word_ariths)

function pwm_demo_ramp :: "'w bus \<Rightarrow> u32 \<Rightarrow> 'w \<Rightarrow> 'w" where
  "pwm_demo_ramp B duty w =
    (if duty < 1024 then pwm_demo_ramp B (duty + 64) (pwm_demo_body B duty w) else w)"
  by pat_completeness auto

termination
  by (relation "measure (\<lambda>(_, duty, _). 1024 - unat duty)")
     (auto simp: duty_step word_less_nat_alt)

declare pwm_demo_ramp.simps [simp del]

text \<open>
  \<open>main\<close> never returns; the worlds it passes through at the head of the \<open>for\<close> loop, with the value
  of \<open>duty\<close> there. The last rule starts the next round of the \<open>while\<close> loop.
\<close>

inductive pwm_demo_head :: "world \<Rightarrow> u32 \<Rightarrow> world \<Rightarrow> bool" for w where
  enter: "pwm_demo_head w 0 (pwm_demo_setup soc_bus w)"
| body: "pwm_demo_head w duty v \<Longrightarrow> duty < 1024 \<Longrightarrow>
         pwm_demo_head w (duty + 64) (pwm_demo_body soc_bus duty v)"
| again: "pwm_demo_head w duty v \<Longrightarrow> \<not> duty < 1024 \<Longrightarrow> pwm_demo_head w 0 v"

lemma pwm_demo_ramp_head:
  "pwm_demo_head w duty v \<Longrightarrow> pwm_demo_head w 0 (pwm_demo_ramp soc_bus duty v)"
proof (induction "soc_bus :: world bus" duty v rule: pwm_demo_ramp.induct)
  case (1 duty v)
  then show ?case
    using pwm_demo_ramp.simps [of soc_bus duty v]
    by (cases "duty < 1024") (simp_all add: pwm_demo_head.body pwm_demo_head.again)
qed

subsection \<open>Accesses of a running timer\<close>

lemma running_write:
  "tm_running (tm_at w) \<Longrightarrow> soc_decode a = Some (TIMER0, k) \<Longrightarrow> 2 \<le> k \<Longrightarrow>
   tm_running (tm_at (mmio_write soc_bus a v w))"
  by (simp add: tm_at_write tm_running_write)

lemma running_read [simp]: "tm_running (tm_at (snd (mmio_read soc_bus a w))) = tm_running (tm_at w)"
  by (simp add: tm_at_read)

lemma pwm_set_mmio_write:
  assumes "pwm_set ch q d (tm_at w)" and "soc_decode a = Some (TIMER0, k)"
    and "2 \<le> k" and "k \<noteq> pwm_period_reg ch"
  shows "pwm_set ch q (if k = pwm_duty_reg ch then v else d) (tm_at (mmio_write soc_bus a v w))"
proof -
  let ?s = "tm_idle (w_gap w (w_now w)) (tm_at w)"
  have "pwm_set ch q d ?s" using assms(1) by (rule pwm_set_idle)
  then have "tm_running ?s" "pwm_period ch ?s = q" "pwm_duty ch ?s = d" "q \<noteq> 0"
    by (auto simp: pwm_set_def)
  from pwm_set_write [OF this(1,2,4) assms(3,4), of v] this(3) show ?thesis
    using assms(2) by (simp add: tm_at_write split: if_splits)
qed

lemma pwm_set_other:
  assumes "pwm_set ch q d (tm_at w)" and "soc_decode a = Some (TIMER0, k)"
    and "2 \<le> k" and "k < 12 \<or> 15 < k"
  shows "pwm_set ch q d (tm_at (mmio_write soc_bus a v w))"
proof -
  have "k \<noteq> pwm_period_reg ch" "k \<noteq> pwm_duty_reg ch" using assms(4) by (auto simp: pwm_reg)
  then show ?thesis using pwm_set_mmio_write [OF assms(1-3), of v] by simp
qed

lemma pwm_set_mmio_read:
  "pwm_set ch q d (tm_at w) \<Longrightarrow> pwm_set ch q d (tm_at (snd (mmio_read soc_bus a w)))"
  by (simp add: tm_at_read pwm_set_idle)

lemma pwm_set_update:
  assumes "pwm_set ch q d (tm_at w)" and "soc_decode a = Some (TIMER0, k)"
    and "2 \<le> k" and "k < 12 \<or> 15 < k"
  shows "pwm_set ch q d (tm_at (mmio_update soc_bus a f w))"
proof -
  obtain v w2 where rd: "mmio_read soc_bus a w = (v, w2)" by (cases "mmio_read soc_bus a w")
  then have "pwm_set ch q d (tm_at w2)" using pwm_set_mmio_read [OF assms(1), of a] by simp
  then show ?thesis using pwm_set_other assms(2-4) by (simp add: mmio_update_def rd)
qed

lemma running_update:
  assumes "tm_running (tm_at w)" and "soc_decode a = Some (TIMER0, k)" and "2 \<le> k"
  shows "tm_running (tm_at (mmio_update soc_bus a f w))"
proof -
  obtain v w2 where rd: "mmio_read soc_bus a w = (v, w2)" by (cases "mmio_read soc_bus a w")
  then have "tm_running (tm_at w2)" using running_read [of a w] assms(1) by simp
  then show ?thesis using running_write assms(2,3) by (simp add: mmio_update_def rd)
qed

lemma running_init: "tm_running (tm_at (qar_timer_init soc_bus QAR_TIMER0_BASE 0 fl w))"
  by (simp add: qar_timer_init_def Let_def tm_at_write timer_step_def tm_running_def reg_bits bit_simps)

lemma running_period:
  assumes "tm_running (tm_at w)" and "soc_decode a = Some (TIMER0, pwm_period_reg ch)"
    and "soc_decode b = Some (TIMER0, pwm_duty_reg ch)" and "q \<noteq> 0"
  shows "pwm_set ch q d (tm_at (mmio_write soc_bus b d (mmio_write soc_bus a q w)))"
proof -
  let ?v = "mmio_write soc_bus a q w"
  let ?s = "tm_idle (w_gap ?v (w_now ?v)) (tm_at ?v)"
  have "tm_running ?s" "pwm_period ch ?s = q"
    using assms(1,2) by (simp_all add: tm_at_write tm_running_write pwm_write pwm_reg)
  then show ?thesis
    using pwm_set_write [of ?s ch q "pwm_duty_reg ch" d] assms(3,4)
    by (simp add: tm_at_write pwm_reg split: if_splits)
qed

text \<open>Both channels of the demo, and the pins they are routed to.\<close>

definition pwm_demo_ok :: "u32 \<Rightarrow> u32 \<Rightarrow> world \<Rightarrow> bool" where
  "pwm_demo_ok d0 d1 w \<longleftrightarrow> pwm_set 0 1024 d0 (tm_at w) \<and> pwm_set 1 1024 d1 (tm_at w) \<and> cfg GPIO w 7 = 3"

lemma pwm_config_ok:
  assumes "tm_running (tm_at w)" and "cfg GPIO w 7 = 3"
  shows "pwm_demo_ok d0 d1 (pwm_config soc_bus 1024 d0 d1 w)"
proof -
  let ?w2 = "mmio_write soc_bus (QAR_TIMER_PWM0_DUTY QAR_TIMER0_BASE) d0
     (mmio_write soc_bus (QAR_TIMER_PWM0_PERIOD QAR_TIMER0_BASE) 1024 w)"
  have 1: "pwm_set 0 1024 d0 (tm_at ?w2)"
    using running_period [OF assms(1), of _ 0 _ 1024 d0] by (simp add: pwm_reg)
  then have "tm_running (tm_at ?w2)" by (simp add: pwm_set_def)
  from running_period [OF this, of _ 1 _ 1024 d1]
  have "pwm_set 1 1024 d1 (tm_at (pwm_config soc_bus 1024 d0 d1 w))"
    by (simp add: pwm_config_def Let_def pwm_reg)
  moreover have "pwm_set 0 1024 d0 (tm_at (pwm_config soc_bus 1024 d0 d1 w))"
    using pwm_set_mmio_write [OF pwm_set_mmio_write [OF 1, of "QAR_TIMER_PWM1_PERIOD QAR_TIMER0_BASE" 14 1024],
        of "QAR_TIMER_PWM1_DUTY QAR_TIMER0_BASE" 15 d1]
    by (simp add: pwm_config_def Let_def pwm_reg)
  ultimately show ?thesis
    using assms(2) by (simp add: pwm_demo_ok_def pwm_config_def Let_def cfg_write)
qed

lemma pwm_demo_ok_write:
  assumes "pwm_demo_ok d0 d1 w" and "soc_decode a = Some (TIMER0, k)" and "2 \<le> k" and "k \<noteq> 12" and "k \<noteq> 14"
  shows "pwm_demo_ok (if k = 13 then v else d0) (if k = 15 then v else d1) (mmio_write soc_bus a v w)"
  using assms pwm_set_mmio_write [of 0 1024 d0 w a k v] pwm_set_mmio_write [of 1 1024 d1 w a k v]
  by (simp add: pwm_demo_ok_def pwm_reg cfg_write)

lemma pwm_demo_ok_read: "pwm_demo_ok d0 d1 w \<Longrightarrow> pwm_demo_ok d0 d1 (snd (mmio_read soc_bus a w))"
  by (simp add: pwm_demo_ok_def pwm_set_mmio_read)

lemma pwm_demo_setup_ok: "pwm_demo_ok 256 768 (pwm_demo_setup soc_bus w)"
proof -
  let ?w = "qar_timer_init soc_bus QAR_TIMER0_BASE 0
    (QAR_TIMER_CTRL_ENABLE OR QAR_TIMER_CTRL_CMP0_AUTO OR QAR_TIMER_CTRL_CMP1_AUTO)
    (mmio_write soc_bus (QAR_GPIO_ALT_PWM QAR_GPIO0_BASE) 0x3 w)"
  have "cfg GPIO ?w 7 = 3"
    by (simp add: qar_timer_init_def Let_def cfg_write dev_effect_cfg config_reg_def cfg_trunc_def)
  from pwm_demo_ok_write [OF pwm_config_ok [OF running_init this], of "QAR_TIMER_CAPTURE_CTRL QAR_TIMER0_BASE" 17]
  show ?thesis by (simp add: pwm_demo_setup_def capture_start_def Let_def)
qed

lemma pwm_demo_body_ok:
  "pwm_demo_ok d0 d1 w \<Longrightarrow> pwm_demo_ok duty (1023 - duty) (pwm_demo_body soc_bus duty w)"
  using pwm_demo_ok_write [of d0 d1 w "QAR_TIMER_PWM0_DUTY QAR_TIMER0_BASE" 13 duty]
    pwm_demo_ok_write [of duty d1 _ "QAR_TIMER_PWM1_DUTY QAR_TIMER0_BASE" 15 "1023 - duty"]
  by (simp add: pwm_demo_body_def capture_read_def Let_def pwm_demo_ok_read)

lemma pwm_demo_head_ok: "pwm_demo_head w duty v \<Longrightarrow> \<exists>d0 d1. pwm_demo_ok d0 d1 v"
  by (induction rule: pwm_demo_head.induct) (blast intro: pwm_demo_setup_ok pwm_demo_body_ok)+

lemma pwm_demo_pins:
  assumes "pwm_demo_ok d0 d1 w"
  shows "card {k \<in> {..<1024}. pin_level 0 (soc_idle (t + Suc k) w)} = min (unat d0) 1024"
    and "card {k \<in> {..<1024}. pin_level 1 (soc_idle (t + Suc k) w)} = min (unat d1) 1024"
proof -
  have "pin_level 0 (soc_idle n w) = pwm_out 0 (tm_idle n (tm_at w))"
    "pin_level 1 (soc_idle n w) = pwm_out 1 (tm_idle n (tm_at w))" for n
    using pin_level_pwm [of "soc_idle n w" 0 0] pin_level_pwm [of "soc_idle n w" 1 1] assms
    by (simp_all add: pwm_demo_ok_def tm_at_idle bit_numeral_rec)
  then show "card {k \<in> {..<1024}. pin_level 0 (soc_idle (t + Suc k) w)} = min (unat d0) 1024"
    "card {k \<in> {..<1024}. pin_level 1 (soc_idle (t + Suc k) w)} = min (unat d1) 1024"
    using pwm_high_cycles [of 0 1024 d0 "tm_at w" t] pwm_high_cycles [of 1 1024 d1 "tm_at w" t] assms
    by (simp_all add: pwm_demo_ok_def)
qed

subsection \<open>The driver tour\<close>

text \<open>
  The polling loop of \<open>timer_example\<close> with its body: the read of the status, and the increment of
  \<open>pwm_flags\<close> when the loop goes on.
\<close>

definition pwm_flags_poll :: "'w bus \<Rightarrow> u32 \<times> 'w \<Rightarrow> u32 \<times> (u32 \<times> 'w)" where
  "pwm_flags_poll B st =
    (case st of (pwm_flags, w) \<Rightarrow>
      case qar_timer_pwm_status B QAR_TIMER0_BASE w of (v, w) \<Rightarrow>
        (v, (if v AND 0x3 \<noteq> 0 then pwm_flags + 1 else pwm_flags, w)))"

text \<open>The result: \<open>pwm_flags\<close>, the two entries of \<open>capture_log\<close>, and the world.\<close>

definition timer_example_setup :: "'w bus \<Rightarrow> 'w \<Rightarrow> (u32 \<times> u32) \<times> 'w" where
  "timer_example_setup B w =
    (let base = QAR_TIMER0_BASE;
         w = qar_timer_init B base 0 QAR_TIMER_CTRL_CMP0_AUTO w;
         w = qar_timer_set_compare0 B base 500 500 w;
         w = qar_timer_enable_irq B base QAR_TIMER_STATUS_CMP0 w;
         w = qar_timer_config_pwm B base 0 128 64 w;
         w = qar_timer_config_pwm B base 1 128 32 w;
         w = qar_timer_config_wdt B base 50000 1 w
     in case qar_timer_manual_capture B base 0 w of (log0, w) \<Rightarrow>
          (case qar_timer_manual_capture B base 1 w of (log1, w) \<Rightarrow> ((log0, log1), w)))"

definition timer_example :: "'w bus \<Rightarrow> u32 \<Rightarrow> 'w \<Rightarrow> (u32 \<times> (u32 \<times> u32) \<times> 'w) option" where
  "timer_example B pwm_flags w =
    (case timer_example_setup B w of (capture_log, w) \<Rightarrow>
      case poll_until (pwm_flags_poll B) (\<lambda>v. v AND 0x3 = 0) (pwm_flags, w) of
        None \<Rightarrow> None
      | Some (_, (pwm_flags, w)) \<Rightarrow>
          Some (pwm_flags, capture_log,
            qar_timer_clear_status B QAR_TIMER0_BASE
              (QAR_TIMER_STATUS_CMP0 OR QAR_TIMER_STATUS_WDT OR QAR_TIMER_STATUS_CAPTURE0 OR
               QAR_TIMER_STATUS_CAPTURE1) w))"

text \<open>Both channels configured, their outputs in step with their counters.\<close>

definition pwm_sync :: "u32 \<Rightarrow> u32 \<Rightarrow> u32 \<Rightarrow> timer \<Rightarrow> bool" where
  "pwm_sync ch q d s \<longleftrightarrow> pwm_set ch q d s \<and> d < q \<and>
     (pwm_out ch s \<longleftrightarrow> 0 < unat (pwm_counter ch s) \<and> unat (pwm_counter ch s) \<le> unat d)"

lemma pwm_sync_step:
  assumes "pwm_set ch q d s" and "d < q"
  shows "pwm_sync ch q d (timer_step Idle s)"
proof -
  have nz: "q \<noteq> 0" using assms(2) by auto
  have set: "pwm_set ch q d (timer_step Idle s)" using pwm_set_idle [OF assms(1), of 1] by (simp add: tm_idle_Suc)
  have nxt: "unat (pwm_counter ch (timer_step Idle s)) = (unat (pwm_counter ch s) + 1) mod unat q"
    using pwm_counter_idle [OF assms(1), of 1] by (simp add: tm_idle_Suc)
  have out: "pwm_out ch (timer_step Idle s) \<longleftrightarrow> unat (pwm_counter ch s) < unat d"
    using assms nz by (simp add: pwm_step_running pwm_set_def word_less_nat_alt)
  have "unat (pwm_counter ch s) < unat q" "unat d < unat q"
    using assms by (simp_all add: pwm_set_def word_less_nat_alt)
  then show ?thesis using set nxt out assms(2) by (auto simp: pwm_sync_def mod_if)
qed

lemma pwm_sync_idle: "pwm_sync ch q d s \<Longrightarrow> pwm_sync ch q d (tm_idle n s)"
proof (induction n)
  case (Suc n)
  then have "pwm_sync ch q d (tm_idle n s)" by simp
  then show ?case using pwm_sync_step [of ch q d "tm_idle n s"] by (simp add: tm_idle_Suc pwm_sync_def)
qed simp

text \<open>
  The phase of the two channels. Between the first \<open>16\<close> and the last \<open>16\<close> cycles in which
  channel 0 is low, one block is free of the high phase of channel 1.
\<close>

definition both_low :: "nat \<Rightarrow> nat \<Rightarrow> bool" where
  "both_low x y \<longleftrightarrow> \<not> (0 < x \<and> x \<le> 64) \<and> \<not> (0 < y \<and> y \<le> 32)"

lemma quiet_block:
  fixes delta :: nat
  shows "\<exists>t \<in> {80, 127}. \<forall>x. x \<le> t \<longrightarrow> t < x + 16 \<longrightarrow> both_low x ((x + delta) mod 128)"
proof (rule ccontr)
  assume "\<not> ?thesis"
  then obtain x1 x2 where x: "x1 \<le> 80" "80 < x1 + 16" "\<not> both_low x1 ((x1 + delta) mod 128)"
    "x2 \<le> 127" "127 < x2 + 16" "\<not> both_low x2 ((x2 + delta) mod 128)" by auto
  then have y: "0 < (x1 + delta) mod 128" "(x1 + delta) mod 128 \<le> 32"
    "0 < (x2 + delta) mod 128" "(x2 + delta) mod 128 \<le> 32" by (auto simp: both_low_def)
  define j where "j = x2 - x1"
  have j: "x2 = x1 + j" "32 \<le> j" "j \<le> 62" using x unfolding j_def by linarith+
  have "(x2 + delta) mod 128 = ((x1 + delta) mod 128 + j) mod 128"
    using j by (simp add: mod_simps algebra_simps)
  also have "\<dots> = (x1 + delta) mod 128 + j" using y j by simp
  finally show False using y j by simp
qed

text \<open>How many cycles phase \<open>x\<close> is away from the last cycle \<open>t\<close> of the block.\<close>

definition cycles_to :: "nat \<Rightarrow> nat \<Rightarrow> nat" where
  "cycles_to t x = (if x \<le> t then t - x else t + 128 - x)"

lemma cycles_to_ge: "x < 128 \<Longrightarrow> t < 128 \<Longrightarrow> cycles_to t x < 128"
  by (auto simp: cycles_to_def)

lemma cycles_to_step:
  assumes "x < 128" and "t < 128" and "n \<le> cycles_to t x"
  shows "cycles_to t ((x + n) mod 128) = cycles_to t x - n"
proof (cases "x + n < 128")
  case True
  then show ?thesis using assms by (auto simp: cycles_to_def split: if_splits)
next
  case False
  have "x + n < 256" using assms by (simp add: cycles_to_def split: if_splits)
  with False have "(x + n) mod 128 = x + n - 128" by (simp add: le_mod_geq not_less)
  then show ?thesis using assms False by (auto simp: cycles_to_def split: if_splits)
qed

text \<open>What holds at every iteration of the polling loop, and how far it is from its end.\<close>

definition pwm_waiting :: "nat \<Rightarrow> nat \<Rightarrow> u32 \<times> world \<Rightarrow> bool" where
  "pwm_waiting delta t st \<longleftrightarrow> t \<in> {80, 127} \<and>
     (\<forall>x. x \<le> t \<longrightarrow> t < x + 16 \<longrightarrow> both_low x ((x + delta) mod 128)) \<and>
     (\<forall>n. w_gap (snd st) n \<le> 15) \<and>
     pwm_sync 0 128 64 (tm_at (snd st)) \<and> pwm_sync 1 128 32 (tm_at (snd st)) \<and>
     unat (pwm_counter 1 (tm_at (snd st))) = (unat (pwm_counter 0 (tm_at (snd st))) + delta) mod 128"

definition pwm_left :: "nat \<Rightarrow> u32 \<times> world \<Rightarrow> nat" where
  "pwm_left t st = (let m = cycles_to t (unat (pwm_counter 0 (tm_at (snd st))))
                    in if m < 15 then 128 else m)"

lemma pwm_sync_counter:
  "pwm_sync ch 128 d s \<Longrightarrow> unat (pwm_counter ch s) < 128"
  by (simp add: pwm_sync_def pwm_set_def word_less_nat_alt)

lemma pwm_poll_low:
  assumes "pwm_sync 0 128 64 s" and "pwm_sync 1 128 32 s"
  shows "timer_rdata 0x10 s AND 0x3 AND 0x3 = 0 \<longleftrightarrow>
         both_low (unat (pwm_counter 0 s)) (unat (pwm_counter 1 s))"
proof -
  have "timer_rdata 0x10 s AND 0x3 AND 0x3 = 0 \<longleftrightarrow> \<not> tm_pwm0_out s \<and> \<not> tm_pwm1_out s"
    by (cases "tm_pwm0_out s"; cases "tm_pwm1_out s") (simp_all add: timer_rdata_def bit_at_def)
  then show ?thesis using assms by (simp add: pwm_sync_def pwm_out_def both_low_def)
qed

lemma pwm_waiting_idle:
  assumes "pwm_waiting delta t (fl, w)"
  shows "pwm_sync 0 128 64 (tm_idle n (tm_at w))" "pwm_sync 1 128 32 (tm_idle n (tm_at w))"
    and "unat (pwm_counter 0 (tm_idle n (tm_at w))) = (unat (pwm_counter 0 (tm_at w)) + n) mod 128"
    and "unat (pwm_counter 1 (tm_idle n (tm_at w))) =
           (unat (pwm_counter 0 (tm_idle n (tm_at w))) + delta) mod 128"
proof -
  show "pwm_sync 0 128 64 (tm_idle n (tm_at w))" "pwm_sync 1 128 32 (tm_idle n (tm_at w))"
    using assms by (simp_all add: pwm_waiting_def pwm_sync_idle)
  show 0: "unat (pwm_counter 0 (tm_idle n (tm_at w))) = (unat (pwm_counter 0 (tm_at w)) + n) mod 128"
    using assms pwm_counter_idle [of 0 128 64 "tm_at w" n] by (simp add: pwm_waiting_def pwm_sync_def)
  have "unat (pwm_counter 1 (tm_idle n (tm_at w))) = (unat (pwm_counter 1 (tm_at w)) + n) mod 128"
    using assms pwm_counter_idle [of 1 128 32 "tm_at w" n] by (simp add: pwm_waiting_def pwm_sync_def)
  then show "unat (pwm_counter 1 (tm_idle n (tm_at w))) =
      (unat (pwm_counter 0 (tm_idle n (tm_at w))) + delta) mod 128"
    using assms 0 by (simp add: pwm_waiting_def mod_simps algebra_simps)
qed

lemma pwm_miss:
  assumes wait: "pwm_waiting delta t (fl, w)"
    and miss: "fst (pwm_flags_poll soc_bus (fl, w)) AND 0x3 \<noteq> 0"
  defines "g \<equiv> w_gap w (w_now w)"
  shows "16 \<le> cycles_to t ((unat (pwm_counter 0 (tm_at w)) + g) mod 128)"
proof -
  let ?s = "tm_idle g (tm_at w)" and ?x = "(unat (pwm_counter 0 (tm_at w)) + g) mod 128"
  have "fst (pwm_flags_poll soc_bus (fl, w)) = timer_rdata 0x10 ?s AND 0x3"
    using tm_at_wait [of w]
    by (simp add: pwm_flags_poll_def qar_timer_pwm_status_def mmio_read_soc g_def soc_load_dev
        dev_rdata_def tm_at_def)
  with miss pwm_poll_low [of ?s] pwm_waiting_idle [OF wait, of g]
  have "\<not> both_low ?x ((?x + delta) mod 128)" by simp
  moreover have "x \<le> t \<Longrightarrow> t < x + 16 \<Longrightarrow> both_low x ((x + delta) mod 128)" for x
    using wait by (simp add: pwm_waiting_def)
  ultimately have "\<not> (?x \<le> t \<and> t < ?x + 16)" by blast
  moreover have "t \<in> {80, 127}" "?x < 128" using wait by (simp_all add: pwm_waiting_def)
  ultimately show ?thesis by (auto simp: cycles_to_def)
qed

interpretation pwm_poll: polled_flag "pwm_flags_poll soc_bus" "\<lambda>v. v AND 0x3 = 0"
  "pwm_waiting delta t" "pwm_left t" for delta t
proof unfold_locales
  fix st assume wait: "pwm_waiting delta t st" and miss: "\<not> fst (pwm_flags_poll soc_bus st) AND 0x3 = 0"
  obtain fl w where st: "st = (fl, w)" by (cases st)
  define g x where "g = w_gap w (w_now w)" and "x = unat (pwm_counter 0 (tm_at w))"
  obtain v w2 where rd: "mmio_read soc_bus (QAR_TIMER_PWM_STATUS QAR_TIMER0_BASE) w = (v, w2)"
    by (cases "mmio_read soc_bus (QAR_TIMER_PWM_STATUS QAR_TIMER0_BASE) w")
  have w': "tm_at (snd (snd (pwm_flags_poll soc_bus st))) = tm_idle (Suc g) (tm_at w)"
    "w_gap (snd (snd (pwm_flags_poll soc_bus st))) = w_gap w"
    using tm_at_read [of "QAR_TIMER_PWM_STATUS QAR_TIMER0_BASE" w]
      mmio_read_soc_env(2) [of "QAR_TIMER_PWM_STATUS QAR_TIMER0_BASE" w] rd
    by (simp_all add: st g_def pwm_flags_poll_def qar_timer_pwm_status_def)
  note idle = pwm_waiting_idle [OF wait [unfolded st], of "Suc g"]
  show "pwm_waiting delta t (snd (pwm_flags_poll soc_bus st))"
    using wait idle by (simp add: pwm_waiting_def w' [unfolded st] st)
  have far: "16 \<le> cycles_to t ((x + g) mod 128)"
    using pwm_miss [of delta t fl w] wait miss by (simp add: st g_def x_def)
  have t: "t < 128" using wait by (auto simp: pwm_waiting_def)
  have x: "x < 128" using wait pwm_sync_counter by (auto simp: pwm_waiting_def st x_def)
  have g: "g \<le> 15" using wait by (simp add: pwm_waiting_def st g_def)
  have "((x + g) mod 128 + 1) mod 128 = (x + Suc g) mod 128" by (simp add: mod_simps)
  then have c2: "cycles_to t ((x + Suc g) mod 128) = cycles_to t ((x + g) mod 128) - 1"
    using cycles_to_step [of "(x + g) mod 128" t 1] far t by simp
  define a m where "a = cycles_to t ((x + g) mod 128)" and "m = cycles_to t x"
  have am: "a < 128" "15 \<le> m \<Longrightarrow> a = m - g" "16 \<le> a"
    using cycles_to_step [OF x t, of g] g t far by (simp_all add: a_def m_def cycles_to_ge)
  have "pwm_left t (snd (pwm_flags_poll soc_bus st)) = a - 1"
    using c2 am(3) idle(3) by (simp add: pwm_left_def Let_def w' [unfolded st] st x_def a_def)
  moreover have "pwm_left t st = (if m < 15 then 128 else m)"
    by (simp add: pwm_left_def st x_def m_def)
  ultimately show "pwm_left t (snd (pwm_flags_poll soc_bus st)) < pwm_left t st"
    using am by (cases "m < 15") auto
qed

subsection \<open>Running the tour\<close>

text \<open>What the later calls of the setup leave of a configured channel.\<close>

lemma pwm_set_config_other:
  assumes "pwm_set ch q d (tm_at w)" and "(ch = 0) \<noteq> (ch' = 0)"
  shows "pwm_set ch q d (tm_at (qar_timer_config_pwm soc_bus QAR_TIMER0_BASE ch' q' d' w))"
proof -
  have "pwm_set ch q d (tm_at (mmio_write soc_bus a v w))"
    if "soc_decode a = Some (TIMER0, k)" "k \<in> {12, 13, 14, 15}"
      "k \<noteq> pwm_period_reg ch" "k \<noteq> pwm_duty_reg ch" "pwm_set ch q d (tm_at w)" for a k v w
    using pwm_set_mmio_write [OF that(5,1) _ that(3), of v] that(2,4) by auto
  then show ?thesis
    using assms by (auto simp: qar_timer_config_pwm_def Let_def pwm_reg)
qed

lemma pwm_set_config_wdt:
  "pwm_set ch q d (tm_at w) \<Longrightarrow>
   pwm_set ch q d (tm_at (qar_timer_config_wdt soc_bus QAR_TIMER0_BASE load en w))"
  unfolding qar_timer_config_wdt_def Let_def
  by (rule pwm_set_other [where k = 10, OF pwm_set_other [where k = 9]]) simp_all

lemma pwm_set_capture:
  "pwm_set ch q d (tm_at w) \<Longrightarrow>
   pwm_set ch q d (tm_at (snd (qar_timer_manual_capture soc_bus QAR_TIMER0_BASE c w)))"
  by (simp add: qar_timer_manual_capture_def Let_def pwm_set_mmio_read pwm_set_other [where k = 17])

lemma pwm_sync_capture:
  assumes "pwm_set ch q d (tm_at w)" and "d < q"
  shows "pwm_sync ch q d (tm_at (snd (qar_timer_manual_capture soc_bus QAR_TIMER0_BASE c w)))"
proof -
  have "pwm_set ch q d (tm_at (mmio_write soc_bus (QAR_TIMER_CAPTURE_CTRL QAR_TIMER0_BASE) v w))" for v
    using pwm_set_other [OF assms(1), of _ 17] by simp
  then have "pwm_sync ch q d (tm_at (snd (mmio_read soc_bus a
      (mmio_write soc_bus (QAR_TIMER_CAPTURE_CTRL QAR_TIMER0_BASE) v w))))" for a v
    using assms(2) by (simp add: tm_at_read tm_idle_Suc pwm_sync_step pwm_set_idle)
  then show ?thesis by (simp add: qar_timer_manual_capture_def Let_def)
qed

lemma timer_example_setup_sync:
  "pwm_sync 0 128 64 (tm_at (snd (timer_example_setup soc_bus w))) \<and>
   pwm_sync 1 128 32 (tm_at (snd (timer_example_setup soc_bus w)))"
proof -
  let ?b = QAR_TIMER0_BASE
  let ?w1 = "qar_timer_init soc_bus ?b 0 QAR_TIMER_CTRL_CMP0_AUTO w"
  let ?w2 = "qar_timer_set_compare0 soc_bus ?b 500 500 ?w1"
  let ?w3 = "qar_timer_enable_irq soc_bus ?b QAR_TIMER_STATUS_CMP0 ?w2"
  let ?w4 = "qar_timer_config_pwm soc_bus ?b 0 128 64 ?w3"
  let ?w5 = "qar_timer_config_pwm soc_bus ?b 1 128 32 ?w4"
  let ?w6 = "qar_timer_config_wdt soc_bus ?b 50000 1 ?w5"
  let ?w7 = "snd (qar_timer_manual_capture soc_bus ?b 0 ?w6)"
  have "tm_running (tm_at ?w2)"
    unfolding qar_timer_set_compare0_def Let_def
    by (rule running_write [where k = 6, OF running_write [where k = 5, OF running_init]]) simp_all
  then have "tm_running (tm_at ?w3)"
    unfolding qar_timer_enable_irq_def by (rule running_update [where k = 4]) simp_all
  then have 4: "pwm_set 0 128 64 (tm_at ?w4)" by (rule pwm_config_set) simp
  then have "tm_running (tm_at ?w4)" by (simp add: pwm_set_def)
  then have "pwm_set 1 128 32 (tm_at ?w5)" by (rule pwm_config_set) simp
  moreover have "pwm_set 0 128 64 (tm_at ?w5)" using 4 by (rule pwm_set_config_other) simp
  ultimately have "pwm_set 0 128 64 (tm_at ?w7)" "pwm_set 1 128 32 (tm_at ?w7)"
    by (simp_all add: pwm_set_capture pwm_set_config_wdt)
  moreover have "snd (timer_example_setup soc_bus w) = snd (qar_timer_manual_capture soc_bus ?b 1 ?w7)"
    by (simp add: timer_example_setup_def Let_def split: prod.split)
  ultimately show ?thesis by (simp add: pwm_sync_capture)
qed

text \<open>No access changes the schedule.\<close>

lemma gap_write [simp]: "w_gap (mmio_write soc_bus a v w) = w_gap w"
  by (simp add: mmio_write_soc)

lemma gap_update [simp]: "w_gap (mmio_update soc_bus a f w) = w_gap w"
  using mmio_read_soc_env(2) [of a w] by (cases "mmio_read soc_bus a w") (simp add: mmio_update_def)

lemma gap_capture [simp]:
  "w_gap (snd (qar_timer_manual_capture soc_bus QAR_TIMER0_BASE c w)) = w_gap w"
  by (simp add: qar_timer_manual_capture_def Let_def)

lemma timer_example_setup_gap: "w_gap (snd (timer_example_setup soc_bus w)) = w_gap w"
  unfolding timer_example_setup_def Let_def qar_timer_config_wdt_def qar_timer_config_pwm_def
    qar_timer_enable_irq_def qar_timer_set_compare0_def qar_timer_init_def
  using gap_capture by (simp add: case_prod_unfold)

lemma timer_example_poll:
  assumes "\<And>n. w_gap w n \<le> 15"
  shows "\<exists>v fl' w'. poll_until (pwm_flags_poll soc_bus) (\<lambda>v. v AND 0x3 = 0)
             (fl, snd (timer_example_setup soc_bus w)) = Some (v, (fl', w')) \<and>
           pwm_set 0 128 64 (tm_at w') \<and> pwm_set 1 128 32 (tm_at w')"
proof -
  let ?w = "snd (timer_example_setup soc_bus w)"
  define x y where "x = unat (pwm_counter 0 (tm_at ?w))" and "y = unat (pwm_counter 1 (tm_at ?w))"
  have xy: "x < 128" "y < 128"
    using timer_example_setup_sync [of w] pwm_sync_counter by (auto simp: x_def y_def)
  define delta where "delta = y + 128 - x"
  have "(x + delta) mod 128 = y" using xy by (simp add: delta_def)
  moreover obtain t where "t \<in> {80, 127}" "\<forall>x. x \<le> t \<longrightarrow> t < x + 16 \<longrightarrow> both_low x ((x + delta) mod 128)"
    using quiet_block [of delta] by blast
  ultimately have "pwm_waiting delta t (fl, ?w)"
    using timer_example_setup_sync [of w] assms
    by (simp add: pwm_waiting_def timer_example_setup_gap x_def y_def)
  from pwm_poll.poll_returns [OF this]
  obtain st where st: "pwm_waiting delta t st"
    "poll_until (pwm_flags_poll soc_bus) (\<lambda>v. v AND 0x3 = 0) (fl, ?w) = Some (pwm_flags_poll soc_bus st)"
    by blast
  obtain fl1 w1 where 1: "st = (fl1, w1)" by (cases st)
  obtain v w2 where rd: "mmio_read soc_bus (QAR_TIMER_PWM_STATUS QAR_TIMER0_BASE) w1 = (v, w2)"
    by (cases "mmio_read soc_bus (QAR_TIMER_PWM_STATUS QAR_TIMER0_BASE) w1")
  have "pwm_set ch q d (tm_at w1) \<Longrightarrow> pwm_set ch q d (tm_at w2)" for ch q d
    using pwm_set_mmio_read [of ch q d w1 "QAR_TIMER_PWM_STATUS QAR_TIMER0_BASE"] rd by simp
  then have "pwm_set 0 128 64 (tm_at w2)" "pwm_set 1 128 32 (tm_at w2)"
    using st(1) by (simp_all add: 1 pwm_waiting_def pwm_sync_def)
  then show ?thesis
    using st(2) by (simp add: 1 pwm_flags_poll_def qar_timer_pwm_status_def rd)
qed

subsection \<open>Properties\<close>

text \<open>
  In every round of the PWM demo, from any initial world and in every schedule, one pass through
  the loop body with value \<open>duty\<close> leaves pin 0 high for exactly \<open>duty\<close> and pin 1 for exactly
  \<open>1023 - duty\<close> cycles of every 1024 that pass before the next access.
\<close>

theorem pwm_demo_complementary:
  assumes "pwm_demo_head w duty v" and "duty < 1024"
  shows "card {k \<in> {..<1024}. pin_level 0 (soc_idle (t + Suc k) (pwm_demo_body soc_bus duty v))} = unat duty \<and>
         card {k \<in> {..<1024}. pin_level 1 (soc_idle (t + Suc k) (pwm_demo_body soc_bus duty v))} = 1023 - unat duty"
proof -
  obtain d0 d1 where "pwm_demo_ok d0 d1 v" using pwm_demo_head_ok [OF assms(1)] by blast
  from pwm_demo_pins [OF pwm_demo_body_ok [OF this, of duty], of t]
  have "card {k \<in> {..<1024}. pin_level 0 (soc_idle (t + Suc k) (pwm_demo_body soc_bus duty v))} =
      min (unat duty) 1024"
    "card {k \<in> {..<1024}. pin_level 1 (soc_idle (t + Suc k) (pwm_demo_body soc_bus duty v))} =
      min (unat (1023 - duty)) 1024" by blast+
  moreover have "unat duty < 1024" using assms(2) by (simp add: word_less_nat_alt)
  moreover have "unat (1023 - duty) = 1023 - unat duty"
    using calculation(3) by (subst unat_sub) (simp_all add: word_le_nat_alt)
  ultimately show ?thesis by simp
qed

lemma pwm_demo_complementary_witness:
  "card {k \<in> {..<1024}. pin_level 1 (soc_idle (5 + Suc k) (pwm_demo_body soc_bus 64
     (pwm_demo_body soc_bus 0 (pwm_demo_setup soc_bus world_at_reset))))} = 959"
proof -
  have "pwm_demo_head world_at_reset 64
      (pwm_demo_body soc_bus 0 (pwm_demo_setup soc_bus world_at_reset))"
    using pwm_demo_head.body [OF pwm_demo_head.enter [of world_at_reset]] by simp
  from pwm_demo_complementary [OF this, of 5] show ?thesis by simp
qed

text \<open>
  When at most 15 cycles pass between two accesses, \<open>timer_example\<close> returns from any world: its
  loop meets a cycle in which both PWM outputs are low, whatever the phases of the channels. It
  leaves channel 0 with 50\% and channel 1 with 25\% duty.
\<close>

theorem timer_example_returns:
  assumes "\<And>n. w_gap w n \<le> 15"
  shows "\<exists>pwm_flags' capture_log w'. timer_example soc_bus pwm_flags w = Some (pwm_flags', capture_log, w') \<and>
           card {k \<in> {..<128}. pwm_out 0 (tm_at (soc_idle (t + Suc k) w'))} = 64 \<and>
           card {k \<in> {..<128}. pwm_out 1 (tm_at (soc_idle (t + Suc k) w'))} = 32"
proof -
  obtain v fl w1 where poll: "poll_until (pwm_flags_poll soc_bus) (\<lambda>v. v AND 0x3 = 0)
       (pwm_flags, snd (timer_example_setup soc_bus w)) = Some (v, (fl, w1))"
    and set: "pwm_set 0 128 64 (tm_at w1)" "pwm_set 1 128 32 (tm_at w1)"
    using timer_example_poll [OF assms] by blast
  define m where "m = QAR_TIMER_STATUS_CMP0 OR QAR_TIMER_STATUS_WDT OR QAR_TIMER_STATUS_CAPTURE0 OR
    QAR_TIMER_STATUS_CAPTURE1"
  define w' where "w' = qar_timer_clear_status soc_bus QAR_TIMER0_BASE m w1"
  have "pwm_set 0 128 64 (tm_at w')" "pwm_set 1 128 32 (tm_at w')"
    unfolding w'_def qar_timer_clear_status_def
    by (rule pwm_set_other [where k = 3]; use set in simp)+
  then have "card {k \<in> {..<128}. pwm_out 0 (tm_at (soc_idle (t + Suc k) w'))} = 64"
    "card {k \<in> {..<128}. pwm_out 1 (tm_at (soc_idle (t + Suc k) w'))} = 32"
    using pwm_high_cycles [of 0 128 64 "tm_at w'" t] pwm_high_cycles [of 1 128 32 "tm_at w'" t]
    by (simp_all add: tm_at_idle)
  moreover have "timer_example soc_bus pwm_flags w = Some (fl, fst (timer_example_setup soc_bus w), w')"
    using poll by (simp add: timer_example_def case_prod_unfold w'_def m_def)
  ultimately show ?thesis by blast
qed

lemma timer_example_returns_witness:
  "\<exists>pwm_flags' capture_log w'. timer_example soc_bus 0 world_at_reset = Some (pwm_flags', capture_log, w')"
proof -
  have "w_gap world_at_reset n \<le> 15" for n by (simp add: world_at_reset_def)
  from timer_example_returns [OF this, of 0] show ?thesis by blast
qed

end
