(* ===== verification/Gpio_Driver.thy ===== *)
theory Gpio_Driver
  imports Hal_Decode
begin

text \<open>
  The GPIO block seen through its driver: the debounce filter and the interrupt latch of an input
  pin, over the cycles in which the firmware does not touch the block.
\<close>

definition gpio_at :: "world \<Rightarrow> gpio" where
  "gpio_at w = soc_gpio (w_soc w)"

subsection \<open>One pin of the loop over all pins\<close>

definition gp_next_level :: "gpio_pins \<Rightarrow> gpio \<Rightarrow> nat \<Rightarrow> bool" where
  "gp_next_level p s i =
     (if bit (gp_dir s) i then bit (gp_hw_out p s) i
      else if \<not> bit (gp_debounce_enable s) i then bit (pin_in p) i
      else if bit (pin_in p) i = bit (gp_debounced_input s) i then bit (gp_debounced_input s) i
      else if gp_debounce_threshold s \<le> gp_debounce_counter s i then bit (pin_in p) i
      else bit (gp_debounced_input s) i)"

definition gp_next_count :: "gpio_pins \<Rightarrow> gpio \<Rightarrow> nat \<Rightarrow> u16" where
  "gp_next_count p s i =
     (if bit (gp_dir s) i \<or> \<not> bit (gp_debounce_enable s) i \<or>
         bit (pin_in p) i = bit (gp_debounced_input s) i \<or>
         gp_debounce_threshold s \<le> gp_debounce_counter s i
      then 0 else gp_debounce_counter s i + 1)"

lemma gp_pin_step_same:
  assumes "i < 32" and "bit (gp_debounced_input n) i = bit (gp_debounced_input s) i"
  shows "bit (gp_debounced_input (gp_pin_step p s i n)) i = gp_next_level p s i"
    and "gp_debounce_counter (gp_pin_step p s i n) i = gp_next_count p s i"
  using assms
  by (auto simp: gp_pin_step_def gp_next_level_def gp_next_count_def gp_input_only_def Let_def bit_simps)

lemma gp_pin_step_other:
  assumes "i \<noteq> j"
  shows "bit (gp_debounced_input (gp_pin_step p s j n)) i = bit (gp_debounced_input n) i"
    and "gp_debounce_counter (gp_pin_step p s j n) i = gp_debounce_counter n i"
  using assms by (simp_all add: gp_pin_step_def Let_def bit_simps)

lemma gp_pin_loop_pin:
  assumes "m \<le> 32" and "gp_debounced_input n = gp_debounced_input s"
    and "gp_debounce_counter n = gp_debounce_counter s"
  shows "bit (gp_debounced_input (gp_pin_loop p s m n)) i =
           (if i < m then gp_next_level p s i else bit (gp_debounced_input s) i) \<and>
         gp_debounce_counter (gp_pin_loop p s m n) i =
           (if i < m then gp_next_count p s i else gp_debounce_counter s i)"
  using assms(1)
proof (induction m)
  case 0
  then show ?case using assms(2,3) by (simp add: gp_pin_loop_def)
next
  case (Suc m)
  let ?n = "gp_pin_loop p s m n"
  have loop: "gp_pin_loop p s (Suc m) n = gp_pin_step p s m ?n" by (simp add: gp_pin_loop_def)
  show ?case
  proof (cases "i = m")
    case True
    then show ?thesis using Suc gp_pin_step_same [of m ?n s p] by (simp add: loop)
  next
    case False
    then show ?thesis using Suc gp_pin_step_other [of i m p s ?n] by (auto simp: loop)
  qed
qed

text \<open>One cycle without an access, for an input pin with the filter on.\<close>

definition gp_filtered :: "nat \<Rightarrow> gpio \<Rightarrow> bool" where
  "gp_filtered i s \<longleftrightarrow> i < 32 \<and> \<not> bit (gp_dir s) i \<and> bit (gp_debounce_enable s) i"

lemma gpio_step_Idle_config [simp]:
  "gp_dir (gpio_step p Idle s) = gp_dir s" "gp_debounce_enable (gpio_step p Idle s) = gp_debounce_enable s"
  "gp_debounce_cycles (gpio_step p Idle s) = gp_debounce_cycles s"
  "gp_irq_rise_mask (gpio_step p Idle s) = gp_irq_rise_mask s"
  "gp_debounce_threshold (gpio_step p Idle s) = gp_debounce_threshold s"
  by (simp_all add: gpio_step_def Let_def gp_debounce_threshold_def)

lemma gpio_step_pin:
  assumes "gp_filtered i s"
  shows "bit (gp_debounced_input (gpio_step p Idle s)) i =
           (if bit (pin_in p) i \<noteq> bit (gp_debounced_input s) i \<and>
               gp_debounce_threshold s \<le> gp_debounce_counter s i
            then bit (pin_in p) i else bit (gp_debounced_input s) i)"
    and "gp_debounce_counter (gpio_step p Idle s) i =
           (if bit (pin_in p) i \<noteq> bit (gp_debounced_input s) i \<and>
               \<not> gp_debounce_threshold s \<le> gp_debounce_counter s i
            then gp_debounce_counter s i + 1 else 0)"
    and "bit (gp_last_input (gpio_step p Idle s)) i = bit (gp_debounced_input s) i"
    and "bit (gp_irq_status (gpio_step p Idle s)) i =
           (bit (gp_irq_status s) i \<or>
            \<not> bit (gp_last_input s) i \<and> bit (gp_debounced_input s) i \<and> bit (gp_irq_rise_mask s) i \<or>
            bit (gp_last_input s) i \<and> \<not> bit (gp_debounced_input s) i \<and> bit (gp_irq_fall_mask s) i)"
proof -
  have fil: "bit (gp_filtered_input_only s) i = bit (gp_debounced_input s) i"
    using assms by (simp add: gp_filtered_input_only_def gp_filtered_def bit_simps)
  have pin: "bit (gp_debounced_input (gpio_step p Idle s)) i = gp_next_level p s i"
    "gp_debounce_counter (gpio_step p Idle s) i = gp_next_count p s i"
    using gp_pin_loop_pin [of 32 s s p i] assms by (simp_all add: gpio_step_def Let_def gp_filtered_def)
  show "bit (gp_debounced_input (gpio_step p Idle s)) i =
           (if bit (pin_in p) i \<noteq> bit (gp_debounced_input s) i \<and>
               gp_debounce_threshold s \<le> gp_debounce_counter s i
            then bit (pin_in p) i else bit (gp_debounced_input s) i)"
    using assms by (auto simp: pin gp_next_level_def gp_filtered_def)
  show "gp_debounce_counter (gpio_step p Idle s) i =
           (if bit (pin_in p) i \<noteq> bit (gp_debounced_input s) i \<and>
               \<not> gp_debounce_threshold s \<le> gp_debounce_counter s i
            then gp_debounce_counter s i + 1 else 0)"
    using assms by (auto simp: pin gp_next_count_def gp_filtered_def)
  show "bit (gp_last_input (gpio_step p Idle s)) i = bit (gp_debounced_input s) i"
    by (simp add: gpio_step_def Let_def fil)
  show "bit (gp_irq_status (gpio_step p Idle s)) i =
           (bit (gp_irq_status s) i \<or>
            \<not> bit (gp_last_input s) i \<and> bit (gp_debounced_input s) i \<and> bit (gp_irq_rise_mask s) i \<or>
            bit (gp_last_input s) i \<and> \<not> bit (gp_debounced_input s) i \<and> bit (gp_irq_fall_mask s) i)"
    using assms
    by (auto simp: gpio_step_def Let_def gp_clear_irq_mask_def gp_irq_events_def gp_rising_edges_def
        gp_falling_edges_def bit_simps fil gp_filtered_def)
qed

subsection \<open>The filter over time\<close>

text \<open>The level at an input pin in a given cycle, before the filter.\<close>

definition raw_level :: "world \<Rightarrow> nat \<Rightarrow> nat \<Rightarrow> bool" where
  "raw_level w i t = bit (pin_gpio (w_pins w t)) i"

definition gp_level :: "nat \<Rightarrow> world \<Rightarrow> bool" where
  "gp_level i w = bit (gp_debounced_input (gpio_at w)) i"

definition gp_count :: "nat \<Rightarrow> world \<Rightarrow> nat" where
  "gp_count i w = unat (gp_debounce_counter (gpio_at w) i)"

definition gp_limit :: "world \<Rightarrow> nat" where
  "gp_limit w = unat (gp_debounce_threshold (gpio_at w))"

lemma gpio_at_idle: "gpio_at (soc_idle (Suc n) w) =
    gpio_step (soc_gpio_pins (w_pins w (w_now w + n)) (w_soc (soc_idle n w))) Idle (gpio_at (soc_idle n w))"
  by (simp add: gpio_at_def soc_idle_Suc)

lemma gpio_idle_config [simp]:
  "gp_filtered i (gpio_at (soc_idle n w)) = gp_filtered i (gpio_at w)"
  "gp_debounce_threshold (gpio_at (soc_idle n w)) = gp_debounce_threshold (gpio_at w)"
  "gp_irq_rise_mask (gpio_at (soc_idle n w)) = gp_irq_rise_mask (gpio_at w)"
  by (induction n) (simp_all add: gpio_at_idle gp_filtered_def)

lemma gp_idle_Suc:
  fixes n i :: nat and w :: world
  assumes "gp_filtered i (gpio_at w)"
  defines "r \<equiv> raw_level w i (w_now w + n)" and "v \<equiv> soc_idle n w"
  shows "gp_level i (soc_idle (Suc n) w) =
           (if r \<noteq> gp_level i v \<and> gp_limit w \<le> gp_count i v then r else gp_level i v)"
    and "gp_count i (soc_idle (Suc n) w) =
           (if r \<noteq> gp_level i v \<and> gp_count i v < gp_limit w then gp_count i v + 1 else 0)"
proof -
  let ?p = "soc_gpio_pins (w_pins w (w_now w + n)) (w_soc v)"
  let ?c = "gp_debounce_counter (gpio_at v) i" and ?th = "gp_debounce_threshold (gpio_at w)"
  have fil: "gp_filtered i (gpio_at v)" and th: "gp_debounce_threshold (gpio_at v) = ?th"
    using assms(1) by (simp_all add: v_def)
  have pin: "bit (pin_in ?p) i = r" by (simp add: soc_gpio_pins_def r_def raw_level_def)
  have "gp_level i (soc_idle (Suc n) w) =
      (if r \<noteq> gp_level i v \<and> ?th \<le> ?c then r else gp_level i v)"
    using gpio_step_pin(1) [OF fil, of ?p] by (simp add: gp_level_def gpio_at_idle v_def [symmetric] pin th)
  then show "gp_level i (soc_idle (Suc n) w) =
      (if r \<noteq> gp_level i v \<and> gp_limit w \<le> gp_count i v then r else gp_level i v)"
    by (simp add: gp_limit_def gp_count_def word_le_nat_alt)
  have "gp_debounce_counter (gpio_at (soc_idle (Suc n) w)) i =
      (if r \<noteq> gp_level i v \<and> \<not> ?th \<le> ?c then ?c + 1 else 0)"
    using gpio_step_pin(2) [OF fil, of ?p] by (simp add: gp_level_def gpio_at_idle v_def [symmetric] pin th)
  moreover have "unat (?c + 1) = unat ?c + 1" if "\<not> ?th \<le> ?c"
    using that by (intro unat_inc [of _ ?th]) (simp add: word_le_nat_alt not_le)
  ultimately show "gp_count i (soc_idle (Suc n) w) =
      (if r \<noteq> gp_level i v \<and> gp_count i v < gp_limit w then gp_count i v + 1 else 0)"
    by (auto simp: gp_limit_def gp_count_def word_le_nat_alt not_le)
qed

text \<open>The counter counts the cycles since the pin last agreed with the filtered level.\<close>

lemma gp_filter_run:
  assumes fil: "gp_filtered i (gpio_at w)" and c0: "gp_count i w = 0"
    and calm: "\<And>k. k + gp_limit w < n \<Longrightarrow>
                 \<exists>j \<le> gp_limit w. raw_level w i (w_now w + (k + j)) = gp_level i w"
    and m: "m \<le> n"
  shows "gp_level i (soc_idle m w) = gp_level i w \<and> gp_count i (soc_idle m w) \<le> gp_limit w \<and>
         gp_count i (soc_idle m w) \<le> m \<and>
         (\<forall>j. m \<le> j + gp_count i (soc_idle m w) \<longrightarrow> j < m \<longrightarrow>
            raw_level w i (w_now w + j) \<noteq> gp_level i w)"
  using m
proof (induction m)
  case (Suc m)
  let ?r = "raw_level w i (w_now w + m)" and ?c = "gp_count i (soc_idle m w)"
  have IH: "gp_level i (soc_idle m w) = gp_level i w" "?c \<le> gp_limit w" "?c \<le> m"
    "\<And>j. m \<le> j + ?c \<Longrightarrow> j < m \<Longrightarrow> raw_level w i (w_now w + j) \<noteq> gp_level i w"
    using Suc by auto
  have lt: "?c < gp_limit w" if "?r \<noteq> gp_level i w"
  proof (rule ccontr)
    assume "\<not> ?c < gp_limit w"
    with IH(2) have c: "?c = gp_limit w" by simp
    from calm [of "m - gp_limit w"] IH(3) Suc.prems c
    obtain j where j: "j \<le> gp_limit w" "raw_level w i (w_now w + (m - gp_limit w + j)) = gp_level i w"
      by auto
    show False
    proof (cases "j = gp_limit w")
      case True
      then show ?thesis using j that IH(3) c by simp
    next
      case False
      then have "m \<le> m - gp_limit w + j + ?c" "m - gp_limit w + j < m" using j(1) IH(3) c by linarith+
      from IH(4) [OF this] j(2) show ?thesis by simp
    qed
  qed
  show ?case
  proof (cases "?r = gp_level i w")
    case True
    then show ?thesis using gp_idle_Suc [OF fil, of m] IH by simp
  next
    case False
    with gp_idle_Suc [OF fil, of m] IH(1) lt
    have c: "gp_count i (soc_idle (Suc m) w) = ?c + 1" "gp_level i (soc_idle (Suc m) w) = gp_level i w"
      by auto
    have "raw_level w i (w_now w + j) \<noteq> gp_level i w" if "m \<le> j + ?c" "j < Suc m" for j
      using IH(4) [of j] that False by (cases "j = m") auto
    then show ?thesis unfolding c using lt False IH(3) by auto
  qed
qed (use c0 in simp)

text \<open>A pin that keeps the opposite level is accepted after one cycle more than the limit.\<close>

lemma gp_filter_accept:
  assumes fil: "gp_filtered i (gpio_at w)" and c0: "gp_count i w = 0"
    and flip: "\<And>j. j < n \<Longrightarrow> raw_level w i (w_now w + j) \<noteq> gp_level i w"
    and m: "m \<le> n"
  shows "gp_level i (soc_idle m w) = (gp_level i w \<noteq> (gp_limit w < m)) \<and>
         gp_count i (soc_idle m w) = (if gp_limit w < m then 0 else m)"
  using m
proof (induction m)
  case (Suc m)
  then show ?case using gp_idle_Suc [OF fil, of m] flip [of m] by auto
qed (use c0 in simp)

text \<open>The rising edge reaches the interrupt latch one cycle later.\<close>

lemma gp_irq_run:
  assumes fil: "gp_filtered i (gpio_at w)" and c0: "gp_count i w = 0"
    and flip: "\<And>j. j < n \<Longrightarrow> raw_level w i (w_now w + j)" and low: "\<not> gp_level i w"
    and rise: "bit (gp_irq_rise_mask (gpio_at w)) i"
    and clear: "\<not> bit (gp_irq_status (gpio_at w)) i" and last: "\<not> bit (gp_last_input (gpio_at w)) i"
    and m: "m \<le> n"
  shows "bit (gp_irq_status (gpio_at (soc_idle m w))) i = (gp_limit w + 2 \<le> m) \<and>
         bit (gp_last_input (gpio_at (soc_idle m w))) i = (gp_limit w + 1 < m)"
  using m
proof (induction m)
  case (Suc m)
  let ?p = "soc_gpio_pins (w_pins w (w_now w + m)) (w_soc (soc_idle m w))"
  have "gp_filtered i (gpio_at (soc_idle m w))" using fil by simp
  from gpio_step_pin(3,4) [OF this, of ?p] Suc
    gp_filter_accept [OF fil c0, of n m] flip low rise
  show ?case by (auto simp: gpio_at_idle gp_level_def)
qed (use clear last in simp)

text \<open>The driver call that switches the filter on sets the limit, at least one cycle.\<close>

lemma unat_u16_u32: "unat (ucast (v :: u16) :: u32) = unat v"
  using unsigned_less [where 'a = nat, of v] by (simp add: unsigned_ucast_eq take_bit_nat_eq_self)

lemma ucast_u16_u32: "(ucast (ucast (v :: u16) :: u32) :: u16) = v"
  by (rule bit_word_eqI) (simp add: bit_simps)

lemma gp_limit_cfg: "gp_limit w = max 1 (unat (cfg GPIO w 11))"
proof -
  have "cfg GPIO w 11 = ucast (gp_debounce_cycles (gpio_at w))"
    by (simp add: cfg_def soc_store_def dev_store_def config_reg_def dev_rdata_def gpio_rdata_def gpio_at_def)
  then have "unat (cfg GPIO w 11) = unat (gp_debounce_cycles (gpio_at w))" by (simp add: unat_u16_u32)
  then show ?thesis
    by (cases "gp_debounce_cycles (gpio_at w) = 0")
       (simp_all add: gp_limit_def gp_debounce_threshold_def unat_gt_0 max_def Suc_le_eq)
qed

lemma gp_limit_config:
  "gp_limit (qar_gpio_config_debounce soc_bus QAR_GPIO0_BASE msk cycles w) = max 1 (unat cycles)"
  by (simp add: gp_limit_cfg qar_gpio_config_debounce_def Let_def cfg_write dev_effect_cfg
      config_reg_def cfg_trunc_def unat_u16_u32 ucast_u16_u32)

subsection \<open>Properties\<close>

text \<open>
  C28. The debounce filter suppresses glitches: as long as every \<open>limit + 1\<close> consecutive cycles
  contain one in which the pin agrees with the filtered level, the filtered level does not change;
  \<open>limit\<close> is the configured number of cycles (at least 1).
\<close>

theorem debounce_suppresses_glitches:
  assumes "gp_filtered i (gpio_at w)" and "gp_count i w = 0"
    and "\<And>k. k + gp_limit w < n \<Longrightarrow>
           \<exists>j \<le> gp_limit w. raw_level w i (w_now w + (k + j)) = gp_level i w"
  shows "gp_level i (soc_idle n w) = gp_level i w"
  using gp_filter_run [OF assms(1,2), of n n] assms(3) by blast

text \<open>A world whose GPIO pins follow a given pattern, set up as the button of the demo is.\<close>

definition world_button :: "(nat \<Rightarrow> u32) \<Rightarrow> world" where
  "world_button level = world_at_reset\<lparr>
     w_soc := soc_at_reset\<lparr>soc_gpio := gpio_zero\<lparr>gp_dir := 0xFF, gp_irq_enable := 0x100,
       gp_irq_rise_mask := 0x100, gp_irq_fall_mask := 0x100, gp_debounce_enable := 0x100,
       gp_debounce_cycles := 64\<rparr>\<rparr>,
     w_pins := (\<lambda>t. no_pins\<lparr>pin_gpio := level t\<rparr>)\<rparr>"

lemma world_button_facts:
  "gp_filtered 8 (gpio_at (world_button level))" "gp_count 8 (world_button level) = 0"
  "gp_limit (world_button level) = 64" "\<not> gp_level 8 (world_button level)"
  "bit (gp_irq_rise_mask (gpio_at (world_button level))) 8"
  "\<not> bit (gp_irq_status (gpio_at (world_button level))) 8"
  "\<not> bit (gp_last_input (gpio_at (world_button level))) 8"
  "raw_level (world_button level) 8 t = bit (level t) 8"
  "w_now (world_button level) = 0"
  by (simp_all add: world_button_def gpio_at_def gp_filtered_def gp_count_def gp_limit_def gp_level_def
      raw_level_def gp_debounce_threshold_def gpio_zero_def world_at_reset_def bit_numeral_rec)

lemma debounce_suppresses_glitches_witness:
  "\<not> gp_level 8 (soc_idle 1000 (world_button (\<lambda>t. if even t then 0 else 0x100)))"
proof -
  let ?w = "world_button (\<lambda>t. if even t then 0 else 0x100)"
  have "\<exists>j \<le> gp_limit ?w. raw_level ?w 8 (w_now ?w + (k + j)) = gp_level 8 ?w" for k
  proof (intro exI conjI)
    have "even (k + k mod 2)" by presburger
    then show "raw_level ?w 8 (w_now ?w + (k + k mod 2)) = gp_level 8 ?w"
      by (simp add: world_button_facts)
  qed (simp add: world_button_facts)
  then show ?thesis
    using debounce_suppresses_glitches [of 8 ?w 1000] by (simp add: world_button_facts)
qed

text \<open>
  A button press and its interrupt: a low input pin that goes high and stays high is seen high
  after exactly \<open>limit + 1\<close> cycles and, with the rising edge enabled, latches its interrupt exactly
  one cycle later.
\<close>

theorem debounce_press_latency:
  assumes "gp_filtered i (gpio_at w)" and "gp_count i w = 0" and "\<not> gp_level i w"
    and "\<And>j. j < n \<Longrightarrow> raw_level w i (w_now w + j)"
    and "bit (gp_irq_rise_mask (gpio_at w)) i" and "\<not> bit (gp_irq_status (gpio_at w)) i"
    and "\<not> bit (gp_last_input (gpio_at w)) i"
  shows "gp_level i (soc_idle n w) = (gp_limit w + 1 \<le> n) \<and>
         bit (gp_irq_status (gpio_at (soc_idle n w))) i = (gp_limit w + 2 \<le> n)"
  using gp_filter_accept [OF assms(1,2), of n n] gp_irq_run [OF assms(1,2) assms(4,3,5-7), of n n]
    assms(3,4) by auto

lemma debounce_press_latency_witness:
  "bit (gp_irq_status (gpio_at (soc_idle 66 (world_button (\<lambda>_. 0x100))))) 8"
  using debounce_press_latency [of 8 "world_button (\<lambda>_. 0x100)" 66]
  by (simp add: world_button_facts bit_numeral_rec)

end
