(* ===== verification/Fw_Gpio_Irq.thy ===== *)
theory Fw_Gpio_Irq
  imports Gpio_Driver Fw_Timer
begin

text \<open>
  The firmware \<^verbatim>\<open>devkit/examples/c/gpio_irq_demo.c\<close> on the chip: a button on pin 8, a running light
  on pins 0 to 7 and a busy-wait on the timer counter.
\<close>

definition firmware_delay :: "'w bus \<Rightarrow> u32 \<Rightarrow> 'w \<Rightarrow> 'w option" where
  "firmware_delay B ticks w =
    (case mmio_read B (QAR_TIMER_COUNTER QAR_TIMER0_BASE) w of (start, w) \<Rightarrow>
      (case poll_until (mmio_read B (QAR_TIMER_COUNTER QAR_TIMER0_BASE))
              (\<lambda>v. \<not> v - start < ticks) w of
         None \<Rightarrow> None | Some (_, w) \<Rightarrow> Some w))"

definition button_mask :: u32 where
  "button_mask = push_bit 8 1"

definition gpio_irq_setup :: "'w bus \<Rightarrow> 'w \<Rightarrow> 'w" where
  "gpio_irq_setup B w =
    (let w = qar_gpio_config_dir B QAR_GPIO0_BASE 0x00FF w;
         w = mmio_write B (QAR_GPIO_ALT_PWM QAR_GPIO0_BASE) 0x0003 w;
         w = qar_gpio_write B QAR_GPIO0_BASE 0x0005 w;
         w = qar_gpio_config_irq B QAR_GPIO0_BASE button_mask button_mask button_mask w;
         w = qar_gpio_config_debounce B QAR_GPIO0_BASE button_mask 64 w
     in qar_timer_init B QAR_TIMER0_BASE 0 QAR_TIMER_CTRL_ENABLE w)"

text \<open>The body of the endless loop, in the two parts of the source; \<open>pattern\<close> is its static variable.\<close>

definition gpio_irq_serve :: "'w bus \<Rightarrow> 'w \<Rightarrow> 'w option" where
  "gpio_irq_serve B w =
    (case mmio_read B (QAR_GPIO_IRQ_STATUS QAR_GPIO0_BASE) w of (irq_status, w) \<Rightarrow>
      if irq_status AND button_mask \<noteq> 0
      then (case firmware_delay B 1000 (qar_gpio_set B QAR_GPIO0_BASE 0x1 w) of
              None \<Rightarrow> None
            | Some w \<Rightarrow> Some (qar_gpio_clear_irq B QAR_GPIO0_BASE button_mask
                               (qar_gpio_clear B QAR_GPIO0_BASE 0x1 w)))
      else Some w)"

definition gpio_irq_beat :: "'w bus \<Rightarrow> u32 \<Rightarrow> 'w \<Rightarrow> (u32 \<times> 'w) option" where
  "gpio_irq_beat B pattern w =
    (let w = qar_gpio_write B QAR_GPIO0_BASE pattern w;
         pattern = (if pattern = 0x0080 then 0x0001 else push_bit 1 pattern)
     in case firmware_delay B 5000 w of None \<Rightarrow> None | Some w \<Rightarrow> Some (pattern, w))"

definition gpio_irq_body :: "'w bus \<Rightarrow> u32 \<times> 'w \<Rightarrow> (u32 \<times> 'w) option" where
  "gpio_irq_body B st =
    (case gpio_irq_serve B (snd st) of None \<Rightarrow> None | Some w \<Rightarrow> gpio_irq_beat B (fst st) w)"

text \<open>The program after \<open>n\<close> rounds of the loop.\<close>

primrec gpio_irq_main :: "'w bus \<Rightarrow> nat \<Rightarrow> 'w \<Rightarrow> (u32 \<times> 'w) option" where
  "gpio_irq_main B 0 w = Some (0x0001, gpio_irq_setup B w)"
| "gpio_irq_main B (Suc n) w =
    (case gpio_irq_main B n w of None \<Rightarrow> None | Some st \<Rightarrow> gpio_irq_body B st)"

subsection \<open>The delay\<close>

lemma tm_running_cfg: "tm_running (tm_at w) \<longleftrightarrow> bit (cfg TIMER0 w 0) 0 \<and> cfg TIMER0 w 1 = 0"
  by (simp add: tm_running_def tm_at_def cfg_def soc_store_def dev_store_def config_reg_def
      dev_rdata_def timer_rdata_def)

text \<open>
  The loop of the delay started by a read at time \<open>t0\<close> that returned \<open>start\<close> in the world \<open>w0\<close>: the
  counter has advanced once per cycle, and too little time has passed for it to wrap.
\<close>

definition delay_waiting :: "nat \<Rightarrow> u32 \<Rightarrow> u32 \<Rightarrow> nat \<Rightarrow> world \<Rightarrow> world \<Rightarrow> bool" where
  "delay_waiting G ticks start t0 w0 w \<longleftrightarrow>
     tm_running (tm_at w) \<and> (\<forall>n. w_gap w0 n \<le> G) \<and> unat ticks + G + 1 < 2 ^ 32 \<and>
     t0 \<le> w_now w \<and> w_now w - t0 \<le> unat ticks + 1 \<and>
     tm_counter (tm_at w) = start + of_nat (w_now w - t0) \<and>
     (\<forall>d. cfg d w = cfg d w0) \<and> w_gap w = w_gap w0"

lemma counter_read:
  "fst (mmio_read soc_bus (QAR_TIMER_COUNTER QAR_TIMER0_BASE) w) =
     tm_counter (tm_idle (w_gap w (w_now w)) (tm_at w))"
  using tm_at_wait [of w]
  by (simp add: mmio_read_soc soc_load_dev dev_rdata_def timer_rdata_def tm_at_def)

lemma delay_read:
  assumes "delay_waiting G ticks start t0 w0 w"
  defines "e \<equiv> w_now w - t0 + w_gap w (w_now w)"
  shows "fst (mmio_read soc_bus (QAR_TIMER_COUNTER QAR_TIMER0_BASE) w) - start < ticks \<longleftrightarrow> e < unat ticks"
proof -
  have val: "fst (mmio_read soc_bus (QAR_TIMER_COUNTER QAR_TIMER0_BASE) w) - start = of_nat e"
    using assms(1) by (simp add: delay_waiting_def counter_read tm_running_counter e_def)
  have "w_gap w (w_now w) \<le> G" using assms(1) by (simp add: delay_waiting_def)
  moreover have "w_now w - t0 \<le> unat ticks + 1" using assms(1) by (simp add: delay_waiting_def)
  ultimately have "e \<le> unat ticks + G + 1" unfolding e_def by linarith
  then have "e < 2 ^ 32" using assms(1) by (simp add: delay_waiting_def)
  with val show ?thesis by (simp add: word_less_nat_alt unat_of_nat)
qed

interpretation delay_poll: polled_flag "mmio_read soc_bus (QAR_TIMER_COUNTER QAR_TIMER0_BASE)"
  "\<lambda>v. \<not> v - start < ticks" "delay_waiting G ticks start t0 w0"
  "\<lambda>w. unat ticks - (w_now w - t0)" for G ticks start t0 w0
proof unfold_locales
  fix w :: world
  let ?rd = "mmio_read soc_bus (QAR_TIMER_COUNTER QAR_TIMER0_BASE)"
  define e where "e = w_now w - t0 + w_gap w (w_now w)"
  assume wait: "delay_waiting G ticks start t0 w0 w" and "\<not> \<not> fst (?rd w) - start < ticks"
  then have lt: "e < unat ticks" using delay_read [OF wait] by (simp add: e_def)
  have now: "w_now (snd (?rd w)) = Suc (w_now w + w_gap w (w_now w))" by (rule w_now_access)
  have t0: "t0 \<le> w_now w" using wait by (simp add: delay_waiting_def)
  then have now': "w_now (snd (?rd w)) - t0 = Suc e" by (simp add: now e_def)
  show "delay_waiting G ticks start t0 w0 (snd (?rd w))"
    using wait lt now' t0 tm_running_counter [of "tm_at w" "Suc (w_gap w (w_now w))"]
    by (simp add: delay_waiting_def now tm_at_read e_def)
  show "unat ticks - (w_now (snd (?rd w)) - t0) < unat ticks - (w_now w - t0)"
    unfolding now' using lt by (simp add: e_def)
qed

lemma firmware_delay_run:
  assumes run: "tm_running (tm_at w)" and gap: "\<And>n. w_gap w n \<le> G" and small: "unat ticks + G + 1 < 2 ^ 32"
  shows "\<exists>w'. firmware_delay soc_bus ticks w = Some w' \<and> w_now w + unat ticks \<le> w_now w' \<and>
           (\<forall>d. cfg d w' = cfg d w) \<and> w_gap w' = w_gap w"
proof -
  let ?rd = "mmio_read soc_bus (QAR_TIMER_COUNTER QAR_TIMER0_BASE)"
  let ?w1 = "snd (?rd w)" and ?start = "fst (?rd w)" and ?t0 = "w_now w + w_gap w (w_now w)"
  have "delay_waiting G ticks ?start ?t0 w ?w1"
    using run gap small tm_running_counter [OF run, of "Suc (w_gap w (w_now w))"]
      tm_running_counter [OF run, of "w_gap w (w_now w)"]
    by (simp add: delay_waiting_def tm_at_read w_now_access counter_read)
  from delay_poll.poll_returns [OF this] obtain x where
    x: "delay_waiting G ticks ?start ?t0 w x" "\<not> fst (?rd x) - ?start < ticks"
    "poll_until ?rd (\<lambda>v. \<not> v - ?start < ticks) ?w1 = Some (?rd x)" by blast
  have "unat ticks \<le> w_now x - ?t0 + w_gap x (w_now x)"
    using delay_read [OF x(1)] x(2) by (simp add: not_less)
  moreover have "?t0 \<le> w_now x" using x(1) by (simp add: delay_waiting_def)
  moreover have "w_now (snd (?rd x)) = Suc (w_now x + w_gap x (w_now x))" by (rule w_now_access)
  ultimately have "w_now w + unat ticks \<le> w_now (snd (?rd x))" by linarith
  moreover have "firmware_delay soc_bus ticks w = Some (snd (?rd x))"
    using x(3) by (simp add: firmware_delay_def case_prod_unfold)
  ultimately show ?thesis
    using x(1) by (intro exI [of _ "snd (?rd x)"]) (simp add: delay_waiting_def)
qed

subsection \<open>The rounds of the loop\<close>

text \<open>What every round keeps: the timer runs, the pins are routed as the setup left them.\<close>

definition gpio_demo_ok :: "nat \<Rightarrow> world \<Rightarrow> bool" where
  "gpio_demo_ok G w \<longleftrightarrow> tm_running (tm_at w) \<and> (\<forall>n. w_gap w n \<le> G) \<and> cfg GPIO w 7 = 3 \<and>
     cfg TIMER0 w 12 = 0 \<and> cfg TIMER0 w 14 = 0"

lemma now_write_le [simp]: "w_now w \<le> w_now (mmio_write soc_bus a v w)"
  by (simp add: w_now_access)

lemma gpio_demo_ok_cong:
  assumes "gpio_demo_ok G w" and "w_gap w' = w_gap w" and "cfg TIMER0 w' = cfg TIMER0 w"
    and "cfg GPIO w' 7 = cfg GPIO w 7"
  shows "gpio_demo_ok G w'"
  using assms by (simp add: gpio_demo_ok_def tm_running_cfg)

text \<open>Writes to the output register and to the interrupt latch keep it.\<close>

lemma gpio_demo_ok_write:
  assumes "gpio_demo_ok G w" and "soc_decode a = Some (GPIO, k)" and "k \<in> {1, 3, 4, 6}"
  shows "gpio_demo_ok G (mmio_write soc_bus a v w)"
  using assms(1) by (rule gpio_demo_ok_cong)
    (use assms(2,3) in \<open>auto simp: cfg_write dev_effect_def config_reg_def\<close>)

lemma gpio_demo_ok_read: "gpio_demo_ok G w \<Longrightarrow> gpio_demo_ok G (snd (mmio_read soc_bus a w))"
  by (erule gpio_demo_ok_cong) simp_all

lemma gpio_demo_delay:
  assumes "gpio_demo_ok G w" and "unat ticks + G + 1 < 2 ^ 32"
  shows "\<exists>w'. firmware_delay soc_bus ticks w = Some w' \<and> gpio_demo_ok G w' \<and>
           w_now w + unat ticks \<le> w_now w' \<and> cfg GPIO w' = cfg GPIO w"
proof -
  have "tm_running (tm_at w)" "\<And>n. w_gap w n \<le> G" using assms(1) by (simp_all add: gpio_demo_ok_def)
  from firmware_delay_run [OF this assms(2)] obtain w' where
    w': "firmware_delay soc_bus ticks w = Some w'" "w_now w + unat ticks \<le> w_now w'"
      "\<forall>d. cfg d w' = cfg d w" "w_gap w' = w_gap w" by blast
  then have "gpio_demo_ok G w'" using gpio_demo_ok_cong [OF assms(1), of w'] by simp
  with w' show ?thesis by blast
qed

lemma gpio_irq_serve_ok:
  assumes "gpio_demo_ok G w" and "G + 5001 < 2 ^ 32"
  shows "\<exists>w'. gpio_irq_serve soc_bus w = Some w' \<and> gpio_demo_ok G w' \<and> w_now w \<le> w_now w'"
proof -
  let ?rd = "mmio_read soc_bus (QAR_GPIO_IRQ_STATUS QAR_GPIO0_BASE) w"
  let ?w1 = "snd ?rd"
  have 1: "gpio_demo_ok G ?w1" "w_now w \<le> w_now ?w1"
    using assms(1) by (simp_all add: gpio_demo_ok_read w_now_access)
  show ?thesis
  proof (cases "fst ?rd AND button_mask = 0")
    case True
    then show ?thesis using 1 by (simp add: gpio_irq_serve_def case_prod_unfold)
  next
    case False
    let ?w2 = "qar_gpio_set soc_bus QAR_GPIO0_BASE 0x1 ?w1"
    have 2: "gpio_demo_ok G ?w2"
      unfolding qar_gpio_set_def by (rule gpio_demo_ok_write [OF 1(1), where k = 3]) simp_all
    obtain w3 where 3: "firmware_delay soc_bus 1000 ?w2 = Some w3" "gpio_demo_ok G w3"
        "w_now ?w2 + 1000 \<le> w_now w3"
      using gpio_demo_delay [OF 2, of 1000] assms(2) by auto
    let ?w4 = "qar_gpio_clear_irq soc_bus QAR_GPIO0_BASE button_mask (qar_gpio_clear soc_bus QAR_GPIO0_BASE 0x1 w3)"
    have "gpio_demo_ok G ?w4"
      unfolding qar_gpio_clear_irq_def qar_gpio_clear_def
      by (rule gpio_demo_ok_write [where k = 6, OF gpio_demo_ok_write [where k = 4, OF 3(2)]]) simp_all
    moreover have "w_now w \<le> w_now ?w4"
      using 1(2) 3(3) by (simp add: qar_gpio_set_def qar_gpio_clear_def qar_gpio_clear_irq_def w_now_access)
    ultimately show ?thesis
      using False 3(1) by (simp add: gpio_irq_serve_def case_prod_unfold)
  qed
qed

lemma gpio_irq_beat_ok:
  assumes "gpio_demo_ok G w" and "G + 5001 < 2 ^ 32"
  shows "\<exists>w'. gpio_irq_beat soc_bus p w = Some (if p = 0x80 then 1 else push_bit 1 p, w') \<and>
           gpio_demo_ok G w' \<and> w_now w + 5000 \<le> w_now w' \<and> cfg GPIO w' 1 = p"
proof -
  let ?w1 = "qar_gpio_write soc_bus QAR_GPIO0_BASE p w"
  have 1: "gpio_demo_ok G ?w1"
    unfolding qar_gpio_write_def by (rule gpio_demo_ok_write [OF assms(1), where k = 1]) simp_all
  have out: "cfg GPIO ?w1 1 = p"
    by (simp add: qar_gpio_write_def cfg_write dev_effect_cfg config_reg_def cfg_trunc_def)
  obtain w2 where "firmware_delay soc_bus 5000 ?w1 = Some w2" "gpio_demo_ok G w2"
      "w_now ?w1 + 5000 \<le> w_now w2" "cfg GPIO w2 = cfg GPIO ?w1"
    using gpio_demo_delay [OF 1, of 5000] assms(2) by auto
  moreover have "w_now w \<le> w_now ?w1" by (simp add: qar_gpio_write_def)
  ultimately show ?thesis using out by (simp add: gpio_irq_beat_def)
qed

lemma gpio_irq_body_ok:
  assumes "gpio_demo_ok G w" and "G + 5001 < 2 ^ 32"
  shows "\<exists>w'. gpio_irq_body soc_bus (p, w) = Some (if p = 0x80 then 1 else push_bit 1 p, w') \<and>
           gpio_demo_ok G w' \<and> w_now w + 5000 \<le> w_now w' \<and> cfg GPIO w' 1 = p"
proof -
  obtain w1 where 1: "gpio_irq_serve soc_bus w = Some w1" "gpio_demo_ok G w1" "w_now w \<le> w_now w1"
    using gpio_irq_serve_ok [OF assms] by blast
  obtain w2 where "gpio_irq_beat soc_bus p w1 = Some (if p = 0x80 then 1 else push_bit 1 p, w2)"
      "gpio_demo_ok G w2" "w_now w1 + 5000 \<le> w_now w2" "cfg GPIO w2 1 = p"
    using gpio_irq_beat_ok [OF 1(2) assms(2)] by blast
  then show ?thesis using 1 by (simp add: gpio_irq_body_def)
qed

text \<open>The static variable is a rotating one-hot pattern.\<close>

lemma pattern_rotates:
  "(if push_bit (n mod 8) (1 :: u32) = 0x80 then 1 else push_bit 1 (push_bit (n mod 8) (1 :: u32))) =
     push_bit (Suc n mod 8) 1"
proof -
  have "n mod 8 \<in> {0, 1, 2, 3, 4, 5, 6, 7}" by (simp; presburger)
  then show ?thesis by (auto simp: mod_Suc)
qed

lemma gpio_irq_setup_ok:
  assumes "\<And>n. w_gap w n \<le> G" and "cfg TIMER0 w 12 = 0" and "cfg TIMER0 w 14 = 0"
  shows "gpio_demo_ok G (gpio_irq_setup soc_bus w)"
proof -
  let ?w = "gpio_irq_setup soc_bus w"
  have "tm_running (tm_at ?w)" by (simp add: gpio_irq_setup_def Let_def running_init)
  moreover have "w_gap ?w = w_gap w"
    by (simp add: gpio_irq_setup_def Let_def qar_gpio_config_dir_def qar_gpio_write_def
        qar_gpio_config_irq_def qar_gpio_config_debounce_def qar_timer_init_def)
  moreover have "cfg GPIO ?w 7 = 3 \<and> cfg TIMER0 ?w 12 = cfg TIMER0 w 12 \<and> cfg TIMER0 ?w 14 = cfg TIMER0 w 14"
    by (simp add: gpio_irq_setup_def Let_def qar_gpio_config_dir_def qar_gpio_write_def
        qar_gpio_config_irq_def qar_gpio_config_debounce_def qar_timer_init_def cfg_write
        dev_effect_cfg config_reg_def cfg_trunc_def)
  ultimately show ?thesis using assms by (simp add: gpio_demo_ok_def)
qed

lemma gpio_irq_main_run:
  assumes "\<And>n. w_gap w n \<le> G" and "G + 5001 < 2 ^ 32" and "cfg TIMER0 w 12 = 0" and "cfg TIMER0 w 14 = 0"
  shows "\<exists>w'. gpio_irq_main soc_bus n w = Some (push_bit (n mod 8) 1, w') \<and> gpio_demo_ok G w' \<and>
           w_now (gpio_irq_setup soc_bus w) + 5000 * n \<le> w_now w' \<and>
           (0 < n \<longrightarrow> cfg GPIO w' 1 = push_bit ((n - 1) mod 8) 1)"
proof (induction n)
  case 0
  then show ?case using gpio_irq_setup_ok [OF assms(1,3,4)] by simp
next
  case (Suc n)
  then obtain w1 where 1: "gpio_irq_main soc_bus n w = Some (push_bit (n mod 8) 1, w1)"
    "gpio_demo_ok G w1" "w_now (gpio_irq_setup soc_bus w) + 5000 * n \<le> w_now w1" by blast
  obtain w2 where "gpio_irq_body soc_bus (push_bit (n mod 8) 1, w1) = Some (push_bit (Suc n mod 8) 1, w2)"
    "gpio_demo_ok G w2" "w_now w1 + 5000 \<le> w_now w2" "cfg GPIO w2 1 = push_bit (n mod 8) 1"
    using gpio_irq_body_ok [OF 1(2) assms(2), of "push_bit (n mod 8) 1"] unfolding pattern_rotates by blast
  then show ?case using 1 by simp
qed

text \<open>Pins 0 and 1 carry the PWM outputs, which are idle; the others the output register.\<close>

lemma pin_level_out:
  assumes "2 \<le> i" and "i < 32"
  shows "pin_level i w = bit (cfg GPIO w 1) i"
proof -
  have "gp_out_reg (soc_gpio (w_soc w)) = cfg GPIO w 1"
    by (simp add: cfg_def soc_store_def dev_store_def config_reg_def dev_rdata_def gpio_rdata_def)
  then show ?thesis
    using assms by (auto simp: pin_level_def gp_hw_out_def gp_pwm_override_mask_def
        gp_pwm_override_values_def bit_simps)
qed

lemma pwm_out_no_period:
  assumes "tm_running (tm_at w)" and "cfg TIMER0 w 12 = 0" and "cfg TIMER0 w 14 = 0"
  shows "\<not> pwm_out ch (tm_at (soc_idle (Suc n) w))"
proof -
  have "pwm_period ch (tm_at w) = 0"
    using assms(2,3) by (simp add: pwm_period_def tm_at_def cfg_def soc_store_def dev_store_def
        config_reg_def dev_rdata_def timer_rdata_def)
  then show ?thesis using assms(1) by (simp add: tm_at_idle tm_idle_Suc pwm_step_running)
qed

lemma gpio_demo_pins:
  assumes "gpio_demo_ok G w" and "i < 32"
  shows "pin_level i (soc_idle (Suc m) w) = (2 \<le> i \<and> bit (cfg GPIO w 1) i)"
proof (cases "2 \<le> i")
  case True
  then show ?thesis using pin_level_out [of i "soc_idle (Suc m) w"] assms(2) by simp
next
  case False
  then have "pin_level i (soc_idle (Suc m) w) = pwm_out (if i = 0 then 0 else 1) (tm_at (soc_idle (Suc m) w))"
    using assms(1) by (intro pin_level_pwm) (auto simp: gpio_demo_ok_def bit_numeral_rec less_2_cases_iff not_le)
  then show ?thesis
    using False assms(1) pwm_out_no_period [of w] by (simp add: gpio_demo_ok_def)
qed

subsection \<open>Properties\<close>

text \<open>
  The busy-wait of the demo returns on a running timer without prescaler, when polls are never
  more than \<open>G\<close> cycles late and \<open>ticks + G\<close> does not wrap: at least \<open>ticks\<close> clock cycles later, also
  across a wrap of the counter, and without changing a configuration register.
\<close>

theorem firmware_delay_waits:
  assumes "tm_running (tm_at w)" and "\<And>n. w_gap w n \<le> G" and "unat ticks + G + 1 < 2 ^ 32"
  shows "\<exists>w'. firmware_delay soc_bus ticks w = Some w' \<and> w_now w + unat ticks \<le> w_now w' \<and>
           (\<forall>d. cfg d w' = cfg d w)"
  using firmware_delay_run [OF assms] by blast

lemma firmware_delay_waits_witness:
  "\<exists>w'. firmware_delay soc_bus 1000 (world_timer (timer_zero\<lparr>tm_ctrl := 1, tm_counter := 0xFFFFFFF0\<rparr>)) = Some w' \<and>
     1000 \<le> w_now w'"
proof -
  let ?w = "world_timer (timer_zero\<lparr>tm_ctrl := 1, tm_counter := 0xFFFFFFF0\<rparr>)"
  have "tm_running (tm_at ?w)" "\<And>n. w_gap ?w n \<le> 0" "unat (1000 :: u32) + 0 + 1 < 2 ^ 32"
    by (simp_all add: tm_running_def timer_zero_def world_timer_def world_at_reset_def tm_at_def)
  from firmware_delay_waits [OF this] show ?thesis by (auto simp: world_timer_def world_at_reset_def)
qed

text \<open>The indicator of the button on pin 0: the set of the demo does not reach the pin.\<close>

lemma gpio_demo_indicator:
  assumes "gpio_demo_ok G w"
  shows "\<not> pin_level 0 (soc_idle (Suc m)
    (qar_gpio_set soc_bus QAR_GPIO0_BASE 0x1 (snd (mmio_read soc_bus (QAR_GPIO_IRQ_STATUS QAR_GPIO0_BASE) w))))"
proof -
  have "gpio_demo_ok G (qar_gpio_set soc_bus QAR_GPIO0_BASE 0x1 (snd (mmio_read soc_bus (QAR_GPIO_IRQ_STATUS QAR_GPIO0_BASE) w)))"
    unfolding qar_gpio_set_def
    by (rule gpio_demo_ok_write [where k = 3]) (simp_all add: gpio_demo_ok_read assms)
  then show ?thesis using gpio_demo_pins [where i = 0] by simp
qed

text \<open>
  C29. The running light of the demo. With the PWM channels unconfigured and polls at most \<open>G\<close> cycles
  late, every round of the loop ends, whatever the button does, after at least 5000 cycles. After round
  \<open>n + 1\<close> a pin is high exactly when it is pin \<open>n mod 8\<close> and not pin 0 or 1: the demo has handed these two
  to the PWM outputs, so that two of eight rounds show no light at all, where the source promises a
  heartbeat across pins 0 to 7. For the same reason the indicator of the button, which the source puts
  on pin 0, stays dark when it is set.
\<close>

theorem gpio_demo_running_light:
  assumes "\<And>n. w_gap w n \<le> G" and "G + 5001 < 2 ^ 32" and "cfg TIMER0 w 12 = 0" and "cfg TIMER0 w 14 = 0"
    and "i < 32"
  shows "\<exists>w'. gpio_irq_main soc_bus (Suc n) w = Some (push_bit (Suc n mod 8) 1, w') \<and>
           w_now (gpio_irq_setup soc_bus w) + 5000 * Suc n \<le> w_now w' \<and>
           pin_level i (soc_idle (Suc m) w') = (2 \<le> i \<and> i = n mod 8) \<and>
           \<not> pin_level 0 (soc_idle (Suc m)
             (qar_gpio_set soc_bus QAR_GPIO0_BASE 0x1 (snd (mmio_read soc_bus (QAR_GPIO_IRQ_STATUS QAR_GPIO0_BASE) w'))))"
proof -
  obtain w' where w': "gpio_irq_main soc_bus (Suc n) w = Some (push_bit (Suc n mod 8) 1, w')"
    "gpio_demo_ok G w'" "w_now (gpio_irq_setup soc_bus w) + 5000 * Suc n \<le> w_now w'"
    "cfg GPIO w' 1 = push_bit (n mod 8) 1"
    using gpio_irq_main_run [OF assms(1-4), of "Suc n"] by auto
  then have "pin_level i (soc_idle (Suc m) w') = (2 \<le> i \<and> i = n mod 8)"
    using gpio_demo_pins [OF w'(2) assms(5), of m] assms(5) by (auto simp: bit_simps)
  with w' gpio_demo_indicator [OF w'(2), of m] show ?thesis by blast
qed

lemma gpio_demo_running_light_witness:
  "\<exists>w'. gpio_irq_main soc_bus 4 world_at_reset = Some (16, w') \<and> pin_level 3 (soc_idle 1 w')"
proof -
  have "cfg TIMER0 world_at_reset 12 = 0" "cfg TIMER0 world_at_reset 14 = 0"
    by (simp_all add: cfg_def soc_store_def dev_store_def config_reg_def dev_rdata_def timer_rdata_def
        timer_reset_def)
  moreover have "w_gap world_at_reset n \<le> 0" for n by (simp add: world_at_reset_def)
  ultimately show ?thesis
    using gpio_demo_running_light [of world_at_reset 0 3 3 0] by (auto simp del: gpio_irq_main.simps)
qed

end
