(* ===== verification/Uart_Tx.thy ===== *)
theory Uart_Tx
  imports Soc_Rules
begin

text \<open>
  The transmitter of the UART: what it puts on the line for a byte of its queue. The register file
  is left alone meanwhile (\<open>ua_run\<close>), the receive pin is arbitrary, and the LIN logic is off.
\<close>

subsection \<open>Runs without an access\<close>

text \<open>\<open>rx k\<close> is the level of the receive pin in cycle \<open>k\<close>.\<close>

primrec ua_run :: "(nat \<Rightarrow> bool) \<Rightarrow> nat \<Rightarrow> uart \<Rightarrow> uart" where
  "ua_run rx 0 s = s"
| "ua_run rx (Suc n) s = ua_step (rx n) Idle (ua_run rx n s)"

lemma ua_run_add: "ua_run rx (m + n) s = ua_run (\<lambda>k. rx (m + k)) n (ua_run rx m s)"
  by (induction n) simp_all

definition uart_at :: "world \<Rightarrow> uart" where
  "uart_at w = soc_uart (w_soc w)"

definition rx_pin :: "world \<Rightarrow> nat \<Rightarrow> bool" where
  "rx_pin w k = pin_uart_rx (w_pins w (w_now w + k))"

lemma uart_at_idle: "uart_at (soc_idle n w) = ua_run (rx_pin w) n (uart_at w)"
  by (induction n) (simp_all add: uart_at_def soc_idle_Suc rx_pin_def)

subsection \<open>Frames\<close>

text \<open>Level \<open>i\<close> of the frame of a byte: start bit, data bits from the lowest, parity, stop bits.\<close>

definition frame_level :: "u8 \<Rightarrow> bool \<Rightarrow> bool \<Rightarrow> nat \<Rightarrow> bool" where
  "frame_level b pe podd i =
     (if i = 0 then False
      else if i \<le> 8 then bit b (i - 1)
      else if pe \<and> i = 9 then xor_reduce b \<noteq> podd
      else True)"

lemma bit_build_tx_frame:
  assumes "i < 12"
  shows "bit (build_tx_frame b pe podd two) i = frame_level b pe podd i"
proof -
  have "bit ((assign_bit 0 False (NOT 0 :: 12 word) AND NOT (push_bit 1 (mask 8))) OR push_bit 1 (ucast b)) i =
      (if i = 0 then False else if i \<le> 8 then bit b (i - 1) else True)"
    using assms by (auto simp: bit_simps simp del: push_bit_Suc)
  then show ?thesis
    using assms by (auto simp: build_tx_frame_def frame_level_def Let_def bit_simps simp del: push_bit_Suc)
qed

definition frame_len :: "bool \<Rightarrow> bool \<Rightarrow> nat" where
  "frame_len pe two = unat (calc_frame_bits pe two)"

lemma frame_len_eq: "frame_len pe two = 9 + (if pe then 1 else 0) + (if two then 2 else 1)"
  by (simp add: frame_len_def calc_frame_bits_def)

subsection \<open>What a cycle does to the transmitter\<close>

text \<open>Enabled, and none of the LIN activities going on.\<close>

definition ua_plain :: "uart \<Rightarrow> bool" where
  "ua_plain s \<longleftrightarrow> bit (ua_ctrl s) 0 \<and> \<not> ua_lin_mode s \<and> \<not> ua_lin_break_active s \<and>
     ua_lin_auto_state s = 0 \<and> \<not> ua_lin_slave_tx_pending s \<and> \<not> ua_lin_slave_armed s"

text \<open>The registers of the transmitter.\<close>

definition tx_view :: "uart \<Rightarrow> bool \<times> 12 word \<times> 5 word \<times> u32 \<times> (nat \<Rightarrow> u8) \<times> 4 word \<times> 4 word" where
  "tx_view s = (ua_tx s, ua_tx_shift s, ua_tx_bits_remaining s, ua_tx_counter s, ua_tx_fifo s,
                ua_tx_head s, ua_tx_tail s)"

lemmas ua_flag_defs = ua_set_status_def ua_clear_status_def ua_set_irq_bit_def ua_clear_irq_bit_def

lemma tx_view_upd [simp]:
  "tx_view (n\<lparr>ua_ctrl := x0\<rparr>) = tx_view n"
  "tx_view (n\<lparr>ua_baud_div := x1\<rparr>) = tx_view n"
  "tx_view (n\<lparr>ua_irq_en := x2\<rparr>) = tx_view n"
  "tx_view (n\<lparr>ua_irq_status := x3\<rparr>) = tx_view n"
  "tx_view (n\<lparr>ua_rs485_ctrl := x4\<rparr>) = tx_view n"
  "tx_view (n\<lparr>ua_status := x5\<rparr>) = tx_view n"
  "tx_view (n\<lparr>ua_idle_cfg := x6\<rparr>) = tx_view n"
  "tx_view (n\<lparr>ua_lin_ctrl := x7\<rparr>) = tx_view n"
  "tx_view (n\<lparr>ua_lin_cmd := x8\<rparr>) = tx_view n"
  "tx_view (n\<lparr>ua_lin_slave_ctrl := x9\<rparr>) = tx_view n"
  "tx_view (n\<lparr>ua_lin_sync_byte := x10\<rparr>) = tx_view n"
  "tx_view (n\<lparr>ua_lin_id_byte := x11\<rparr>) = tx_view n"
  "tx_view (n\<lparr>ua_lin_header_valid := x12\<rparr>) = tx_view n"
  "tx_view (n\<lparr>ua_lin_sync_error := x13\<rparr>) = tx_view n"
  "tx_view (n\<lparr>ua_lin_header_state := x14\<rparr>) = tx_view n"
  "tx_view (n\<lparr>ua_lin_wait_delimiter := x15\<rparr>) = tx_view n"
  "tx_view (n\<lparr>ua_lin_tx_header_id := x16\<rparr>) = tx_view n"
  "tx_view (n\<lparr>ua_lin_auto_header_pending := x17\<rparr>) = tx_view n"
  "tx_view (n\<lparr>ua_lin_auto_state := x18\<rparr>) = tx_view n"
  "tx_view (n\<lparr>ua_lin_slave_armed := x19\<rparr>) = tx_view n"
  "tx_view (n\<lparr>ua_lin_slave_tx_pending := x20\<rparr>) = tx_view n"
  "tx_view (n\<lparr>ua_lin_slave_bytes_remaining := x21\<rparr>) = tx_view n"
  "tx_view (n\<lparr>ua_lin_slave_underflow := x22\<rparr>) = tx_view n"
  "tx_view (n\<lparr>ua_rx_fifo := x23\<rparr>) = tx_view n"
  "tx_view (n\<lparr>ua_rx_head := x24\<rparr>) = tx_view n"
  "tx_view (n\<lparr>ua_rx_tail := x25\<rparr>) = tx_view n"
  "tx_view (n\<lparr>ua_rx_counter := x26\<rparr>) = tx_view n"
  "tx_view (n\<lparr>ua_idle_counter := x27\<rparr>) = tx_view n"
  "tx_view (n\<lparr>ua_idle_irq_pending := x28\<rparr>) = tx_view n"
  "tx_view (n\<lparr>ua_rx_busy := x29\<rparr>) = tx_view n"
  "tx_view (n\<lparr>ua_rx_sync1 := x30\<rparr>) = tx_view n"
  "tx_view (n\<lparr>ua_rx_sync2 := x31\<rparr>) = tx_view n"
  "tx_view (n\<lparr>ua_rx_bit_index := x32\<rparr>) = tx_view n"
  "tx_view (n\<lparr>ua_rx_total_bits := x33\<rparr>) = tx_view n"
  "tx_view (n\<lparr>ua_rx_data_latch := x34\<rparr>) = tx_view n"
  "tx_view (n\<lparr>ua_rx_parity_latch := x35\<rparr>) = tx_view n"
  "tx_view (n\<lparr>ua_rx_parity_enable_latch := x36\<rparr>) = tx_view n"
  "tx_view (n\<lparr>ua_rx_parity_odd_latch := x37\<rparr>) = tx_view n"
  "tx_view (n\<lparr>ua_rx_two_stop_latch := x38\<rparr>) = tx_view n"
  "tx_view (n\<lparr>ua_rx_stop_error := x39\<rparr>) = tx_view n"
  "tx_view (n\<lparr>ua_rx_start_error := x40\<rparr>) = tx_view n"
  "tx_view (n\<lparr>ua_lin_break_pending := x41\<rparr>) = tx_view n"
  "tx_view (n\<lparr>ua_lin_break_active := x42\<rparr>) = tx_view n"
  "tx_view (n\<lparr>ua_lin_break_counter := x43\<rparr>) = tx_view n"
  "tx_view (n\<lparr>ua_lin_break_tick := x44\<rparr>) = tx_view n"
  "tx_view (n\<lparr>ua_lin_rx_low_counter := x45\<rparr>) = tx_view n"
  "tx_view (n\<lparr>ua_lin_rx_tick := x46\<rparr>) = tx_view n"
  by (simp_all add: tx_view_def)

lemma tx_view_if: "tx_view (if c then a else b) = (if c then tx_view a else tx_view b)"
  by simp

lemma tx_view_bits [simp]:
  "tx_view (ua_set_status i n) = tx_view n" "tx_view (ua_clear_status i n) = tx_view n"
  "tx_view (ua_set_irq_bit i n) = tx_view n" "tx_view (ua_clear_irq_bit i n) = tx_view n"
  by (simp_all add: ua_flag_defs)

lemma tx_view_rx_parts [simp]:
  "tx_view (ua_rx_sample s n) = tx_view n" "tx_view (ua_lin_header_byte s n) = tx_view n"
  "tx_view (ua_rx_begin s n) = tx_view n" "tx_view (ua_rx_idle s n) = tx_view n"
  by (simp_all add: ua_rx_sample_def ua_lin_header_byte_def ua_rx_begin_def ua_rx_idle_def Let_def tx_view_if)

lemma tx_view_rx_frame_end [simp]: "tx_view (ua_rx_frame_end s n) = tx_view n"
  by (simp add: ua_rx_frame_end_def Let_def tx_view_if)

lemma tx_view_rx_receive [simp]: "tx_view (ua_rx_receive s n) = tx_view n"
  by (simp add: ua_rx_receive_def Let_def tx_view_if)

lemma tx_view_stages [simp]:
  "tx_view (ua_rx_stage s n) = tx_view n" "tx_view (ua_lin_rx_stage s n) = tx_view n"
  "tx_view (ua_status_stage s n) = tx_view n" "tx_view (ua_break_stage s n) = tx_view n"
  by (simp_all add: ua_rx_stage_def ua_lin_rx_stage_def ua_lin_break_detected_def
      ua_status_stage_def ua_break_stage_def Let_def tx_view_if)

text \<open>One cycle of the transmitter: load a frame, shift a bit out, or hold.\<close>

lemma tx_view_step:
  assumes "ua_plain s"
  shows "tx_view (ua_step rx Idle s) =
     (if ua_tx_bits_remaining s = 0
      then (if ua_tx_empty s then tx_view s
            else (ua_tx s, build_tx_frame (ua_tx_fifo s (unat (ua_tx_tail s) mod 8)) (bit (ua_ctrl s) 1)
                    (bit (ua_ctrl s) 2) (bit (ua_ctrl s) 3),
                  calc_frame_bits (bit (ua_ctrl s) 1) (bit (ua_ctrl s) 3), 0, ua_tx_fifo s,
                  ua_tx_head s, ua_tx_tail s + 1))
      else if ua_baud_div s \<le> ua_tx_counter s
      then (bit (ua_tx_shift s) 0, assign_bit 11 True (drop_bit 1 (ua_tx_shift s)),
            ua_tx_bits_remaining s - 1, 0, ua_tx_fifo s, ua_tx_head s, ua_tx_tail s)
      else (ua_tx s, ua_tx_shift s, ua_tx_bits_remaining s, ua_tx_counter s + 1, ua_tx_fifo s,
            ua_tx_head s, ua_tx_tail s))"
proof -
  have "tx_view (ua_step rx Idle s) = tx_view (ua_tx_stage s
      (ua_break_stage s (ua_status_stage s (s\<lparr>ua_rx_sync1 := rx, ua_rx_sync2 := ua_rx_sync1 s\<rparr>))))"
    by (simp add: ua_step_def Let_def)
  then show ?thesis
    using assms
    by (simp add: ua_tx_stage_def ua_plain_def ua_tx_idle_def ua_tx_shift_out_def ua_load_frame_def
        ua_lin_slave_gate_block_def Let_def tx_view_def ua_break_stage_def ua_status_stage_def
        ua_lin_mode_def ua_flag_defs)
qed

text \<open>The configuration and the plain mode persist.\<close>

lemma ua_step_config [simp]:
  "ua_ctrl (ua_step rx Idle s) = ua_ctrl s" "ua_baud_div (ua_step rx Idle s) = ua_baud_div s"
  "ua_idle_cfg (ua_step rx Idle s) = ua_idle_cfg s" "ua_rs485_ctrl (ua_step rx Idle s) = ua_rs485_ctrl s"
  using ua_cfg_step [of rx Idle s] by (simp_all add: ua_cfg_def)

lemma ua_run_config [simp]:
  "ua_ctrl (ua_run rx n s) = ua_ctrl s" "ua_baud_div (ua_run rx n s) = ua_baud_div s"
  "ua_idle_cfg (ua_run rx n s) = ua_idle_cfg s" "ua_rs485_ctrl (ua_run rx n s) = ua_rs485_ctrl s"
  by (induction n) simp_all

definition lin_view :: "uart \<Rightarrow> bool \<times> 2 word \<times> bool \<times> bool" where
  "lin_view s = (ua_lin_break_active s, ua_lin_auto_state s, ua_lin_slave_tx_pending s, ua_lin_slave_armed s)"

lemma lin_view_upd [simp]:
  "lin_view (n\<lparr>ua_ctrl := x0\<rparr>) = lin_view n"
  "lin_view (n\<lparr>ua_baud_div := x1\<rparr>) = lin_view n"
  "lin_view (n\<lparr>ua_irq_en := x2\<rparr>) = lin_view n"
  "lin_view (n\<lparr>ua_irq_status := x3\<rparr>) = lin_view n"
  "lin_view (n\<lparr>ua_rs485_ctrl := x4\<rparr>) = lin_view n"
  "lin_view (n\<lparr>ua_status := x5\<rparr>) = lin_view n"
  "lin_view (n\<lparr>ua_idle_cfg := x6\<rparr>) = lin_view n"
  "lin_view (n\<lparr>ua_lin_ctrl := x7\<rparr>) = lin_view n"
  "lin_view (n\<lparr>ua_lin_cmd := x8\<rparr>) = lin_view n"
  "lin_view (n\<lparr>ua_lin_slave_ctrl := x9\<rparr>) = lin_view n"
  "lin_view (n\<lparr>ua_lin_sync_byte := x10\<rparr>) = lin_view n"
  "lin_view (n\<lparr>ua_lin_id_byte := x11\<rparr>) = lin_view n"
  "lin_view (n\<lparr>ua_lin_header_valid := x12\<rparr>) = lin_view n"
  "lin_view (n\<lparr>ua_lin_sync_error := x13\<rparr>) = lin_view n"
  "lin_view (n\<lparr>ua_lin_header_state := x14\<rparr>) = lin_view n"
  "lin_view (n\<lparr>ua_lin_wait_delimiter := x15\<rparr>) = lin_view n"
  "lin_view (n\<lparr>ua_lin_tx_header_id := x16\<rparr>) = lin_view n"
  "lin_view (n\<lparr>ua_lin_auto_header_pending := x17\<rparr>) = lin_view n"
  "lin_view (n\<lparr>ua_lin_slave_bytes_remaining := x18\<rparr>) = lin_view n"
  "lin_view (n\<lparr>ua_lin_slave_underflow := x19\<rparr>) = lin_view n"
  "lin_view (n\<lparr>ua_tx_fifo := x20\<rparr>) = lin_view n"
  "lin_view (n\<lparr>ua_tx_head := x21\<rparr>) = lin_view n"
  "lin_view (n\<lparr>ua_tx_tail := x22\<rparr>) = lin_view n"
  "lin_view (n\<lparr>ua_rx_fifo := x23\<rparr>) = lin_view n"
  "lin_view (n\<lparr>ua_rx_head := x24\<rparr>) = lin_view n"
  "lin_view (n\<lparr>ua_rx_tail := x25\<rparr>) = lin_view n"
  "lin_view (n\<lparr>ua_tx := x26\<rparr>) = lin_view n"
  "lin_view (n\<lparr>ua_tx_shift := x27\<rparr>) = lin_view n"
  "lin_view (n\<lparr>ua_tx_bits_remaining := x28\<rparr>) = lin_view n"
  "lin_view (n\<lparr>ua_tx_counter := x29\<rparr>) = lin_view n"
  "lin_view (n\<lparr>ua_rx_counter := x30\<rparr>) = lin_view n"
  "lin_view (n\<lparr>ua_idle_counter := x31\<rparr>) = lin_view n"
  "lin_view (n\<lparr>ua_idle_irq_pending := x32\<rparr>) = lin_view n"
  "lin_view (n\<lparr>ua_rx_busy := x33\<rparr>) = lin_view n"
  "lin_view (n\<lparr>ua_rx_sync1 := x34\<rparr>) = lin_view n"
  "lin_view (n\<lparr>ua_rx_sync2 := x35\<rparr>) = lin_view n"
  "lin_view (n\<lparr>ua_rx_bit_index := x36\<rparr>) = lin_view n"
  "lin_view (n\<lparr>ua_rx_total_bits := x37\<rparr>) = lin_view n"
  "lin_view (n\<lparr>ua_rx_data_latch := x38\<rparr>) = lin_view n"
  "lin_view (n\<lparr>ua_rx_parity_latch := x39\<rparr>) = lin_view n"
  "lin_view (n\<lparr>ua_rx_parity_enable_latch := x40\<rparr>) = lin_view n"
  "lin_view (n\<lparr>ua_rx_parity_odd_latch := x41\<rparr>) = lin_view n"
  "lin_view (n\<lparr>ua_rx_two_stop_latch := x42\<rparr>) = lin_view n"
  "lin_view (n\<lparr>ua_rx_stop_error := x43\<rparr>) = lin_view n"
  "lin_view (n\<lparr>ua_rx_start_error := x44\<rparr>) = lin_view n"
  "lin_view (n\<lparr>ua_lin_break_pending := x45\<rparr>) = lin_view n"
  "lin_view (n\<lparr>ua_lin_break_counter := x46\<rparr>) = lin_view n"
  "lin_view (n\<lparr>ua_lin_break_tick := x47\<rparr>) = lin_view n"
  "lin_view (n\<lparr>ua_lin_rx_low_counter := x48\<rparr>) = lin_view n"
  "lin_view (n\<lparr>ua_lin_rx_tick := x49\<rparr>) = lin_view n"
  by (simp_all add: lin_view_def)

lemma lin_view_if: "lin_view (if c then a else b) = (if c then lin_view a else lin_view b)"
  by simp

lemma lin_view_bits [simp]:
  "lin_view (ua_set_status i n) = lin_view n" "lin_view (ua_set_irq_bit i n) = lin_view n"
  "lin_view (ua_clear_irq_bit i n) = lin_view n" "lin_view (ua_clear_status i n) = lin_view n"
  by (simp_all add: ua_flag_defs)

lemma lin_view_rx [simp]: "\<not> ua_lin_mode s \<Longrightarrow> lin_view (ua_rx_stage s n) = lin_view n"
  by (simp add: ua_rx_stage_def ua_rx_receive_def ua_rx_frame_end_def ua_rx_sample_def ua_rx_idle_def
      ua_rx_begin_def Let_def lin_view_if)

lemma lin_view_step:
  assumes "ua_plain s"
  shows "lin_view (ua_step rx Idle s) = lin_view s"
proof -
  have "\<not> ua_lin_mode s" using assms by (simp add: ua_plain_def)
  then show ?thesis
    using assms
    by (simp add: ua_step_def Let_def ua_lin_rx_stage_def ua_break_stage_def ua_status_stage_def
        ua_tx_stage_def ua_plain_def ua_tx_idle_def ua_tx_shift_out_def ua_load_frame_def lin_view_if)
qed

lemma ua_plain_step: "ua_plain s \<Longrightarrow> ua_plain (ua_step rx Idle s)"
  using lin_view_step [of s rx] by (simp add: ua_plain_def lin_view_def ua_lin_mode_def)

lemma ua_plain_run: "ua_plain s \<Longrightarrow> ua_plain (ua_run rx n s)"
  by (induction n) (simp_all add: ua_plain_step)

subsection \<open>A whole frame\<close>

text \<open>Cycles per bit.\<close>

definition bit_time :: "uart \<Rightarrow> nat" where
  "bit_time s = unat (ua_baud_div s) + 1"

lemma bit_time_pos [simp]: "0 < bit_time s"
  by (simp add: bit_time_def)

text \<open>
  The transmitter \<open>j\<close> cycles after it loaded the frame with levels \<open>lev\<close> and \<open>len\<close> bits:
  \<open>j div bit_time\<close> bits have been shifted out, and the line holds the last of them.
\<close>

definition tx_sending :: "(nat \<Rightarrow> bool) \<Rightarrow> nat \<Rightarrow> bool \<Rightarrow> nat \<Rightarrow> uart \<Rightarrow> bool" where
  "tx_sending lev len tx0 j s \<longleftrightarrow>
     unat (ua_tx_bits_remaining s) = len - j div bit_time s \<and>
     (j < len * bit_time s \<longrightarrow> unat (ua_tx_counter s) = j mod bit_time s) \<and>
     (\<forall>i < 12. bit (ua_tx_shift s) i = lev (i + j div bit_time s)) \<and>
     ua_tx s = (if j < bit_time s then tx0 else lev (j div bit_time s - 1))"

lemma tx_sending_shift:
  assumes "tx_sending lev len tx0 j s" and "j < len * bit_time s" and "\<And>i. 11 \<le> i \<Longrightarrow> lev i" and "i < 12"
  shows "bit (assign_bit 11 True (drop_bit 1 (ua_tx_shift s))) i = lev (i + Suc (j div bit_time s))"
proof (cases "i = 11")
  case True
  then show ?thesis using assms(3) by (simp add: bit_simps)
next
  case False
  then have "bit (ua_tx_shift s) (Suc i) = lev (Suc i + j div bit_time s)"
    using assms by (simp add: tx_sending_def)
  then show ?thesis using False assms(4) by (simp add: bit_simps)
qed

lemma tx_sending_step:
  assumes plain: "ua_plain s" and snd: "tx_sending lev len tx0 j s" and lt: "j < len * bit_time s"
    and ones: "\<And>i. 11 \<le> i \<Longrightarrow> lev i"
  shows "tx_sending lev len tx0 (Suc j) (ua_step rx Idle s) \<and>
         (ua_tx_fifo (ua_step rx Idle s), ua_tx_head (ua_step rx Idle s), ua_tx_tail (ua_step rx Idle s)) =
           (ua_tx_fifo s, ua_tx_head s, ua_tx_tail s)"
proof -
  let ?t = "ua_step rx Idle s" and ?p = "bit_time s"
  have p: "bit_time ?t = ?p" by (simp add: bit_time_def)
  have lt': "j div ?p < len" using lt by (simp add: div_less_iff_less_mult)
  then have rem: "ua_tx_bits_remaining s \<noteq> 0"
    using snd by (auto simp: tx_sending_def)
  have cnt: "unat (ua_tx_counter s) = j mod ?p" using snd lt by (simp add: tx_sending_def)
  have "unat (ua_baud_div s) \<le> j mod ?p \<longleftrightarrow> Suc (j mod ?p) = ?p"
    using mod_less_divisor [of ?p j] unfolding bit_time_def by linarith
  then have le: "ua_baud_div s \<le> ua_tx_counter s \<longleftrightarrow> Suc j mod ?p = 0"
    by (simp add: word_le_nat_alt cnt mod_Suc)
  show ?thesis
  proof (cases "Suc j mod ?p = 0")
    case True
    then have div: "Suc j div ?p = Suc (j div ?p)" by (simp add: div_Suc)
    have pos: "\<not> Suc j < ?p" using True by (metis bit_time_pos gr_implies_not0 mod_less nat.distinct(1))
    have "unat (ua_tx_bits_remaining s - 1) = unat (ua_tx_bits_remaining s) - 1"
      using rem by (rule unat_minus_one)
    moreover note tx_sending_shift [OF snd lt ones]
    moreover have "bit (ua_tx_shift s) 0 = lev (j div ?p)" using snd by (simp add: tx_sending_def)
    ultimately show ?thesis
      using tx_view_step [OF plain, of rx] snd rem le True div pos
      by (simp add: tx_sending_def tx_view_def p)
  next
    case False
    then have div: "Suc j div ?p = j div ?p" "Suc j mod ?p = Suc (j mod ?p)"
      by (simp_all add: div_Suc mod_Suc split: if_splits)
    have "unat (ua_tx_counter s) < unat (ua_baud_div s)" using le False by (simp add: word_le_nat_alt)
    then have "unat (ua_tx_counter s + 1) = unat (ua_tx_counter s) + 1" by (rule unat_inc)
    moreover have "Suc j < ?p \<longleftrightarrow> j < ?p" using div by (metis div_less div_eq_0_iff bit_time_pos not_gr_zero)
    ultimately show ?thesis
      using tx_view_step [OF plain, of rx] snd rem le False div cnt
      by (simp add: tx_sending_def tx_view_def p)
  qed
qed

text \<open>From the cycle that loads the frame to the end of the last bit, and the line afterwards.\<close>

definition ua_level :: "uart \<Rightarrow> nat \<Rightarrow> bool" where
  "ua_level s = frame_level (ua_tx_fifo s (unat (ua_tx_tail s) mod 8)) (bit (ua_ctrl s) 1) (bit (ua_ctrl s) 2)"

definition ua_frame_len :: "uart \<Rightarrow> nat" where
  "ua_frame_len s = frame_len (bit (ua_ctrl s) 1) (bit (ua_ctrl s) 3)"

lemma ua_level_ones: "10 \<le> i \<Longrightarrow> ua_level s i"
  by (simp add: ua_level_def frame_level_def)

lemma tx_load:
  assumes "ua_plain s" and "ua_tx_bits_remaining s = 0" and "\<not> ua_tx_empty s"
  shows "tx_sending (ua_level s) (ua_frame_len s) (ua_tx s) 0 (ua_step rx Idle s) \<and>
         ua_tx_fifo (ua_step rx Idle s) = ua_tx_fifo s \<and> ua_tx_head (ua_step rx Idle s) = ua_tx_head s \<and>
         ua_tx_tail (ua_step rx Idle s) = ua_tx_tail s + 1"
  using tx_view_step [OF assms(1), of rx] assms(2,3)
  by (simp add: tx_view_def tx_sending_def ua_level_def ua_frame_len_def frame_len_def bit_build_tx_frame
      bit_time_def)

lemma tx_frame_run:
  assumes plain: "ua_plain s" and idle: "ua_tx_bits_remaining s = 0" and byte: "\<not> ua_tx_empty s"
    and j: "j \<le> ua_frame_len s * bit_time s"
  shows "tx_sending (ua_level s) (ua_frame_len s) (ua_tx s) j (ua_run rx (Suc j) s) \<and>
         ua_tx_fifo (ua_run rx (Suc j) s) = ua_tx_fifo s \<and> ua_tx_head (ua_run rx (Suc j) s) = ua_tx_head s \<and>
         ua_tx_tail (ua_run rx (Suc j) s) = ua_tx_tail s + 1"
  using j
proof (induction j)
  case 0
  then show ?case using tx_load [OF plain idle byte, of "rx 0"] by simp
next
  case (Suc j)
  have "bit_time (ua_run rx (Suc j) s) = bit_time s" by (simp add: bit_time_def)
  then show ?case
    using tx_sending_step [OF ua_plain_run [OF plain, of rx "Suc j"], of "ua_level s" "ua_frame_len s"
        "ua_tx s" j "rx (Suc j)"] Suc ua_level_ones
    by (simp del: ua_run.simps(2) add: ua_run.simps(2) [of rx "Suc j"])
qed

lemma tx_line:
  assumes "ua_plain s" and "ua_tx_bits_remaining s = 0" and "\<not> ua_tx_empty s"
    and "j \<le> ua_frame_len s * bit_time s"
  shows "ua_tx (ua_run rx (Suc j) s) =
           (if j < bit_time s then ua_tx s else ua_level s (j div bit_time s - 1))"
    and "ua_tx_bits_remaining (ua_run rx (Suc j) s) = 0 \<longleftrightarrow> j = ua_frame_len s * bit_time s"
proof -
  have p: "bit_time (ua_run rx (Suc j) s) = bit_time s" by (simp add: bit_time_def)
  note run = tx_frame_run [OF assms, of rx]
  show "ua_tx (ua_run rx (Suc j) s) =
      (if j < bit_time s then ua_tx s else ua_level s (j div bit_time s - 1))"
    using run unfolding tx_sending_def p by blast
  have "unat (ua_tx_bits_remaining (ua_run rx (Suc j) s)) = ua_frame_len s - j div bit_time s"
    using run unfolding tx_sending_def p by blast
  moreover have "ua_frame_len s - j div bit_time s = 0 \<longleftrightarrow> j = ua_frame_len s * bit_time s"
    using assms(4) by (metis bit_time_pos diff_is_0_eq le_antisym less_eq_div_iff_mult_less_eq)
  ultimately show "ua_tx_bits_remaining (ua_run rx (Suc j) s) = 0 \<longleftrightarrow> j = ua_frame_len s * bit_time s"
    by (metis unat_eq_0)
qed

text \<open>With nothing left to send the transmitter holds.\<close>

lemma tx_hold:
  assumes "ua_plain s" and "ua_tx_bits_remaining s = 0" and "ua_tx_empty s"
  shows "tx_view (ua_run rx n s) = tx_view s"
proof (induction n)
  case (Suc n)
  then have "ua_tx_bits_remaining (ua_run rx n s) = 0" "ua_tx_empty (ua_run rx n s)"
    using assms(2,3) by (simp_all add: tx_view_def ua_tx_empty_def)
  then show ?case using tx_view_step [OF ua_plain_run [OF assms(1), of rx n], of "rx n"] Suc by simp
qed simp

lemma tx_line_single:
  assumes plain: "ua_plain s" and idle: "ua_tx_bits_remaining s = 0" and one: "ua_tx_head s = ua_tx_tail s + 1"
  shows "ua_tx (ua_run rx (Suc j) s) =
           (if j < bit_time s then ua_tx s else ua_level s (j div bit_time s - 1)) \<and>
         (ua_frame_len s * bit_time s \<le> j \<longrightarrow> ua_tx_empty (ua_run rx (Suc j) s))"
proof (cases "j \<le> ua_frame_len s * bit_time s")
  case True
  have byte: "\<not> ua_tx_empty s" using one by (simp add: ua_tx_empty_def)
  show ?thesis
    using tx_line(1) [OF plain idle byte True, of rx] tx_frame_run [OF plain idle byte True, of rx] one
    by (simp add: ua_tx_empty_def)
next
  case False
  let ?m = "ua_frame_len s * bit_time s" and ?e = "ua_run rx (Suc (ua_frame_len s * bit_time s)) s"
  have byte: "\<not> ua_tx_empty s" using one by (simp add: ua_tx_empty_def)
  have e: "ua_tx_bits_remaining ?e = 0" "ua_tx_empty ?e"
    using tx_line(2) [OF plain idle byte order_refl, of rx] tx_frame_run [OF plain idle byte order_refl, of rx] one
    by (simp_all add: ua_tx_empty_def)
  obtain k where k: "j = ?m + k" using False by (metis le_add_diff_inverse nat_le_linear)
  have "tx_view (ua_run rx (Suc ?m + k) s) = tx_view ?e"
    unfolding ua_run_add using tx_hold [OF ua_plain_run [OF plain] e] by blast
  moreover have "ua_tx ?e = ua_level s (ua_frame_len s - 1)"
    using tx_line(1) [OF plain idle byte order_refl, of rx] by (simp add: ua_frame_len_def frame_len_eq)
  moreover have "ua_level s (ua_frame_len s - 1) = ua_level s (j div bit_time s - 1)"
  proof -
    have "ua_frame_len s \<le> j div bit_time s" using False by (simp add: less_eq_div_iff_mult_less_eq)
    then show ?thesis
      by (auto simp: ua_level_def frame_level_def ua_frame_len_def frame_len_eq split: if_splits)
  qed
  moreover have "ua_run rx (Suc j) s = ua_run rx (Suc ?m + k) s" by (simp only: k add_Suc)
  moreover have "1 \<le> ua_frame_len s" by (simp add: ua_frame_len_def frame_len_eq)
  then have "bit_time s \<le> ?m" using mult_le_mono1 [of 1 "ua_frame_len s" "bit_time s"] by simp
  then have "\<not> j < bit_time s" using False by linarith
  ultimately show ?thesis using e(2) unfolding tx_view_def ua_tx_empty_def by auto
qed

subsection \<open>Properties\<close>

text \<open>
  C33. A byte waiting in the queue of an idle transmitter goes out as one frame, whatever the receive
  pin does: after the cycle that loads it, bit \<open>i\<close> of start bit, data bits (lowest first), optional
  parity bit and stop bits is on the line for \<open>bit_time\<close> cycles, one bit time after the load; the
  transmitter is ready for the next frame when the last stop bit begins. A bit time is one cycle more
  than the divider in BAUD, which \<^verbatim>\<open>docs/peripherals/uart.md\<close> gives as the bit period itself.
\<close>

theorem uart_sends_frame:
  assumes "ua_plain (uart_at w)" and "ua_tx_bits_remaining (uart_at w) = 0"
    and "\<not> ua_tx_empty (uart_at w)" and "j \<le> ua_frame_len (uart_at w) * bit_time (uart_at w)"
  shows "ua_tx (uart_at (soc_idle (Suc j) w)) =
           (if j < bit_time (uart_at w) then ua_tx (uart_at w)
            else ua_level (uart_at w) (j div bit_time (uart_at w) - 1)) \<and>
         (ua_tx_bits_remaining (uart_at (soc_idle (Suc j) w)) = 0) =
           (j = ua_frame_len (uart_at w) * bit_time (uart_at w))"
  unfolding uart_at_idle using tx_line [OF assms, of "rx_pin w"] by blast

text \<open>A UART with the given bytes in its transmit queue.\<close>

definition uart_sending :: "u8 list \<Rightarrow> uart" where
  "uart_sending bs = (ua_reset uart_zero)\<lparr>ua_baud_div := 9, ua_tx_fifo := (\<lambda>i. bs ! i),
     ua_tx_head := of_nat (length bs)\<rparr>"

definition world_uart :: "uart \<Rightarrow> world" where
  "world_uart u = world_at_reset\<lparr>w_soc := soc_at_reset\<lparr>soc_uart := u\<rparr>\<rparr>"

lemma uart_at_world_uart [simp]: "uart_at (world_uart u) = u"
  by (simp add: uart_at_def world_uart_def)

lemma uart_sending_facts:
  "ua_plain (uart_sending bs)" "ua_tx_bits_remaining (uart_sending bs) = 0"
  "bit_time (uart_sending bs) = 10" "ua_frame_len (uart_sending bs) = 10"
  "ua_tx_empty (uart_sending [b]) = False" "ua_tx_head (uart_sending [b]) = ua_tx_tail (uart_sending [b]) + 1"
  "ua_level (uart_sending (b # bs)) i = frame_level b False False i" "ua_tx (uart_sending bs)"
  by (simp_all add: uart_sending_def ua_plain_def ua_reset_def uart_zero_def ua_lin_mode_def bit_time_def
      ua_frame_len_def frame_len_eq ua_tx_empty_def ua_level_def bit_numeral_rec)

lemma uart_sends_frame_witness:
  "\<not> ua_tx (uart_at (soc_idle 15 (world_uart (uart_sending [0x53])))) \<and>
   ua_tx (uart_at (soc_idle 25 (world_uart (uart_sending [0x53]))))"
proof -
  let ?w = "world_uart (uart_sending [0x53])"
  have pre: "ua_plain (uart_at ?w)" "ua_tx_bits_remaining (uart_at ?w) = 0" "\<not> ua_tx_empty (uart_at ?w)"
    and j: "14 \<le> ua_frame_len (uart_at ?w) * bit_time (uart_at ?w)"
      "24 \<le> ua_frame_len (uart_at ?w) * bit_time (uart_at ?w)"
    by (simp_all add: uart_sending_facts)
  from uart_sends_frame [OF pre j(1)] uart_sends_frame [OF pre j(2)] show ?thesis
    by (simp add: uart_sending_facts frame_level_def bit_numeral_rec)
qed

text \<open>
  Automatic RS-485 direction control releases the line driver one bit too early: for a single
  byte the driver-enable output is active exactly until the last stop bit begins, so that bit, which
  the transmitter puts on the line in the same cycle, is never driven.
\<close>

theorem rs485_releases_before_stop_bit:
  assumes "ua_plain (uart_at w)" and "ua_tx_bits_remaining (uart_at w) = 0"
    and "ua_tx_head (uart_at w) = ua_tx_tail (uart_at w) + 1"
    and "bit (ua_rs485_ctrl (uart_at w)) 0" and "\<not> bit (ua_rs485_ctrl (uart_at w)) 1"
    and "j \<le> ua_frame_len (uart_at w) * bit_time (uart_at w)"
  shows "fst (ua_rs485 (uart_at (soc_idle (Suc j) w))) =
           (j < ua_frame_len (uart_at w) * bit_time (uart_at w)) \<and>
         (j = ua_frame_len (uart_at w) * bit_time (uart_at w) \<longrightarrow>
            ua_tx (uart_at (soc_idle (Suc j) w)) = ua_level (uart_at w) (ua_frame_len (uart_at w) - 1))"
proof -
  let ?s = "uart_at w" and ?t = "uart_at (soc_idle (Suc j) w)"
  have byte: "\<not> ua_tx_empty ?s" using assms(3) by (simp add: ua_tx_empty_def)
  note line = tx_line [OF assms(1,2) byte assms(6), of "rx_pin w"]
    and run = tx_frame_run [OF assms(1,2) byte assms(6), of "rx_pin w"]
  have t: "?t = ua_run (rx_pin w) (Suc j) ?s" by (rule uart_at_idle)
  have "ua_tx_empty ?t" unfolding t ua_tx_empty_def using run assms(3) by simp
  moreover have "(ua_tx_bits_remaining ?t = 0) = (j = ua_frame_len ?s * bit_time ?s)"
    unfolding t using line(2) by blast
  moreover have "ua_rs485_ctrl ?t = ua_rs485_ctrl ?s" unfolding t by (rule ua_run_config)
  ultimately have "fst (ua_rs485 ?t) = (j < ua_frame_len ?s * bit_time ?s)"
    using assms(4-6) by (auto simp: ua_rs485_def Let_def)
  moreover have "ua_tx ?t = ua_level ?s (ua_frame_len ?s - 1)" if "j = ua_frame_len ?s * bit_time ?s"
    using line(1) that unfolding t by (simp add: ua_frame_len_def frame_len_eq)
  ultimately show ?thesis by blast
qed

lemma rs485_releases_before_stop_bit_witness:
  "\<not> fst (ua_rs485 (uart_at (soc_idle 101 (world_uart (uart_sending [0x53])))))"
proof -
  let ?w = "world_uart (uart_sending [0x53])"
  have "ua_plain (uart_at ?w)" "ua_tx_bits_remaining (uart_at ?w) = 0"
    "ua_tx_head (uart_at ?w) = ua_tx_tail (uart_at ?w) + 1"
    "bit (ua_rs485_ctrl (uart_at ?w)) 0" "\<not> bit (ua_rs485_ctrl (uart_at ?w)) 1"
    "100 \<le> ua_frame_len (uart_at ?w) * bit_time (uart_at ?w)"
    by (simp_all add: uart_sending_facts)
      (simp_all add: uart_sending_def ua_reset_def uart_zero_def bit_numeral_rec)
  from rs485_releases_before_stop_bit [OF this] show ?thesis by (simp add: uart_sending_facts)
qed

end
