(* ===== verification/Uart_Rx_Step.thy ===== *)
theory Uart_Rx_Step
  imports Uart_Tx
begin

text \<open>
  The receiver of the UART in one cycle, on every branch. As for the
  transmitter, the register file is left alone meanwhile and the LIN logic is off.
\<close>

subsection \<open>What a cycle does to the receiver\<close>

definition rx_view :: "uart \<Rightarrow> (bool \<times> u32 \<times> 5 word \<times> 5 word) \<times> (u8 \<times> bool \<times> bool \<times> bool \<times> bool \<times> bool) \<times>
    ((nat \<Rightarrow> u8) \<times> 4 word \<times> 4 word)" where
  "rx_view s = ((ua_rx_busy s, ua_rx_counter s, ua_rx_bit_index s, ua_rx_total_bits s),
     (ua_rx_data_latch s, ua_rx_parity_latch s, ua_rx_parity_enable_latch s, ua_rx_parity_odd_latch s,
      ua_rx_stop_error s, ua_rx_start_error s),
     (ua_rx_fifo s, ua_rx_head s, ua_rx_tail s))"

text \<open>The status bits for a framing error, an overrun and a parity error.\<close>

definition err_view :: "uart \<Rightarrow> bool \<times> bool \<times> bool" where
  "err_view s = (bit (ua_status s) 2, bit (ua_status s) 3, bit (ua_status s) 5)"

lemma rx_view_upd [simp]:
  "rx_view (n\<lparr>ua_ctrl := x0\<rparr>) = rx_view n"
  "rx_view (n\<lparr>ua_baud_div := x1\<rparr>) = rx_view n"
  "rx_view (n\<lparr>ua_irq_en := x2\<rparr>) = rx_view n"
  "rx_view (n\<lparr>ua_irq_status := x3\<rparr>) = rx_view n"
  "rx_view (n\<lparr>ua_rs485_ctrl := x4\<rparr>) = rx_view n"
  "rx_view (n\<lparr>ua_status := x5\<rparr>) = rx_view n"
  "rx_view (n\<lparr>ua_idle_cfg := x6\<rparr>) = rx_view n"
  "rx_view (n\<lparr>ua_lin_ctrl := x7\<rparr>) = rx_view n"
  "rx_view (n\<lparr>ua_lin_cmd := x8\<rparr>) = rx_view n"
  "rx_view (n\<lparr>ua_lin_slave_ctrl := x9\<rparr>) = rx_view n"
  "rx_view (n\<lparr>ua_lin_sync_byte := x10\<rparr>) = rx_view n"
  "rx_view (n\<lparr>ua_lin_id_byte := x11\<rparr>) = rx_view n"
  "rx_view (n\<lparr>ua_lin_header_valid := x12\<rparr>) = rx_view n"
  "rx_view (n\<lparr>ua_lin_sync_error := x13\<rparr>) = rx_view n"
  "rx_view (n\<lparr>ua_lin_header_state := x14\<rparr>) = rx_view n"
  "rx_view (n\<lparr>ua_lin_wait_delimiter := x15\<rparr>) = rx_view n"
  "rx_view (n\<lparr>ua_lin_tx_header_id := x16\<rparr>) = rx_view n"
  "rx_view (n\<lparr>ua_lin_auto_header_pending := x17\<rparr>) = rx_view n"
  "rx_view (n\<lparr>ua_lin_auto_state := x18\<rparr>) = rx_view n"
  "rx_view (n\<lparr>ua_lin_slave_armed := x19\<rparr>) = rx_view n"
  "rx_view (n\<lparr>ua_lin_slave_tx_pending := x20\<rparr>) = rx_view n"
  "rx_view (n\<lparr>ua_lin_slave_bytes_remaining := x21\<rparr>) = rx_view n"
  "rx_view (n\<lparr>ua_lin_slave_underflow := x22\<rparr>) = rx_view n"
  "rx_view (n\<lparr>ua_tx_fifo := x23\<rparr>) = rx_view n"
  "rx_view (n\<lparr>ua_tx_head := x24\<rparr>) = rx_view n"
  "rx_view (n\<lparr>ua_tx_tail := x25\<rparr>) = rx_view n"
  "rx_view (n\<lparr>ua_tx := x26\<rparr>) = rx_view n"
  "rx_view (n\<lparr>ua_tx_shift := x27\<rparr>) = rx_view n"
  "rx_view (n\<lparr>ua_tx_bits_remaining := x28\<rparr>) = rx_view n"
  "rx_view (n\<lparr>ua_tx_counter := x29\<rparr>) = rx_view n"
  "rx_view (n\<lparr>ua_idle_counter := x30\<rparr>) = rx_view n"
  "rx_view (n\<lparr>ua_idle_irq_pending := x31\<rparr>) = rx_view n"
  "rx_view (n\<lparr>ua_rx_sync1 := x32\<rparr>) = rx_view n"
  "rx_view (n\<lparr>ua_rx_sync2 := x33\<rparr>) = rx_view n"
  "rx_view (n\<lparr>ua_rx_two_stop_latch := x34\<rparr>) = rx_view n"
  "rx_view (n\<lparr>ua_lin_break_pending := x35\<rparr>) = rx_view n"
  "rx_view (n\<lparr>ua_lin_break_active := x36\<rparr>) = rx_view n"
  "rx_view (n\<lparr>ua_lin_break_counter := x37\<rparr>) = rx_view n"
  "rx_view (n\<lparr>ua_lin_break_tick := x38\<rparr>) = rx_view n"
  "rx_view (n\<lparr>ua_lin_rx_low_counter := x39\<rparr>) = rx_view n"
  "rx_view (n\<lparr>ua_lin_rx_tick := x40\<rparr>) = rx_view n"
  by (simp_all add: rx_view_def)

lemma rx_view_if: "rx_view (if c then a else b) = (if c then rx_view a else rx_view b)"
  by simp

lemma rx_view_irq_bits [simp]:
  "rx_view (ua_set_irq_bit i n) = rx_view n" "rx_view (ua_clear_irq_bit i n) = rx_view n"
  by (simp_all add: ua_flag_defs)

lemma rx_view_tx [simp]:
  "rx_view (ua_break_stage s n) = rx_view n" "\<not> ua_lin_break_active s \<Longrightarrow> rx_view (ua_tx_stage s n) = rx_view n"
  "\<not> ua_lin_mode s \<Longrightarrow> rx_view (ua_lin_rx_stage s n) = rx_view n"
  by (simp_all add: ua_break_stage_def ua_tx_stage_def ua_tx_idle_def ua_tx_shift_out_def ua_load_frame_def
      ua_lin_rx_stage_def Let_def rx_view_if)

lemma rx_view_status [simp]: "rx_view (ua_status_stage s n) = rx_view n"
  by (simp add: ua_status_stage_def)

lemma rx_view_set_status [simp]: "rx_view (ua_set_status i n) = rx_view n"
  by (simp add: ua_flag_defs)

lemma err_view_upd [simp]:
  "err_view (n\<lparr>ua_ctrl := x0\<rparr>) = err_view n"
  "err_view (n\<lparr>ua_baud_div := x1\<rparr>) = err_view n"
  "err_view (n\<lparr>ua_irq_en := x2\<rparr>) = err_view n"
  "err_view (n\<lparr>ua_irq_status := x3\<rparr>) = err_view n"
  "err_view (n\<lparr>ua_rs485_ctrl := x4\<rparr>) = err_view n"
  "err_view (n\<lparr>ua_idle_cfg := x5\<rparr>) = err_view n"
  "err_view (n\<lparr>ua_lin_ctrl := x6\<rparr>) = err_view n"
  "err_view (n\<lparr>ua_lin_cmd := x7\<rparr>) = err_view n"
  "err_view (n\<lparr>ua_lin_slave_ctrl := x8\<rparr>) = err_view n"
  "err_view (n\<lparr>ua_lin_sync_byte := x9\<rparr>) = err_view n"
  "err_view (n\<lparr>ua_lin_id_byte := x10\<rparr>) = err_view n"
  "err_view (n\<lparr>ua_lin_header_valid := x11\<rparr>) = err_view n"
  "err_view (n\<lparr>ua_lin_sync_error := x12\<rparr>) = err_view n"
  "err_view (n\<lparr>ua_lin_header_state := x13\<rparr>) = err_view n"
  "err_view (n\<lparr>ua_lin_wait_delimiter := x14\<rparr>) = err_view n"
  "err_view (n\<lparr>ua_lin_tx_header_id := x15\<rparr>) = err_view n"
  "err_view (n\<lparr>ua_lin_auto_header_pending := x16\<rparr>) = err_view n"
  "err_view (n\<lparr>ua_lin_auto_state := x17\<rparr>) = err_view n"
  "err_view (n\<lparr>ua_lin_slave_armed := x18\<rparr>) = err_view n"
  "err_view (n\<lparr>ua_lin_slave_tx_pending := x19\<rparr>) = err_view n"
  "err_view (n\<lparr>ua_lin_slave_bytes_remaining := x20\<rparr>) = err_view n"
  "err_view (n\<lparr>ua_lin_slave_underflow := x21\<rparr>) = err_view n"
  "err_view (n\<lparr>ua_tx_fifo := x22\<rparr>) = err_view n"
  "err_view (n\<lparr>ua_tx_head := x23\<rparr>) = err_view n"
  "err_view (n\<lparr>ua_tx_tail := x24\<rparr>) = err_view n"
  "err_view (n\<lparr>ua_rx_fifo := x25\<rparr>) = err_view n"
  "err_view (n\<lparr>ua_rx_head := x26\<rparr>) = err_view n"
  "err_view (n\<lparr>ua_rx_tail := x27\<rparr>) = err_view n"
  "err_view (n\<lparr>ua_tx := x28\<rparr>) = err_view n"
  "err_view (n\<lparr>ua_tx_shift := x29\<rparr>) = err_view n"
  "err_view (n\<lparr>ua_tx_bits_remaining := x30\<rparr>) = err_view n"
  "err_view (n\<lparr>ua_tx_counter := x31\<rparr>) = err_view n"
  "err_view (n\<lparr>ua_rx_counter := x32\<rparr>) = err_view n"
  "err_view (n\<lparr>ua_idle_counter := x33\<rparr>) = err_view n"
  "err_view (n\<lparr>ua_idle_irq_pending := x34\<rparr>) = err_view n"
  "err_view (n\<lparr>ua_rx_busy := x35\<rparr>) = err_view n"
  "err_view (n\<lparr>ua_rx_sync1 := x36\<rparr>) = err_view n"
  "err_view (n\<lparr>ua_rx_sync2 := x37\<rparr>) = err_view n"
  "err_view (n\<lparr>ua_rx_bit_index := x38\<rparr>) = err_view n"
  "err_view (n\<lparr>ua_rx_total_bits := x39\<rparr>) = err_view n"
  "err_view (n\<lparr>ua_rx_data_latch := x40\<rparr>) = err_view n"
  "err_view (n\<lparr>ua_rx_parity_latch := x41\<rparr>) = err_view n"
  "err_view (n\<lparr>ua_rx_parity_enable_latch := x42\<rparr>) = err_view n"
  "err_view (n\<lparr>ua_rx_parity_odd_latch := x43\<rparr>) = err_view n"
  "err_view (n\<lparr>ua_rx_two_stop_latch := x44\<rparr>) = err_view n"
  "err_view (n\<lparr>ua_rx_stop_error := x45\<rparr>) = err_view n"
  "err_view (n\<lparr>ua_rx_start_error := x46\<rparr>) = err_view n"
  "err_view (n\<lparr>ua_lin_break_pending := x47\<rparr>) = err_view n"
  "err_view (n\<lparr>ua_lin_break_active := x48\<rparr>) = err_view n"
  "err_view (n\<lparr>ua_lin_break_counter := x49\<rparr>) = err_view n"
  "err_view (n\<lparr>ua_lin_break_tick := x50\<rparr>) = err_view n"
  "err_view (n\<lparr>ua_lin_rx_low_counter := x51\<rparr>) = err_view n"
  "err_view (n\<lparr>ua_lin_rx_tick := x52\<rparr>) = err_view n"
  by (simp_all add: err_view_def)

lemma err_view_if: "err_view (if c then a else b) = (if c then err_view a else err_view b)"
  by simp

lemma err_view_irq_bits [simp]:
  "err_view (ua_set_irq_bit i n) = err_view n" "err_view (ua_clear_irq_bit i n) = err_view n"
  by (simp_all add: ua_flag_defs)

lemma err_view_tx [simp]:
  "err_view (ua_break_stage s n) = err_view n" "\<not> ua_lin_break_active s \<Longrightarrow> err_view (ua_tx_stage s n) = err_view n"
  "\<not> ua_lin_mode s \<Longrightarrow> err_view (ua_lin_rx_stage s n) = err_view n"
  by (simp_all add: ua_break_stage_def ua_tx_stage_def ua_tx_idle_def ua_tx_shift_out_def ua_load_frame_def
      ua_lin_rx_stage_def Let_def err_view_if)

lemma err_view_status [simp]: "err_view (ua_status_stage s n) = err_view n"
  by (simp add: err_view_def ua_status_stage_def)

lemma err_view_set_status [simp]:
  "err_view (ua_set_status 2 n) = (True, snd (err_view n))"
  "err_view (ua_set_status 5 n) = (fst (err_view n), fst (snd (err_view n)), True)"
  "err_view (ua_set_status 3 n) = (fst (err_view n), True, snd (snd (err_view n)))"
  "err_view (ua_set_status 6 n) = err_view n"
  by (simp_all add: err_view_def ua_flag_defs)

text \<open>The two-stage synchroniser of the pin.\<close>

definition sync_view :: "uart \<Rightarrow> bool \<times> bool" where
  "sync_view s = (ua_rx_sync1 s, ua_rx_sync2 s)"

lemma sync_view_upd [simp]:
  "sync_view (n\<lparr>ua_ctrl := x0\<rparr>) = sync_view n"
  "sync_view (n\<lparr>ua_baud_div := x1\<rparr>) = sync_view n"
  "sync_view (n\<lparr>ua_irq_en := x2\<rparr>) = sync_view n"
  "sync_view (n\<lparr>ua_irq_status := x3\<rparr>) = sync_view n"
  "sync_view (n\<lparr>ua_rs485_ctrl := x4\<rparr>) = sync_view n"
  "sync_view (n\<lparr>ua_status := x5\<rparr>) = sync_view n"
  "sync_view (n\<lparr>ua_idle_cfg := x6\<rparr>) = sync_view n"
  "sync_view (n\<lparr>ua_lin_ctrl := x7\<rparr>) = sync_view n"
  "sync_view (n\<lparr>ua_lin_cmd := x8\<rparr>) = sync_view n"
  "sync_view (n\<lparr>ua_lin_slave_ctrl := x9\<rparr>) = sync_view n"
  "sync_view (n\<lparr>ua_lin_sync_byte := x10\<rparr>) = sync_view n"
  "sync_view (n\<lparr>ua_lin_id_byte := x11\<rparr>) = sync_view n"
  "sync_view (n\<lparr>ua_lin_header_valid := x12\<rparr>) = sync_view n"
  "sync_view (n\<lparr>ua_lin_sync_error := x13\<rparr>) = sync_view n"
  "sync_view (n\<lparr>ua_lin_header_state := x14\<rparr>) = sync_view n"
  "sync_view (n\<lparr>ua_lin_wait_delimiter := x15\<rparr>) = sync_view n"
  "sync_view (n\<lparr>ua_lin_tx_header_id := x16\<rparr>) = sync_view n"
  "sync_view (n\<lparr>ua_lin_auto_header_pending := x17\<rparr>) = sync_view n"
  "sync_view (n\<lparr>ua_lin_auto_state := x18\<rparr>) = sync_view n"
  "sync_view (n\<lparr>ua_lin_slave_armed := x19\<rparr>) = sync_view n"
  "sync_view (n\<lparr>ua_lin_slave_tx_pending := x20\<rparr>) = sync_view n"
  "sync_view (n\<lparr>ua_lin_slave_bytes_remaining := x21\<rparr>) = sync_view n"
  "sync_view (n\<lparr>ua_lin_slave_underflow := x22\<rparr>) = sync_view n"
  "sync_view (n\<lparr>ua_tx_fifo := x23\<rparr>) = sync_view n"
  "sync_view (n\<lparr>ua_tx_head := x24\<rparr>) = sync_view n"
  "sync_view (n\<lparr>ua_tx_tail := x25\<rparr>) = sync_view n"
  "sync_view (n\<lparr>ua_rx_fifo := x26\<rparr>) = sync_view n"
  "sync_view (n\<lparr>ua_rx_head := x27\<rparr>) = sync_view n"
  "sync_view (n\<lparr>ua_rx_tail := x28\<rparr>) = sync_view n"
  "sync_view (n\<lparr>ua_tx := x29\<rparr>) = sync_view n"
  "sync_view (n\<lparr>ua_tx_shift := x30\<rparr>) = sync_view n"
  "sync_view (n\<lparr>ua_tx_bits_remaining := x31\<rparr>) = sync_view n"
  "sync_view (n\<lparr>ua_tx_counter := x32\<rparr>) = sync_view n"
  "sync_view (n\<lparr>ua_rx_counter := x33\<rparr>) = sync_view n"
  "sync_view (n\<lparr>ua_idle_counter := x34\<rparr>) = sync_view n"
  "sync_view (n\<lparr>ua_idle_irq_pending := x35\<rparr>) = sync_view n"
  "sync_view (n\<lparr>ua_rx_busy := x36\<rparr>) = sync_view n"
  "sync_view (n\<lparr>ua_rx_bit_index := x37\<rparr>) = sync_view n"
  "sync_view (n\<lparr>ua_rx_total_bits := x38\<rparr>) = sync_view n"
  "sync_view (n\<lparr>ua_rx_data_latch := x39\<rparr>) = sync_view n"
  "sync_view (n\<lparr>ua_rx_parity_latch := x40\<rparr>) = sync_view n"
  "sync_view (n\<lparr>ua_rx_parity_enable_latch := x41\<rparr>) = sync_view n"
  "sync_view (n\<lparr>ua_rx_parity_odd_latch := x42\<rparr>) = sync_view n"
  "sync_view (n\<lparr>ua_rx_two_stop_latch := x43\<rparr>) = sync_view n"
  "sync_view (n\<lparr>ua_rx_stop_error := x44\<rparr>) = sync_view n"
  "sync_view (n\<lparr>ua_rx_start_error := x45\<rparr>) = sync_view n"
  "sync_view (n\<lparr>ua_lin_break_pending := x46\<rparr>) = sync_view n"
  "sync_view (n\<lparr>ua_lin_break_active := x47\<rparr>) = sync_view n"
  "sync_view (n\<lparr>ua_lin_break_counter := x48\<rparr>) = sync_view n"
  "sync_view (n\<lparr>ua_lin_break_tick := x49\<rparr>) = sync_view n"
  "sync_view (n\<lparr>ua_lin_rx_low_counter := x50\<rparr>) = sync_view n"
  "sync_view (n\<lparr>ua_lin_rx_tick := x51\<rparr>) = sync_view n"
  by (simp_all add: sync_view_def)

lemma sync_view_if: "sync_view (if c then a else b) = (if c then sync_view a else sync_view b)"
  by simp

lemma sync_view_bits [simp]:
  "sync_view (ua_set_status i n) = sync_view n" "sync_view (ua_clear_status i n) = sync_view n"
  "sync_view (ua_set_irq_bit i n) = sync_view n" "sync_view (ua_clear_irq_bit i n) = sync_view n"
  by (simp_all add: ua_flag_defs)

lemma sync_view_rx_parts [simp]:
  "sync_view (ua_rx_sample s n) = sync_view n" "sync_view (ua_lin_header_byte s n) = sync_view n"
  "sync_view (ua_rx_begin s n) = sync_view n" "sync_view (ua_rx_idle s n) = sync_view n"
  by (simp_all add: ua_rx_sample_def ua_lin_header_byte_def ua_rx_begin_def ua_rx_idle_def Let_def sync_view_if)

lemma sync_view_rx_frame_end [simp]: "sync_view (ua_rx_frame_end s n) = sync_view n"
  by (simp add: ua_rx_frame_end_def Let_def sync_view_if)

lemma sync_view_rx_receive [simp]: "sync_view (ua_rx_receive s n) = sync_view n"
  by (simp add: ua_rx_receive_def Let_def sync_view_if)

lemma sync_view_stages [simp]:
  "sync_view (ua_rx_stage s n) = sync_view n" "sync_view (ua_lin_rx_stage s n) = sync_view n"
  "sync_view (ua_status_stage s n) = sync_view n" "sync_view (ua_break_stage s n) = sync_view n"
  by (simp_all add: ua_rx_stage_def ua_lin_rx_stage_def ua_lin_break_detected_def
      ua_status_stage_def ua_break_stage_def Let_def sync_view_if)
lemma sync_view_tx [simp]: "sync_view (ua_tx_stage s n) = sync_view n"
  by (simp add: ua_tx_stage_def ua_tx_break_def ua_tx_idle_def ua_tx_shift_out_def ua_load_frame_def
      Let_def sync_view_if)

lemma ua_sync_step [simp]:
  "ua_rx_sync1 (ua_step rx Idle s) = rx" "ua_rx_sync2 (ua_step rx Idle s) = ua_rx_sync1 s"
proof -
  have "sync_view (ua_step rx Idle s) = (rx, ua_rx_sync1 s)"
    by (simp add: ua_step_def Let_def) (simp add: sync_view_def)
  then show "ua_rx_sync1 (ua_step rx Idle s) = rx" "ua_rx_sync2 (ua_step rx Idle s) = ua_rx_sync1 s"
    by (simp_all add: sync_view_def)
qed

lemma ua_sync_run: "ua_rx_sync2 (ua_run rx (Suc (Suc n)) s) = rx n"
  by simp

lemma rx_step_stage:
  assumes "ua_plain s"
  shows "\<exists>n. rx_view (ua_step rx Idle s) = rx_view (ua_rx_stage s n) \<and> rx_view n = rx_view s \<and>
             err_view (ua_step rx Idle s) = err_view (ua_rx_stage s n) \<and> err_view n = err_view s"
  using assms by (force simp: ua_step_def Let_def ua_plain_def)

text \<open>Waiting for a start bit, and its detection.\<close>

lemma rx_step_idle:
  assumes "ua_plain s" and "\<not> ua_rx_busy s" and "ua_rx_sync2 s"
  shows "rx_view (ua_step rx Idle s) = rx_view s \<and> err_view (ua_step rx Idle s) = err_view s"
proof -
  obtain n where "rx_view (ua_step rx Idle s) = rx_view (ua_rx_stage s n)" "rx_view n = rx_view s"
    "err_view (ua_step rx Idle s) = err_view (ua_rx_stage s n)" "err_view n = err_view s"
    using rx_step_stage [OF assms(1)] by blast
  then show ?thesis
    using assms by (simp add: ua_rx_stage_def ua_rx_idle_def ua_plain_def Let_def rx_view_if err_view_if)
qed

lemma rx_step_begin:
  assumes "ua_plain s" and "\<not> ua_rx_busy s" and "\<not> ua_rx_sync2 s"
  shows "rx_view (ua_step rx Idle s) =
     ((True, drop_bit 1 (ua_baud_div s), 0, calc_frame_bits (bit (ua_ctrl s) 1) (bit (ua_ctrl s) 3)),
      (0, False, bit (ua_ctrl s) 1, bit (ua_ctrl s) 2, False, False),
      (ua_rx_fifo s, ua_rx_head s, ua_rx_tail s)) \<and>
    err_view (ua_step rx Idle s) = err_view s"
proof -
  obtain n where n: "rx_view (ua_step rx Idle s) = rx_view (ua_rx_stage s n)" "rx_view n = rx_view s"
    "err_view (ua_step rx Idle s) = err_view (ua_rx_stage s n)" "err_view n = err_view s"
    using rx_step_stage [OF assms(1)] by blast
  have "ua_rx_stage s n = ua_rx_begin s n"
    using assms by (simp add: ua_rx_stage_def ua_rx_idle_def ua_plain_def)
  with n show ?thesis by (simp add: ua_rx_begin_def err_view_def) (simp add: rx_view_def)
qed

text \<open>Between two samples, and at a sample that is not the last.\<close>

lemma rx_step_count:
  assumes "ua_plain s" and "ua_rx_busy s" and "\<not> ua_baud_div s \<le> ua_rx_counter s"
  shows "rx_view (ua_step rx Idle s) = rx_view (s\<lparr>ua_rx_counter := ua_rx_counter s + 1\<rparr>) \<and>
         err_view (ua_step rx Idle s) = err_view s"
proof -
  obtain n where n: "rx_view (ua_step rx Idle s) = rx_view (ua_rx_stage s n)" "rx_view n = rx_view s"
    "err_view (ua_step rx Idle s) = err_view (ua_rx_stage s n)" "err_view n = err_view s"
    using rx_step_stage [OF assms(1)] by blast
  have "ua_rx_stage s n = n\<lparr>ua_rx_counter := ua_rx_counter s + 1\<rparr>"
    using assms by (simp add: ua_rx_stage_def ua_rx_receive_def ua_plain_def)
  with n show ?thesis by (simp add: rx_view_def)
qed

definition rx_sampled :: "uart \<Rightarrow> uart" where
  "rx_sampled s = (ua_rx_sample s (s\<lparr>ua_rx_counter := 0\<rparr>))\<lparr>ua_rx_bit_index := ua_rx_bit_index s + 1\<rparr>"

lemma rx_sample_cong:
  "rx_view n = rx_view s \<Longrightarrow>
   rx_view ((ua_rx_sample s (n\<lparr>ua_rx_counter := 0\<rparr>))\<lparr>ua_rx_bit_index := ua_rx_bit_index s + 1\<rparr>) =
     rx_view (rx_sampled s)"
  by (simp add: rx_view_def ua_rx_sample_def rx_sampled_def Let_def)

lemma err_sample [simp]: "err_view (ua_rx_sample s n) = err_view n"
  by (simp add: ua_rx_sample_def Let_def err_view_if)

lemma rx_step_sample:
  assumes "ua_plain s" and "ua_rx_busy s" and "ua_baud_div s \<le> ua_rx_counter s"
    and "(ucast (ua_rx_bit_index s) :: u32) \<noteq> ucast (ua_rx_total_bits s) - 1"
  shows "rx_view (ua_step rx Idle s) = rx_view (rx_sampled s) \<and> err_view (ua_step rx Idle s) = err_view s"
proof -
  obtain n where n: "rx_view (ua_step rx Idle s) = rx_view (ua_rx_stage s n)" "rx_view n = rx_view s"
    "err_view (ua_step rx Idle s) = err_view (ua_rx_stage s n)" "err_view n = err_view s"
    using rx_step_stage [OF assms(1)] by blast
  have "ua_rx_stage s n =
      (ua_rx_sample s (n\<lparr>ua_rx_counter := 0\<rparr>))\<lparr>ua_rx_bit_index := ua_rx_bit_index s + 1\<rparr>"
    using assms by (simp add: ua_rx_stage_def ua_rx_receive_def ua_plain_def Let_def)
  with n rx_sample_cong [OF n(2)] show ?thesis by simp
qed

text \<open>The last sample: its own level is taken into the latches too late to be judged.\<close>

datatype rx_result = Framing_error | Parity_error | Overrun | Received

definition rx_verdict :: "uart \<Rightarrow> rx_result" where
  "rx_verdict s =
     (if ua_rx_start_error s \<or> ua_rx_stop_error s then Framing_error
      else if \<not> parity_match (ua_rx_data_latch s) (ua_rx_parity_enable_latch s)
                  (ua_rx_parity_odd_latch s) (ua_rx_parity_latch s) then Parity_error
      else if ua_rx_full s then Overrun
      else Received)"

lemma rx_step_end:
  assumes "ua_plain s" and "ua_rx_busy s" and "ua_baud_div s \<le> ua_rx_counter s"
    and "(ucast (ua_rx_bit_index s) :: u32) = ucast (ua_rx_total_bits s) - 1"
  shows "\<not> ua_rx_busy (ua_step rx Idle s)"
    and "(ua_rx_fifo (ua_step rx Idle s), ua_rx_head (ua_step rx Idle s), ua_rx_tail (ua_step rx Idle s)) =
      (if rx_verdict s = Received
       then ((ua_rx_fifo s)(unat (ua_rx_head s) mod 8 := ua_rx_data_latch s), ua_rx_head s + 1, ua_rx_tail s)
       else (ua_rx_fifo s, ua_rx_head s, ua_rx_tail s))"
    and "err_view (ua_step rx Idle s) =
      (bit (ua_status s) 2 \<or> rx_verdict s = Framing_error, bit (ua_status s) 3 \<or> rx_verdict s = Overrun,
       bit (ua_status s) 5 \<or> rx_verdict s = Parity_error)"
proof -
  obtain n where n: "rx_view (ua_step rx Idle s) = rx_view (ua_rx_stage s n)" "rx_view n = rx_view s"
    "err_view (ua_step rx Idle s) = err_view (ua_rx_stage s n)" "err_view n = err_view s"
    using rx_step_stage [OF assms(1)] by blast
  define m where "m = (ua_rx_sample s (n\<lparr>ua_rx_counter := 0\<rparr>))\<lparr>ua_rx_bit_index := ua_rx_bit_index s + 1\<rparr>"
  have stage: "ua_rx_stage s n = ua_rx_frame_end s m"
    using assms by (simp add: ua_rx_stage_def ua_rx_receive_def ua_plain_def Let_def m_def)
  have fifo: "(ua_rx_fifo m, ua_rx_head m, ua_rx_tail m) = (ua_rx_fifo s, ua_rx_head s, ua_rx_tail s)"
    using n(2) by (simp add: m_def ua_rx_sample_def Let_def) (simp add: rx_view_def)
  have err: "err_view m = err_view s" using n(4) by (simp add: m_def)
  have lin: "\<not> ua_lin_mode s" using assms(1) by (simp add: ua_plain_def)
  have "ua_rx_busy (ua_rx_frame_end s m) = False"
    using lin by (simp add: ua_rx_frame_end_def ua_flag_defs Let_def)
  then show "\<not> ua_rx_busy (ua_step rx Idle s)" using n(1) stage by (simp add: rx_view_def)
  have "(ua_rx_fifo (ua_rx_frame_end s m), ua_rx_head (ua_rx_frame_end s m), ua_rx_tail (ua_rx_frame_end s m)) =
      (if rx_verdict s = Received
       then ((ua_rx_fifo s)(unat (ua_rx_head s) mod 8 := ua_rx_data_latch s), ua_rx_head s + 1, ua_rx_tail s)
       else (ua_rx_fifo s, ua_rx_head s, ua_rx_tail s))"
    using lin fifo by (simp add: ua_rx_frame_end_def rx_verdict_def ua_flag_defs Let_def)
  then show "(ua_rx_fifo (ua_step rx Idle s), ua_rx_head (ua_step rx Idle s), ua_rx_tail (ua_step rx Idle s)) =
      (if rx_verdict s = Received
       then ((ua_rx_fifo s)(unat (ua_rx_head s) mod 8 := ua_rx_data_latch s), ua_rx_head s + 1, ua_rx_tail s)
       else (ua_rx_fifo s, ua_rx_head s, ua_rx_tail s))"
    using n(1) stage by (simp add: rx_view_def)
  have "err_view (ua_rx_frame_end s m) =
      (bit (ua_status s) 2 \<or> rx_verdict s = Framing_error, bit (ua_status s) 3 \<or> rx_verdict s = Overrun,
       bit (ua_status s) 5 \<or> rx_verdict s = Parity_error)"
    using lin err by (simp add: ua_rx_frame_end_def rx_verdict_def Let_def) (simp add: err_view_def)
  then show "err_view (ua_step rx Idle s) =
      (bit (ua_status s) 2 \<or> rx_verdict s = Framing_error, bit (ua_status s) 3 \<or> rx_verdict s = Overrun,
       bit (ua_status s) 5 \<or> rx_verdict s = Parity_error)"
    using n(3) stage by simp
qed

end
