(* ===== verification/Uart_Rx.thy ===== *)
theory Uart_Rx
  imports Uart_Rx_Step
begin

text \<open>
  What the receiver of the UART makes of the levels sampled on its pin, from the detection of a start
  bit to the verdict on the frame.
\<close>

subsection \<open>A whole frame\<close>

text \<open>What one sample adds to the latches.\<close>

lemma rx_sampled_sel:
  fixes s :: uart
  defines "i \<equiv> unat (ua_rx_bit_index s)" and "v \<equiv> ua_rx_sync2 s"
  shows "ua_rx_busy (rx_sampled s) = ua_rx_busy s" "ua_rx_counter (rx_sampled s) = 0"
    "ua_rx_bit_index (rx_sampled s) = ua_rx_bit_index s + 1"
    "ua_rx_total_bits (rx_sampled s) = ua_rx_total_bits s"
    "ua_rx_parity_enable_latch (rx_sampled s) = ua_rx_parity_enable_latch s"
    "ua_rx_parity_odd_latch (rx_sampled s) = ua_rx_parity_odd_latch s"
    "ua_rx_fifo (rx_sampled s) = ua_rx_fifo s" "ua_rx_head (rx_sampled s) = ua_rx_head s"
    "ua_rx_tail (rx_sampled s) = ua_rx_tail s"
    "ua_rx_start_error (rx_sampled s) = (ua_rx_start_error s \<or> i = 0 \<and> v)"
    "ua_rx_data_latch (rx_sampled s) =
       (if 0 < i \<and> i \<le> 8 then assign_bit (i - 1) v (ua_rx_data_latch s) else ua_rx_data_latch s)"
    "ua_rx_parity_latch (rx_sampled s) =
       (if ua_rx_parity_enable_latch s \<and> i = 9 then v else ua_rx_parity_latch s)"
    "ua_rx_stop_error (rx_sampled s) =
       (ua_rx_stop_error s \<or> 8 < i \<and> \<not> (ua_rx_parity_enable_latch s \<and> i = 9) \<and> \<not> v)"
  by (auto simp: rx_sampled_def ua_rx_sample_def Let_def i_def v_def)

text \<open>
  The receiver \<open>m\<close> cycles after it detected the start bit of a frame with sampled levels \<open>lvl\<close>.
  Sample \<open>i\<close> is taken in the middle of bit \<open>i\<close>.
\<close>

definition rx_phase :: "uart \<Rightarrow> nat \<Rightarrow> nat" where
  "rx_phase s m = unat (ua_baud_div s) div 2 + m"

definition rx_taking :: "(nat \<Rightarrow> bool) \<Rightarrow> nat \<Rightarrow> uart \<Rightarrow> bool" where
  "rx_taking lvl m s \<longleftrightarrow> (let i = rx_phase s m div bit_time s; pe = bit (ua_ctrl s) 1 in
     ua_rx_busy s \<and> unat (ua_rx_bit_index s) = i \<and>
     unat (ua_rx_counter s) = rx_phase s m mod bit_time s \<and>
     ua_rx_total_bits s = calc_frame_bits pe (bit (ua_ctrl s) 3) \<and>
     ua_rx_parity_enable_latch s = pe \<and> ua_rx_parity_odd_latch s = bit (ua_ctrl s) 2 \<and>
     ua_rx_start_error s = (0 < i \<and> lvl 0) \<and>
     (\<forall>j < 8. bit (ua_rx_data_latch s) j = (Suc j < i \<and> lvl (Suc j))) \<and>
     ua_rx_parity_latch s = (pe \<and> 9 < i \<and> lvl 9) \<and>
     ua_rx_stop_error s = (\<exists>k. 9 \<le> k \<and> k < i \<and> \<not> (pe \<and> k = 9) \<and> \<not> lvl k))"

lemma rx_phase_step [simp]: "rx_phase (ua_step rx Idle s) m = rx_phase s m"
  "rx_phase (ua_run f n s) m = rx_phase s m"
  by (simp_all add: rx_phase_def)

lemma bit_time_step [simp]: "bit_time (ua_step rx Idle s) = bit_time s" "bit_time (ua_run f n s) = bit_time s"
  by (simp_all add: bit_time_def)

lemma last_bit_index:
  assumes "unat (i :: 5 word) < frame_len pe two"
  shows "(ucast i :: u32) = ucast (calc_frame_bits pe two) - 1 \<longleftrightarrow> Suc (unat i) = frame_len pe two"
proof -
  have le: "(1 :: u32) \<le> ucast (calc_frame_bits pe two)" by (simp add: calc_frame_bits_def)
  have u: "unat (ucast x :: u32) = unat x" for x :: "5 word"
    using unsigned_less [where 'a = nat, of x] by (simp add: unsigned_ucast_eq take_bit_nat_eq_self)
  have "unat (ucast (calc_frame_bits pe two) - 1 :: u32) = frame_len pe two - 1"
    using unat_sub [OF le] by (simp add: u frame_len_def)
  then show ?thesis using assms by (auto simp: word_eq_iff_unsigned [where 'a = nat] u)
qed

lemma rx_viewD:
  assumes "rx_view s = rx_view t"
  shows "ua_rx_busy s = ua_rx_busy t" "ua_rx_counter s = ua_rx_counter t"
    "ua_rx_bit_index s = ua_rx_bit_index t" "ua_rx_total_bits s = ua_rx_total_bits t"
    "ua_rx_data_latch s = ua_rx_data_latch t" "ua_rx_parity_latch s = ua_rx_parity_latch t"
    "ua_rx_parity_enable_latch s = ua_rx_parity_enable_latch t"
    "ua_rx_parity_odd_latch s = ua_rx_parity_odd_latch t" "ua_rx_stop_error s = ua_rx_stop_error t"
    "ua_rx_start_error s = ua_rx_start_error t" "ua_rx_fifo s = ua_rx_fifo t"
    "ua_rx_head s = ua_rx_head t" "ua_rx_tail s = ua_rx_tail t"
  using assms by (simp_all add: rx_view_def)

lemma rx_taking_begin:
  assumes "ua_plain s" and "\<not> ua_rx_busy s" and "\<not> ua_rx_sync2 s"
  shows "rx_taking lvl 0 (ua_step rx Idle s)"
proof -
  have "unat (drop_bit 1 (ua_baud_div s)) = unat (ua_baud_div s) div 2"
    by (simp add: drop_bit_Suc unat_div)
  moreover have "unat (ua_baud_div s) div 2 < bit_time s" by (simp add: bit_time_def)
  ultimately show ?thesis
    using rx_step_begin [OF assms, of rx] by (simp add: rx_view_def rx_taking_def rx_phase_def Let_def)
qed

lemma rx_taking_data:
  assumes take: "rx_taking lvl m s" and lvl: "ua_rx_sync2 s = lvl (rx_phase s m div bit_time s)"
    and view: "rx_view t = rx_view (rx_sampled s)" and j: "j < 8"
  shows "bit (ua_rx_data_latch t) j = (j < rx_phase s m div bit_time s \<and> lvl (Suc j))"
proof -
  let ?i = "rx_phase s m div bit_time s"
  have i: "unat (ua_rx_bit_index s) = ?i" using take by (simp add: rx_taking_def Let_def)
  have "bit (ua_rx_data_latch s) j = (Suc j < ?i \<and> lvl (Suc j))"
    using take j by (simp add: rx_taking_def Let_def)
  moreover have "bit (assign_bit (?i - 1) (lvl ?i) (ua_rx_data_latch s)) j =
      (if j = ?i - 1 then lvl ?i else bit (ua_rx_data_latch s) j)"
    using j by (simp add: bit_simps)
  ultimately show ?thesis
    using j lvl by (cases "Suc j = ?i") (auto simp: rx_viewD [OF view] rx_sampled_sel i)
qed

lemma rx_taking_sampled:
  assumes take: "rx_taking lvl m s" and end_bit: "Suc (rx_phase s m) mod bit_time s = 0"
    and lvl: "ua_rx_sync2 s = lvl (rx_phase s m div bit_time s)"
    and less: "rx_phase s m div bit_time s < frame_len (bit (ua_ctrl s) 1) (bit (ua_ctrl s) 3)"
    and view: "rx_view t = rx_view (rx_sampled s)"
    and same: "ua_ctrl t = ua_ctrl s" "ua_baud_div t = ua_baud_div s"
  shows "rx_taking lvl (Suc m) t"
proof -
  let ?i = "rx_phase s m div bit_time s"
  have pt: "rx_phase t (Suc m) = Suc (rx_phase s m)" "bit_time t = bit_time s"
    using same by (simp_all add: rx_phase_def bit_time_def)
  have div: "Suc (rx_phase s m) div bit_time s = Suc ?i" using end_bit by (simp add: div_Suc)
  have i: "unat (ua_rx_bit_index s) = ?i" using take by (simp add: rx_taking_def Let_def)
  have "unat (ua_rx_bit_index s) < unat (calc_frame_bits (bit (ua_ctrl s) 1) (bit (ua_ctrl s) 3))"
    using less i by (simp add: frame_len_def)
  then have inc: "unat (ua_rx_bit_index s + 1) = Suc ?i" using unat_inc i by fastforce
  note new = rx_viewD [OF view] rx_sampled_sel i
  have data: "bit (ua_rx_data_latch t) j = (Suc j < Suc ?i \<and> lvl (Suc j))" if "j < 8" for j
    using rx_taking_data [OF take lvl view that] by simp
  have stop: "ua_rx_stop_error t = (\<exists>k. 9 \<le> k \<and> k < Suc ?i \<and> \<not> (bit (ua_ctrl s) 1 \<and> k = 9) \<and> \<not> lvl k)"
  proof -
    have "ua_rx_stop_error s = (\<exists>k. 9 \<le> k \<and> k < ?i \<and> \<not> (bit (ua_ctrl s) 1 \<and> k = 9) \<and> \<not> lvl k)"
      "ua_rx_parity_enable_latch s = bit (ua_ctrl s) 1"
      using take by (simp_all add: rx_taking_def Let_def)
    moreover have "8 < ?i \<longleftrightarrow> 9 \<le> ?i" by linarith
    ultimately show ?thesis unfolding less_Suc_eq new lvl by blast
  qed
  have parity: "ua_rx_parity_latch t = (bit (ua_ctrl s) 1 \<and> 9 < Suc ?i \<and> lvl 9)"
  proof -
    have "ua_rx_parity_latch s = (bit (ua_ctrl s) 1 \<and> 9 < ?i \<and> lvl 9)"
      "ua_rx_parity_enable_latch s = bit (ua_ctrl s) 1"
      using take by (simp_all add: rx_taking_def Let_def)
    then show ?thesis unfolding less_Suc_eq new lvl by auto
  qed
  have start: "ua_rx_start_error t = (0 < Suc ?i \<and> lvl 0)"
  proof -
    have "ua_rx_start_error s = (0 < ?i \<and> lvl 0)" using take by (simp add: rx_taking_def Let_def)
    then show ?thesis unfolding new lvl by auto
  qed
  have rest: "ua_rx_busy t" "unat (ua_rx_bit_index t) = Suc ?i" "unat (ua_rx_counter t) = 0"
    "ua_rx_total_bits t = calc_frame_bits (bit (ua_ctrl s) 1) (bit (ua_ctrl s) 3)"
    "ua_rx_parity_enable_latch t = bit (ua_ctrl s) 1" "ua_rx_parity_odd_latch t = bit (ua_ctrl s) 2"
    using take inc by (simp_all add: new rx_taking_def Let_def)
  show ?thesis
    unfolding rx_taking_def Let_def pt div same end_bit
    using rest data stop parity start by blast
qed

lemma rx_taking_counted:
  assumes take: "rx_taking lvl m s" and mid: "Suc (rx_phase s m) mod bit_time s \<noteq> 0"
    and view: "rx_view t = rx_view (s\<lparr>ua_rx_counter := ua_rx_counter s + 1\<rparr>)"
    and same: "ua_ctrl t = ua_ctrl s" "ua_baud_div t = ua_baud_div s"
  shows "rx_taking lvl (Suc m) t"
proof -
  have pt: "rx_phase t (Suc m) = Suc (rx_phase s m)" "bit_time t = bit_time s"
    using same by (simp_all add: rx_phase_def bit_time_def)
  have div: "Suc (rx_phase s m) div bit_time s = rx_phase s m div bit_time s"
    "Suc (rx_phase s m) mod bit_time s = Suc (rx_phase s m mod bit_time s)"
    using mid by (simp_all add: div_Suc mod_Suc split: if_splits)
  have c: "unat (ua_rx_counter s) = rx_phase s m mod bit_time s" using take by (simp add: rx_taking_def Let_def)
  have "Suc (rx_phase s m mod bit_time s) < bit_time s"
    using div(2) mod_less_divisor [of "bit_time s" "Suc (rx_phase s m)"] by simp
  then have "unat (ua_rx_counter s) < unat (ua_baud_div s)" using c by (simp add: bit_time_def)
  then have "unat (ua_rx_counter s + 1) = unat (ua_rx_counter s) + 1" by (rule unat_inc)
  then show ?thesis
    using take c unfolding rx_taking_def Let_def pt div same by (auto simp: rx_viewD [OF view])
qed

text \<open>
  From the detection to the last sample: the levels are those of the synchronised pin in the middle
  of each bit, and neither the queue nor the error flags move.
\<close>

definition sample_time :: "uart \<Rightarrow> nat \<Rightarrow> nat" where
  "sample_time s i = i * bit_time s + (unat (ua_baud_div s) - unat (ua_baud_div s) div 2)"

definition rx_level :: "(nat \<Rightarrow> bool) \<Rightarrow> uart \<Rightarrow> nat \<Rightarrow> bool" where
  "rx_level rx s i = ua_rx_sync2 (ua_run rx (Suc (sample_time s i)) s)"

definition rx_kept :: "uart \<Rightarrow> uart \<Rightarrow> bool" where
  "rx_kept s t \<longleftrightarrow> ua_rx_fifo t = ua_rx_fifo s \<and> ua_rx_head t = ua_rx_head s \<and>
     ua_rx_tail t = ua_rx_tail s \<and> err_view t = err_view s"

lemma sample_phase: "rx_phase s m = i * bit_time s + unat (ua_baud_div s) \<longleftrightarrow> m = sample_time s i"
  by (auto simp: rx_phase_def sample_time_def)

lemma sample_phase_mod:
  assumes "Suc (rx_phase s m) mod bit_time s = 0"
  shows "m = sample_time s (rx_phase s m div bit_time s)"
proof -
  have "rx_phase s m mod bit_time s = unat (ua_baud_div s)"
    using assms by (simp add: mod_Suc bit_time_def split: if_splits)
  then have "rx_phase s m = (rx_phase s m div bit_time s) * bit_time s + unat (ua_baud_div s)"
    by (metis div_mult_mod_eq)
  then show ?thesis by (simp only: sample_phase)
qed

lemma rx_taking_step:
  assumes plain: "ua_plain s" and take: "rx_taking lvl m s"
    and lt: "Suc (rx_phase s m) < ua_frame_len s * bit_time s"
    and lvl: "Suc (rx_phase s m) mod bit_time s = 0 \<longrightarrow> ua_rx_sync2 s = lvl (rx_phase s m div bit_time s)"
  shows "rx_taking lvl (Suc m) (ua_step rx Idle s) \<and> rx_kept s (ua_step rx Idle s)"
proof -
  let ?i = "rx_phase s m div bit_time s"
  have busy: "ua_rx_busy s" and i: "unat (ua_rx_bit_index s) = ?i"
    and c: "unat (ua_rx_counter s) = rx_phase s m mod bit_time s"
    and total: "ua_rx_total_bits s = calc_frame_bits (bit (ua_ctrl s) 1) (bit (ua_ctrl s) 3)"
    using take by (simp_all add: rx_taking_def Let_def)
  have less: "?i < ua_frame_len s" using lt by (simp add: div_less_iff_less_mult)
  have full: "ua_baud_div s \<le> ua_rx_counter s \<longleftrightarrow> Suc (rx_phase s m) mod bit_time s = 0"
  proof -
    have "unat (ua_baud_div s) \<le> rx_phase s m mod bit_time s \<longleftrightarrow> Suc (rx_phase s m mod bit_time s) = bit_time s"
      using mod_less_divisor [of "bit_time s" "rx_phase s m"] unfolding bit_time_def by linarith
    then show ?thesis by (simp add: word_le_nat_alt c mod_Suc)
  qed
  show ?thesis
  proof (cases "Suc (rx_phase s m) mod bit_time s = 0")
    case True
    have "Suc (rx_phase s m) div bit_time s < ua_frame_len s" using lt by (simp add: div_less_iff_less_mult)
    then have "Suc ?i < ua_frame_len s" using True by (simp add: div_Suc)
    then have "(ucast (ua_rx_bit_index s) :: u32) \<noteq> ucast (ua_rx_total_bits s) - 1"
      using last_bit_index [of "ua_rx_bit_index s"] i less by (simp add: total ua_frame_len_def)
    with True full have "rx_view (ua_step rx Idle s) = rx_view (rx_sampled s) \<and>
        err_view (ua_step rx Idle s) = err_view s"
      by (intro rx_step_sample [OF plain busy]) simp_all
    note view = conjunct1 [OF this] conjunct2 [OF this]
    have "rx_taking lvl (Suc m) (ua_step rx Idle s)"
      using rx_taking_sampled [OF take True mp [OF lvl True] _ view(1)] less by (simp add: ua_frame_len_def)
    then show ?thesis
      using view(2) by (simp add: rx_kept_def rx_viewD [OF view(1)] rx_sampled_sel)
  next
    case False
    with full have "rx_view (ua_step rx Idle s) = rx_view (s\<lparr>ua_rx_counter := ua_rx_counter s + 1\<rparr>) \<and>
        err_view (ua_step rx Idle s) = err_view s"
      by (intro rx_step_count [OF plain busy]) simp
    note view = conjunct1 [OF this] conjunct2 [OF this]
    then show ?thesis
      using rx_taking_counted [OF take False view(1)] by (simp add: rx_kept_def rx_viewD [OF view(1)])
  qed
qed

lemma rx_kept_trans: "rx_kept s t \<Longrightarrow> rx_kept t u \<Longrightarrow> rx_kept s u"
  by (simp add: rx_kept_def)

lemma rx_taking_run:
  assumes plain: "ua_plain s" and start: "\<not> ua_rx_busy s" "\<not> ua_rx_sync2 s"
    and lt: "rx_phase s m < ua_frame_len s * bit_time s"
  shows "rx_taking (rx_level rx s) m (ua_run rx (Suc m) s) \<and> rx_kept s (ua_run rx (Suc m) s)"
  using lt
proof (induction m)
  case 0
  have "rx_kept s (ua_step (rx 0) Idle s)"
    using rx_step_begin [OF plain start, of "rx 0"] by (simp add: rx_kept_def) (simp add: rx_view_def)
  then show ?case using rx_taking_begin [OF plain start] by simp
next
  case (Suc m)
  let ?t = "ua_run rx (Suc m) s"
  have ih: "rx_taking (rx_level rx s) m ?t" "rx_kept s ?t" using Suc by (simp_all add: rx_phase_def)
  have len: "ua_frame_len ?t = ua_frame_len s" by (simp add: ua_frame_len_def)
  have "Suc (rx_phase ?t m) mod bit_time ?t = 0 \<longrightarrow>
      ua_rx_sync2 ?t = rx_level rx s (rx_phase ?t m div bit_time ?t)"
    using sample_phase_mod [of s m] unfolding rx_level_def rx_phase_step bit_time_step by metis
  moreover have "Suc (rx_phase ?t m) < ua_frame_len ?t * bit_time ?t"
    using Suc.prems unfolding len rx_phase_step bit_time_step by (simp add: rx_phase_def)
  ultimately have "rx_taking (rx_level rx s) (Suc m) (ua_step (rx (Suc m)) Idle ?t) \<and>
      rx_kept ?t (ua_step (rx (Suc m)) Idle ?t)"
    by (intro rx_taking_step [OF ua_plain_run [OF plain] ih(1)])
  then show ?case using rx_kept_trans [OF ih(2)] unfolding ua_run.simps(2) [of rx "Suc m"] by blast
qed

subsection \<open>The verdict on a frame\<close>

text \<open>
  The byte, and the verdict, that the sampled levels of a frame give: bit 0 is the start bit, bits 1
  to 8 the data, bit 9 the parity when it is enabled. Of two stop bits the first is judged; a single
  stop bit is not.
\<close>

definition rx_byte :: "(nat \<Rightarrow> bool) \<Rightarrow> u8" where
  "rx_byte lvl = fold (\<lambda>j d. assign_bit j (lvl (Suc j)) d) [0..<8] 0"

definition frame_verdict :: "uart \<Rightarrow> (nat \<Rightarrow> bool) \<Rightarrow> rx_result" where
  "frame_verdict s lvl = (let pe = bit (ua_ctrl s) 1; podd = bit (ua_ctrl s) 2; two = bit (ua_ctrl s) 3 in
     if lvl 0 \<or> two \<and> \<not> lvl (if pe then 10 else 9) then Framing_error
     else if pe \<and> lvl 9 \<noteq> (xor_reduce (rx_byte lvl) \<noteq> podd) then Parity_error
     else if ua_rx_full s then Overrun
     else Received)"

lemma bit_rx_byte: "j < 8 \<Longrightarrow> bit (rx_byte lvl) j = lvl (Suc j)"
  by (auto simp: rx_byte_def upt_rec [of _ 8] bit_simps less_Suc_eq numeral_eq_Suc)

lemma rx_byte_eqI: "(\<And>j. j < 8 \<Longrightarrow> bit b j = lvl (Suc j)) \<Longrightarrow> rx_byte lvl = b"
  by (rule bit_word_eqI) (simp add: bit_rx_byte)

definition rx_end :: "uart \<Rightarrow> nat" where
  "rx_end s = Suc (sample_time s (ua_frame_len s - 1))"

lemma rx_frame_verdict:
  assumes plain: "ua_plain s" and take: "rx_taking lvl m s"
    and last: "Suc (rx_phase s m) = ua_frame_len s * bit_time s"
  shows "rx_verdict s = frame_verdict s lvl" and "ua_rx_data_latch s = rx_byte lvl"
    and "ua_rx_busy s" and "ua_baud_div s \<le> ua_rx_counter s"
    and "(ucast (ua_rx_bit_index s) :: u32) = ucast (ua_rx_total_bits s) - 1"
proof -
  obtain n where n: "ua_frame_len s = Suc n" "9 \<le> n" "n = 9 + (if bit (ua_ctrl s) 1 then 1 else 0) +
      (if bit (ua_ctrl s) 3 then 1 else 0)"
    by (auto simp: ua_frame_len_def frame_len_eq)
  have "rx_phase s m = n * bit_time s + unat (ua_baud_div s)" using last n(1) by (simp add: bit_time_def)
  moreover have "unat (ua_baud_div s) < bit_time s" by (simp add: bit_time_def)
  ultimately have i: "rx_phase s m div bit_time s = n" and c: "rx_phase s m mod bit_time s = unat (ua_baud_div s)"
    by simp_all
  note take = take [unfolded rx_taking_def Let_def i c]
  show data: "ua_rx_data_latch s = rx_byte lvl"
    using take n(2) by (intro bit_word_eqI) (auto simp: bit_rx_byte)
  show "ua_rx_busy s" using take by blast
  show "ua_baud_div s \<le> ua_rx_counter s" using take by (simp add: word_le_nat_alt)
  show "(ucast (ua_rx_bit_index s) :: u32) = ucast (ua_rx_total_bits s) - 1"
    using take n(1) last_bit_index [of "ua_rx_bit_index s"] by (simp add: ua_frame_len_def)
  have stop: "ua_rx_stop_error s \<longleftrightarrow> bit (ua_ctrl s) 3 \<and> \<not> lvl (if bit (ua_ctrl s) 1 then 10 else 9)"
  proof -
    have "ua_rx_stop_error s \<longleftrightarrow> (\<exists>k. 9 \<le> k \<and> k < n \<and> \<not> (bit (ua_ctrl s) 1 \<and> k = 9) \<and> \<not> lvl k)"
      using take by blast
    also have "\<dots> \<longleftrightarrow> (\<exists>k \<in> {9..<n}. \<not> (bit (ua_ctrl s) 1 \<and> k = 9) \<and> \<not> lvl k)" by auto
    also have "\<dots> \<longleftrightarrow> bit (ua_ctrl s) 3 \<and> \<not> lvl (if bit (ua_ctrl s) 1 then 10 else 9)"
      by (simp add: n(3) atLeastLessThanSuc numeral_eq_Suc)
    finally show ?thesis .
  qed
  have "bit (ua_ctrl s) 1 \<Longrightarrow> 9 < n" by (simp add: n(3))
  then have parity: "ua_rx_parity_latch s \<longleftrightarrow> bit (ua_ctrl s) 1 \<and> lvl 9"
    and start: "ua_rx_start_error s \<longleftrightarrow> lvl 0"
    and latches: "ua_rx_parity_enable_latch s = bit (ua_ctrl s) 1" "ua_rx_parity_odd_latch s = bit (ua_ctrl s) 2"
    using take n(2) by auto
  show "rx_verdict s = frame_verdict s lvl"
    unfolding rx_verdict_def frame_verdict_def Let_def parity_match_def stop start latches data parity by simp
qed

lemma rx_frame:
  assumes plain: "ua_plain s" and start: "\<not> ua_rx_busy s" "\<not> ua_rx_sync2 s"
  shows "\<not> ua_rx_busy (ua_run rx (Suc (rx_end s)) s)"
    and "(ua_rx_fifo (ua_run rx (Suc (rx_end s)) s), ua_rx_head (ua_run rx (Suc (rx_end s)) s),
           ua_rx_tail (ua_run rx (Suc (rx_end s)) s)) =
         (if frame_verdict s (rx_level rx s) = Received
          then ((ua_rx_fifo s)(unat (ua_rx_head s) mod 8 := rx_byte (rx_level rx s)), ua_rx_head s + 1, ua_rx_tail s)
          else (ua_rx_fifo s, ua_rx_head s, ua_rx_tail s))"
    and "err_view (ua_run rx (Suc (rx_end s)) s) =
         (bit (ua_status s) 2 \<or> frame_verdict s (rx_level rx s) = Framing_error,
          bit (ua_status s) 3 \<or> frame_verdict s (rx_level rx s) = Overrun,
          bit (ua_status s) 5 \<or> frame_verdict s (rx_level rx s) = Parity_error)"
proof -
  define m where "m = sample_time s (ua_frame_len s - 1)"
  let ?t = "ua_run rx (Suc m) s" and ?lvl = "rx_level rx s"
  have "1 \<le> ua_frame_len s" by (simp add: ua_frame_len_def frame_len_eq)
  then have last: "Suc (rx_phase s m) = ua_frame_len s * bit_time s"
    using sample_phase [of s m "ua_frame_len s - 1"] by (cases "ua_frame_len s") (auto simp: m_def bit_time_def)
  have t: "rx_taking ?lvl m ?t" "rx_kept s ?t"
    using rx_taking_run [OF plain start, of m rx] last by simp_all
  have last': "Suc (rx_phase ?t m) = ua_frame_len ?t * bit_time ?t"
    unfolding rx_phase_step bit_time_step last by (simp add: ua_frame_len_def)
  note plain' = ua_plain_run [OF plain, of rx "Suc m"]
  note v = rx_frame_verdict [OF plain' t(1) last']
  have same: "frame_verdict ?t ?lvl = frame_verdict s ?lvl"
    using t(2) by (simp add: frame_verdict_def rx_kept_def ua_rx_full_def)
  have step: "ua_run rx (Suc (rx_end s)) s = ua_step (rx (Suc m)) Idle ?t" by (simp add: rx_end_def m_def)
  note e = rx_step_end [OF plain' v(3-5), of "rx (Suc m)", unfolded v(1,2) same]
  show "\<not> ua_rx_busy (ua_run rx (Suc (rx_end s)) s)" unfolding step by (rule e(1))
  show "(ua_rx_fifo (ua_run rx (Suc (rx_end s)) s), ua_rx_head (ua_run rx (Suc (rx_end s)) s),
           ua_rx_tail (ua_run rx (Suc (rx_end s)) s)) =
         (if frame_verdict s ?lvl = Received
          then ((ua_rx_fifo s)(unat (ua_rx_head s) mod 8 := rx_byte ?lvl), ua_rx_head s + 1, ua_rx_tail s)
          else (ua_rx_fifo s, ua_rx_head s, ua_rx_tail s))"
    unfolding step e(2) using t(2) by (simp add: rx_kept_def)
  have "err_view ?t = err_view s" using t(2) by (simp add: rx_kept_def)
  then show "err_view (ua_run rx (Suc (rx_end s)) s) =
         (bit (ua_status s) 2 \<or> frame_verdict s ?lvl = Framing_error,
          bit (ua_status s) 3 \<or> frame_verdict s ?lvl = Overrun,
          bit (ua_status s) 5 \<or> frame_verdict s ?lvl = Parity_error)"
    unfolding step e(3) by (simp add: err_view_def)
qed

subsection \<open>Properties\<close>

text \<open>
  C31. The receiver, from a start edge on its synchronised pin, on every branch. A frame is judged by
  the levels in the middle of its bits: a high start bit, or a low first one of two stop bits, is a
  framing error, a wrong parity bit a parity error, a byte for a full queue an overrun, each setting
  its status bit and dropping the byte; otherwise the byte is queued. With one stop bit its level is
  never looked at, so that framing error goes undetected.
\<close>

theorem uart_rx_frame:
  assumes "ua_plain (uart_at w)" and "\<not> ua_rx_busy (uart_at w)" and "\<not> ua_rx_sync2 (uart_at w)"
  shows "(let s = uart_at w; t = uart_at (soc_idle (Suc (rx_end s)) w); lvl = rx_level (rx_pin w) s;
              v = frame_verdict s lvl in
    \<not> ua_rx_busy t \<and>
    (ua_rx_fifo t, ua_rx_head t, ua_rx_tail t) =
      (if v = Received
       then ((ua_rx_fifo s)(unat (ua_rx_head s) mod 8 := rx_byte lvl), ua_rx_head s + 1, ua_rx_tail s)
       else (ua_rx_fifo s, ua_rx_head s, ua_rx_tail s)) \<and>
    bit (ua_status t) 2 = (bit (ua_status s) 2 \<or> v = Framing_error) \<and>
    bit (ua_status t) 3 = (bit (ua_status s) 3 \<or> v = Overrun) \<and>
    bit (ua_status t) 5 = (bit (ua_status s) 5 \<or> v = Parity_error))"
  unfolding Let_def uart_at_idle
  using rx_frame [OF assms, of "rx_pin w"] unfolding err_view_def prod.inject by blast

text \<open>A line held low for good: a byte zero, received without an error.\<close>

definition uart_break :: uart where
  "uart_break = (ua_reset uart_zero)\<lparr>ua_baud_div := 2, ua_rx_sync1 := False, ua_rx_sync2 := False\<rparr>"

definition world_low :: world where
  "world_low = (world_uart uart_break)\<lparr>w_pins := (\<lambda>_. no_pins\<lparr>pin_uart_rx := False\<rparr>)\<rparr>"

lemma world_low_facts:
  "uart_at world_low = uart_break" "rx_pin world_low k = False"
  "ua_plain uart_break" "\<not> ua_rx_busy uart_break" "\<not> ua_rx_sync2 uart_break" "\<not> ua_rx_full uart_break"
  "\<not> bit (ua_ctrl uart_break) 1" "\<not> bit (ua_ctrl uart_break) 3" "ua_rx_head uart_break = 0"
  "\<not> ua_rx_sync1 uart_break"
  by (simp_all add: world_low_def uart_break_def uart_at_def world_uart_def rx_pin_def ua_plain_def
      ua_reset_def uart_zero_def ua_lin_mode_def ua_rx_full_def wide_diff_def)

lemma low_level: "rx_level (rx_pin world_low) uart_break i = False"
proof -
  have "rx_pin world_low = (\<lambda>_. False)" by (rule ext) (simp add: world_low_facts)
  then have "\<not> ua_rx_sync2 (ua_run (rx_pin world_low) n uart_break) \<and>
        \<not> ua_rx_sync1 (ua_run (rx_pin world_low) n uart_break)" for n
    by (induction n) (simp_all add: world_low_facts)
  then show ?thesis by (simp only: rx_level_def)
qed

lemma uart_rx_frame_witness:
  "ua_rx_head (uart_at (soc_idle (Suc (rx_end uart_break)) world_low)) = 1 \<and>
   ua_rx_fifo (uart_at (soc_idle (Suc (rx_end uart_break)) world_low)) 0 = 0 \<and>
   \<not> bit (ua_status (uart_at (soc_idle (Suc (rx_end uart_break)) world_low))) 2"
proof -
  have "rx_byte (\<lambda>_. False) = 0" by (rule rx_byte_eqI) simp
  moreover have "rx_level (rx_pin world_low) uart_break = (\<lambda>_. False)"
    by (rule ext) (simp add: low_level)
  moreover have "\<not> bit (ua_status uart_break) 2" by (simp add: uart_break_def ua_reset_def uart_zero_def)
  moreover have "frame_verdict uart_break (\<lambda>_. False) = Received"
    using world_low_facts(6-8) by (simp add: frame_verdict_def)
  ultimately show ?thesis
    using uart_rx_frame [of world_low] by (simp add: world_low_facts Let_def)
qed

end
