(* ===== verification/Uart_Link.thy ===== *)
theory Uart_Link
  imports Uart_Rx
begin

text \<open>
  Transmitter and receiver of the UART connected back to back, and the driver functions that write
  and read its data register (\<^verbatim>\<open>qar_uart_write\<close>, \<^verbatim>\<open>qar_uart_read\<close> of \<^verbatim>\<open>hal/uart.h\<close>).
\<close>

subsection \<open>The receiver at rest\<close>

lemma rx_rest_run:
  assumes plain: "ua_plain s" and idle: "\<not> ua_rx_busy s" and high: "\<forall>k < n. ua_rx_sync2 (ua_run rx k s)"
  shows "rx_view (ua_run rx n s) = rx_view s"
  using high
proof (induction n)
  case (Suc n)
  then have ih: "rx_view (ua_run rx n s) = rx_view s" by simp
  then have "\<not> ua_rx_busy (ua_run rx n s)" using idle by (simp add: rx_view_def)
  then show ?case
    using rx_step_idle [OF ua_plain_run [OF plain, of rx n], of "rx n"] Suc.prems ih by simp
qed simp

subsection \<open>One byte over the wire\<close>

text \<open>A byte to send, and a receiver at rest on a line that is high.\<close>

definition link_start :: "uart \<Rightarrow> bool" where
  "link_start s \<longleftrightarrow> ua_plain s \<and> ua_tx_bits_remaining s = 0 \<and> ua_tx_head s = ua_tx_tail s + 1 \<and> ua_tx s \<and>
     \<not> ua_rx_busy s \<and> ua_rx_sync1 s \<and> ua_rx_sync2 s \<and> ua_rx_empty s \<and> 2 \<le> unat (ua_baud_div s)"

definition wired :: "(nat \<Rightarrow> bool) \<Rightarrow> uart \<Rightarrow> bool" where
  "wired rx s \<longleftrightarrow> (\<forall>k. rx k = ua_tx (ua_run rx k s))"

lemma link_line:
  assumes "link_start s" and "wired rx s"
  shows "rx k = (if k \<le> bit_time s then True else ua_level s ((k - 1) div bit_time s - 1))"
proof (cases k)
  case 0
  then show ?thesis using assms by (simp add: wired_def link_start_def)
next
  case (Suc j)
  have "rx k = ua_tx (ua_run rx (Suc j) s)" using assms(2) Suc by (simp only: wired_def)
  then show ?thesis
    using tx_line_single [of s rx j] assms(1) Suc by (auto simp: link_start_def)
qed

lemma link_sync:
  assumes "link_start s" and "wired rx s"
  shows "ua_rx_sync2 (ua_run rx n s) =
    (if n \<le> bit_time s + 2 then True else ua_level s ((n - 3) div bit_time s - 1))"
proof -
  consider "n = 0" | "n = 1" | m where "n = Suc (Suc m)" by (cases n; cases "n - 1") auto
  then show ?thesis
  proof cases
    case 3
    have "ua_rx_sync2 (ua_run rx n s) = rx m" unfolding 3 by (rule ua_sync_run)
    then show ?thesis by (simp add: link_line [OF assms] 3)
  qed (use assms in \<open>simp_all add: link_start_def\<close>)
qed

text \<open>The start edge reaches the receiver \<open>bit_time + 3\<close> cycles after the byte was stored.\<close>

definition link_edge :: "uart \<Rightarrow> nat" where
  "link_edge s = bit_time s + 3"

definition link_end :: "uart \<Rightarrow> nat" where
  "link_end s = link_edge s + Suc (rx_end s)"

lemma link_edge_state:
  assumes "link_start s" and "wired rx s"
  shows "rx_view (ua_run rx (link_edge s) s) = rx_view s" and "\<not> ua_rx_sync2 (ua_run rx (link_edge s) s)"
proof -
  have "\<forall>k < link_edge s. ua_rx_sync2 (ua_run rx k s)"
    by (simp add: link_sync [OF assms] link_edge_def)
  then show "rx_view (ua_run rx (link_edge s) s) = rx_view s"
    using rx_rest_run [of s "link_edge s" rx] assms(1) by (simp add: link_start_def)
  show "\<not> ua_rx_sync2 (ua_run rx (link_edge s) s)"
    by (simp add: link_sync [OF assms] link_edge_def ua_level_def frame_level_def)
qed

lemma link_samples:
  assumes "link_start s" and "wired rx s"
  shows "rx_level (\<lambda>k. rx (link_edge s + k)) (ua_run rx (link_edge s) s) i = ua_level s i"
proof -
  let ?p = "bit_time s" and ?b = "unat (ua_baud_div s)"
  let ?m = "sample_time s i"
  have time: "sample_time (ua_run rx (link_edge s) s) i = ?m" by (simp add: sample_time_def)
  have two: "2 \<le> ?b" using assms(1) by (simp add: link_start_def)
  have n: "link_edge s + Suc ?m - 3 = (?b - ?b div 2 + 1) + (i + 1) * ?p"
    by (simp add: link_edge_def sample_time_def)
  have "?b - ?b div 2 + 1 < ?p" using two by (simp add: bit_time_def)
  moreover have "(q + (i + 1) * ?p) div ?p = i + 1" if "q < ?p" for q
    using that div_mult_self1 [of ?p q "i + 1"] by simp
  ultimately have "((?b - ?b div 2 + 1) + (i + 1) * ?p) div ?p = i + 1" by blast
  then have "(link_edge s + Suc ?m - 3) div ?p - 1 = i" unfolding n by simp
  moreover have "\<not> link_edge s + Suc ?m \<le> ?p + 2" by (simp add: link_edge_def)
  ultimately have "ua_rx_sync2 (ua_run rx (link_edge s + Suc ?m) s) = ua_level s i"
    unfolding link_sync [OF assms] by simp
  then show ?thesis unfolding rx_level_def time ua_run_add .
qed

lemma link_late:
  assumes "link_start s" and "wired rx s"
  shows "ua_rx_sync2 (ua_run rx (link_end s + k) s)"
proof -
  have "ua_frame_len s * bit_time s \<le> link_end s + k - 3"
  proof -
    have "1 \<le> ua_frame_len s" by (simp add: ua_frame_len_def frame_len_eq)
    then have "ua_frame_len s * bit_time s = bit_time s + (ua_frame_len s - 1) * bit_time s"
      by (metis add.commute le_add_diff_inverse mult.commute mult_Suc_right plus_1_eq_Suc)
    then show ?thesis unfolding link_end_def link_edge_def rx_end_def sample_time_def by linarith
  qed
  then have le: "ua_frame_len s \<le> (link_end s + k - 3) div bit_time s"
    by (simp add: less_eq_div_iff_mult_less_eq)
  have "ua_level s i" if "ua_frame_len s - 1 \<le> i" for i
    using that by (auto simp: ua_level_def frame_level_def ua_frame_len_def frame_len_eq split: if_splits)
  then show ?thesis unfolding link_sync [OF assms] using le by (metis diff_le_mono)
qed

lemma link_received:
  assumes "link_start s" and "wired rx s"
  shows "rx_view (ua_run rx (link_end s + n) s) = rx_view (ua_run rx (link_end s) s)"
    and "\<not> ua_rx_busy (ua_run rx (link_end s) s)"
    and "ua_rx_fifo (ua_run rx (link_end s) s) (unat (ua_rx_tail s) mod 8) = ua_tx_fifo s (unat (ua_tx_tail s) mod 8)"
    and "ua_rx_tail (ua_run rx (link_end s) s) = ua_rx_tail s"
    and "ua_rx_head (ua_run rx (link_end s) s) = ua_rx_tail s + 1"
proof -
  define e where "e = ua_run rx (link_edge s) s"
  let ?rx = "\<lambda>k. rx (link_edge s + k)" and ?b = "ua_tx_fifo s (unat (ua_tx_tail s) mod 8)"
  have plain: "ua_plain s" "ua_plain e" using assms(1) by (simp_all add: link_start_def e_def ua_plain_run)
  note edge = link_edge_state [OF assms, folded e_def]
  have sel: "\<not> ua_rx_busy e" "ua_rx_head e = ua_rx_tail s" "ua_rx_tail e = ua_rx_tail s" "ua_rx_fifo e = ua_rx_fifo s"
    using rx_viewD [OF edge(1)] assms(1) by (simp_all add: link_start_def ua_rx_empty_def)
  have lvl: "rx_level ?rx e = ua_level s" using link_samples [OF assms] by (simp add: e_def fun_eq_iff)
  have byte: "rx_byte (ua_level s) = ?b" by (rule rx_byte_eqI) (simp add: ua_level_def frame_level_def)
  have cfg: "ua_ctrl e = ua_ctrl s" "rx_end e = rx_end s"
    by (simp_all add: e_def rx_end_def sample_time_def ua_frame_len_def)
  have full: "\<not> ua_rx_full e" by (simp add: ua_rx_full_def wide_diff_def sel)
  have ok: "frame_verdict e (ua_level s) = Received"
  proof -
    have "\<not> ua_level s 0" "ua_level s 10" "\<not> bit (ua_ctrl s) 1 \<Longrightarrow> ua_level s 9"
      "bit (ua_ctrl s) 1 \<Longrightarrow> ua_level s 9 = (xor_reduce ?b \<noteq> bit (ua_ctrl s) 2)"
      by (simp_all add: ua_level_def frame_level_def)
    then show ?thesis using full unfolding frame_verdict_def Let_def cfg byte by simp
  qed
  have run: "ua_run rx (link_end s) s = ua_run ?rx (Suc (rx_end e)) e"
    unfolding link_end_def e_def [symmetric] cfg ua_run_add by (simp add: e_def)
  note frame = rx_frame [OF plain(2) sel(1) edge(2), of ?rx, unfolded lvl ok byte, folded run]
  show idle: "\<not> ua_rx_busy (ua_run rx (link_end s) s)" by (rule frame(1))
  show "ua_rx_fifo (ua_run rx (link_end s) s) (unat (ua_rx_tail s) mod 8) = ?b"
    and "ua_rx_tail (ua_run rx (link_end s) s) = ua_rx_tail s"
    and "ua_rx_head (ua_run rx (link_end s) s) = ua_rx_tail s + 1"
    using frame(2) by (simp_all add: sel)
  have "rx_view (ua_run (\<lambda>k. rx (link_end s + k)) n (ua_run rx (link_end s) s)) = rx_view (ua_run rx (link_end s) s)"
    by (rule rx_rest_run [OF ua_plain_run [OF plain(1)] idle]) (simp add: link_late [OF assms, unfolded ua_run_add])
  then show "rx_view (ua_run rx (link_end s + n) s) = rx_view (ua_run rx (link_end s) s)"
    unfolding ua_run_add .
qed

subsection \<open>The driver\<close>

lemma uart_at_tick:
  "uart_at (soc_tick acc w) = ua_step (pin_uart_rx (w_pins w (w_now w))) (soc_port UART0 acc) (uart_at w)"
  by (simp add: uart_at_def)

lemma ua_step_Rd_status: "ua_step rx (Rd (Suc 0)) s = ua_step rx Idle s"
  by (simp add: ua_step_def ua_read_effect_def)

lemma uart_load_status: "soc_load (QAR_UART_STATUS QAR_UART0_BASE) w = ua_status (uart_at w)"
  by (simp add: soc_load_dev dev_rdata_def ua_rdata_def uart_at_def)

lemma ua_status_if: "ua_status (if c then a else b) = (if c then ua_status a else ua_status b)"
  by simp

text \<open>The bits for a received byte and for room in the transmit queue lag the queues by one cycle.\<close>

lemma status_stage_bits:
  assumes "i \<notin> {2, 3, 5, 6, 7}"
  shows "bit (ua_status (ua_lin_rx_stage s (ua_rx_stage s (ua_tx_stage s (ua_break_stage s n))))) i =
         bit (ua_status n) i"
proof -
  have set: "bit (ua_status (ua_set_status k n)) i = bit (ua_status n) i" if "k \<in> {2, 3, 5, 6, 7}" for k n
    using that assms by (auto simp: ua_set_status_def bit_simps)
  have irq: "ua_status (ua_set_irq_bit k n) = ua_status n" "ua_status (ua_clear_irq_bit k n) = ua_status n" for k n
    by (simp_all add: ua_flag_defs)
  have "bit (ua_status (ua_lin_rx_stage s n)) i = bit (ua_status n) i" for n
    by (simp add: ua_lin_rx_stage_def ua_lin_break_detected_def Let_def irq set)
  moreover have "bit (ua_status (ua_rx_frame_end s n)) i = bit (ua_status n) i" for n
    by (simp add: ua_rx_frame_end_def ua_lin_header_byte_def Let_def irq set)
  then have "bit (ua_status (ua_rx_stage s n)) i = bit (ua_status n) i" for n
    by (simp add: ua_rx_stage_def ua_rx_receive_def ua_rx_sample_def ua_rx_idle_def ua_rx_begin_def Let_def irq set)
  moreover have "bit (ua_status (ua_tx_stage s n)) i = bit (ua_status n) i" for n
    by (simp add: ua_tx_stage_def ua_tx_break_def ua_tx_idle_def ua_tx_shift_out_def ua_load_frame_def
        Let_def irq set)
  ultimately show ?thesis by (simp add: ua_break_stage_def)
qed

lemma ua_status_step:
  "bit (ua_status (ua_step rx Idle s)) 0 = (\<not> ua_rx_empty s)"
  "bit (ua_status (ua_step rx Idle s)) (Suc 0) = (\<not> ua_tx_full s)"
  by (simp_all only: ua_step_def Let_def busop.case)
    (simp_all add: status_stage_bits ua_status_stage_def bit_simps)

text \<open>A transmitter with nothing to do.\<close>

definition tx_rest :: "uart \<Rightarrow> bool" where
  "tx_rest s \<longleftrightarrow> ua_plain s \<and> ua_tx_bits_remaining s = 0 \<and> ua_tx_empty s \<and> ua_tx s"

lemma tx_rest_step: "tx_rest s \<Longrightarrow> tx_rest (ua_step rx Idle s)"
  using tx_view_step [of s rx] by (simp add: tx_rest_def ua_plain_step) (simp add: tx_view_def ua_tx_empty_def)

lemma tx_rest_not_full: "tx_rest s \<Longrightarrow> \<not> ua_tx_full s"
  by (simp add: tx_rest_def ua_tx_empty_def ua_tx_full_def wide_diff_def)

definition tx_waiting :: "u32 \<Rightarrow> world \<Rightarrow> bool" where
  "tx_waiting b w \<longleftrightarrow> tx_rest (uart_at w) \<and> ua_baud_div (uart_at w) = b"

lemma tx_waiting_tick: "tx_waiting b w \<Longrightarrow> tx_waiting b (soc_tick NoAccess w)"
  by (simp add: tx_waiting_def uart_at_tick tx_rest_step)

lemma can_write_eq:
  "qar_uart_can_write soc_bus QAR_UART0_BASE w =
     (c_bool (bit (ua_status (uart_at (soc_wait w))) 1),
      soc_tick (Load (QAR_UART_STATUS QAR_UART0_BASE)) (soc_wait w))"
proof -
  have "(x AND QAR_UART_STATUS_TX_SPACE \<noteq> 0) = bit x 1" for x
    unfolding QAR_UART_STATUS_TX_SPACE_def by (subst and_bit_mask) simp_all
  then show ?thesis by (simp add: qar_uart_can_write_def mmio_read_soc uart_load_status)
qed

lemma available_eq:
  "qar_uart_available soc_bus QAR_UART0_BASE w =
     (c_bool (bit (ua_status (uart_at (soc_wait w))) 0),
      soc_tick (Load (QAR_UART_STATUS QAR_UART0_BASE)) (soc_wait w))"
proof -
  have "(x AND QAR_UART_STATUS_RX_READY \<noteq> 0) = bit x 0" for x
    unfolding QAR_UART_STATUS_RX_READY_def by (subst and_bit_mask) simp_all
  then show ?thesis by (simp add: qar_uart_available_def mmio_read_soc uart_load_status)
qed

text \<open>
  The contract of a transmitter that has room: then at most one poll of \<open>qar_uart_can_write\<close> misses,
  because the status follows the queue with a delay of one cycle, and \<open>qar_uart_write\<close> returns.
\<close>

definition room_left :: "world \<Rightarrow> nat" where
  "room_left w = (if bit (ua_status (uart_at w)) 1 then 0 else 1)"

lemma uart_status_port: "soc_port UART0 (Load (QAR_UART_STATUS QAR_UART0_BASE)) = Rd (Suc 0)"
  by (simp add: soc_port_hit(2) [of _ UART0 "Suc 0"])

locale uart_room = soc_invariant roomy
  for roomy :: "world \<Rightarrow> bool" +
  assumes roomy_status: "roomy w \<Longrightarrow> roomy (soc_tick (Load (QAR_UART_STATUS QAR_UART0_BASE)) w)"
    and roomy_not_full: "roomy w \<Longrightarrow> \<not> ua_tx_full (uart_at w)"
begin

lemma room_tick:
  "roomy w \<Longrightarrow> soc_port UART0 acc = Idle \<or> soc_port UART0 acc = Rd (Suc 0) \<Longrightarrow> room_left (soc_tick acc w) = 0"
  using roomy_not_full [of w] by (auto simp: room_left_def uart_at_tick ua_status_step ua_step_Rd_status)

end

sublocale uart_room \<subseteq> poll: polled_flag "qar_uart_can_write soc_bus QAR_UART0_BASE" c_true roomy room_left
proof
  let ?a = "QAR_UART_STATUS QAR_UART0_BASE"
  fix w assume w: "roomy w" and no: "\<not> c_true (fst (qar_uart_can_write soc_bus QAR_UART0_BASE w))"
  have wait: "roomy (soc_wait w) \<and> room_left (soc_wait w) \<le> room_left w"
    by (rule soc_wait_measure [where I = roomy and f = room_left, OF _ w]) (simp add: keeps_idle room_tick)
  show "roomy (snd (qar_uart_can_write soc_bus QAR_UART0_BASE w))"
    using roomy_status wait by (simp add: can_write_eq)
  have "room_left (soc_tick (Load ?a) (soc_wait w)) = 0" using room_tick wait by (simp add: uart_status_port)
  moreover have "room_left (soc_wait w) = 1" using no by (simp add: can_write_eq room_left_def)
  ultimately show "room_left (snd (qar_uart_can_write soc_bus QAR_UART0_BASE w)) < room_left w"
    using wait by (simp add: can_write_eq)
qed

context uart_room
begin

lemma write_returns:
  assumes "roomy w"
  shows "\<exists>x. roomy x \<and>
    qar_uart_write soc_bus QAR_UART0_BASE byte w = Some (mmio_write soc_bus (QAR_UART_DATA QAR_UART0_BASE) (ucast byte) x)"
proof -
  obtain y where y: "roomy y" and poll: "poll_until (qar_uart_can_write soc_bus QAR_UART0_BASE) c_true w =
      Some (qar_uart_can_write soc_bus QAR_UART0_BASE y)"
    using poll.poll_returns [OF assms] by blast
  have "roomy (snd (qar_uart_can_write soc_bus QAR_UART0_BASE y))"
    using roomy_status [OF keeps_wait [OF y]] by (simp add: can_write_eq)
  then show ?thesis by (auto simp: qar_uart_write_def poll split_beta)
qed

end

interpretation uart_idle: uart_room "tx_waiting b" for b
proof
  fix w assume w: "tx_waiting b w"
  show "tx_waiting b (soc_tick NoAccess w)" using w by (rule tx_waiting_tick)
  show "tx_waiting b (soc_tick (Load (QAR_UART_STATUS QAR_UART0_BASE)) w)"
    using tx_waiting_tick [OF w] by (simp add: tx_waiting_def uart_at_tick uart_status_port ua_step_Rd_status)
  show "\<not> ua_tx_full (uart_at w)" using w by (simp add: tx_waiting_def tx_rest_not_full)
qed

text \<open>The store of a byte.\<close>

lemma uart_store_byte:
  assumes "tx_rest s"
  shows "tx_view (ua_step rx (Wr 0 v) s) =
      (True, ua_tx_shift s, 0, ua_tx_counter s, (ua_tx_fifo s)(unat (ua_tx_head s) mod 8 := ucast v),
       ua_tx_head s + 1, ua_tx_tail s)"
    and "lin_view (ua_step rx (Wr 0 v) s) = lin_view s"
    and "ua_ctrl (ua_step rx (Wr 0 v) s) = ua_ctrl s"
    and "ua_baud_div (ua_step rx (Wr 0 v) s) = ua_baud_div s"
proof -
  have lin: "\<not> ua_lin_mode s" and s: "ua_plain s" "ua_tx_bits_remaining s = 0" "ua_tx_empty s" "ua_tx s"
    using assms by (simp_all add: tx_rest_def ua_plain_def)
  note room = tx_rest_not_full [OF assms]
  have "tx_view (ua_step rx (Wr 0 v) s) = tx_view (ua_tx_stage s (ua_break_stage s (ua_status_stage s
      (ua_data_write v s (s\<lparr>ua_rx_sync1 := rx, ua_rx_sync2 := ua_rx_sync1 s\<rparr>)))))"
    by (simp add: ua_step_def ua_write_def Let_def)
  then show "tx_view (ua_step rx (Wr 0 v) s) =
      (True, ua_tx_shift s, 0, ua_tx_counter s, (ua_tx_fifo s)(unat (ua_tx_head s) mod 8 := ucast v),
       ua_tx_head s + 1, ua_tx_tail s)"
    using s room
    by (simp add: ua_tx_stage_def ua_plain_def ua_tx_idle_def ua_break_stage_def ua_data_write_def)
      (simp add: tx_view_def ua_clear_irq_bit_def ua_status_stage_def)
  show "lin_view (ua_step rx (Wr 0 v) s) = lin_view s"
    using s lin
    by (simp add: ua_step_def Let_def ua_lin_rx_stage_def ua_break_stage_def ua_status_stage_def
        ua_write_def ua_data_write_def ua_tx_stage_def ua_plain_def ua_tx_idle_def lin_view_if)
  show "ua_ctrl (ua_step rx (Wr 0 v) s) = ua_ctrl s" "ua_baud_div (ua_step rx (Wr 0 v) s) = ua_baud_div s"
    using ua_cfg_step [of rx "Wr 0 v" s] by (simp_all add: ua_cfg_def ua_cfg_wr_def)
qed

text \<open>A receiver at rest with an empty queue, and the two pins connected from here on.\<close>

definition rx_rest :: "uart \<Rightarrow> bool" where
  "rx_rest s \<longleftrightarrow> \<not> ua_rx_busy s \<and> ua_rx_sync1 s \<and> ua_rx_sync2 s \<and> ua_rx_empty s"

definition uart_wired :: "world \<Rightarrow> bool" where
  "uart_wired w \<longleftrightarrow> wired (rx_pin w) (uart_at w)"

lemma uart_write_queues:
  assumes rest: "tx_waiting d w" and d: "2 \<le> unat d"
  shows "\<exists>w'. qar_uart_write soc_bus QAR_UART0_BASE byte w = Some w' \<and>
    (rx_rest (uart_at w') \<longrightarrow> link_start (uart_at w')) \<and>
    ua_tx_fifo (uart_at w') (unat (ua_tx_tail (uart_at w')) mod 8) = byte"
proof -
  let ?data = "QAR_UART_DATA QAR_UART0_BASE"
  obtain w1 where w1: "tx_waiting d w1" and ret: "qar_uart_write soc_bus QAR_UART0_BASE byte w =
      Some (mmio_write soc_bus ?data (ucast byte) w1)"
    using uart_idle.write_returns [OF rest] by blast
  define w' where "w' = mmio_write soc_bus ?data (ucast byte) w1"
  have rest': "tx_waiting d (soc_wait w1)" using w1 by (rule uart_idle.keeps_wait)
  define s where "s = uart_at (soc_wait w1)"
  have s: "tx_rest s" "ua_baud_div s = d" using rest' by (simp_all add: s_def tx_waiting_def)
  obtain rx where at: "uart_at w' = ua_step rx (Wr 0 (ucast byte)) s"
    by (simp add: w'_def s_def uart_at_def mmio_write_soc soc_port_hit(1) [of ?data UART0 0])
  note st = uart_store_byte [OF s(1), of rx "ucast byte", folded at]
  have tx: "ua_tx (uart_at w')" "ua_tx_bits_remaining (uart_at w') = 0"
    "ua_tx_head (uart_at w') = ua_tx_tail (uart_at w') + 1"
    "ua_tx_fifo (uart_at w') (unat (ua_tx_tail (uart_at w')) mod 8) = byte"
    using st(1) s(1) by (simp_all add: tx_view_def tx_rest_def ua_tx_empty_def)
  have "ua_plain (uart_at w')"
    using s(1) st(2,3) by (simp add: tx_rest_def ua_plain_def lin_view_def ua_lin_mode_def)
  then have "rx_rest (uart_at w') \<longrightarrow> link_start (uart_at w')"
    using tx st(4) s(2) d by (simp add: link_start_def rx_rest_def)
  moreover have "qar_uart_write soc_bus QAR_UART0_BASE byte w = Some w'"
    unfolding w'_def by (rule ret)
  ultimately show ?thesis using tx(4) by blast
qed

text \<open>A world that shows the UART as it is \<open>m\<close> cycles after \<open>w\<close>.\<close>

definition uart_after :: "world \<Rightarrow> nat \<Rightarrow> world \<Rightarrow> bool" where
  "uart_after w m v \<longleftrightarrow> uart_at v = ua_run (rx_pin w) m (uart_at w) \<and> (\<forall>k. rx_pin v k = rx_pin w (m + k))"

lemma rx_pin_later: "rx_pin (soc_idle n v) k = rx_pin v (n + k)" "rx_pin (soc_tick acc v) k = rx_pin v (Suc k)"
  by (simp_all add: rx_pin_def add.assoc)

lemma uart_after_idle: "uart_after w m v \<Longrightarrow> uart_after w (m + n) (soc_idle n v)"
proof -
  assume v: "uart_after w m v"
  then have "rx_pin v = (\<lambda>k. rx_pin w (m + k))" by (simp add: uart_after_def fun_eq_iff)
  then show ?thesis
    using v unfolding uart_after_def uart_at_idle ua_run_add by (simp add: rx_pin_later add.assoc)
qed

lemma uart_after_wait: "uart_after w m v \<Longrightarrow> uart_after w (m + w_gap v (w_now v)) (soc_wait v)"
  unfolding soc_wait_def by (rule uart_after_idle)

lemma uart_after_status:
  assumes "uart_after w m v"
  shows "uart_after w (Suc m) (soc_tick (Load (QAR_UART_STATUS QAR_UART0_BASE)) v)"
proof -
  have "pin_uart_rx (w_pins v (w_now v)) = rx_pin v 0" by (simp add: rx_pin_def)
  then show ?thesis
    using assms
    by (simp add: uart_after_def uart_at_tick uart_status_port ua_step_Rd_status rx_pin_later)
qed

lemma uart_read_received:
  assumes start: "link_start (uart_at w)" and wired: "uart_wired w" and late: "link_end (uart_at w) < n"
  shows "fst (qar_uart_read soc_bus QAR_UART0_BASE (soc_idle n w)) =
         ucast (ua_tx_fifo (uart_at w) (unat (ua_tx_tail (uart_at w)) mod 8))"
proof -
  let ?s = "uart_at w" and ?data = "QAR_UART_DATA QAR_UART0_BASE" and ?st = "QAR_UART_STATUS QAR_UART0_BASE"
  let ?b = "ua_tx_fifo ?s (unat (ua_tx_tail ?s) mod 8)"
  note wire = wired [unfolded uart_wired_def]
  have view: "rx_view (ua_run (rx_pin w) m ?s) = rx_view (ua_run (rx_pin w) (link_end ?s) ?s)"
    if "link_end ?s \<le> m" for m
    using link_received(1) [OF start wire, of "m - link_end ?s"] that by simp
  have got: "\<not> ua_rx_empty (ua_run (rx_pin w) m ?s)"
    "ua_rx_fifo (ua_run (rx_pin w) m ?s) (unat (ua_rx_tail (ua_run (rx_pin w) m ?s)) mod 8) = ?b"
    if "link_end ?s \<le> m" for m
    using rx_viewD [OF view [OF that]] link_received(3-5) [OF start wire] by (simp_all add: ua_rx_empty_def)
  define v where "v = soc_wait (soc_idle n w)"
  define m where "m = n + w_gap w (w_now w + n)"
  have "uart_after w n (soc_idle n w)" using uart_after_idle [of w 0 w n] by (simp add: uart_after_def)
  then have v: "uart_after w m v" using uart_after_wait by (fastforce simp: v_def m_def)
  obtain m' where m': "m = Suc m'" "link_end ?s \<le> m'"
    using late by (cases m) (auto simp: m_def)
  have ready: "bit (ua_status (uart_at v)) 0"
    using v got(1) [OF m'(2)] by (simp add: uart_after_def m'(1) ua_status_step)
  define u where "u = soc_wait (soc_tick (Load ?st) v)"
  obtain k where u: "uart_after w (m + k) u"
    using uart_after_wait [OF uart_after_status [OF v]] by (metis add_Suc_shift u_def)
  have "soc_load ?data u = ucast ?b"
    using u got(2) [of "m + k"] m' by (simp add: soc_load_dev dev_rdata_def ua_rdata_def uart_after_def flip: uart_at_def)
  moreover have "(ucast ?b :: u32) AND 0xFF = ucast ?b"
  proof -
    have "take_bit 8 (ucast ?b :: u32) = ucast ?b"
      by (rule bit_word_eqI) (auto simp: bit_simps dest: bit_imp_le_length)
    then show ?thesis by (simp add: take_bit_eq_mask mask_eq_exp_minus_1)
  qed
  ultimately show ?thesis
    using ready by (simp add: qar_uart_read_def available_eq mmio_read_soc flip: v_def u_def)
qed

subsection \<open>Properties\<close>

text \<open>
  C30. With its pins connected to each other the UART carries a byte from the driver back to the
  driver: \<open>qar_uart_write\<close> on an idle transmitter returns, and once the frame has passed
  \<open>qar_uart_read\<close> returns the byte, for every parity and stop bit setting and every divider of at
  least 2, whatever the gaps between the accesses.
\<close>

theorem uart_loopback:
  assumes "tx_rest (uart_at w)" and "2 \<le> unat (ua_baud_div (uart_at w))"
  shows "\<exists>w'. qar_uart_write soc_bus QAR_UART0_BASE byte w = Some w' \<and>
    (rx_rest (uart_at w') \<and> uart_wired w' \<longrightarrow>
      (\<forall>n > link_end (uart_at w').
         fst (qar_uart_read soc_bus QAR_UART0_BASE (soc_idle n w')) = ucast byte))"
proof -
  have "tx_waiting (ua_baud_div (uart_at w)) w" using assms(1) by (simp add: tx_waiting_def)
  from uart_write_queues [OF this assms(2), of byte] show ?thesis
    using uart_read_received by fastforce
qed

text \<open>A UART whose receive pin is its own transmit pin from cycle 2 on.\<close>

definition loop_uart :: uart where
  "loop_uart = (ua_reset uart_zero)\<lparr>ua_baud_div := 2, ua_status := 2\<rparr>"

primrec loop_run :: "nat \<Rightarrow> uart \<Rightarrow> uart" where
  "loop_run 0 s = s"
| "loop_run (Suc n) s = (let t = loop_run n s in ua_step (ua_tx t) Idle t)"

definition loop_stored :: uart where
  "loop_stored = ua_step True (Wr 0 0x53) (ua_step True Idle loop_uart)"

definition world_loop :: world where
  "world_loop = (world_uart loop_uart)\<lparr>w_pins :=
     (\<lambda>t. no_pins\<lparr>pin_uart_rx := (t < 2 \<or> ua_tx (loop_run (t - 2) loop_stored))\<rparr>)\<rparr>"

lemma loop_run_wired:
  assumes "\<And>k. rx k = ua_tx (loop_run k s)"
  shows "ua_run rx k s = loop_run k s"
  by (induction k) (simp_all add: assms Let_def)

lemma loop_uart_facts: "tx_rest loop_uart" "2 \<le> unat (ua_baud_div loop_uart)" "rx_rest loop_uart"
  by (simp_all add: loop_uart_def tx_rest_def rx_rest_def ua_plain_def ua_reset_def uart_zero_def
      ua_lin_mode_def ua_tx_empty_def ua_rx_empty_def)

lemma loop_stored_rest: "rx_rest loop_stored"
  by code_simp

lemma uart_loopback_witness:
  "\<exists>w'. qar_uart_write soc_bus QAR_UART0_BASE 0x53 world_loop = Some w' \<and>
     fst (qar_uart_read soc_bus QAR_UART0_BASE (soc_idle (Suc (link_end (uart_at w'))) w')) = 0x53"
proof -
  let ?w = world_loop
  have w: "uart_at ?w = loop_uart" "w_now ?w = 0" "w_gap ?w = (\<lambda>_. 0)"
    by (simp_all add: world_loop_def world_uart_def uart_at_def)
  have rest: "tx_rest (uart_at ?w)" "2 \<le> unat (ua_baud_div (uart_at ?w))"
    by (simp_all add: w loop_uart_facts)
  from uart_loopback [OF rest, of "0x53"] obtain w' where
    ret: "qar_uart_write soc_bus QAR_UART0_BASE 0x53 ?w = Some w'" and
    read: "rx_rest (uart_at w') \<and> uart_wired w' \<Longrightarrow>
      fst (qar_uart_read soc_bus QAR_UART0_BASE (soc_idle (Suc (link_end (uart_at w'))) w')) = 0x53"
    by auto
  have hit: "c_true (fst (qar_uart_can_write soc_bus QAR_UART0_BASE ?w))"
    by (simp add: can_write_eq soc_wait_def w) (simp add: loop_uart_def)
  have "w' = mmio_write soc_bus (QAR_UART_DATA QAR_UART0_BASE) 0x53
      (soc_tick (Load (QAR_UART_STATUS QAR_UART0_BASE)) ?w)"
    using ret by (simp add: qar_uart_write_def poll_until_hit [of c_true "qar_uart_can_write soc_bus QAR_UART0_BASE", OF hit]) (simp add: can_write_eq soc_wait_def w)
  then have w': "uart_at w' = loop_stored" "w_now w' = 2" "w_pins w' = w_pins ?w"
    by (simp_all add: mmio_write_soc uart_at_def soc_wait_def soc_port_hit(1) [of _ UART0 0] uart_status_port
        ua_step_Rd_status w w(1) [unfolded uart_at_def] loop_stored_def)
      (simp add: world_loop_def)
  have "rx_pin w' k = ua_tx (loop_run k loop_stored)" for k
    by (simp add: rx_pin_def w') (simp add: world_loop_def)
  then have "uart_wired w'"
    by (simp add: uart_wired_def wired_def w' loop_run_wired)
  moreover have "rx_rest (uart_at w')" unfolding w' by (rule loop_stored_rest)
  ultimately show ?thesis using ret read by blast
qed

end
