(* ===== verification/Uart_Queue.thy ===== *)
theory Uart_Queue
  imports Uart_Link
begin

text \<open>
  The transmit queue of the UART under stores to DATA. The full test of the block extends the
  pointers to 32 bits before it subtracts them, so it recognises a full queue only while the tail
  pointer is in the lower half of its range; otherwise the driver goes on and overwrites the byte
  that is to be sent next.
\<close>

subsection \<open>The access of a cycle\<close>

definition ua_access :: "bool \<Rightarrow> busop \<Rightarrow> uart \<Rightarrow> uart" where
  "ua_access rx bop s = (let n = s\<lparr>ua_rx_sync1 := rx, ua_rx_sync2 := ua_rx_sync1 s\<rparr> in
     case bop of Wr k v \<Rightarrow> ua_write k v s n | Rd k \<Rightarrow> ua_read_effect k s n | Idle \<Rightarrow> n)"

lemma ua_step_access: "ua_step rx bop s =
    ua_lin_rx_stage s (ua_rx_stage s (ua_tx_stage s (ua_break_stage s (ua_status_stage s (ua_access rx bop s)))))"
  by (simp add: ua_step_def ua_access_def Let_def)

lemma ua_step_access_tx:
  "tx_view (ua_step rx bop s) = tx_view (ua_tx_stage s (ua_break_stage s (ua_status_stage s (ua_access rx bop s))))"
  by (simp add: ua_step_access)

definition tx_count :: "uart \<Rightarrow> nat" where
  "tx_count s = ring_count (ua_tx_head s) (ua_tx_tail s)"

definition tx_queue :: "uart \<Rightarrow> u8 list" where
  "tx_queue s = ring_list 8 (ua_tx_fifo s) (ua_tx_head s) (ua_tx_tail s)"

lemma length_tx_queue: "length (tx_queue s) = tx_count s"
  by (simp add: tx_queue_def tx_count_def)

text \<open>The full test.\<close>

lemma tx_full_iff:
  assumes "tx_count s \<le> 8"
  shows "ua_tx_full s \<longleftrightarrow> tx_count s = 8 \<and> unat (ua_tx_tail s) < 8"
proof -
  have "ua_tx_full s \<Longrightarrow> tx_count s = 8"
    using wide_diff_count [of "ua_tx_head s" "ua_tx_tail s" 8] by (simp add: ua_tx_full_def tx_count_def)
  moreover have "tx_count s = 8 \<Longrightarrow> ua_tx_full s \<longleftrightarrow> unat (ua_tx_tail s) < 8"
    using wide_diff_full [of "ua_tx_head s" "ua_tx_tail s" 8] by (simp add: ua_tx_full_def tx_count_def)
  ultimately show ?thesis by blast
qed

subsection \<open>A store while a frame is on the line\<close>

definition tx_fifo_view :: "uart \<Rightarrow> (nat \<Rightarrow> u8) \<times> 4 word \<times> 4 word" where
  "tx_fifo_view s = (ua_tx_fifo s, ua_tx_head s, ua_tx_tail s)"

lemma tx_fifo_viewD:
  "tx_fifo_view s = tx_fifo_view t \<Longrightarrow> tx_queue s = tx_queue t \<and> tx_count s = tx_count t \<and> ua_tx_tail s = ua_tx_tail t"
  by (simp add: tx_fifo_view_def tx_queue_def tx_count_def)

lemma tx_busy_step:
  assumes "ua_plain s" and "ua_tx_bits_remaining s \<noteq> 0"
  shows "tx_fifo_view (ua_step rx bop s) = tx_fifo_view (ua_access rx bop s)"
proof -
  have "ua_step_fifo = tx_fifo_view (ua_tx_stage s (ua_break_stage s (ua_status_stage s (ua_access rx bop s))))"
    if "ua_step_fifo = tx_fifo_view (ua_step rx bop s)" for ua_step_fifo
    using ua_step_access_tx [of rx bop s] that by (simp add: tx_view_def tx_fifo_view_def)
  then show ?thesis
    using assms
    by (simp add: tx_fifo_view_def ua_tx_stage_def ua_plain_def ua_tx_shift_out_def ua_break_stage_def
        ua_status_stage_def ua_flag_defs Let_def)
qed

text \<open>The queue after a store of a byte: appended, refused, or its first byte overwritten.\<close>

lemma tx_busy_store:
  assumes "ua_plain s" and "ua_tx_bits_remaining s \<noteq> 0" and "tx_count s \<le> 8"
  shows "tx_queue (ua_step rx (Wr 0 v) s) =
    (if tx_count s < 8 then tx_queue s @ [ucast v]
     else if unat (ua_tx_tail s) < 8 then tx_queue s
     else ucast v # tl (tx_queue s) @ [ucast v])"
proof -
  have "tx_queue (ua_step rx (Wr 0 v) s) = tx_queue (ua_access rx (Wr 0 v) s)"
    using tx_busy_step [OF assms(1,2)] tx_fifo_viewD by blast
  also have "\<dots> = (if ua_tx_full s then tx_queue s
      else ring_list 8 ((ua_tx_fifo s)(unat (ua_tx_head s) mod 8 := ucast v)) (ua_tx_head s + 1) (ua_tx_tail s))"
    by (simp add: ua_access_def ua_write_def ua_data_write_def tx_queue_def ua_flag_defs Let_def)
  finally show ?thesis
    using assms(3) ring_list_push [of "ua_tx_head s" "ua_tx_tail s" 8]
      ring_list_overwrite [of "ua_tx_head s" "ua_tx_tail s" 8]
    by (auto simp: tx_full_iff tx_queue_def tx_count_def)
qed

subsection \<open>Properties\<close>

text \<open>
  C32. Where the transmit queue of the UART overflows: while a frame is on the line and the core accesses
  in consecutive cycles, \<open>qar_uart_write\<close> appends its byte to fewer than eight waiting bytes; but with
  eight bytes waiting and the tail pointer in the upper half of its range the status still reports room,
  the call returns at once and its byte replaces the byte that was to be sent next, besides being appended.
\<close>

theorem uart_write_full_queue:
  assumes plain: "ua_plain (uart_at w)" and busy: "2 \<le> ua_tx_bits_remaining (uart_at w)"
    and count: "tx_count (uart_at w) \<le> 8" and room: "tx_count (uart_at w) < 8 \<or> 8 \<le> unat (ua_tx_tail (uart_at w))"
    and status: "bit (ua_status (uart_at w)) 1 = (\<not> ua_tx_full (uart_at w))"
    and gap: "w_gap w (w_now w) = 0" "w_gap w (Suc (w_now w)) = 0"
  shows "\<exists>w'. qar_uart_write soc_bus QAR_UART0_BASE byte w = Some w' \<and>
    tx_queue (uart_at w') = (if tx_count (uart_at w) < 8 then tx_queue (uart_at w) @ [byte]
      else byte # tl (tx_queue (uart_at w)) @ [byte])"
proof -
  let ?s = "uart_at w" and ?data = "QAR_UART_DATA QAR_UART0_BASE"
  let ?w1 = "soc_tick (Load (QAR_UART_STATUS QAR_UART0_BASE)) w"
  have nz: "ua_tx_bits_remaining ?s \<noteq> 0" and one: "ua_tx_bits_remaining ?s \<noteq> 1"
    using busy by (auto simp: word_le_nat_alt)
  obtain rx where s1: "uart_at ?w1 = ua_step rx Idle ?s"
    by (simp add: uart_at_tick uart_status_port ua_step_Rd_status)
  have "\<not> ua_tx_full ?s" using room count by (auto simp: tx_full_iff)
  then have hit: "qar_uart_can_write soc_bus QAR_UART0_BASE w = (c_bool True, ?w1)"
    using status gap(1) by (simp add: can_write_eq soc_wait_def)
  define w' where "w' = mmio_write soc_bus ?data (ucast byte) ?w1"
  have "qar_uart_write soc_bus QAR_UART0_BASE byte w = Some w'"
    using poll_until_hit [of c_true "qar_uart_can_write soc_bus QAR_UART0_BASE" w]
    by (simp add: qar_uart_write_def hit w'_def)
  moreover obtain rx' where "uart_at w' = ua_step rx' (Wr 0 (ucast byte)) (uart_at ?w1)"
    using gap by (simp add: w'_def uart_at_def mmio_write_soc soc_wait_def soc_port_hit(1) [of ?data UART0 0])
  moreover have "ua_plain (uart_at ?w1)" unfolding s1 using plain by (rule ua_plain_step)
  moreover have "tx_fifo_view (uart_at ?w1) = tx_fifo_view ?s"
    unfolding s1 using tx_busy_step [OF plain nz, of rx Idle] by (simp add: ua_access_def tx_fifo_view_def)
  note fifo = tx_fifo_viewD [OF this]
  moreover have "ua_tx_bits_remaining (uart_at ?w1) \<noteq> 0"
    unfolding s1 using tx_view_step [OF plain, of rx] nz one by (auto simp: tx_view_def split: if_splits)
  ultimately show ?thesis
    using tx_busy_store [of "uart_at ?w1" rx' "ucast byte"] count room by auto
qed

text \<open>
  Such a state is reached from reset: eight times a byte is loaded and the UART disabled and enabled
  again, then a ninth byte is on the line and eight more wait.
\<close>

definition full_trace :: "busop list" where
  "full_trace = concat (replicate 8 [Wr 0 0xA5, Wr 2 0, Wr 2 1]) @ [Wr 0 0xA5, Idle] @
     map (\<lambda>i. Wr 0 (of_nat i)) [1..<9] @ [Idle]"

definition full_uart :: uart where
  "full_uart = fold (ua_step True) full_trace (ua_reset uart_zero)"

definition tx_figures :: "uart \<Rightarrow> nat \<times> nat \<times> u8 list \<times> nat \<times> bool \<times> bool" where
  "tx_figures s = (tx_count s, unat (ua_tx_tail s), tx_queue s, unat (ua_tx_bits_remaining s),
     bit (ua_status s) 1, ua_plain s)"

lemma full_uart_figures: "tx_figures full_uart = (8, 9, [1, 2, 3, 4, 5, 6, 7, 8], 10, True, True)"
  by code_simp

lemma uart_write_full_queue_witness:
  "\<exists>w'. qar_uart_write soc_bus QAR_UART0_BASE 0x42 (world_uart full_uart) = Some w' \<and>
     tx_queue (uart_at w') = [0x42, 2, 3, 4, 5, 6, 7, 8, 0x42]"
proof -
  let ?w = "world_uart full_uart"
  have w: "uart_at ?w = full_uart" "w_gap ?w t = 0" for t by (simp_all add: world_uart_def uart_at_def)
  have s: "tx_count full_uart = 8" "unat (ua_tx_tail full_uart) = 9" "tx_queue full_uart = [1, 2, 3, 4, 5, 6, 7, 8]"
    "unat (ua_tx_bits_remaining full_uart) = 10" "bit (ua_status full_uart) 1" "ua_plain full_uart"
    using full_uart_figures by (simp_all add: tx_figures_def)
  have busy: "2 \<le> ua_tx_bits_remaining full_uart" by (simp add: word_le_nat_alt s)
  have "\<not> ua_tx_full full_uart" by (simp add: tx_full_iff s)
  then show ?thesis
    using uart_write_full_queue [of ?w "0x42"] by (simp add: w s s(5) [simplified] busy)
qed

end
