(* ===== verification/Fw_Uart.thy ===== *)
theory Fw_Uart
  imports Uart_Link "HOL-Library.Monad_Syntax"
begin

text \<open>
  The three UART programs of \<^verbatim>\<open>devkit/examples/c\<close>: \<^verbatim>\<open>lin_auto_header.c\<close>, \<^verbatim>\<open>uart_rs485.c\<close> and
  \<^verbatim>\<open>uart_rs485_isr.c\<close>. Each \<open>main\<close> ends in an empty endless loop; the value of its model is the world
  in which that loop spins, \<open>None\<close> when an earlier wait never ends.
\<close>

subsection \<open>The programs\<close>

definition lin_send_payload :: "'w bus \<Rightarrow> u8 \<Rightarrow> u8 \<Rightarrow> 'w \<Rightarrow> 'w option" where
  "lin_send_payload B byte0 byte1 w = do {
     w \<leftarrow> qar_uart_write B QAR_UART0_BASE byte0 w;
     qar_uart_write B QAR_UART0_BASE byte1 w
   }"

definition lin_setup :: "'w bus \<Rightarrow> 'w \<Rightarrow> 'w" where
  "lin_setup B w =
    (let lin_id = 0x3C;
         w = qar_uart_init B QAR_UART0_BASE 500 QAR_UART_CTRL_ENABLE w;
         w = qar_uart_lin_set_break B QAR_UART0_BASE 16 w;
         w = qar_uart_lin_set_tx_id B QAR_UART0_BASE lin_id w;
         w = qar_uart_lin_config_slave B QAR_UART0_BASE lin_id 2 1 w
     in qar_uart_lin_arm_slave B QAR_UART0_BASE w)"

text \<open>The value is the volatile local \<open>header\<close>.\<close>

definition lin_main :: "'w bus \<Rightarrow> 'w \<Rightarrow> (u32 \<times> 'w) option" where
  "lin_main B w = do {
     let w = lin_setup B w;
     w \<leftarrow> lin_send_payload B 0x55 0xAA w;
     let w = qar_uart_lin_request_break B QAR_UART0_BASE w;
     let w = qar_uart_lin_start_auto_header B QAR_UART0_BASE w;
     (_, w) \<leftarrow> poll_until (qar_uart_status B QAR_UART0_BASE)
                 (\<lambda>v. v AND QAR_UART_STATUS_LIN_HEADER \<noteq> 0) w;
     let w = qar_uart_clear_irq B QAR_UART0_BASE QAR_UART_IRQ_LIN_HEADER w;
     Some (qar_uart_lin_header B QAR_UART0_BASE w)
   }"

definition rs485_send_byte :: "'w bus \<Rightarrow> u8 \<Rightarrow> 'w \<Rightarrow> 'w option" where
  "rs485_send_byte B b w = qar_uart_write B QAR_UART0_BASE b w"

definition rs485_setup :: "'w bus \<Rightarrow> 'w \<Rightarrow> 'w" where
  "rs485_setup B w =
    (let w = qar_uart_init B QAR_UART0_BASE 500 QAR_UART_CTRL_ENABLE w;
         w = qar_uart_config_rs485 B QAR_UART0_BASE 0x1 w;
         w = qar_uart_enable_irq B QAR_UART0_BASE QAR_UART_IRQ_IDLE w
     in qar_uart_set_idle_cycles B QAR_UART0_BASE 1000 w)"

definition rs485_main :: "'w bus \<Rightarrow> 'w \<Rightarrow> 'w option" where
  "rs485_main B w = do {
     let w = rs485_setup B w;
     w \<leftarrow> rs485_send_byte B 0x33 w;
     w \<leftarrow> rs485_send_byte B 0x55 w;
     (_, w) \<leftarrow> poll_until (qar_uart_status B QAR_UART0_BASE)
                 (\<lambda>v. v AND QAR_UART_STATUS_IDLE \<noteq> 0) w;
     Some (qar_uart_clear_irq B QAR_UART0_BASE QAR_UART_IRQ_IDLE w)
   }"

text \<open>
  The interrupt handler works on the global \<open>idle_count\<close>. The program calls a function \<open>send_byte\<close>
  that neither it nor a header declares: it is a parameter.
\<close>

definition uart_isr :: "'w bus \<Rightarrow> u32 \<times> 'w \<Rightarrow> u32 \<times> 'w" where
  "uart_isr B = (\<lambda>(idle_count, w).
     case qar_uart_status B QAR_UART0_BASE w of
       (status, w) \<Rightarrow>
         if status AND QAR_UART_STATUS_IDLE \<noteq> 0
         then (idle_count + 1, qar_uart_clear_irq B QAR_UART0_BASE QAR_UART_IRQ_IDLE w)
         else (idle_count, w))"

definition rs485_isr_main :: "(u32 \<Rightarrow> u8 \<Rightarrow> 'w \<Rightarrow> 'w option) \<Rightarrow> 'w bus \<Rightarrow> 'w \<Rightarrow> 'w option" where
  "rs485_isr_main send_byte B w = do {
     let w = qar_uart_init B QAR_UART0_BASE 500 QAR_UART_CTRL_ENABLE w;
     let w = qar_uart_set_idle_cycles B QAR_UART0_BASE 1000 w;
     let w = qar_uart_enable_irq B QAR_UART0_BASE QAR_UART_IRQ_IDLE w;
     w \<leftarrow> send_byte QAR_UART0_BASE 0x33 w;
     send_byte QAR_UART0_BASE 0x55 w
   }"

subsection \<open>Without LIN mode no header is ever captured\<close>

definition lin_off :: "uart \<Rightarrow> bool" where
  "lin_off s \<longleftrightarrow> \<not> ua_lin_mode s \<and> \<not> ua_lin_header_valid s \<and> \<not> bit (ua_status s) 8"

lemma header_valid_stages:
  assumes "\<not> ua_lin_mode s"
  shows "ua_lin_header_valid (ua_lin_rx_stage s (ua_rx_stage s (ua_tx_stage s (ua_break_stage s
           (ua_status_stage s n))))) = ua_lin_header_valid n"
proof -
  have "ua_lin_header_valid (ua_set_status k n) = ua_lin_header_valid n"
    "ua_lin_header_valid (ua_set_irq_bit k n) = ua_lin_header_valid n" for k n
    by (simp_all add: ua_flag_defs)
  note flags = this
  have "ua_lin_header_valid (ua_lin_rx_stage s n) = ua_lin_header_valid n" for n
    using assms by (simp add: ua_lin_rx_stage_def)
  moreover have "ua_lin_header_valid (ua_rx_frame_end s n) = ua_lin_header_valid n" for n
    using assms by (simp add: ua_rx_frame_end_def Let_def flags)
  then have "ua_lin_header_valid (ua_rx_stage s n) = ua_lin_header_valid n" for n
    using assms
    by (simp add: ua_rx_stage_def ua_rx_receive_def ua_rx_sample_def ua_rx_idle_def ua_rx_begin_def Let_def flags)
  moreover have "ua_lin_header_valid (ua_tx_stage s n) = ua_lin_header_valid n" for n
    by (simp add: ua_tx_stage_def ua_tx_break_def ua_tx_idle_def ua_tx_shift_out_def ua_load_frame_def
        Let_def flags)
  ultimately show ?thesis by (simp add: ua_break_stage_def ua_status_stage_def)
qed

lemma header_valid_write: "ua_lin_header_valid (ua_write k v s n) \<Longrightarrow> ua_lin_header_valid n"
  by (auto simp: ua_write_def ua_data_write_def ua_irq_status_write_def ua_lin_cmd_write_def
      ua_lin_slave_write_def ua_flag_defs Let_def split: if_splits)

lemma header_valid_read: "ua_lin_header_valid (ua_read_effect k s n) = ua_lin_header_valid n"
  by (simp add: ua_read_effect_def Let_def ua_flag_defs)

lemma lin_off_step:
  assumes "lin_off s" and "\<And>v. bop = Wr 2 v \<Longrightarrow> \<not> bit v 5"
  shows "lin_off (ua_step rx bop s)"
proof -
  have off: "\<not> ua_lin_mode s" "\<not> ua_lin_header_valid s" using assms(1) by (simp_all add: lin_off_def)
  let ?n = "s\<lparr>ua_rx_sync1 := rx, ua_rx_sync2 := ua_rx_sync1 s\<rparr>"
  let ?m = "case bop of Wr k v \<Rightarrow> ua_write k v s ?n | Rd k \<Rightarrow> ua_read_effect k s ?n | Idle \<Rightarrow> ?n"
  have step: "ua_step rx bop s = ua_lin_rx_stage s (ua_rx_stage s (ua_tx_stage s (ua_break_stage s
      (ua_status_stage s ?m))))"
    by (simp add: ua_step_def Let_def)
  have "\<not> ua_lin_header_valid ?m"
    using off(2) header_valid_write [of _ _ s ?n] by (cases bop) (auto simp: header_valid_read)
  then have "\<not> ua_lin_header_valid (ua_step rx bop s)" unfolding step by (simp add: header_valid_stages off(1))
  moreover have "\<not> bit (ua_status (ua_step rx bop s)) 8"
    unfolding step by (simp add: status_stage_bits) (simp add: ua_status_stage_def bit_simps off(2))
  moreover have "\<not> ua_lin_mode (ua_step rx bop s)"
    using ua_cfg_step [of rx bop s] off(1) assms(2)
    by (cases bop) (auto simp: ua_cfg_def ua_cfg_wr_def ua_lin_mode_def split: if_splits)
  ultimately show ?thesis by (simp add: lin_off_def)
qed

lemma lin_off_tick:
  assumes "lin_off (uart_at w)"
    and "\<forall>a v. acc = Store a v \<longrightarrow> soc_decode a = Some (UART0, 2) \<longrightarrow> \<not> bit v 5"
  shows "lin_off (uart_at (soc_tick acc w))"
proof -
  have "\<not> bit v 5" if "soc_port UART0 acc = Wr 2 v" for v
    using that assms(2) by (cases acc) (auto simp: soc_port_def split: option.splits if_splits)
  then show ?thesis using lin_off_step [OF assms(1)] by (simp add: uart_at_tick)
qed

interpretation lin_inv: soc_invariant "\<lambda>w. lin_off (uart_at w)"
  by unfold_locales (simp add: lin_off_tick)

lemmas lin_off_wait = lin_inv.keeps_wait

lemma lin_off_read [simp]: "lin_off (uart_at w) \<Longrightarrow> lin_off (uart_at (snd (mmio_read soc_bus a w)))"
  by (simp add: mmio_read_soc lin_off_tick lin_off_wait)

lemma lin_off_write:
  assumes "lin_off (uart_at w)" and "soc_decode a = Some (UART0, 2) \<longrightarrow> \<not> bit v 5"
  shows "lin_off (uart_at (mmio_write soc_bus a v w))"
proof -
  have "uart_at (mmio_write soc_bus a v w) = uart_at (soc_tick (Store a v) (soc_wait w))"
    by (simp add: uart_at_def mmio_write_soc)
  then show ?thesis using lin_off_tick [OF lin_off_wait, of w "Store a v"] assms by simp
qed

lemma lin_off_setup: "lin_off (uart_at w) \<Longrightarrow> lin_off (uart_at (lin_setup soc_bus w))"
  by (simp add: lin_setup_def qar_uart_init_def qar_uart_lin_set_break_def qar_uart_lin_set_tx_id_def
      qar_uart_lin_config_slave_def qar_uart_lin_arm_slave_def Let_def lin_off_write reg_bits c_true_def bit_1_iff)

lemma lin_off_can_write [simp]:
  "lin_off (uart_at w) \<Longrightarrow> lin_off (uart_at (snd (qar_uart_can_write soc_bus QAR_UART0_BASE w)))"
  by (simp add: can_write_eq lin_off_tick lin_off_wait)

lemma lin_off_uart_write:
  assumes off: "lin_off (uart_at w)" and ret: "qar_uart_write soc_bus QAR_UART0_BASE b w = Some w'"
  shows "lin_off (uart_at w')"
proof -
  obtain r v where poll: "poll_until (qar_uart_can_write soc_bus QAR_UART0_BASE) c_true w = Some (r, v)"
    and w': "w' = mmio_write soc_bus (QAR_UART_DATA QAR_UART0_BASE) (ucast b) v"
    using ret by (auto simp: qar_uart_write_def split: option.splits)
  have "lin_off (uart_at v)"
    using poll_until_SomeD [OF poll, of "\<lambda>w. lin_off (uart_at w)"] off lin_off_can_write
    by (metis snd_conv)
  then show ?thesis by (simp add: w' lin_off_write)
qed

lemma lin_off_poll:
  assumes "lin_off (uart_at w)"
  shows "poll_until (qar_uart_status soc_bus QAR_UART0_BASE) (\<lambda>v. v AND QAR_UART_STATUS_LIN_HEADER \<noteq> 0) w = None"
proof (rule poll_until_never [where I = "\<lambda>w. lin_off (uart_at w)"])
  have bit8: "(x AND QAR_UART_STATUS_LIN_HEADER \<noteq> 0) = bit x 8" for x
    unfolding QAR_UART_STATUS_LIN_HEADER_def by (subst and_bit_mask) simp_all
  fix x assume x: "lin_off (uart_at x)"
  show "\<not> fst (qar_uart_status soc_bus QAR_UART0_BASE x) AND QAR_UART_STATUS_LIN_HEADER \<noteq> 0"
    using lin_off_wait [OF x]
    by (simp only: bit8 qar_uart_status_def mmio_read_soc uart_load_status fst_conv lin_off_def) simp
  show "lin_off (uart_at (snd (qar_uart_status soc_bus QAR_UART0_BASE x)))"
    using x by (simp add: qar_uart_status_def)
qed (rule assms)

text \<open>
  C35. The LIN demo never gets past its wait for a captured header, whatever the bus line does: the
  program sets up the LIN registers and commands but never selects LIN mode (bit 5 of CTRL), without
  which the block neither sends a break nor captures a header.
\<close>

theorem lin_demo_never_returns:
  assumes "\<not> ua_lin_mode (uart_at w)" and "\<not> ua_lin_header_valid (uart_at w)"
    and "\<not> bit (ua_status (uart_at w)) 8"
  shows "lin_main soc_bus w = None"
proof -
  have off: "lin_off (uart_at (lin_setup soc_bus w))"
    using assms by (intro lin_off_setup) (simp add: lin_off_def)
  have sent: "lin_off (uart_at v)" if "lin_send_payload soc_bus b0 b1 (lin_setup soc_bus w) = Some v" for b0 b1 v
    using that lin_off_uart_write [OF lin_off_uart_write [OF off]]
    by (auto simp: lin_send_payload_def bind_eq_Some_conv)
  have cmd: "lin_off (uart_at (qar_uart_lin_start_auto_header soc_bus QAR_UART0_BASE
      (qar_uart_lin_request_break soc_bus QAR_UART0_BASE v)))" if "lin_off (uart_at v)" for v
    using that by (simp add: qar_uart_lin_start_auto_header_def qar_uart_lin_request_break_def lin_off_write)
  show ?thesis
    using lin_off_poll [OF cmd [OF sent]] by (auto simp: lin_main_def Let_def bind_eq_None_conv)
qed

lemma lin_demo_never_returns_witness: "lin_main soc_bus world_at_reset = None"
  by (rule lin_demo_never_returns)
    (simp_all add: uart_at_def ua_reset_def uart_zero_def ua_lin_mode_def)

end
