(* ===== verification/Fw_Rs485.thy ===== *)
theory Fw_Rs485
  imports Fw_Uart Uart_Queue
begin

text \<open>
  The RS-485 programs on a receive line that stays high, the level of an idle bus: the idle counter of
  the UART then runs from the moment it is configured, whatever the transmitter does.
\<close>

subsection \<open>One cycle of the idle counter\<close>

text \<open>Stores that neither disable the block, nor start LIN activity, nor acknowledge interrupts.\<close>

definition rs_access :: "busop \<Rightarrow> bool" where
  "rs_access bop \<longleftrightarrow> (case bop of Idle \<Rightarrow> True | Rd k \<Rightarrow> k \<noteq> 0
     | Wr k v \<Rightarrow> k \<in> {0, 3, 4, 6, 7, 8} \<or> k = 2 \<and> bit v 0 \<and> \<not> bit v 5)"

definition idle_view :: "uart \<Rightarrow> (bool \<times> bool \<times> bool) \<times> u32 \<times> bool \<times> bool" where
  "idle_view s = ((ua_rx_busy s, ua_rx_sync1 s, ua_rx_sync2 s), ua_idle_counter s, ua_idle_irq_pending s,
     bit (ua_status s) 6)"

lemma rs_access_idle_view:
  "rs_access bop \<Longrightarrow> idle_view (ua_access rx bop s) =
     ((ua_rx_busy s, rx, ua_rx_sync1 s), ua_idle_counter s, ua_idle_irq_pending s, bit (ua_status s) 6)"
  by (cases bop) (auto simp: rs_access_def ua_access_def idle_view_def ua_write_def ua_data_write_def
      ua_read_effect_def ua_flag_defs Let_def)

lemma idle_view_tx:
  "idle_view (ua_status_stage s n) = idle_view n" "idle_view (ua_break_stage s n) = idle_view n"
  "\<not> ua_lin_break_active s \<Longrightarrow> idle_view (ua_tx_stage s n) = idle_view n"
  by (simp_all add: idle_view_def ua_status_stage_def ua_break_stage_def ua_tx_stage_def ua_tx_idle_def
      ua_tx_shift_out_def ua_load_frame_def ua_flag_defs bit_simps Let_def)

lemma idle_view_step:
  assumes "ua_plain s" and "rs_access bop" and "\<not> ua_rx_busy s" and "ua_rx_sync2 s"
  shows "idle_view (ua_step rx bop s) = ((False, rx, ua_rx_sync1 s),
     (if ua_idle_cfg s = 0 then (0, ua_idle_irq_pending s, bit (ua_status s) 6)
      else if ua_idle_irq_pending s then (ua_idle_counter s, True, bit (ua_status s) 6)
      else (ua_idle_counter s + 1, ua_idle_cfg s \<le> ua_idle_counter s,
            bit (ua_status s) 6 \<or> ua_idle_cfg s \<le> ua_idle_counter s)))"
proof -
  let ?n = "ua_tx_stage s (ua_break_stage s (ua_status_stage s (ua_access rx bop s)))"
  have plain: "\<not> ua_lin_break_active s" "\<not> ua_lin_mode s" "bit (ua_ctrl s) 0"
    using assms(1) by (simp_all add: ua_plain_def)
  have n: "idle_view ?n = ((False, rx, ua_rx_sync1 s), ua_idle_counter s, ua_idle_irq_pending s,
      bit (ua_status s) 6)"
    using rs_access_idle_view [OF assms(2)] assms(3) plain(1) by (simp add: idle_view_tx)
  have "idle_view (ua_step rx bop s) = idle_view (ua_rx_idle s ?n)"
    using plain assms(3)
    by (simp add: ua_step_access ua_lin_rx_stage_def ua_rx_stage_def) (simp add: idle_view_def)
  also have "\<dots> = ((False, rx, ua_rx_sync1 s),
     (if ua_idle_cfg s = 0 then (0, ua_idle_irq_pending s, bit (ua_status s) 6)
      else if ua_idle_irq_pending s then (ua_idle_counter s, True, bit (ua_status s) 6)
      else (ua_idle_counter s + 1, ua_idle_cfg s \<le> ua_idle_counter s,
            bit (ua_status s) 6 \<or> ua_idle_cfg s \<le> ua_idle_counter s)))"
    using n plain(2) assms(4)
    by (auto simp: ua_rx_idle_def idle_view_def ua_flag_defs bit_simps Let_def)
  finally show ?thesis .
qed

text \<open>The acknowledgement of a raised idle event restarts the counter.\<close>

lemma idle_view_acknowledge:
  assumes "ua_plain s" and "bit v 3" and "\<not> ua_rx_busy s" and "ua_rx_sync2 s" and "ua_idle_irq_pending s"
  shows "idle_view (ua_step rx (Wr 5 v) s) = ((False, rx, ua_rx_sync1 s), 0, False, False)"
proof -
  let ?n = "ua_tx_stage s (ua_break_stage s (ua_status_stage s (ua_access rx (Wr 5 v) s)))"
  have plain: "\<not> ua_lin_break_active s" "\<not> ua_lin_mode s" "bit (ua_ctrl s) 0"
    using assms(1) by (simp_all add: ua_plain_def)
  have "idle_view (ua_access rx (Wr 5 v) s) = ((False, rx, ua_rx_sync1 s), 0, False, False)"
    using assms(2,3) by (simp add: ua_access_def ua_write_def ua_irq_status_write_def idle_view_def
        ua_flag_defs bit_simps Let_def)
  then have n: "idle_view ?n = ((False, rx, ua_rx_sync1 s), 0, False, False)"
    using plain(1) by (simp add: idle_view_tx)
  have "idle_view (ua_step rx (Wr 5 v) s) = idle_view (ua_rx_idle s ?n)"
    using plain assms(3)
    by (simp add: ua_step_access ua_lin_rx_stage_def ua_rx_stage_def) (simp add: idle_view_def)
  also have "\<dots> = ((False, rx, ua_rx_sync1 s), 0, False, False)"
    using n plain(2) assms(4,5) by (auto simp: ua_rx_idle_def idle_view_def Let_def)
  finally show ?thesis .
qed

subsection \<open>The transmit queue\<close>

text \<open>The plain mode and the length of the queue over a cycle with such an access.\<close>

lemma rs_plain_step:
  assumes "ua_plain s" and "rs_access bop" and "\<not> ua_rx_busy s" and "ua_rx_sync2 s"
  shows "ua_plain (ua_step rx bop s)"
proof -
  have plain: "\<not> ua_lin_mode s" "ua_lin_auto_state s = 0" using assms(1) by (simp_all add: ua_plain_def)
  have "lin_view (ua_access rx bop s) = lin_view s"
    using assms(2) by (cases bop) (auto simp: rs_access_def ua_access_def ua_write_def ua_data_write_def
        ua_read_effect_def Let_def lin_view_if)
  then have "lin_view (ua_step rx bop s) = lin_view s"
    using assms(1) plain
    by (simp add: ua_step_access ua_lin_rx_stage_def ua_break_stage_def ua_status_stage_def
        ua_tx_stage_def ua_plain_def ua_tx_idle_def ua_tx_shift_out_def ua_load_frame_def Let_def lin_view_if)
  moreover have "bit (ua_ctrl (ua_step rx bop s)) 0 \<and> \<not> bit (ua_ctrl (ua_step rx bop s)) 5"
    using ua_cfg_step [of rx bop s] assms(1,2)
    by (cases bop) (auto simp: ua_cfg_def ua_cfg_wr_def rs_access_def ua_plain_def ua_lin_mode_def split: if_splits)
  ultimately show ?thesis
    using assms(1) by (simp add: ua_plain_def lin_view_def ua_lin_mode_def)
qed

lemma rs_queue_ptrs:
  assumes "ua_plain s" and "rs_access bop"
  shows "ua_tx_head (ua_step rx bop s) \<in> (if \<exists>v. bop = Wr 0 v then {ua_tx_head s, ua_tx_head s + 1} else {ua_tx_head s})"
    and "ua_tx_tail (ua_step rx bop s) = ua_tx_tail s \<or>
         \<not> ua_tx_empty s \<and> ua_tx_tail (ua_step rx bop s) = ua_tx_tail s + 1"
proof -
  let ?a = "ua_access rx bop s"
  have a: "ua_tx_head ?a \<in> (if \<exists>v. bop = Wr 0 v then {ua_tx_head s, ua_tx_head s + 1} else {ua_tx_head s})"
    "ua_tx_tail ?a = ua_tx_tail s"
    using assms(2) by (cases bop; auto simp: rs_access_def ua_access_def ua_write_def ua_data_write_def
        ua_read_effect_def ua_flag_defs Let_def)+
  have "tx_view (ua_step rx bop s) = tx_view (ua_tx_stage s (ua_break_stage s (ua_status_stage s ?a)))"
    by (simp add: ua_step_access)
  then have step: "ua_tx_head (ua_step rx bop s) = ua_tx_head ?a"
    "ua_tx_tail (ua_step rx bop s) = (if ua_tx_bits_remaining s = 0 \<and> \<not> ua_tx_empty s then ua_tx_tail s + 1 else ua_tx_tail ?a)"
    using assms(1)
    by (auto simp: tx_view_def ua_tx_stage_def ua_plain_def ua_tx_idle_def ua_tx_shift_out_def ua_load_frame_def
        ua_lin_slave_gate_block_def ua_break_stage_def ua_status_stage_def ua_flag_defs Let_def)
  show "ua_tx_head (ua_step rx bop s) \<in> (if \<exists>v. bop = Wr 0 v then {ua_tx_head s, ua_tx_head s + 1} else {ua_tx_head s})"
    using a(1) unfolding step(1) .
  show "ua_tx_tail (ua_step rx bop s) = ua_tx_tail s \<or>
         \<not> ua_tx_empty s \<and> ua_tx_tail (ua_step rx bop s) = ua_tx_tail s + 1"
    unfolding step(2) a(2) by simp
qed

lemma rs_queue_step:
  assumes "ua_plain s" and "rs_access bop" and "tx_count s < 8"
  shows "tx_count (ua_step rx bop s) \<le> tx_count s + (if \<exists>v. bop = Wr 0 v then 1 else 0)"
proof -
  let ?h = "ua_tx_head s" and ?t = "ua_tx_tail s"
  have push: "ring_count (?h + 1) ?t = Suc (ring_count ?h ?t)"
    using assms(3) by (intro ring_count_push [where d = 8]) (simp_all add: tx_count_def)
  have pop: "ring_count ?h (?t + 1) = ring_count ?h ?t - 1" if "?h \<noteq> ?t"
    using that by (rule ring_count_pop)
  have both: "ring_count (?h + 1) (?t + 1) = ring_count ?h ?t" by (simp add: ring_count_def)
  show ?thesis
    using rs_queue_ptrs [OF assms(1,2), of rx] push pop both
    by (auto simp: tx_count_def ua_tx_empty_def split: if_splits)
qed

subsection \<open>The program in its waits\<close>

text \<open>
  At most \<open>k\<close> bytes queued, the receiver at rest on a high line, and the status shows the idle event
  exactly while it is raised.
\<close>

definition rs_ok :: "nat \<Rightarrow> uart \<Rightarrow> bool" where
  "rs_ok k s \<longleftrightarrow> ua_plain s \<and> \<not> ua_rx_busy s \<and> ua_rx_sync1 s \<and> ua_rx_sync2 s \<and>
     ua_idle_irq_pending s = bit (ua_status s) 6 \<and> tx_count s \<le> k"

lemma rs_ok_step:
  assumes "rs_ok k s" and "rs_access bop" and "k < 8"
  shows "rs_ok (k + (if \<exists>v. bop = Wr 0 v then 1 else 0)) (ua_step True bop s)"
proof -
  have s: "ua_plain s" "\<not> ua_rx_busy s" "ua_rx_sync1 s" "ua_rx_sync2 s" "ua_idle_irq_pending s = bit (ua_status s) 6"
    "tx_count s \<le> k"
    using assms(1) by (simp_all add: rs_ok_def)
  note view = idle_view_step [OF s(1) assms(2) s(2,4), of True]
  have "tx_count s < 8" using s(6) assms(3) by simp
  note q = rs_queue_step [OF s(1) assms(2) this, of True]
  have "ua_plain (ua_step True bop s)" using rs_plain_step [OF s(1) assms(2) s(2,4)] .
  moreover have "\<not> ua_rx_busy (ua_step True bop s) \<and> ua_rx_sync1 (ua_step True bop s) \<and> ua_rx_sync2 (ua_step True bop s) \<and>
      ua_idle_irq_pending (ua_step True bop s) = bit (ua_status (ua_step True bop s)) 6"
    using view s(3,5) by (simp add: idle_view_def split: if_splits)
  moreover have "tx_count (ua_step True bop s) \<le> k + (if \<exists>v. bop = Wr 0 v then 1 else 0)"
    using q s(6) by linarith
  ultimately show ?thesis by (simp add: rs_ok_def)
qed

text \<open>Cycles until the idle event.\<close>

definition idle_left :: "uart \<Rightarrow> nat" where
  "idle_left s = (if bit (ua_status s) 6 then 0
     else Suc (unat (ua_idle_cfg s) - unat (ua_idle_counter s)))"

lemma idle_left_step:
  assumes "rs_ok k s" and "ua_idle_cfg s \<noteq> 0" and "ua_idle_cfg (ua_step True bop s) = ua_idle_cfg s"
    and "rs_access bop"
  shows "idle_left (ua_step True bop s) \<le> idle_left s"
    and "\<not> bit (ua_status s) 6 \<Longrightarrow> idle_left (ua_step True bop s) < idle_left s"
proof -
  have s: "ua_plain s" "\<not> ua_rx_busy s" "ua_rx_sync2 s" "ua_idle_irq_pending s = bit (ua_status s) 6"
    using assms(1) by (simp_all add: rs_ok_def)
  note view = idle_view_step [OF s(1) assms(4) s(2,3), of True]
  have less: "idle_left (ua_step True bop s) < idle_left s" if no: "\<not> bit (ua_status s) 6"
  proof (cases "ua_idle_cfg s \<le> ua_idle_counter s")
    case True
    then show ?thesis using view s(4) no assms(2) by (simp add: idle_view_def idle_left_def)
  next
    case False
    then have lt: "unat (ua_idle_counter s) < unat (ua_idle_cfg s)" by (simp add: word_le_nat_alt)
    then have "unat (ua_idle_counter s + 1) = unat (ua_idle_counter s) + 1" by (rule unat_inc)
    then show ?thesis
      using view s(4) no assms(2,3) lt False by (simp add: idle_view_def idle_left_def)
  qed
  then show "\<not> bit (ua_status s) 6 \<Longrightarrow> idle_left (ua_step True bop s) < idle_left s" .
  have "bit (ua_status s) 6 \<Longrightarrow> bit (ua_status (ua_step True bop s)) 6"
    using view by (simp add: idle_view_def split: if_splits)
  then show "idle_left (ua_step True bop s) \<le> idle_left s"
    using less by (cases "bit (ua_status s) 6") (simp_all add: idle_left_def)
qed

definition rs_world :: "nat \<Rightarrow> u32 \<Rightarrow> world \<Rightarrow> bool" where
  "rs_world k c w \<longleftrightarrow> (\<forall>t. pin_uart_rx (w_pins w t)) \<and> rs_ok k (uart_at w) \<and> ua_idle_cfg (uart_at w) = c"

lemma rs_world_tick:
  assumes "rs_world k c w" and "rs_access (soc_port UART0 acc)" and "k < 8"
  shows "rs_world (k + (if \<exists>v. soc_port UART0 acc = Wr 0 v then 1 else 0))
           (case soc_port UART0 acc of Wr j v \<Rightarrow> if j = 7 then v else c | _ \<Rightarrow> c) (soc_tick acc w)"
proof -
  have at: "uart_at (soc_tick acc w) = ua_step True (soc_port UART0 acc) (uart_at w)"
    using assms(1) by (simp add: uart_at_tick rs_world_def)
  have "ua_idle_cfg (ua_step True (soc_port UART0 acc) (uart_at w)) =
      (case soc_port UART0 acc of Wr j v \<Rightarrow> if j = 7 then v else c | _ \<Rightarrow> c)"
    using ua_cfg_step [of True "soc_port UART0 acc" "uart_at w"] assms(1)
    by (cases "soc_port UART0 acc") (auto simp: ua_cfg_def ua_cfg_wr_def rs_world_def)
  then show ?thesis
    using rs_ok_step [OF _ assms(2,3), of "uart_at w"] assms(1) unfolding rs_world_def at by simp
qed

lemma rs_access_look [simp]: "rs_access Idle" "k \<noteq> 0 \<Longrightarrow> rs_access (Rd k)"
  by (simp_all add: rs_access_def)

lemma rs_world_idle: "rs_world k c w \<Longrightarrow> k < 8 \<Longrightarrow> rs_world k c (soc_tick NoAccess w)"
  using rs_world_tick [of k c w NoAccess] by simp

lemma rs_world_wait: "rs_world k c w \<Longrightarrow> k < 8 \<Longrightarrow> rs_world k c (soc_wait w)"
  using soc_wait_world [of "rs_world k c" w] rs_world_idle by blast

lemma rs_world_read:
  assumes "rs_world k c w" and "k < 8" and a: "soc_decode a = Some (UART0, j)" and j: "j \<noteq> 0"
  shows "rs_world k c (snd (mmio_read soc_bus a w))"
  using rs_world_tick [OF rs_world_wait [OF assms(1,2)], of "Load a"] assms(2) j
  by (simp add: mmio_read_soc soc_port_hit(2) [OF a])

lemma rs_world_write:
  assumes "rs_world k c w" and "k < 8" and a: "soc_decode a = Some (UART0, j)" and "rs_access (Wr j v)"
  shows "rs_world (if j = 0 then Suc k else k) (if j = 7 then v else c) (mmio_write soc_bus a v w)"
proof -
  have "rs_world (if j = 0 then Suc k else k) (if j = 7 then v else c) (soc_tick (Store a v) (soc_wait w))"
    using rs_world_tick [OF rs_world_wait [OF assms(1,2)], of "Store a v"] assms(2,4)
    by (cases "j = 0"; cases "j = 7") (simp_all add: soc_port_hit(1) [OF a])
  moreover have "rs_world n d (mmio_write soc_bus a v w) = rs_world n d (soc_tick (Store a v) (soc_wait w))" for n d
    by (simp add: rs_world_def uart_at_def mmio_write_soc)
  ultimately show ?thesis by (simp only:)
qed

lemma rs_not_full: "rs_ok k s \<Longrightarrow> k < 8 \<Longrightarrow> \<not> ua_tx_full s"
  using wide_diff_count [of "ua_tx_head s" "ua_tx_tail s" 8] by (auto simp: rs_ok_def tx_count_def ua_tx_full_def)

text \<open>The wait for room in the transmit queue, and the wait for the idle event.\<close>

definition rs_sending :: "nat \<Rightarrow> u32 \<Rightarrow> world \<Rightarrow> bool" where
  "rs_sending k c w \<longleftrightarrow> rs_world k c w \<and> k < 8"

interpretation rs_room: uart_room "rs_sending k c" for k c
proof
  fix w assume w: "rs_sending k c w"
  show "rs_sending k c (soc_tick NoAccess w)" using w rs_world_idle by (simp add: rs_sending_def)
  show "rs_sending k c (soc_tick (Load (QAR_UART_STATUS QAR_UART0_BASE)) w)"
    using w rs_world_tick [of k c w "Load (QAR_UART_STATUS QAR_UART0_BASE)"]
    by (simp add: rs_sending_def uart_status_port)
  show "\<not> ua_tx_full (uart_at w)" using w rs_not_full by (auto simp: rs_sending_def rs_world_def)
qed

lemma rs_send_byte:
  assumes "rs_world k c w" and "k < 7"
  shows "\<exists>w'. rs485_send_byte soc_bus b w = Some w' \<and> rs_world (Suc k) c w'"
proof -
  have "rs_sending k c w" using assms by (simp add: rs_sending_def)
  from rs_room.write_returns [OF this, of b] obtain x where x: "rs_sending k c x"
    "rs485_send_byte soc_bus b w = Some (mmio_write soc_bus (QAR_UART_DATA QAR_UART0_BASE) (ucast b) x)"
    by (auto simp: rs485_send_byte_def)
  then show ?thesis
    using rs_world_write [of k c x "QAR_UART_DATA QAR_UART0_BASE" 0 "ucast b"]
    by (simp add: rs_access_def rs_sending_def)
qed

lemma status_idle_bit: "(x AND QAR_UART_STATUS_IDLE \<noteq> 0) = bit x 6"
  unfolding QAR_UART_STATUS_IDLE_def by (subst and_bit_mask) simp_all

definition rs_waiting :: "nat \<Rightarrow> u32 \<Rightarrow> world \<Rightarrow> bool" where
  "rs_waiting k c w \<longleftrightarrow> rs_world k c w \<and> k < 8 \<and> c \<noteq> 0"

lemma rs_waiting_tick:
  assumes w: "rs_waiting k c w" and acc: "soc_port UART0 acc = Idle \<or> soc_port UART0 acc = Rd (Suc 0)"
  shows "rs_waiting k c (soc_tick acc w)"
    and "idle_left (uart_at (soc_tick acc w)) \<le> idle_left (uart_at w)"
    and "\<not> bit (ua_status (uart_at w)) 6 \<Longrightarrow> idle_left (uart_at (soc_tick acc w)) < idle_left (uart_at w)"
proof -
  have look: "rs_access (soc_port UART0 acc)" using acc by auto
  have t: "rs_world k c (soc_tick acc w)"
    using rs_world_tick [OF _ look, of k c w] w acc by (auto simp: rs_waiting_def)
  then show "rs_waiting k c (soc_tick acc w)" using w by (simp add: rs_waiting_def)
  have at: "uart_at (soc_tick acc w) = ua_step True (soc_port UART0 acc) (uart_at w)"
    using w by (simp add: uart_at_tick rs_waiting_def rs_world_def)
  have "rs_ok k (uart_at w)" "ua_idle_cfg (uart_at w) \<noteq> 0" "ua_idle_cfg (uart_at (soc_tick acc w)) = ua_idle_cfg (uart_at w)"
    using w t by (auto simp: rs_waiting_def rs_world_def)
  note left = idle_left_step [OF this [unfolded at] look]
  show "idle_left (uart_at (soc_tick acc w)) \<le> idle_left (uart_at w)"
    and "\<not> bit (ua_status (uart_at w)) 6 \<Longrightarrow> idle_left (uart_at (soc_tick acc w)) < idle_left (uart_at w)"
    unfolding at by (fact left)+
qed

interpretation rs_idle: soc_flag "rs_waiting k c" "QAR_UART_STATUS QAR_UART0_BASE"
  "\<lambda>v. v AND QAR_UART_STATUS_IDLE \<noteq> 0" "\<lambda>w. idle_left (uart_at w)" for k c
proof
  fix w assume w: "rs_waiting k c w"
  show "rs_waiting k c (soc_tick NoAccess w)" "idle_left (uart_at (soc_tick NoAccess w)) \<le> idle_left (uart_at w)"
    using rs_waiting_tick [OF w, of NoAccess] by simp_all
  let ?t = "soc_tick (Load (QAR_UART_STATUS QAR_UART0_BASE)) w"
  assume "\<not> soc_load (QAR_UART_STATUS QAR_UART0_BASE) w AND QAR_UART_STATUS_IDLE \<noteq> 0"
  then have "\<not> bit (ua_status (uart_at w)) 6" unfolding status_idle_bit uart_load_status .
  then show "rs_waiting k c ?t" "idle_left (uart_at ?t) < idle_left (uart_at w)"
    using rs_waiting_tick [OF w, of "Load (QAR_UART_STATUS QAR_UART0_BASE)"] by (simp_all add: uart_status_port)
qed

text \<open>A raised idle event stays until it is acknowledged.\<close>

definition rs_raised :: "nat \<Rightarrow> u32 \<Rightarrow> world \<Rightarrow> bool" where
  "rs_raised k c w \<longleftrightarrow> rs_waiting k c w \<and> idle_left (uart_at w) = 0"

lemma rs_raised_status: "rs_raised k c w = (rs_waiting k c w \<and> bit (ua_status (uart_at w)) 6)"
  by (auto simp: rs_raised_def idle_left_def)

lemma rs_raised_tick:
  "rs_raised k c w \<Longrightarrow> soc_port UART0 acc = Idle \<or> soc_port UART0 acc = Rd (Suc 0) \<Longrightarrow> rs_raised k c (soc_tick acc w)"
  using rs_waiting_tick(1,2) [of k c w acc] by (simp add: rs_raised_def)

interpretation rs_event: soc_invariant "rs_raised k c" for k c
  by unfold_locales (simp add: rs_raised_tick)

lemma rs_seen_raised:
  assumes "rs_waiting k c w" and "soc_load (QAR_UART_STATUS QAR_UART0_BASE) w AND QAR_UART_STATUS_IDLE \<noteq> 0"
  shows "rs_raised k c (soc_tick (Load (QAR_UART_STATUS QAR_UART0_BASE)) w)"
proof -
  have "bit (ua_status (uart_at w)) 6" using assms(2) by (simp only: uart_load_status status_idle_bit)
  then show ?thesis using assms(1) by (intro rs_raised_tick) (simp_all add: rs_raised_status uart_status_port)
qed

definition idle_acknowledged :: "world \<Rightarrow> bool" where
  "idle_acknowledged w \<longleftrightarrow> \<not> bit (ua_status (uart_at w)) 6 \<and> \<not> ua_idle_irq_pending (uart_at w) \<and>
     ua_idle_counter (uart_at w) = 0"

lemma rs_acknowledge:
  assumes "rs_raised k c w"
  shows "idle_acknowledged (qar_uart_clear_irq soc_bus QAR_UART0_BASE QAR_UART_IRQ_IDLE w)"
proof -
  let ?x = "soc_wait w"
  have x: "rs_raised k c ?x" using assms by (rule rs_event.keeps_wait)
  then have s: "ua_plain (uart_at ?x)" "\<not> ua_rx_busy (uart_at ?x)" "ua_rx_sync2 (uart_at ?x)" "ua_idle_irq_pending (uart_at ?x)"
    by (simp_all add: rs_raised_status rs_waiting_def rs_world_def rs_ok_def)
  have "bit QAR_UART_IRQ_IDLE 3" by (simp add: reg_bits)
  note view = idle_view_acknowledge [OF s(1) this s(2-4)]
  have "uart_at (qar_uart_clear_irq soc_bus QAR_UART0_BASE QAR_UART_IRQ_IDLE w) =
      ua_step (pin_uart_rx (w_pins ?x (w_now ?x))) (Wr 5 QAR_UART_IRQ_IDLE) (uart_at ?x)"
    using uart_at_tick [of "Store (QAR_UART_IRQ_STATUS QAR_UART0_BASE) QAR_UART_IRQ_IDLE" ?x]
    by (simp add: uart_at_def qar_uart_clear_irq_def mmio_write_soc soc_port_hit(1) [of _ UART0 5])
  then show ?thesis using view by (simp add: idle_acknowledged_def idle_view_def)
qed

subsection \<open>The program returns from its waits\<close>

text \<open>The set-up leaves the queue empty and the idle length configured.\<close>

lemma rs485_setup_world:
  assumes "rs_world 0 c w"
  shows "rs_world 0 1000 (rs485_setup soc_bus w)"
proof -
  note wr = rs_world_write [where k = 0, simplified]
  let ?w1 = "mmio_write soc_bus (QAR_UART_BAUD QAR_UART0_BASE) 500 w"
  let ?w2 = "mmio_write soc_bus (QAR_UART_CTRL QAR_UART0_BASE) (QAR_UART_CTRL_ENABLE OR QAR_UART_CTRL_ENABLE) ?w1"
  let ?w3 = "mmio_write soc_bus (QAR_UART_IRQ_EN QAR_UART0_BASE) 0 ?w2"
  let ?w4 = "mmio_write soc_bus (QAR_UART_IDLE_CFG QAR_UART0_BASE) 0 ?w3"
  let ?w5 = "mmio_write soc_bus (QAR_UART_LIN_CTRL QAR_UART0_BASE) 13 ?w4"
  let ?w6 = "mmio_write soc_bus (QAR_UART_RS485 QAR_UART0_BASE) 1 ?w5"
  let ?w7 = "snd (mmio_read soc_bus (QAR_UART_IRQ_EN QAR_UART0_BASE) ?w6)"
  let ?v = "fst (mmio_read soc_bus (QAR_UART_IRQ_EN QAR_UART0_BASE) ?w6) OR QAR_UART_IRQ_IDLE"
  let ?w8 = "mmio_write soc_bus (QAR_UART_IRQ_EN QAR_UART0_BASE) ?v ?w7"
  have "rs_world 0 c ?w1" using wr [OF assms, of _ 3] by (simp add: rs_access_def)
  then have "rs_world 0 c ?w2" using wr [of c ?w1 _ 2] by (simp add: rs_access_def reg_bits)
  then have "rs_world 0 c ?w3" using wr [of c ?w2 _ 4] by (simp add: rs_access_def)
  then have "rs_world 0 0 ?w4" using wr [of c ?w3 _ 7] by (simp add: rs_access_def)
  then have "rs_world 0 0 ?w5" using wr [of 0 ?w4 _ 8] by (simp add: rs_access_def)
  then have "rs_world 0 0 ?w6" using wr [of 0 ?w5 _ 6] by (simp add: rs_access_def)
  then have "rs_world 0 0 ?w7" using rs_world_read [of 0 0 ?w6 _ 4] by simp
  then have "rs_world 0 0 ?w8" using wr [of 0 ?w7 _ 4] by (simp add: rs_access_def)
  then have "rs_world 0 1000 (mmio_write soc_bus (QAR_UART_IDLE_CFG QAR_UART0_BASE) 1000 ?w8)"
    using wr [of 0 ?w8 _ 7] by (simp add: rs_access_def)
  then show ?thesis
    by (simp add: rs485_setup_def hal_defs mmio_update_def split_beta Let_def)
qed

lemma rs485_waits:
  assumes "rs_world 0 c w"
  shows "\<exists>w'. rs485_main soc_bus w = Some w' \<and> idle_acknowledged w'"
proof -
  let ?a = "QAR_UART_STATUS QAR_UART0_BASE"
  obtain w1 where w1: "rs485_send_byte soc_bus 0x33 (rs485_setup soc_bus w) = Some w1" "rs_world 1 1000 w1"
    using rs_send_byte [OF rs485_setup_world [OF assms], of "0x33"] by auto
  obtain w2 where w2: "rs485_send_byte soc_bus 0x55 w1 = Some w2" "rs_world 2 1000 w2"
    using rs_send_byte [OF w1(2), of "0x55"] by (auto simp: numeral_2_eq_2)
  have "rs_waiting 2 1000 w2" using w2(2) by (simp add: rs_waiting_def)
  then obtain x where x: "rs_waiting 2 1000 x" "soc_load ?a x AND QAR_UART_STATUS_IDLE \<noteq> 0"
    and poll: "poll_until (mmio_read soc_bus ?a) (\<lambda>v. v AND QAR_UART_STATUS_IDLE \<noteq> 0) w2 =
      Some (soc_load ?a x, soc_tick (Load ?a) x)"
    using rs_idle.poll_sees by blast
  have "qar_uart_status soc_bus QAR_UART0_BASE = mmio_read soc_bus ?a"
    by (rule ext) (simp add: qar_uart_status_def)
  then have "rs485_main soc_bus w = Some (qar_uart_clear_irq soc_bus QAR_UART0_BASE QAR_UART_IRQ_IDLE (soc_tick (Load ?a) x))"
    by (simp add: rs485_main_def w1(1) w2(1) poll)
  moreover have "idle_acknowledged (qar_uart_clear_irq soc_bus QAR_UART0_BASE QAR_UART_IRQ_IDLE (soc_tick (Load ?a) x))"
    using rs_seen_raised [OF x] by (rule rs_acknowledge)
  ultimately show ?thesis by blast
qed

text \<open>
  C34. On a bus that stays idle \<open>uart_rs485.c\<close> comes through all its waits: with the receive pin high at
  all times, the receiver at rest and the transmit queue empty, both bytes find room in the transmit queue, the idle event of the
  length configured last ends the final loop, and the program leaves the event acknowledged and the
  idle counter restarted, whatever the divider, the gaps between the accesses and the state of the
  transmitter.
\<close>

theorem rs485_demo_returns:
  assumes "\<forall>t. pin_uart_rx (w_pins w t)" and "rs_ok 0 (uart_at w)"
  shows "\<exists>w'. rs485_main soc_bus w = Some w' \<and> idle_acknowledged w'"
  using rs485_waits [of "ua_idle_cfg (uart_at w)" w] assms by (simp add: rs_world_def)

definition world_rx_high :: world where
  "world_rx_high = world_at_reset\<lparr>w_pins := \<lambda>_. no_pins\<lparr>pin_uart_rx := True\<rparr>\<rparr>"

lemma rs485_demo_returns_witness:
  "\<exists>w'. rs485_main soc_bus world_rx_high = Some w' \<and> idle_acknowledged w'"
proof (rule rs485_demo_returns)
  show "rs_ok 0 (uart_at world_rx_high)"
    by (simp add: world_rx_high_def uart_at_def soc_at_reset_def soc_reset_def rs_ok_def ua_plain_def ua_reset_def
        ua_lin_mode_def tx_count_def ring_count_def)
qed (simp add: world_rx_high_def)

end
