(* ===== verification/I2c_Driver.thy ===== *)
theory I2c_Driver
  imports Soc_Rules
begin

text \<open>
  The I2C master behind its driver: how long a command takes, what a byte looks like on the two
  lines, and that a missing acknowledge is never noticed.
\<close>

definition i2c_at :: "world \<Rightarrow> i2c" where
  "i2c_at w = soc_i2c (w_soc w)"

lemma i2c_at_tick:
  "i2c_at (soc_tick acc w) = i2c_step (pin_i2c_sda (w_pins w (w_now w))) (soc_port I2C0 acc) (i2c_at w)"
  by (simp add: i2c_at_def)

subsection \<open>Duration of a command\<close>

text \<open>Cycles per half period of the clock, half periods left in the state, and cycles left.\<close>

definition i2c_half :: "i2c \<Rightarrow> nat" where
  "i2c_half s = unat (ucast (i2c_clkdiv s) :: u16) + 1"

definition i2c_halves :: "i2c \<Rightarrow> nat" where
  "i2c_halves s =
     (case i2c_st s of
        STATE_IDLE \<Rightarrow> 0
      | STATE_START \<Rightarrow> 1
      | STATE_WRITE \<Rightarrow> 2 * unat (i2c_bit_index s) + (if i2c_scl_state s then 2 else 3)
      | STATE_ACK \<Rightarrow> (if i2c_scl_state s then 2 else 1)
      | STATE_READ \<Rightarrow> 2 * unat (i2c_bit_index s) + (if i2c_scl_state s then 1 else 2)
      | STATE_STOP \<Rightarrow> 1)"

definition i2c_left :: "i2c \<Rightarrow> nat" where
  "i2c_left s = i2c_halves s * i2c_half s - min (unat (i2c_div_counter s)) (i2c_half s - 1)"

lemma i2c_left_idle [simp]: "i2c_st s = STATE_IDLE \<Longrightarrow> i2c_left s = 0"
  by (simp add: i2c_left_def i2c_halves_def)

lemma i2c_halves_pos: "i2c_st s \<noteq> STATE_IDLE \<Longrightarrow> 0 < i2c_halves s"
  by (cases "i2c_st s") (simp_all add: i2c_halves_def)

text \<open>A register access other than a store to CLKDIV leaves the machine alone.\<close>

definition i2c_machine :: "i2c \<Rightarrow> i2c_state \<times> bool \<times> bool \<times> bool \<times> 4 word \<times> u8 \<times> u16 \<times> u32" where
  "i2c_machine s = (i2c_st s, i2c_scl_state s, i2c_sda_state s, i2c_sda_drive s, i2c_bit_index s,
                    i2c_shift_reg s, i2c_div_counter s, i2c_clkdiv s)"

lemma i2c_machine_access:
  "k \<noteq> 1 \<Longrightarrow> i2c_machine (i2c_write k v s) = i2c_machine s" "i2c_machine (i2c_rx_pop k s s) = i2c_machine s"
  by (simp_all add: i2c_machine_def i2c_write_def i2c_status_write_def i2c_irq_status_write_def
      i2c_txdata_write_def i2c_rx_pop_def Let_def)

definition i2c_access :: "busop \<Rightarrow> i2c \<Rightarrow> i2c" where
  "i2c_access bop s = (case bop of Wr k v \<Rightarrow> i2c_write k v s | Rd k \<Rightarrow> i2c_rx_pop k s s | Idle \<Rightarrow> s)"

lemma i2c_access_simps [simp]:
  "i2c_access Idle s = s" "i2c_access (Wr k v) s = i2c_write k v s" "i2c_access (Rd k) s = i2c_rx_pop k s s"
  by (simp_all add: i2c_access_def)

lemma i2c_access_machine:
  assumes "\<And>v. bop \<noteq> Wr 1 v"
  shows "i2c_machine (i2c_access bop s) = i2c_machine s"
proof (cases bop)
  case (Wr k v)
  then have "k \<noteq> 1" using assms by blast
  then show ?thesis using Wr by (simp add: i2c_machine_access(1))
qed (simp_all add: i2c_machine_access(2))

lemma i2c_step_access: "i2c_step sda bop s =
    (case i2c_st s of
       STATE_IDLE \<Rightarrow> i2c_idle_state s (i2c_access bop s) | STATE_START \<Rightarrow> i2c_start_state s (i2c_access bop s)
     | STATE_WRITE \<Rightarrow> i2c_write_state s (i2c_access bop s) | STATE_ACK \<Rightarrow> i2c_ack_state sda s (i2c_access bop s)
     | STATE_READ \<Rightarrow> i2c_read_state sda s (i2c_access bop s) | STATE_STOP \<Rightarrow> i2c_stop_state s (i2c_access bop s))"
  unfolding i2c_step_def i2c_access_def Let_def ..

lemmas i2c_state_defs = i2c_idle_state_def i2c_start_state_def i2c_write_state_def i2c_ack_state_def
  i2c_read_state_def i2c_stop_state_def

text \<open>What a cycle away from IDLE does: wait, or finish a half period.\<close>

lemma i2c_tick_iff: "i2c_tick s \<longleftrightarrow> i2c_half s - 1 \<le> unat (i2c_div_counter s)"
  by (simp add: i2c_tick_def i2c_half_def word_le_nat_alt)

lemma i2c_wait_step:
  assumes "\<And>v. bop \<noteq> Wr 1 v" and "i2c_st s \<noteq> STATE_IDLE" and "\<not> i2c_tick s"
  shows "i2c_machine (i2c_step sda bop s) = i2c_machine (s\<lparr>i2c_div_counter := i2c_div_counter s + 1\<rparr>)"
  using i2c_access_machine [of bop s] assms
  by (cases "i2c_st s") (simp_all add: i2c_step_access i2c_state_defs i2c_machine_def)

lemma i2c_half_step:
  assumes "\<And>v. bop \<noteq> Wr 1 v" and "i2c_st s \<noteq> STATE_IDLE" and "i2c_tick s"
  shows "i2c_div_counter (i2c_step sda bop s) = 0" and "i2c_clkdiv (i2c_step sda bop s) = i2c_clkdiv s"
    and "i2c_halves (i2c_step sda bop s) = i2c_halves s - 1"
proof -
  have m: "i2c_machine (i2c_access bop s) = i2c_machine s" by (rule i2c_access_machine) (rule assms)
  have d: "unat (i2c_bit_index s - 1) = unat (i2c_bit_index s) - 1" "0 < unat (i2c_bit_index s)"
    if "i2c_bit_index s \<noteq> 0"
    using that by (simp_all add: unat_minus_one unat_gt_0)
  show "i2c_div_counter (i2c_step sda bop s) = 0" "i2c_clkdiv (i2c_step sda bop s) = i2c_clkdiv s"
    using m assms by (cases "i2c_st s"; simp add: i2c_step_access i2c_state_defs i2c_machine_def Let_def)+
  show "i2c_halves (i2c_step sda bop s) = i2c_halves s - 1"
  proof (cases "i2c_bit_index s = 0")
    case True
    then show ?thesis
      using m assms
      by (cases "i2c_st s") (simp_all add: i2c_step_access i2c_state_defs i2c_machine_def i2c_halves_def Let_def)
  next
    case False
    then show ?thesis
      using m assms d [OF False]
      by (cases "i2c_st s") (auto simp: i2c_step_access i2c_state_defs i2c_machine_def i2c_halves_def Let_def)
  qed
qed

lemma i2c_left_step:
  assumes bop: "\<And>v. bop \<noteq> Wr 1 v" and busy: "i2c_st s \<noteq> STATE_IDLE"
  shows "i2c_left (i2c_step sda bop s) < i2c_left s"
proof -
  let ?t = "i2c_step sda bop s" and ?p = "i2c_half s"
  have p: "0 < ?p" by (simp add: i2c_half_def)
  have "?p \<le> i2c_halves s * ?p" using i2c_halves_pos [OF busy] by simp
  then show ?thesis
  proof (cases "i2c_tick s")
    case True
    note h = i2c_half_step [OF bop busy True, of sda]
    have "i2c_halves s * ?p = (i2c_halves s - 1) * ?p + ?p"
      using i2c_halves_pos [OF busy] by (cases "i2c_halves s") simp_all
    moreover have "i2c_half ?t = ?p" by (simp add: i2c_half_def h)
    ultimately show ?thesis using p by (simp add: i2c_left_def h)
  next
    case False
    note w = i2c_wait_step [OF bop busy False, of sda]
    then have eqs: "i2c_st ?t = i2c_st s" "i2c_scl_state ?t = i2c_scl_state s" "i2c_bit_index ?t = i2c_bit_index s"
      "i2c_clkdiv ?t = i2c_clkdiv s" "i2c_div_counter ?t = i2c_div_counter s + 1"
      by (simp_all add: i2c_machine_def)
    have same: "i2c_half ?t = ?p" "i2c_halves ?t = i2c_halves s" "i2c_div_counter ?t = i2c_div_counter s + 1"
      by (simp_all only: i2c_half_def i2c_halves_def eqs)
    have lt: "unat (i2c_div_counter s) < ?p - 1" using False by (simp add: i2c_tick_iff)
    then have "unat (i2c_div_counter s) < unat (ucast (i2c_clkdiv s) :: u16)" by (simp add: i2c_half_def)
    then have "unat (i2c_div_counter s + 1) = unat (i2c_div_counter s) + 1" by (rule unat_inc)
    then have "i2c_left ?t = i2c_halves s * ?p - Suc (unat (i2c_div_counter s))"
      "i2c_left s = i2c_halves s * ?p - unat (i2c_div_counter s)"
      using lt by (simp_all add: i2c_left_def same)
    then show ?thesis using lt \<open>?p \<le> i2c_halves s * ?p\<close> by linarith
  qed
qed

subsection \<open>A byte on the lines\<close>

text \<open>
  The machine \<open>j\<close> cycles after it took byte \<open>b\<close> from the transmit queue: sixteen half periods, two per
  bit from the highest, the clock low and then high, then the half period of the acknowledge, with
  the data line released and the clock low, then IDLE.
\<close>

definition i2c_writing :: "u8 \<Rightarrow> nat \<Rightarrow> i2c \<Rightarrow> bool" where
  "i2c_writing b j s \<longleftrightarrow> (let h = j div i2c_half s in
     (h < 17 \<longrightarrow> unat (i2c_div_counter s) = j mod i2c_half s) \<and>
     (h < 16 \<longrightarrow> i2c_st s = STATE_WRITE \<and> i2c_shift_reg s = b \<and> unat (i2c_bit_index s) = 7 - h div 2 \<and>
        i2c_scl_state s = odd h \<and> i2c_sda_drive s \<and> i2c_sda_state s = bit b (7 - h div 2)) \<and>
     (h = 16 \<longrightarrow> i2c_st s = STATE_ACK \<and> \<not> i2c_scl_state s \<and> \<not> i2c_sda_drive s) \<and>
     (h = 17 \<longrightarrow> i2c_st s = STATE_IDLE))"

lemma i2c_half_pos [simp]: "0 < i2c_half s"
  by (simp add: i2c_half_def)

lemma i2c_writing_wait:
  assumes bop: "\<And>v. bop \<noteq> Wr 1 v" and wr: "i2c_writing b j s" and h: "j div i2c_half s < 17"
    and mid: "Suc j mod i2c_half s \<noteq> 0"
  shows "i2c_writing b (Suc j) (i2c_step sda bop s)"
proof -
  let ?t = "i2c_step sda bop s"
  have div: "Suc j div i2c_half s = j div i2c_half s" "Suc j mod i2c_half s = Suc (j mod i2c_half s)"
    using mid by (simp_all add: div_Suc mod_Suc split: if_splits)
  have c: "unat (i2c_div_counter s) = j mod i2c_half s" using wr h by (simp add: i2c_writing_def Let_def)
  have "Suc (j mod i2c_half s) < i2c_half s" using div(2) mod_less_divisor [of "i2c_half s" "Suc j"] by simp
  then have tick: "\<not> i2c_tick s" by (simp add: i2c_tick_iff c)
  have "i2c_st s \<noteq> STATE_IDLE"
    using wr h by (cases "j div i2c_half s < 16") (auto simp: i2c_writing_def Let_def)
  note w = i2c_wait_step [OF bop this tick, of sda]
  have "unat (i2c_div_counter s) < unat (ucast (i2c_clkdiv s) :: u16)"
    using tick by (simp add: i2c_tick_iff i2c_half_def)
  then have "unat (i2c_div_counter s + 1) = Suc (unat (i2c_div_counter s))" using unat_inc by fastforce
  moreover have "i2c_half ?t = i2c_half s" using w by (simp add: i2c_machine_def i2c_half_def)
  ultimately show ?thesis
    using wr h w c div unfolding i2c_writing_def Let_def by (simp add: i2c_machine_def)
qed

lemma i2c_writing_fall:
  assumes bop: "\<And>v. bop \<noteq> Wr 1 v" and wr: "i2c_writing b j s" and tick: "i2c_tick s"
    and h: "j div i2c_half s < 16" "odd (j div i2c_half s)" and full: "Suc j mod i2c_half s = 0"
    and half: "i2c_half (i2c_step sda bop s) = i2c_half s"
  shows "i2c_writing b (Suc j) (i2c_step sda bop s)"
proof -
  let ?t = "i2c_step sda bop s" and ?h = "j div i2c_half s"
  have div: "Suc j div i2c_half s = Suc ?h" using full by (simp add: div_Suc)
  have m: "i2c_machine (i2c_access bop s) = i2c_machine s" by (rule i2c_access_machine) (rule bop)
  have s: "i2c_st s = STATE_WRITE" "i2c_scl_state s" "Suc ?h div 2 = Suc (?h div 2)"
    "unat (i2c_bit_index s) = 7 - ?h div 2" "i2c_shift_reg s = b"
    using wr h by (auto simp: i2c_writing_def Let_def elim!: oddE)
  show ?thesis
  proof (cases "?h = 15")
    case True
    then have "i2c_bit_index s = 0" using s(4) by (simp add: unat_eq_0)
    then have "i2c_machine ?t = i2c_machine (s\<lparr>i2c_div_counter := 0, i2c_scl_state := False,
        i2c_sda_drive := False, i2c_st := STATE_ACK\<rparr>)"
      using tick m s by (simp add: i2c_step_access i2c_write_state_def Let_def i2c_machine_def)
    then show ?thesis
      using True full unfolding i2c_writing_def Let_def half div by (simp add: i2c_machine_def)
  next
    case False
    then have lt: "?h div 2 < 7" using h by (auto elim!: oddE)
    then have nz: "i2c_bit_index s \<noteq> 0" using s(4) by auto
    then have idx: "unat (i2c_bit_index s - 1) = 7 - Suc (?h div 2)" using s(4) by (simp add: unat_minus_one)
    have "i2c_machine ?t = i2c_machine (s\<lparr>i2c_div_counter := 0, i2c_scl_state := False,
        i2c_bit_index := i2c_bit_index s - 1, i2c_sda_state := bit b (7 - Suc (?h div 2))\<rparr>)"
      using tick m s nz idx by (simp add: i2c_step_access i2c_write_state_def Let_def i2c_machine_def)
    then show ?thesis
      using wr h False full idx s unfolding i2c_writing_def Let_def half div by (simp add: i2c_machine_def)
  qed
qed

lemma i2c_writing_half:
  assumes bop: "\<And>v. bop \<noteq> Wr 1 v" and wr: "i2c_writing b j s" and h: "j div i2c_half s < 17"
    and full: "Suc j mod i2c_half s = 0"
  shows "i2c_writing b (Suc j) (i2c_step sda bop s)"
proof -
  let ?t = "i2c_step sda bop s" and ?h = "j div i2c_half s"
  have div: "Suc j div i2c_half s = Suc ?h" using full by (simp add: div_Suc)
  have "j mod i2c_half s = i2c_half s - 1" using full by (simp add: mod_Suc split: if_splits)
  moreover have "unat (i2c_div_counter s) = j mod i2c_half s" using wr h by (simp add: i2c_writing_def Let_def)
  ultimately have tick: "i2c_tick s" by (simp add: i2c_tick_iff)
  have m: "i2c_machine (i2c_access bop s) = i2c_machine s" by (rule i2c_access_machine) (rule bop)
  have busy: "i2c_st s \<noteq> STATE_IDLE"
    using wr h by (cases "?h < 16") (auto simp: i2c_writing_def Let_def)
  note step = i2c_half_step [OF bop busy tick, of sda]
  have half: "i2c_half ?t = i2c_half s" by (simp add: i2c_half_def step)
  consider "?h = 16" | "?h < 16" "even ?h" | "?h < 16" "odd ?h" using h by linarith
  then show ?thesis
  proof cases
    case 1
    then have "i2c_st s = STATE_ACK" "\<not> i2c_scl_state s" using wr by (simp_all add: i2c_writing_def Let_def)
    then have "i2c_st ?t = STATE_IDLE" using tick by (simp add: i2c_step_access i2c_ack_state_def Let_def)
    then show ?thesis using 1 by (simp add: i2c_writing_def half div)
  next
    case 2
    then have s: "i2c_st s = STATE_WRITE" "\<not> i2c_scl_state s" "Suc ?h < 16" "Suc ?h div 2 = ?h div 2"
      using wr by (auto simp: i2c_writing_def Let_def elim!: evenE)
    then have "i2c_machine ?t = i2c_machine (s\<lparr>i2c_div_counter := 0, i2c_scl_state := True\<rparr>)"
      using tick m by (simp add: i2c_step_access i2c_write_state_def Let_def i2c_machine_def)
    then show ?thesis
      using wr s 2 full unfolding i2c_writing_def Let_def half div by (simp add: i2c_machine_def)
  next
    case 3
    then show ?thesis by (intro i2c_writing_fall bop wr tick full half)
  qed
qed

text \<open>The byte at the head of the transmit queue.\<close>

definition i2c_next_byte :: "i2c \<Rightarrow> u8" where
  "i2c_next_byte s = i2c_tx_fifo s (unat (i2c_tx_tail s) mod 4)"

lemma i2c_write_starts:
  assumes "bit (i2c_ctrl s) 0" and "i2c_st s = STATE_IDLE" and "\<not> bit (i2c_cmd_reg s) 0"
    and "bit (i2c_cmd_reg s) 2" and "\<not> i2c_tx_empty s"
  shows "i2c_writing (i2c_next_byte s) 0 (i2c_step sda Idle s)"
  using assms
  by (simp add: i2c_step_access i2c_idle_state_def Let_def i2c_writing_def i2c_next_byte_def)

lemma i2c_half_step_same:
  assumes "\<And>v. bop \<noteq> Wr 1 v"
  shows "i2c_half (i2c_step sda bop s) = i2c_half s"
proof -
  have "i2c_clkdiv (i2c_access bop s) = i2c_clkdiv s"
    using i2c_access_machine [OF assms] by (simp add: i2c_machine_def)
  then show ?thesis
    by (cases "i2c_st s") (simp_all add: i2c_half_def i2c_step_access i2c_state_defs Let_def)
qed

lemma i2c_half_idle [simp]: "i2c_half (i2c_at (soc_idle n w)) = i2c_half (i2c_at w)"
  by (induction n) (simp_all add: soc_idle_Suc i2c_at_tick i2c_half_step_same)

lemma i2c_writing_run:
  assumes start: "i2c_writing b 0 (i2c_at (soc_idle (Suc 0) w))"
    and j: "j \<le> 17 * i2c_half (i2c_at w)"
  shows "i2c_writing b j (i2c_at (soc_idle (Suc j) w))"
  using j
proof (induction j)
  case (Suc j)
  let ?s = "i2c_at (soc_idle (Suc j) w)"
  have lt: "j div i2c_half ?s < 17" using Suc.prems by (simp add: div_less_iff_less_mult)
  have "i2c_writing b (Suc j) (i2c_step (pin_i2c_sda (w_pins w (w_now w + Suc j))) Idle ?s)"
    using i2c_writing_wait [of Idle, OF _ _ lt] i2c_writing_half [of Idle, OF _ _ lt] Suc
    by (cases "Suc j mod i2c_half ?s = 0") simp_all
  then show ?case by (simp add: soc_idle_Suc [of "Suc j"] i2c_at_tick)
qed (rule start)

subsection \<open>Acknowledge\<close>

inductive i2c_reach :: "i2c \<Rightarrow> bool" where
  i2c_reach_reset: "i2c_reach (i2c_reset s)"
| i2c_reach_step: "i2c_reach s \<Longrightarrow> i2c_reach (i2c_step sda bop s)"

text \<open>The acknowledge is entered with the clock low, and left at its first tick.\<close>

definition i2c_ack_low :: "i2c \<Rightarrow> bool" where
  "i2c_ack_low s \<longleftrightarrow> (i2c_st s = STATE_ACK \<longrightarrow> \<not> i2c_scl_state s) \<and> \<not> i2c_ack_error s \<and>
     \<not> bit (i2c_irq_status s) 5"

lemma i2c_ack_low_access:
  assumes "i2c_ack_low s"
  shows "\<not> i2c_ack_error (i2c_access bop s)" "\<not> bit (i2c_irq_status (i2c_access bop s)) 5"
    "i2c_st (i2c_access bop s) = i2c_st s" "i2c_scl_state (i2c_access bop s) = i2c_scl_state s"
  using assms
  by (cases bop; simp add: i2c_ack_low_def i2c_write_def i2c_status_write_def i2c_irq_status_write_def
      i2c_txdata_write_def i2c_rx_pop_def Let_def bit_simps)+

lemma i2c_ack_low_step:
  assumes "i2c_ack_low s"
  shows "i2c_ack_low (i2c_step sda bop s)"
  using i2c_ack_low_access [OF assms, of bop] assms
  by (cases "i2c_st s") (simp_all add: i2c_step_access i2c_state_defs i2c_ack_low_def Let_def bit_simps)

lemma i2c_reach_ack_low: "i2c_reach s \<Longrightarrow> i2c_ack_low s"
  by (induction rule: i2c_reach.induct) (simp_all add: i2c_ack_low_step, simp add: i2c_ack_low_def i2c_reset_def)

lemma i2c_reach_idle: "i2c_reach s \<Longrightarrow> i2c_reach ((i2c_step sda Idle ^^ n) s)"
  by (induction n) (simp_all add: i2c_reach_step)

subsection \<open>Properties\<close>

text \<open>
  C36. A WRITE command puts the next byte of the transmit queue on the lines, highest bit first: in
  half period \<open>h\<close> the clock is low for even and high for odd \<open>h\<close> and the data line carries bit
  \<open>7 - h div 2\<close> throughout, so it never changes while the clock is high; then it is released for one
  half period with the clock low and the machine is back in IDLE, 17 half periods after it started.
\<close>

theorem i2c_byte_on_lines:
  assumes "bit (i2c_ctrl (i2c_at w)) 0" and "i2c_st (i2c_at w) = STATE_IDLE"
    and "\<not> bit (i2c_cmd_reg (i2c_at w)) 0" and "bit (i2c_cmd_reg (i2c_at w)) 2"
    and "\<not> i2c_tx_empty (i2c_at w)" and "j \<le> 17 * i2c_half (i2c_at w)"
  shows "(let h = j div i2c_half (i2c_at w); t = i2c_at (soc_idle (Suc j) w) in
    (h < 16 \<longrightarrow> i2c_st t = STATE_WRITE \<and> i2c_scl_state t = odd h \<and> i2c_sda_drive t \<and>
       i2c_sda_state t = bit (i2c_next_byte (i2c_at w)) (7 - h div 2)) \<and>
    (h = 16 \<longrightarrow> i2c_st t = STATE_ACK \<and> \<not> i2c_scl_state t \<and> \<not> i2c_sda_drive t) \<and>
    (h = 17 \<longrightarrow> i2c_st t = STATE_IDLE))"
proof -
  have "i2c_writing (i2c_next_byte (i2c_at w)) 0 (i2c_at (soc_idle (Suc 0) w))"
    using i2c_write_starts [OF assms(1-5)] by (simp add: soc_idle_Suc i2c_at_tick)
  from i2c_writing_run [OF this assms(6)] show ?thesis
    unfolding i2c_writing_def Let_def i2c_half_idle by blast
qed

definition world_i2c :: "i2c \<Rightarrow> world" where
  "world_i2c u = world_at_reset\<lparr>w_soc := soc_at_reset\<lparr>soc_i2c := u\<rparr>\<rparr>"

lemma i2c_at_world_i2c [simp]: "i2c_at (world_i2c u) = u"
  by (simp add: i2c_at_def world_i2c_def)

definition i2c_ready_to_write :: i2c where
  "i2c_ready_to_write = (i2c_reset i2c_zero)\<lparr>i2c_clkdiv := 9, i2c_cmd_reg := 4, i2c_tx_head := 1,
     i2c_tx_fifo := (\<lambda>_. 0xA0)\<rparr>"

lemma i2c_byte_on_lines_witness:
  "i2c_sda_state (i2c_at (soc_idle 16 (world_i2c i2c_ready_to_write))) \<and>
   i2c_scl_state (i2c_at (soc_idle 16 (world_i2c i2c_ready_to_write)))"
proof -
  let ?s = i2c_ready_to_write
  have "i2c_half ?s = 10" by (simp add: i2c_ready_to_write_def i2c_half_def)
  moreover have "bit (i2c_ctrl ?s) 0" "i2c_st ?s = STATE_IDLE" "\<not> bit (i2c_cmd_reg ?s) 0" "bit (i2c_cmd_reg ?s) 2"
    "\<not> i2c_tx_empty ?s" "bit (i2c_next_byte ?s) 7"
    by (simp_all add: i2c_ready_to_write_def i2c_reset_def i2c_tx_empty_def i2c_next_byte_def bit_numeral_rec)
  ultimately show ?thesis using i2c_byte_on_lines [of "world_i2c ?s" 15] by (simp add: Let_def)
qed

text \<open>
  C37. No acknowledge error is ever reported: in no reachable state of the block, whatever the slave
  does on the data line, is the error flag or its interrupt bit set, because the acknowledge state is
  entered with the clock low and left before it samples the line.
\<close>

theorem i2c_nack_never_detected:
  assumes "i2c_reach s"
  shows "\<not> i2c_ack_error s \<and> \<not> bit (i2c_irq_status s) 5"
  using i2c_reach_ack_low [OF assms] by (simp add: i2c_ack_low_def)

text \<open>No slave on the bus: the data line stays high during the acknowledge.\<close>

lemma i2c_nack_never_detected_witness:
  "\<not> i2c_ack_error ((i2c_step True Idle ^^ 2000) (i2c_step True (Wr 7 4) (i2c_step True (Wr 5 0xA0)
      (i2c_reset i2c_zero))))"
  by (rule i2c_nack_never_detected [THEN conjunct1]) (intro i2c_reach_idle i2c_reach_step i2c_reach_reset)

end
