(* ===== verification/Fw_I2c.thy ===== *)
theory Fw_I2c
  imports I2c_Driver "HOL-Library.Monad_Syntax"
begin

text \<open>
  The firmware \<^verbatim>\<open>devkit/examples/c/i2c_loopback.c\<close> on the chip: \<open>None\<close> when one of its waits never
  ends, otherwise the status word it reads before its final endless loop.
\<close>

definition QAR_I2C_CTRL_LOOPBACK_ACK :: u32 where
  [reg_bits]: "QAR_I2C_CTRL_LOOPBACK_ACK = push_bit 4 1"

definition i2c_wait_cmd_clear :: "'w bus \<Rightarrow> u32 \<Rightarrow> 'w \<Rightarrow> 'w option" where
  "i2c_wait_cmd_clear B cmd_mask w =
     map_option snd (poll_until (mmio_read B (QAR_I2C_CMD QAR_I2C0_BASE)) (\<lambda>v. v AND cmd_mask = 0) w)"

definition i2c_wait_idle :: "'w bus \<Rightarrow> 'w \<Rightarrow> 'w option" where
  "i2c_wait_idle B w =
     map_option snd (poll_until (mmio_read B (QAR_I2C_STATUS QAR_I2C0_BASE))
                       (\<lambda>v. v AND QAR_I2C_STATUS_BUSY = 0) w)"

definition i2c_main :: "'w bus \<Rightarrow> 'w \<Rightarrow> (u32 \<times> 'w) option" where
  "i2c_main B w = do {
     let w = qar_i2c_init B QAR_I2C0_BASE 10 w;
     let w = mmio_write B (QAR_I2C_CTRL QAR_I2C0_BASE) (QAR_I2C_CTRL_ENABLE OR QAR_I2C_CTRL_LOOPBACK_ACK) w;
     let w = qar_i2c_stage_tx B QAR_I2C0_BASE 0xA0 w;
     let w = qar_i2c_stage_tx B QAR_I2C0_BASE 0x55 w;
     let w = qar_i2c_issue_cmd B QAR_I2C0_BASE QAR_I2C_CMD_START w;
     w \<leftarrow> i2c_wait_cmd_clear B QAR_I2C_CMD_START w;
     let w = qar_i2c_issue_cmd B QAR_I2C0_BASE QAR_I2C_CMD_WRITE w;
     w \<leftarrow> i2c_wait_cmd_clear B QAR_I2C_CMD_WRITE w;
     let w = qar_i2c_issue_cmd B QAR_I2C0_BASE QAR_I2C_CMD_WRITE w;
     w \<leftarrow> i2c_wait_cmd_clear B QAR_I2C_CMD_WRITE w;
     let w = qar_i2c_issue_cmd B QAR_I2C0_BASE QAR_I2C_CMD_STOP w;
     w \<leftarrow> i2c_wait_cmd_clear B QAR_I2C_CMD_STOP w;
     w \<leftarrow> i2c_wait_idle B w;
     Some (mmio_read B (QAR_I2C_STATUS QAR_I2C0_BASE) w)
   }"

subsection \<open>The block while it works for the program\<close>

text \<open>\<open>n\<close> bytes staged, nothing received, no fault.\<close>

definition i2c_staged :: "3 word \<Rightarrow> i2c \<Rightarrow> bool" where
  "i2c_staged n s \<longleftrightarrow> i2c_tx_head s - i2c_tx_tail s = n \<and> i2c_rx_empty s \<and> \<not> i2c_ack_error s \<and>
     \<not> i2c_rx_overflow s \<and> \<not> i2c_tx_overflow s"

definition i2c_loop_ack :: "i2c \<Rightarrow> bool" where
  "i2c_loop_ack s \<longleftrightarrow> bit (i2c_ctrl s) 0 \<and> bit (i2c_ctrl s) 4"

text \<open>A command the machine accepts when it gets to IDLE, and what is staged afterwards.\<close>

definition i2c_accepts :: "u32 \<Rightarrow> 3 word \<Rightarrow> bool" where
  "i2c_accepts m n \<longleftrightarrow> m \<in> {1, 2, 4} \<and> (m = 4 \<longrightarrow> n \<noteq> 0)"

definition i2c_after :: "u32 \<Rightarrow> 3 word \<Rightarrow> 3 word" where
  "i2c_after m n = (if m = 4 then n - 1 else n)"

definition i2c_job :: "u32 \<Rightarrow> 3 word \<Rightarrow> i2c \<Rightarrow> bool" where
  "i2c_job m n s \<longleftrightarrow> i2c_loop_ack s \<and> i2c_st s \<noteq> STATE_READ \<and>
     (i2c_cmd_reg s = m \<and> i2c_accepts m n \<and> i2c_staged n s \<or> i2c_cmd_reg s = 0 \<and> i2c_staged (i2c_after m n) s)"

text \<open>An access that reads the block, other than its receive queue, or none.\<close>

definition i2c_looks :: "busop \<Rightarrow> bool" where
  "i2c_looks bop \<longleftrightarrow> (case bop of Idle \<Rightarrow> True | Rd k \<Rightarrow> k \<noteq> 6 | Wr k v \<Rightarrow> False)"

lemma i2c_looks_access: "i2c_looks bop \<Longrightarrow> i2c_access bop s = s"
  by (cases bop) (simp_all add: i2c_looks_def i2c_rx_pop_def)

lemma i2c_looks_simps [simp]: "i2c_looks Idle" "k \<noteq> 6 \<Longrightarrow> i2c_looks (Rd k)"
  by (simp_all add: i2c_looks_def)

lemma i2c_staged_busy:
  assumes "i2c_looks bop" and "i2c_staged n s" and "i2c_loop_ack s" and "i2c_st s \<noteq> STATE_IDLE"
    and "i2c_st s \<noteq> STATE_READ"
  shows "i2c_staged n (i2c_step sda bop s) \<and> i2c_loop_ack (i2c_step sda bop s) \<and>
         i2c_cmd_reg (i2c_step sda bop s) = i2c_cmd_reg s \<and> i2c_st (i2c_step sda bop s) \<noteq> STATE_READ"
  using assms i2c_looks_access [OF assms(1)]
  by (cases "i2c_st s") (auto simp: i2c_step_access i2c_state_defs i2c_staged_def i2c_rx_empty_def i2c_loop_ack_def Let_def)

lemma i2c_idle_none:
  assumes "i2c_looks bop" and "i2c_st s = STATE_IDLE" and "i2c_cmd_reg s = 0"
  shows "i2c_st (i2c_step sda bop s) = STATE_IDLE \<and> i2c_cmd_reg (i2c_step sda bop s) = 0 \<and>
         i2c_staged n (i2c_step sda bop s) = i2c_staged n s \<and> i2c_ctrl (i2c_step sda bop s) = i2c_ctrl s"
  using assms(2,3) i2c_looks_access [OF assms(1)]
  by (simp add: i2c_step_access i2c_idle_state_def i2c_staged_def i2c_rx_empty_def Let_def)

lemma i2c_idle_takes:
  assumes "i2c_looks bop" and "i2c_st s = STATE_IDLE" and "i2c_accepts (i2c_cmd_reg s) n" and "i2c_loop_ack s"
    and "i2c_staged n s"
  shows "i2c_cmd_reg (i2c_step sda bop s) = 0 \<and> i2c_staged (i2c_after (i2c_cmd_reg s) n) (i2c_step sda bop s) \<and>
         i2c_ctrl (i2c_step sda bop s) = i2c_ctrl s \<and> i2c_st (i2c_step sda bop s) \<noteq> STATE_READ"
proof -
  have clear: "assign_bit 0 False (1 :: u32) = 0" "assign_bit 1 False (2 :: u32) = 0" "assign_bit 2 False (4 :: u32) = 0"
    by code_simp+
  show ?thesis
    using assms(2-5) i2c_looks_access [OF assms(1)] clear
    by (auto simp: i2c_step_access i2c_idle_state_def i2c_accepts_def i2c_after_def i2c_staged_def
        i2c_tx_empty_def i2c_rx_empty_def i2c_loop_ack_def Let_def bit_numeral_rec bit_1_iff algebra_simps)
qed

definition job_left :: "i2c \<Rightarrow> nat" where
  "job_left s = (if i2c_cmd_reg s = 0 then 0 else Suc (i2c_left s))"

lemma i2c_job_step_idle:
  assumes looks: "i2c_looks bop" and job: "i2c_job m n s" and idle: "i2c_st s = STATE_IDLE"
  shows "i2c_job m n (i2c_step sda bop s) \<and>
    (i2c_cmd_reg s \<noteq> 0 \<longrightarrow> job_left (i2c_step sda bop s) < job_left s) \<and>
    (i2c_cmd_reg s = 0 \<longrightarrow> i2c_cmd_reg (i2c_step sda bop s) = 0)"
proof (cases "i2c_cmd_reg s = 0")
  case none: True
  then show ?thesis
    using i2c_idle_none [OF looks idle none] job
    by (auto simp: i2c_job_def i2c_loop_ack_def i2c_accepts_def)
next
  case False
  then have "i2c_cmd_reg s = m" "i2c_accepts m n" "i2c_staged n s" "i2c_loop_ack s"
    using job by (auto simp: i2c_job_def)
  with False show ?thesis
    using i2c_idle_takes [OF looks idle, of n sda]
    by (auto simp: i2c_job_def i2c_loop_ack_def job_left_def)
qed

lemma i2c_job_step:
  assumes looks: "i2c_looks bop" and job: "i2c_job m n s"
  shows "i2c_job m n (i2c_step sda bop s)"
    and "i2c_cmd_reg s \<noteq> 0 \<Longrightarrow> job_left (i2c_step sda bop s) < job_left s"
    and "i2c_cmd_reg s = 0 \<Longrightarrow> i2c_cmd_reg (i2c_step sda bop s) = 0"
proof -
  have bop: "\<And>v. bop \<noteq> Wr 1 v" using looks by (auto simp: i2c_looks_def)
  have all: "i2c_job m n (i2c_step sda bop s) \<and>
      (i2c_cmd_reg s \<noteq> 0 \<longrightarrow> job_left (i2c_step sda bop s) < job_left s) \<and>
      (i2c_cmd_reg s = 0 \<longrightarrow> i2c_cmd_reg (i2c_step sda bop s) = 0)"
  proof (cases "i2c_st s = STATE_IDLE")
    case True
    then show ?thesis by (rule i2c_job_step_idle [OF looks job])
  next
    case False
    have s: "i2c_loop_ack s" "i2c_st s \<noteq> STATE_READ" using job by (simp_all add: i2c_job_def)
    note left = i2c_left_step [OF bop False, of sda]
    note busy = i2c_staged_busy [OF looks _ s(1) False s(2), of _ sda]
    from job consider "i2c_cmd_reg s = m" "i2c_accepts m n" "i2c_staged n s"
      | "i2c_cmd_reg s = 0" "i2c_staged (i2c_after m n) s"
      by (auto simp: i2c_job_def)
    then show ?thesis
    proof cases
      case 1
      then show ?thesis using busy [OF 1(3)] left by (simp add: i2c_job_def job_left_def)
    next
      case 2
      then show ?thesis using busy [OF 2(2)] by (simp add: i2c_job_def)
    qed
  qed
  then show "i2c_job m n (i2c_step sda bop s)"
    and "i2c_cmd_reg s \<noteq> 0 \<Longrightarrow> job_left (i2c_step sda bop s) < job_left s"
    and "i2c_cmd_reg s = 0 \<Longrightarrow> i2c_cmd_reg (i2c_step sda bop s) = 0"
    by blast+
qed

subsection \<open>The waits\<close>

definition job_at :: "u32 \<Rightarrow> 3 word \<Rightarrow> world \<Rightarrow> bool" where
  "job_at m n w \<longleftrightarrow> i2c_job m n (i2c_at w)"

lemma i2c_cmd_port: "soc_port I2C0 (Load (QAR_I2C_CMD QAR_I2C0_BASE)) = Rd 7"
  by (simp add: soc_port_hit(2) [of _ I2C0 7])

lemma i2c_status_port: "soc_port I2C0 (Load (QAR_I2C_STATUS QAR_I2C0_BASE)) = Rd 2"
  by (simp add: soc_port_hit(2) [of _ I2C0 2])

lemma i2c_load_cmd: "soc_load (QAR_I2C_CMD QAR_I2C0_BASE) w = i2c_cmd_reg (i2c_at w)"
  by (simp add: soc_load_dev dev_rdata_def i2c_rdata_def i2c_at_def)

lemma i2c_load_status: "soc_load (QAR_I2C_STATUS QAR_I2C0_BASE) w = i2c_status_value (i2c_at w)"
  by (simp add: soc_load_dev dev_rdata_def i2c_rdata_def i2c_at_def)

lemma job_at_look:
  assumes "i2c_looks (soc_port I2C0 acc)" and "job_at m n w"
  shows "job_at m n (soc_tick acc w)"
  using i2c_job_step(1) [OF assms(1)] assms(2) by (simp add: job_at_def i2c_at_tick)

lemma job_pending: "i2c_job m n s \<Longrightarrow> i2c_cmd_reg s AND m = 0 \<longleftrightarrow> i2c_cmd_reg s = 0"
  by (auto simp: i2c_job_def i2c_accepts_def)

interpretation i2c_cmd_poll: soc_flag "job_at m n" "QAR_I2C_CMD QAR_I2C0_BASE" "\<lambda>v. v AND m = 0"
  "\<lambda>w. job_left (i2c_at w)" for m n
proof
  fix w assume w: "job_at m n w"
  show "job_at m n (soc_tick NoAccess w)" using w by (simp add: job_at_look)
  show "job_left (i2c_at (soc_tick NoAccess w)) \<le> job_left (i2c_at w)"
    using i2c_job_step(2,3) [of Idle m n "i2c_at w" "pin_i2c_sda (w_pins w (w_now w))"] w
    by (cases "i2c_cmd_reg (i2c_at w) = 0") (auto simp: job_at_def i2c_at_tick job_left_def)
  let ?t = "soc_tick (Load (QAR_I2C_CMD QAR_I2C0_BASE)) w"
  show "job_at m n ?t" using w by (simp add: job_at_look i2c_cmd_port)
  assume "\<not> soc_load (QAR_I2C_CMD QAR_I2C0_BASE) w AND m = 0"
  then have "i2c_cmd_reg (i2c_at w) \<noteq> 0" using w by (simp add: i2c_load_cmd job_at_def job_pending)
  then show "job_left (i2c_at ?t) < job_left (i2c_at w)"
    using i2c_job_step(2) [of "Rd 7"] w by (simp add: job_at_def i2c_at_tick i2c_cmd_port)
qed

text \<open>A job that is done is the job of the command 0.\<close>

lemma job_done: "i2c_job m n s \<Longrightarrow> i2c_cmd_reg s = 0 \<Longrightarrow> i2c_job 0 (i2c_after m n) s"
  by (auto simp: i2c_job_def i2c_after_def i2c_accepts_def)

lemma wait_cmd_clear_returns:
  assumes "job_at m n w"
  shows "\<exists>w'. i2c_wait_cmd_clear soc_bus m w = Some w' \<and> job_at 0 (i2c_after m n) w'"
proof -
  let ?a = "QAR_I2C_CMD QAR_I2C0_BASE"
  obtain x where x: "job_at m n x" "soc_load ?a x AND m = 0"
    and poll: "poll_until (mmio_read soc_bus ?a) (\<lambda>v. v AND m = 0) w = Some (soc_load ?a x, soc_tick (Load ?a) x)"
    using i2c_cmd_poll.poll_sees [OF assms] by blast
  then have "i2c_cmd_reg (i2c_at x) = 0" by (simp add: i2c_load_cmd job_at_def job_pending)
  then have "job_at 0 (i2c_after m n) x" using x(1) job_done by (simp add: job_at_def)
  then have "job_at 0 (i2c_after m n) (soc_tick (Load ?a) x)" by (simp add: job_at_look i2c_cmd_port)
  then show ?thesis by (simp add: i2c_wait_cmd_clear_def poll)
qed

lemma job_issue:
  assumes "job_at 0 n w" and "i2c_accepts m n"
  shows "job_at m n (qar_i2c_issue_cmd soc_bus QAR_I2C0_BASE m w)"
proof -
  let ?s = "i2c_at (soc_wait w)" and ?sda = "pin_i2c_sda (w_pins w (w_now (soc_wait w)))"
  have "i2c_at (qar_i2c_issue_cmd soc_bus QAR_I2C0_BASE m w) = i2c_step ?sda (Wr 7 m) ?s"
    by (simp add: qar_i2c_issue_cmd_def i2c_at_def mmio_write_soc soc_port_hit(1) [of _ I2C0 7])
  moreover have "i2c_job 0 n ?s" using i2c_cmd_poll.keeps_wait [OF assms(1)] by (simp add: job_at_def)
  then have s: "i2c_loop_ack ?s" "i2c_st ?s \<noteq> STATE_READ" "i2c_cmd_reg ?s = 0" "i2c_staged n ?s"
    by (auto simp: i2c_job_def i2c_after_def)
  have "i2c_job m n (i2c_step ?sda (Wr 7 m) ?s)"
    using s assms(2)
    by (cases "i2c_st ?s") (auto simp: i2c_job_def i2c_step_access i2c_write_def i2c_state_defs i2c_staged_def
        i2c_rx_empty_def i2c_loop_ack_def Let_def)
  ultimately show ?thesis by (simp add: job_at_def)
qed

lemma i2c_busy_bit: "(i2c_status_value s AND QAR_I2C_STATUS_BUSY = 0) = (i2c_st s = STATE_IDLE)"
proof -
  have "(x AND QAR_I2C_STATUS_BUSY = 0) = (\<not> bit x 0)" for x
    unfolding QAR_I2C_STATUS_BUSY_def by (rule and_bit_mask) simp
  then show ?thesis by (simp add: i2c_status_value_def bit_or_iff)
qed

interpretation i2c_idle_poll: soc_flag "job_at 0 n" "QAR_I2C_STATUS QAR_I2C0_BASE"
  "\<lambda>v. v AND QAR_I2C_STATUS_BUSY = 0" "\<lambda>w. i2c_left (i2c_at w)" for n
proof
  fix w assume w: "job_at 0 n w"
  show "i2c_left (i2c_at (soc_tick NoAccess w)) \<le> i2c_left (i2c_at w)"
  proof (cases "i2c_st (i2c_at w) = STATE_IDLE")
    case True
    then show ?thesis
      using i2c_idle_none [of Idle "i2c_at w"] w by (auto simp: i2c_at_tick job_at_def i2c_job_def)
  next
    case False
    then show ?thesis using i2c_left_step [of Idle "i2c_at w"] by (simp add: i2c_at_tick less_imp_le)
  qed
  let ?t = "soc_tick (Load (QAR_I2C_STATUS QAR_I2C0_BASE)) w"
  show "job_at 0 n ?t" using w by (simp add: job_at_look i2c_status_port)
  assume "\<not> soc_load (QAR_I2C_STATUS QAR_I2C0_BASE) w AND QAR_I2C_STATUS_BUSY = 0"
  then have "i2c_st (i2c_at w) \<noteq> STATE_IDLE" by (simp add: i2c_load_status i2c_busy_bit)
  then show "i2c_left (i2c_at ?t) < i2c_left (i2c_at w)"
    using i2c_left_step [of "Rd 2" "i2c_at w"] by (simp add: i2c_at_tick i2c_status_port)
qed

lemma wait_idle_returns:
  assumes "job_at 0 n w"
  shows "\<exists>w'. i2c_wait_idle soc_bus w = Some w' \<and> job_at 0 n w' \<and> i2c_st (i2c_at w') = STATE_IDLE"
proof -
  let ?a = "QAR_I2C_STATUS QAR_I2C0_BASE"
  obtain x where x: "job_at 0 n x" "soc_load ?a x AND QAR_I2C_STATUS_BUSY = 0"
    and poll: "poll_until (mmio_read soc_bus ?a) (\<lambda>v. v AND QAR_I2C_STATUS_BUSY = 0) w =
      Some (soc_load ?a x, soc_tick (Load ?a) x)"
    using i2c_idle_poll.poll_sees [OF assms] by blast
  have idle: "i2c_st (i2c_at x) = STATE_IDLE" using x(2) by (simp add: i2c_load_status i2c_busy_bit)
  moreover have "i2c_cmd_reg (i2c_at x) = 0" using x(1) by (auto simp: job_at_def i2c_job_def)
  ultimately have "i2c_st (i2c_at (soc_tick (Load ?a) x)) = STATE_IDLE"
    using i2c_idle_none [of "Rd 2" "i2c_at x"] by (simp add: i2c_at_tick i2c_status_port)
  moreover have "job_at 0 n (soc_tick (Load ?a) x)" using x(1) by (simp add: job_at_look i2c_status_port)
  ultimately show ?thesis by (simp add: i2c_wait_idle_def poll)
qed

subsection \<open>The start of the program\<close>

text \<open>Nothing going on and \<open>n\<close> bytes staged.\<close>

definition i2c_quiet :: "3 word \<Rightarrow> i2c \<Rightarrow> bool" where
  "i2c_quiet n s \<longleftrightarrow> i2c_st s = STATE_IDLE \<and> i2c_cmd_reg s = 0 \<and> i2c_staged n s"

lemma i2c_quiet_idle:
  "i2c_quiet n s \<Longrightarrow> i2c_quiet n (i2c_step sda Idle s) \<and> i2c_ctrl (i2c_step sda Idle s) = i2c_ctrl s"
  using i2c_idle_none [of Idle s sda n] by (simp add: i2c_quiet_def)

lemma i2c_quiet_wait:
  assumes "i2c_quiet n (i2c_at w)"
  shows "i2c_quiet n (i2c_at (soc_wait w)) \<and> i2c_ctrl (i2c_at (soc_wait w)) = i2c_ctrl (i2c_at w)"
  by (rule soc_wait_world [where I = "\<lambda>x. i2c_quiet n (i2c_at x) \<and> i2c_ctrl (i2c_at x) = i2c_ctrl (i2c_at w)"])
    (use i2c_quiet_idle assms in \<open>auto simp: i2c_at_tick\<close>)

text \<open>Stores to CTRL and CLKDIV, and of a byte to send.\<close>

lemma i2c_quiet_write:
  assumes "i2c_quiet n (i2c_at w)" and a: "soc_decode a = Some (I2C0, k)" and k: "k < 2 \<or> k = 5 \<and> n \<noteq> 4"
  shows "i2c_quiet (if k = 5 then n + 1 else n) (i2c_at (mmio_write soc_bus a v w)) \<and>
         i2c_ctrl (i2c_at (mmio_write soc_bus a v w)) = (if k = 0 then v else i2c_ctrl (i2c_at w))"
proof -
  let ?s = "i2c_at (soc_wait w)" and ?sda = "pin_i2c_sda (w_pins w (w_now (soc_wait w)))"
  have at: "i2c_at (mmio_write soc_bus a v w) = i2c_step ?sda (Wr k v) ?s"
    by (simp add: i2c_at_def mmio_write_soc soc_port_hit(1) [OF a])
  note q = i2c_quiet_wait [OF assms(1)]
  have room: "\<not> i2c_tx_full ?s" if "n \<noteq> 4"
  proof
    assume "i2c_tx_full ?s"
    then have "ring_count (i2c_tx_head ?s) (i2c_tx_tail ?s) = 4"
      by (intro wide_diff_count) (simp_all add: i2c_tx_full_def)
    then have "unat n = unat (4 :: 3 word)" using q by (simp add: ring_count_def i2c_quiet_def i2c_staged_def)
    then show False using that by (simp add: word_eq_iff_unsigned [where 'a = nat])
  qed
  show ?thesis
    unfolding at using q k room
    by (auto simp: i2c_quiet_def i2c_step_access i2c_idle_state_def i2c_write_def i2c_txdata_write_def
        i2c_staged_def i2c_rx_empty_def Let_def algebra_simps)
qed

lemma i2c_setup_done:
  assumes "i2c_quiet 0 (i2c_at w)"
  shows "job_at 0 2 (qar_i2c_stage_tx soc_bus QAR_I2C0_BASE 0x55 (qar_i2c_stage_tx soc_bus QAR_I2C0_BASE 0xA0
      (mmio_write soc_bus (QAR_I2C_CTRL QAR_I2C0_BASE) (QAR_I2C_CTRL_ENABLE OR QAR_I2C_CTRL_LOOPBACK_ACK)
        (qar_i2c_init soc_bus QAR_I2C0_BASE 10 w))))"
proof -
  let ?ctrl = "QAR_I2C_CTRL QAR_I2C0_BASE" and ?tx = "QAR_I2C_TXDATA QAR_I2C0_BASE"
  let ?en = "QAR_I2C_CTRL_ENABLE OR QAR_I2C_CTRL_LOOPBACK_ACK"
  have ctrl: "i2c_quiet n (i2c_at (mmio_write soc_bus ?ctrl v w)) \<and> i2c_ctrl (i2c_at (mmio_write soc_bus ?ctrl v w)) = v"
    if "i2c_quiet n (i2c_at w)" for n v w
    using i2c_quiet_write [OF that, of ?ctrl 0 v] by simp
  have stage: "i2c_quiet (n + 1) (i2c_at (qar_i2c_stage_tx soc_bus QAR_I2C0_BASE b w)) \<and>
      i2c_ctrl (i2c_at (qar_i2c_stage_tx soc_bus QAR_I2C0_BASE b w)) = i2c_ctrl (i2c_at w)"
    if "i2c_quiet n (i2c_at w)" "n \<noteq> 4" for n b w
    using i2c_quiet_write [OF that(1), of ?tx 5] that(2) by (simp add: qar_i2c_stage_tx_def)
  define v where "v = mmio_write soc_bus ?ctrl ?en (qar_i2c_init soc_bus QAR_I2C0_BASE 10 w)"
  have "i2c_quiet 0 (i2c_at (mmio_write soc_bus (QAR_I2C_CLKDIV QAR_I2C0_BASE) 10 w))"
    using i2c_quiet_write [OF assms, of "QAR_I2C_CLKDIV QAR_I2C0_BASE" 1 10] by simp
  then have "i2c_quiet 0 (i2c_at v) \<and> i2c_ctrl (i2c_at v) = ?en"
    unfolding v_def qar_i2c_init_def Let_def using ctrl by blast
  moreover define u where "u = qar_i2c_stage_tx soc_bus QAR_I2C0_BASE 0xA0 v"
  ultimately have u: "i2c_quiet 1 (i2c_at u)" "i2c_ctrl (i2c_at u) = ?en"
    using stage [of 0 v "0xA0"] by simp_all
  have "i2c_quiet 2 (i2c_at (qar_i2c_stage_tx soc_bus QAR_I2C0_BASE 0x55 u)) \<and>
      i2c_ctrl (i2c_at (qar_i2c_stage_tx soc_bus QAR_I2C0_BASE 0x55 u)) = ?en"
    using stage [OF u(1), of "0x55"] u(2) by simp
  then show ?thesis
    by (simp add: u_def v_def job_at_def i2c_job_def i2c_loop_ack_def i2c_quiet_def i2c_after_def reg_bits
        bit_numeral_rec)
qed

subsection \<open>Properties\<close>

text \<open>
  C38. The I2C demo returns from every one of its waits on an idle block with empty queues, however
  far its accesses are apart, and the status it reads at the end is the empty transmit queue alone:
  both staged bytes have been taken, nothing is busy and no fault is flagged.
\<close>

theorem i2c_demo_returns:
  assumes "i2c_st (i2c_at w) = STATE_IDLE" and "i2c_cmd_reg (i2c_at w) = 0"
    and "i2c_tx_empty (i2c_at w)" and "i2c_rx_empty (i2c_at w)" and "\<not> i2c_ack_error (i2c_at w)"
    and "\<not> i2c_rx_overflow (i2c_at w)" and "\<not> i2c_tx_overflow (i2c_at w)"
  shows "\<exists>w'. i2c_main soc_bus w = Some (QAR_I2C_STATUS_TX_EMPTY, w')"
proof -
  have "i2c_quiet 0 (i2c_at w)"
    using assms by (simp add: i2c_quiet_def i2c_staged_def i2c_tx_empty_def)
  note start = i2c_setup_done [OF this]
  have cmds: "QAR_I2C_CMD_START = 1" "QAR_I2C_CMD_WRITE = 4" "QAR_I2C_CMD_STOP = 2" by (simp_all add: reg_bits)
  have accepts: "i2c_accepts 1 n" "i2c_accepts 2 n" "i2c_accepts 4 2" "i2c_accepts 4 1" for n
    by (simp_all add: i2c_accepts_def)
  have left: "i2c_after 1 n = n" "i2c_after 2 n = n" "i2c_after 4 2 = 1" "i2c_after 4 1 = 0" for n
    by (simp_all add: i2c_after_def)
  obtain w1 where 1: "i2c_wait_cmd_clear soc_bus 1 (qar_i2c_issue_cmd soc_bus QAR_I2C0_BASE 1
      (qar_i2c_stage_tx soc_bus QAR_I2C0_BASE 0x55 (qar_i2c_stage_tx soc_bus QAR_I2C0_BASE 0xA0
      (mmio_write soc_bus (QAR_I2C_CTRL QAR_I2C0_BASE) (QAR_I2C_CTRL_ENABLE OR QAR_I2C_CTRL_LOOPBACK_ACK)
        (qar_i2c_init soc_bus QAR_I2C0_BASE 10 w))))) = Some w1" "job_at 0 2 w1"
    using wait_cmd_clear_returns [OF job_issue [OF start accepts(1)]] unfolding left by blast
  obtain w2 where 2: "i2c_wait_cmd_clear soc_bus 4 (qar_i2c_issue_cmd soc_bus QAR_I2C0_BASE 4 w1) = Some w2"
    "job_at 0 1 w2"
    using wait_cmd_clear_returns [OF job_issue [OF 1(2) accepts(3)]] unfolding left by blast
  obtain w3 where 3: "i2c_wait_cmd_clear soc_bus 4 (qar_i2c_issue_cmd soc_bus QAR_I2C0_BASE 4 w2) = Some w3"
    "job_at 0 0 w3"
    using wait_cmd_clear_returns [OF job_issue [OF 2(2) accepts(4)]] unfolding left by blast
  obtain w4 where 4: "i2c_wait_cmd_clear soc_bus 2 (qar_i2c_issue_cmd soc_bus QAR_I2C0_BASE 2 w3) = Some w4"
    "job_at 0 0 w4"
    using wait_cmd_clear_returns [OF job_issue [OF 3(2) accepts(2)]] unfolding left by blast
  obtain w5 where 5: "i2c_wait_idle soc_bus w4 = Some w5" "job_at 0 0 w5" "i2c_st (i2c_at w5) = STATE_IDLE"
    using wait_idle_returns [OF 4(2)] by blast
  then have "i2c_quiet 0 (i2c_at w5)" by (auto simp: job_at_def i2c_job_def i2c_quiet_def i2c_after_def)
  then have "i2c_quiet 0 (i2c_at (soc_wait w5))" using i2c_quiet_wait by blast
  then have "i2c_status_value (i2c_at (soc_wait w5)) = QAR_I2C_STATUS_TX_EMPTY"
    by (simp add: i2c_quiet_def i2c_staged_def i2c_status_value_def i2c_rx_empty_def i2c_tx_empty_def
        bit_at_def reg_bits)
  then show ?thesis
    using 1(1) 2(1) 3(1) 4(1) 5(1) by (simp add: i2c_main_def cmds Let_def mmio_read_soc i2c_load_status)
qed

lemma i2c_demo_returns_witness: "\<exists>w'. i2c_main soc_bus world_at_reset = Some (QAR_I2C_STATUS_TX_EMPTY, w')"
  by (rule i2c_demo_returns) (simp_all add: i2c_at_def i2c_reset_def i2c_tx_empty_def i2c_rx_empty_def)

end
