(* ===== verification/C_Lib.thy ===== *)
theory C_Lib
  imports Qar_Prelude
begin

text \<open>
  The part of the C library that the host tools use, on byte strings: a file is the list of its
  bytes, a text is the list of its character codes. Included are the little-endian layout of the
  integers of an ELF file, the conversions \<open>%08x\<close> and \<open>%x\<close>, \<open>strtoul\<close> with base 0, and \<open>fgets\<close>.
\<close>

type_synonym bytes = "u8 list"

definition ascii :: "string \<Rightarrow> bytes" where
  "ascii s = map (\<lambda>c. of_nat (of_char c)) s"

subsection \<open>Little-endian integers\<close>

definition byte_of :: "u32 \<Rightarrow> nat \<Rightarrow> u8" where
  "byte_of v i = ucast (drop_bit (8 * i) v)"

definition le32 :: "u32 \<Rightarrow> bytes" where
  "le32 v = [byte_of v 0, byte_of v 1, byte_of v 2, byte_of v 3]"

definition word_of :: "u8 \<Rightarrow> u8 \<Rightarrow> u8 \<Rightarrow> u8 \<Rightarrow> u32" where
  "word_of b0 b1 b2 b3 =
     ucast b0 OR push_bit 8 (ucast b1) OR push_bit 16 (ucast b2) OR push_bit 24 (ucast b3)"

definition get32 :: "bytes \<Rightarrow> nat \<Rightarrow> u32" where
  "get32 bs i = word_of (bs ! i) (bs ! (i + 1)) (bs ! (i + 2)) (bs ! (i + 3))"

definition get16 :: "bytes \<Rightarrow> nat \<Rightarrow> u16" where
  "get16 bs i = ucast (bs ! i) OR push_bit 8 (ucast (bs ! (i + 1)))"

lemma bit_u8_ge [simp]: "8 \<le> n \<Longrightarrow> \<not> bit (w :: u8) n"
  using bit_imp_le_length [of w n] by auto

lemma word_of_bytes [simp]:
  "word_of (byte_of v 0) (byte_of v 1) (byte_of v 2) (byte_of v 3) = v"
proof (rule bit_word_eqI)
  fix n assume "n < LENGTH(32)"
  then have n: "n < 32" by simp
  then consider "n < 8" | "8 \<le> n" "n < 16" | "16 \<le> n" "n < 24" | "24 \<le> n" by linarith
  then show "bit (word_of (byte_of v 0) (byte_of v 1) (byte_of v 2) (byte_of v 3)) n = bit v n"
    by cases (use n in \<open>auto simp: word_of_def byte_of_def bit_simps\<close>)
qed

lemma byte_of_word [simp]:
  "byte_of (word_of b0 b1 b2 b3) 0 = b0" "byte_of (word_of b0 b1 b2 b3) (Suc 0) = b1"
  "byte_of (word_of b0 b1 b2 b3) 2 = b2" "byte_of (word_of b0 b1 b2 b3) 3 = b3"
  by (auto intro!: bit_word_eqI simp: byte_of_def word_of_def bit_simps)

lemma length_le32 [simp]: "length (le32 v) = 4"
  by (simp add: le32_def)

text \<open>Words and their bytes.\<close>

fun words_of :: "bytes \<Rightarrow> u32 list" where
  "words_of (b0 # b1 # b2 # b3 # bs) = word_of b0 b1 b2 b3 # words_of bs"
| "words_of _ = []"

definition bytes_of :: "u32 list \<Rightarrow> bytes" where
  "bytes_of ws = concat (map le32 ws)"

lemma words_of_bytes_of [simp]: "words_of (bytes_of ws) = ws"
  by (induction ws) (simp_all add: bytes_of_def le32_def word_of_bytes [simplified])

lemma length_bytes_of [simp]: "length (bytes_of ws) = 4 * length ws"
  by (induction ws) (simp_all add: bytes_of_def)

lemma bytes_of_words_of: "length bs mod 4 = 0 \<Longrightarrow> bytes_of (words_of bs) = bs"
proof (induction bs rule: words_of.induct)
  case (1 b0 b1 b2 b3 bs)
  have "length (b0 # b1 # b2 # b3 # bs) = length bs + 4" by simp
  with "1.prems" have "length bs mod 4 = 0" by (metis mod_add_self2)
  then show ?case using "1.IH" by (simp add: bytes_of_def le32_def)
qed (simp_all add: bytes_of_def)

lemma length_words_of: "length (words_of bs) = length bs div 4"
  by (induction bs rule: words_of.induct) simp_all

lemma nth_words_of:
  "4 * i + 3 < length bs \<Longrightarrow> words_of bs ! i = get32 bs (4 * i)"
proof (induction bs arbitrary: i rule: words_of.induct)
  case (1 b0 b1 b2 b3 bs)
  show ?case
  proof (cases i)
    case 0
    then show ?thesis by (simp add: get32_def numeral_eq_Suc)
  next
    case (Suc j)
    then have "words_of bs ! j = get32 bs (4 * j)" using "1.prems" by (intro "1.IH") simp
    then show ?thesis using Suc by (simp add: get32_def numeral_eq_Suc)
  qed
qed simp_all

subsection \<open>Hexadecimal text\<close>

definition hex_digit :: "nat \<Rightarrow> u8" where
  "hex_digit d = (if d < 10 then of_nat (48 + d) else of_nat (87 + d))"

text \<open>\<open>%08x\<close>: eight digits, which is all a 32-bit value can have.\<close>

definition nibble :: "u32 \<Rightarrow> nat \<Rightarrow> nat" where
  "nibble v i = unat (drop_bit (4 * i) v AND mask 4)"

definition fmt_08x :: "u32 \<Rightarrow> bytes" where
  "fmt_08x v = map (\<lambda>i. hex_digit (nibble v (7 - i))) [0..<8]"

definition digit_value :: "u8 \<Rightarrow> nat option" where
  "digit_value c =
     (if 48 \<le> c \<and> c \<le> 57 then Some (unat c - 48)
      else if 97 \<le> c \<and> c \<le> 102 then Some (unat c - 87)
      else if 65 \<le> c \<and> c \<le> 70 then Some (unat c - 55)
      else None)"

definition is_digit :: "nat \<Rightarrow> u8 \<Rightarrow> bool" where
  "is_digit base c = (case digit_value c of Some d \<Rightarrow> d < base | None \<Rightarrow> False)"

definition digits_value :: "nat \<Rightarrow> bytes \<Rightarrow> nat" where
  "digits_value base cs = foldl (\<lambda>a c. a * base + the (digit_value c)) 0 cs"

definition is_space :: "u8 \<Rightarrow> bool" where
  "is_space c \<longleftrightarrow> c = 32 \<or> (9 \<le> c \<and> c \<le> 13)"

text \<open>An optional sign: whether it is a minus, and the rest.\<close>

fun split_sign :: "bytes \<Rightarrow> bool \<times> bytes" where
  "split_sign (c # cs) = (if c = 45 then (True, cs) else if c = 43 then (False, cs) else (False, c # cs))"
| "split_sign [] = (False, [])"

definition has_0x :: "bytes \<Rightarrow> bool" where
  "has_0x cs \<longleftrightarrow> 2 \<le> length cs \<and> cs ! 0 = 48 \<and> (cs ! 1 = 120 \<or> cs ! 1 = 88)"

text \<open>
  \<open>sscanf(s, "%x", &v)\<close>: no match, a match, or a number that does not fit, for which the C
  standard defines no behaviour.
\<close>

datatype scan = No_Match | Too_Big | Match u32

definition sscanf_x :: "bytes \<Rightarrow> scan" where
  "sscanf_x s =
     (case split_sign (dropWhile is_space s) of (neg, cs) \<Rightarrow>
        let ds = takeWhile (is_digit 16) (if has_0x cs then drop 2 cs else cs);
            n = digits_value 16 ds
        in if ds = [] then No_Match
           else if 2 ^ 32 \<le> n then Too_Big
           else Match (if neg then - of_nat n else of_nat n))"

text \<open>\<open>strtoul(s, NULL, 0)\<close> with a 64-bit \<open>unsigned long\<close>, saturating on overflow.\<close>

definition strtoul_0 :: "bytes \<Rightarrow> nat" where
  "strtoul_0 s =
     (case split_sign (dropWhile is_space s) of (neg, cs) \<Rightarrow>
        let hex = has_0x cs \<and> 3 \<le> length cs \<and> is_digit 16 (cs ! 2);
            base = (if hex then 16 else if cs \<noteq> [] \<and> cs ! 0 = 48 then 8 else 10);
            n = digits_value base (takeWhile (is_digit base) (if hex then drop 2 cs else cs))
        in if 2 ^ 64 \<le> n then 2 ^ 64 - 1 else if neg then (2 ^ 64 - n) mod 2 ^ 64 else n)"

subsection \<open>Lines\<close>

text \<open>\<open>fgets(buf, Suc n, f)\<close>: at most \<open>n\<close> bytes, up to and including a newline.\<close>

fun fgets_split :: "nat \<Rightarrow> bytes \<Rightarrow> bytes \<times> bytes" where
  "fgets_split 0 bs = ([], bs)"
| "fgets_split (Suc n) [] = ([], [])"
| "fgets_split (Suc n) (b # bs) =
     (if b = 10 then ([b], bs) else (case fgets_split n bs of (l, r) \<Rightarrow> (b # l, r)))"

lemma fgets_split_append: "fst (fgets_split n bs) @ snd (fgets_split n bs) = bs"
  by (induction n bs rule: fgets_split.induct) (auto split: prod.splits)

lemma fgets_split_shorter: "bs \<noteq> [] \<Longrightarrow> length (snd (fgets_split (Suc n) bs)) < length bs"
proof (induction "Suc n" bs arbitrary: n rule: fgets_split.induct)
  case (3 n b bs)
  have "length (snd (fgets_split n bs)) \<le> length bs"
    using fgets_split_append [of n bs] by (metis le_add2 length_append)
  then show ?case by (auto split: prod.splits)
qed simp

text \<open>A line that fits is read whole.\<close>

lemma fgets_split_line:
  "10 \<notin> set l \<Longrightarrow> length l < n \<Longrightarrow> fgets_split n (l @ 10 # bs) = (l @ [10], bs)"
proof (induction l arbitrary: n)
  case Nil
  then show ?case by (cases n) auto
next
  case (Cons b l)
  then show ?case by (cases n) auto
qed

text \<open>A line that does not fit is cut, and the rest of it is the next line.\<close>

lemma fgets_split_cut:
  "10 \<notin> set l \<Longrightarrow> length l = n \<Longrightarrow> fgets_split n (l @ bs) = (l, bs)"
  by (induction l arbitrary: n) auto

text \<open>The C string in a buffer that was filled with these bytes, and \<open>*strchr(s, c) = 0\<close>.\<close>

definition cstr :: "bytes \<Rightarrow> bytes" where
  "cstr bs = takeWhile (\<lambda>b. b \<noteq> 0) bs"

definition cut_at :: "u8 \<Rightarrow> bytes \<Rightarrow> bytes" where
  "cut_at c s = takeWhile (\<lambda>b. b \<noteq> c) s"

subsection \<open>Printing then scanning\<close>

lemma nibble_less: "nibble v i < 16"
proof -
  have "drop_bit (4 * i) v AND mask 4 < (2 :: u32) ^ 4"
    by (rule and_mask_less_size [where 'a = 32, unfolded word_size, of 4]) simp
  then show ?thesis by (simp add: nibble_def word_less_nat_alt)
qed

lemma hex_digit_value:
  assumes "d < 16"
  shows "digit_value (hex_digit d) = Some d"
proof -
  have "d \<in> set [0..<16]" using assms by simp
  moreover have "\<forall>d \<in> set [0..<16]. digit_value (hex_digit d) = Some d"
    by (simp add: upt_rec digit_value_def hex_digit_def)
  ultimately show ?thesis by blast
qed

lemma nibble_div: "nibble v i = unat v div 16 ^ i mod 16"
proof -
  have "(2 :: nat) ^ (4 * i) = 16 ^ i" by (simp add: power_mult)
  moreover have "nibble v i = take_bit 4 (drop_bit (4 * i) (unat v))"
    by (simp only: nibble_def take_bit_eq_mask [symmetric] unsigned_take_bit_eq unat_drop_bit_eq)
  ultimately show ?thesis by (simp add: take_bit_eq_mod drop_bit_eq_div)
qed

text \<open>Horner's scheme on the digits of a number in base 16.\<close>

lemma horner_digits:
  "foldl (\<lambda>a i. a * 16 + x div 16 ^ i mod 16) 0 (rev [0..<n]) = (x mod 16 ^ n :: nat)"
proof -
  have "foldl (\<lambda>a i. a * 16 + x div 16 ^ i mod 16) a (rev [0..<n]) = a * 16 ^ n + x mod 16 ^ n" for a
  proof (induction n arbitrary: a)
    case (Suc n)
    have "x mod 16 ^ Suc n = (x div 16 ^ n mod 16) * 16 ^ n + x mod 16 ^ n"
      using mod_mult2_eq [of x "16 ^ n" 16] by (simp only: power_Suc2 mult.commute)
    with Suc show ?case by (simp add: algebra_simps)
  qed simp
  then show ?thesis by simp
qed

lemma fmt_08x_rev: "fmt_08x v = map (\<lambda>i. hex_digit (nibble v i)) (rev [0..<8])"
  by (simp add: fmt_08x_def upt_rec numeral_eq_Suc)

lemma length_fmt_08x [simp]: "length (fmt_08x v) = 8"
  by (simp add: fmt_08x_def)

lemma digits_value_fmt: "digits_value 16 (fmt_08x v) = unat v"
proof -
  have "foldl (\<lambda>a c. a * 16 + the (digit_value c)) b (map (\<lambda>i. hex_digit (nibble v i)) is) =
        foldl (\<lambda>a i. a * 16 + unat v div 16 ^ i mod 16) b is" for b "is"
    by (induction "is" arbitrary: b) (simp_all add: hex_digit_value nibble_less, simp add: nibble_div)
  then have "digits_value 16 (fmt_08x v) = unat v mod 16 ^ 8"
    unfolding digits_value_def fmt_08x_rev by (simp only: horner_digits)
  also have "\<dots> = unat v" using unsigned_less [where 'a = nat, of v] by simp
  finally show ?thesis .
qed

text \<open>A hexadecimal digit is neither blank, sign, comment mark, newline, zero nor the letter x.\<close>

lemma is_digit_hex: "is_digit 16 (hex_digit (nibble v i))"
  by (simp add: is_digit_def hex_digit_value nibble_less)

lemma hex_char_range:
  assumes "is_digit 16 c"
  shows "48 \<le> unat c \<and> unat c \<le> 102 \<and> c \<noteq> 88"
  using assms
  by (auto simp: is_digit_def digit_value_def word_le_nat_alt split: if_splits)

lemma hex_char_not:
  assumes "is_digit 16 c"
  shows "c \<noteq> 0" "c \<noteq> 9" "c \<noteq> 10" "c \<noteq> 32" "c \<noteq> 35" "c \<noteq> 43" "c \<noteq> 45" "c \<noteq> 120" "c \<noteq> 88" "\<not> is_space c"
  using hex_char_range [OF assms] by (auto simp: is_space_def word_le_nat_alt)

lemma fmt_08x_digits: "\<forall>c \<in> set (fmt_08x v). is_digit 16 c"
  by (auto simp: fmt_08x_def is_digit_hex)

lemma sscanf_x_digits:
  assumes ds: "\<forall>c \<in> set ds. is_digit 16 c" "ds \<noteq> []" and fits: "digits_value 16 ds < 2 ^ 32"
    and stop: "rest = [] \<or> \<not> is_digit 16 (hd rest) \<and> hd rest \<noteq> 120 \<and> hd rest \<noteq> 88"
  shows "sscanf_x (ds @ rest) = Match (of_nat (digits_value 16 ds))"
proof -
  obtain d ds' where d: "ds = d # ds'" "is_digit 16 d" using ds by (cases ds) auto
  have sp: "split_sign (dropWhile is_space (ds @ rest)) = (False, ds @ rest)"
    using d hex_char_not [OF d(2)] by simp
  have "\<not> has_0x (ds @ rest)"
  proof (cases ds')
    case Nil
    then show ?thesis using d stop by (cases rest) (auto simp: has_0x_def)
  next
    case (Cons e es)
    then have "is_digit 16 e" using d ds by simp
    then show ?thesis using d Cons hex_char_not(8,9) [of e] by (simp add: has_0x_def)
  qed
  moreover have "takeWhile (is_digit 16) (ds @ rest) = ds"
    using ds stop by (cases rest) (auto simp: takeWhile_append)
  ultimately show ?thesis using fits ds(2) by (simp add: sscanf_x_def sp Let_def)
qed

lemma sscanf_x_fmt:
  assumes "rest = [] \<or> \<not> is_digit 16 (hd rest) \<and> hd rest \<noteq> 120 \<and> hd rest \<noteq> 88"
  shows "sscanf_x (fmt_08x v @ rest) = Match v"
proof -
  have "fmt_08x v \<noteq> []" by (metis length_0_conv length_fmt_08x zero_neq_numeral)
  moreover have "digits_value 16 (fmt_08x v) < 2 ^ 32"
    using unsigned_less [where 'a = nat, of v] by (simp add: digits_value_fmt)
  ultimately show ?thesis
    using sscanf_x_digits [of "fmt_08x v" rest] fmt_08x_digits assms by (simp add: digits_value_fmt)
qed

end
