(* ===== verification/Qhex.thy ===== *)
theory Qhex
  imports C_Lib
begin

text \<open>
  The image inspector \<^verbatim>\<open>devkit/tools/qhex/main.c\<close>: it reads hexadecimal words from a text, one per
  line, reports how many there are and optionally writes them as little-endian bytes. A run maps a
  file system to the exit with the reported figures and the file system afterwards; which
  reallocations, file creations and writes succeed is an argument. A number that \<open>%x\<close> cannot
  represent is the exit \<open>Undefined\<close>.
\<close>

record qhex_env =
  qe_realloc :: "nat \<Rightarrow> bool"
  qe_create :: "bytes \<Rightarrow> bool"
  qe_write :: "nat \<Rightarrow> bool"

datatype qhex_error =
    Q_Usage
  | Q_Bin_needs_path
  | Q_Multiple_inputs
  | Q_Cannot_open bytes
  | Q_Invalid_word nat bytes
  | Q_Out_of_memory
  | Q_Cannot_create bytes
  | Q_Cannot_write bytes
  | Undefined

subsection \<open>The word buffer\<close>

record word_buffer =
  wb_words :: "u32 list"
  wb_capacity :: nat

definition wb_count :: "word_buffer \<Rightarrow> nat" where
  "wb_count b = length (wb_words b)"

definition append_word :: "qhex_env \<Rightarrow> word_buffer \<Rightarrow> u32 \<Rightarrow> word_buffer option" where
  "append_word ev b value =
     (if wb_count b = wb_capacity b
      then (let new_cap = (if wb_capacity b \<noteq> 0 then wb_capacity b * 2 else 64) in
            if qe_realloc ev (new_cap * 4)
            then Some (b\<lparr>wb_capacity := new_cap, wb_words := wb_words b @ [value]\<rparr>)
            else None)
      else Some (b\<lparr>wb_words := wb_words b @ [value]\<rparr>))"

text \<open>The bytes written for one word, and the loop: \<open>i\<close> counts the calls of \<open>fwrite\<close>.\<close>

definition word_bytes :: "u32 \<Rightarrow> bytes" where
  "word_bytes w = [ucast (w AND 0xFF), ucast (drop_bit 8 w AND 0xFF), ucast (drop_bit 16 w AND 0xFF),
                   ucast (drop_bit 24 w AND 0xFF)]"

fun write_words :: "qhex_env \<Rightarrow> nat \<Rightarrow> u32 list \<Rightarrow> bytes \<Rightarrow> bool \<times> bytes" where
  "write_words ev i [] out = (True, out)"
| "write_words ev i (w # ws) out =
     (if qe_write ev i then write_words ev (Suc i) ws (out @ word_bytes w) else (False, out))"

definition write_binary ::
  "qhex_env \<Rightarrow> bytes \<Rightarrow> word_buffer \<Rightarrow> (bytes \<Rightarrow> bytes option) \<Rightarrow> (qhex_error + unit) \<times> (bytes \<Rightarrow> bytes option)" where
  "write_binary ev path b fs =
     (if \<not> qe_create ev path then (Inl (Q_Cannot_create path), fs)
      else (case write_words ev 0 (wb_words b) [] of
              (ok, out) \<Rightarrow> (if ok then Inr () else Inl (Q_Cannot_write path), fs(path \<mapsto> out))))"

subsection \<open>Reading\<close>

text \<open>One filled line buffer: what the body of the reading loop does with it.\<close>

datatype line_result = Skip | Word u32 | Bad bytes | Overflow

definition trim_line :: "bytes \<Rightarrow> bytes" where
  "trim_line s = dropWhile (\<lambda>c. c = 32 \<or> c = 9) s"

definition read_line :: "bytes \<Rightarrow> line_result" where
  "read_line l =
     (let trim = trim_line (cut_at 35 (cstr l)) in
      if trim = [] \<or> hd trim = 10 then Skip
      else (case sscanf_x trim of
              Match v \<Rightarrow> Word v | No_Match \<Rightarrow> Bad trim | Too_Big \<Rightarrow> Overflow))"

record qhex_state =
  q_buf :: word_buffer
  q_nonzero :: nat
  q_line_num :: nat

definition q_start :: qhex_state where
  "q_start = \<lparr>q_buf = \<lparr>wb_words = [], wb_capacity = 0\<rparr>, q_nonzero = 0, q_line_num = 0\<rparr>"

definition read_step :: "qhex_env \<Rightarrow> bytes \<Rightarrow> qhex_state \<Rightarrow> qhex_error + qhex_state" where
  "read_step ev l s =
     (let s = s\<lparr>q_line_num := q_line_num s + 1\<rparr> in
      case read_line l of
        Skip \<Rightarrow> Inr s
      | Bad t \<Rightarrow> Inl (Q_Invalid_word (q_line_num s) t)
      | Overflow \<Rightarrow> Inl Undefined
      | Word v \<Rightarrow>
          (case append_word ev (q_buf s) v of
             None \<Rightarrow> Inl Q_Out_of_memory
           | Some b \<Rightarrow> Inr (s\<lparr>q_buf := b,
                             q_nonzero := (if v \<noteq> 0 then q_nonzero s + 1 else q_nonzero s)\<rparr>)))"

lemma fgets_line_shorter:
  "(l, rest) = fgets_split 255 inp \<Longrightarrow> inp \<noteq> [] \<Longrightarrow> length rest < length inp"
  using fgets_split_shorter [of inp 254] by (cases "fgets_split 255 inp") simp

text \<open>\<open>while (fgets(line, 256, in))\<close>: every call consumes input, so the loop ends.\<close>

function read_loop :: "qhex_env \<Rightarrow> bytes \<Rightarrow> qhex_state \<Rightarrow> qhex_error + qhex_state" where
  "read_loop ev inp s =
     (if inp = [] then Inr s
      else (case fgets_split 255 inp of
              (l, rest) \<Rightarrow>
                (case read_step ev l s of Inl e \<Rightarrow> Inl e | Inr s \<Rightarrow> read_loop ev rest s)))"
  by pat_completeness auto

termination
  by (relation "measure (\<lambda>(ev, inp, s). length inp)") (auto dest: fgets_line_shorter)

declare read_loop.simps [simp del]

subsection \<open>The program\<close>

text \<open>
  The options: output path and input path. The messages of \<open>usage\<close> and of the two special cases
  are the error values.
\<close>

fun qhex_args :: "bytes list \<Rightarrow> bytes option \<Rightarrow> bytes option \<Rightarrow> qhex_error + bytes option \<times> bytes option" where
  "qhex_args [] bin hex = Inr (bin, hex)"
| "qhex_args (a # rest) bin hex =
     (if a = ascii ''--bin''
      then (case rest of [] \<Rightarrow> Inl Q_Bin_needs_path | v # rest \<Rightarrow> qhex_args rest (Some v) hex)
      else if hex \<noteq> None then Inl Q_Multiple_inputs
      else qhex_args rest bin (Some a))"

text \<open>The figures of the report: words, non-zero words, first and last word, bytes written.\<close>

record qhex_report =
  rp_count :: nat
  rp_nonzero :: nat
  rp_ends :: "(u32 \<times> u32) option"
  rp_written :: "nat option"

definition qhex_main ::
  "qhex_env \<Rightarrow> bytes list \<Rightarrow> (bytes \<Rightarrow> bytes option) \<Rightarrow> (qhex_error + qhex_report) \<times> (bytes \<Rightarrow> bytes option)" where
  "qhex_main ev args fs =
     (case qhex_args args None None of
        Inl e \<Rightarrow> (Inl e, fs)
      | Inr (bin, None) \<Rightarrow> (Inl Q_Usage, fs)
      | Inr (bin, Some path) \<Rightarrow>
          (case fs path of
             None \<Rightarrow> (Inl (Q_Cannot_open path), fs)
           | Some txt \<Rightarrow>
               (case read_loop ev txt q_start of
                  Inl e \<Rightarrow> (Inl e, fs)
                | Inr s \<Rightarrow>
                    (let b = q_buf s;
                         rep = \<lparr>rp_count = wb_count b, rp_nonzero = q_nonzero s,
                                rp_ends = (if 0 < wb_count b
                                           then Some (wb_words b ! 0, wb_words b ! (wb_count b - 1))
                                           else None),
                                rp_written = None\<rparr>
                     in case bin of
                          None \<Rightarrow> (Inr rep, fs)
                        | Some out \<Rightarrow>
                            (case write_binary ev out b fs of
                               (Inl e, fs) \<Rightarrow> (Inl e, fs)
                             | (Inr _, fs) \<Rightarrow> (Inr (rep\<lparr>rp_written := Some (wb_count b * 4)\<rparr>), fs))))))"

subsection \<open>The word buffer and the loop\<close>

text \<open>The capacity is never exceeded, and it is zero or 64 doubled some number of times.\<close>

definition wb_ok :: "word_buffer \<Rightarrow> bool" where
  "wb_ok b \<longleftrightarrow> wb_count b \<le> wb_capacity b \<and> (wb_capacity b = 0 \<or> (\<exists>k. wb_capacity b = 64 * 2 ^ k))"

lemma append_word_ok:
  assumes "wb_ok b" and "append_word ev b v = Some b'"
  shows "wb_ok b' \<and> wb_words b' = wb_words b @ [v]"
proof -
  have "64 * 2 ^ k * 2 = 64 * (2 :: nat) ^ Suc k" for k by simp
  then have "\<exists>j. 64 * 2 ^ k * 2 = 64 * (2 :: nat) ^ j" for k by blast
  moreover have "\<exists>j. 64 = 64 * (2 :: nat) ^ j" by (rule exI [of _ 0]) simp
  ultimately show ?thesis
    using assms by (auto simp: append_word_def wb_ok_def wb_count_def Let_def split: if_splits)
qed

lemma append_word_words: "append_word ev b v = Some b' \<Longrightarrow> wb_words b' = wb_words b @ [v]"
  by (auto simp: append_word_def Let_def split: if_splits)

lemma read_loop_Nil [simp]: "read_loop ev [] s = Inr s"
  by (simp add: read_loop.simps)

text \<open>One turn of the loop on a line that fits the buffer.\<close>

lemma read_loop_line:
  "10 \<notin> set l \<Longrightarrow> length l < 255 \<Longrightarrow>
   read_loop ev (l @ 10 # rest) s =
     (case read_step ev (l @ [10]) s of Inl e \<Rightarrow> Inl e | Inr s \<Rightarrow> read_loop ev rest s)"
  by (simp add: read_loop.simps [of ev "l @ 10 # rest"] fgets_split_line)

lemma read_loop_cut:
  "10 \<notin> set l \<Longrightarrow> length l = 255 \<Longrightarrow>
   read_loop ev (l @ rest) s =
     (case read_step ev l s of Inl e \<Rightarrow> Inl e | Inr s \<Rightarrow> read_loop ev rest s)"
  using read_loop.simps [of ev "l @ rest" s] by (auto simp: fgets_split_cut)

end
