(* ===== verification/Elf2qar.thy ===== *)
theory Elf2qar
  imports C_Lib
begin

text \<open>
  The image builder \<^verbatim>\<open>devkit/tools/elf2qar/main.c\<close>: it copies the loadable segments of a 32-bit
  ELF file into an instruction and a data memory image and writes both as hexadecimal text. The
  host is a little-endian machine with a 64-bit \<open>long\<close>, so the headers are read as they lie in the
  file. A run maps a file system to its exit and the file system afterwards; which allocations,
  seeks and file creations succeed is an argument. A \<open>memcpy\<close> outside its buffer is the error
  \<open>Buffer_overflow\<close>.
\<close>

subsection \<open>The environment and the exits\<close>

type_synonym files = "bytes \<Rightarrow> bytes option"

record elf_env =
  ev_alloc :: "nat \<Rightarrow> bool"
  ev_seek :: "nat \<Rightarrow> bool"
  ev_create :: "bytes \<Rightarrow> bool"

datatype elf_error =
    Usage
  | Cannot_open bytes
  | Short_ehdr
  | Not_elf
  | Bad_machine u16
  | Out_of_memory
  | Cannot_seek_phdrs
  | Short_phdr nat
  | Cannot_seek_segment
  | Short_segment
  | Buffer_overflow

subsection \<open>Headers\<close>

record elf32_ehdr =
  e_ident :: bytes
  e_type :: u16
  e_machine :: u16
  e_version :: u32
  e_entry :: u32
  e_phoff :: u32
  e_shoff :: u32
  e_flags :: u32
  e_ehsize :: u16
  e_phentsize :: u16
  e_phnum :: u16
  e_shentsize :: u16
  e_shnum :: u16
  e_shstrndx :: u16

record elf32_phdr =
  p_type :: u32
  p_offset :: u32
  p_vaddr :: u32
  p_paddr :: u32
  p_filesz :: u32
  p_memsz :: u32
  p_flags :: u32
  p_align :: u32

definition read_ehdr :: "bytes \<Rightarrow> elf32_ehdr" where
  "read_ehdr bs = \<lparr>e_ident = take 16 bs, e_type = get16 bs 16, e_machine = get16 bs 18,
     e_version = get32 bs 20, e_entry = get32 bs 24, e_phoff = get32 bs 28, e_shoff = get32 bs 32,
     e_flags = get32 bs 36, e_ehsize = get16 bs 40, e_phentsize = get16 bs 42,
     e_phnum = get16 bs 44, e_shentsize = get16 bs 46, e_shnum = get16 bs 48,
     e_shstrndx = get16 bs 50\<rparr>"

definition read_phdr :: "bytes \<Rightarrow> elf32_phdr" where
  "read_phdr bs = \<lparr>p_type = get32 bs 0, p_offset = get32 bs 4, p_vaddr = get32 bs 8,
     p_paddr = get32 bs 12, p_filesz = get32 bs 16, p_memsz = get32 bs 20, p_flags = get32 bs 24,
     p_align = get32 bs 28\<rparr>"

definition PT_LOAD :: u32 where
  "PT_LOAD = 1"

definition EM_RISCV :: u16 where
  "EM_RISCV = 243"

subsection \<open>Memory images\<close>

record image =
  base_addr :: u32
  size_words :: u32
  addr_mask :: u32
  buffer :: bytes

definition image_init :: "elf_env \<Rightarrow> u32 \<Rightarrow> u32 \<Rightarrow> elf_error + image" where
  "image_init ev base size_w =
     (if ev_alloc ev (unat size_w * 4)
      then Inr \<lparr>base_addr = base, size_words = size_w, addr_mask = size_w * 4 - 1,
                buffer = replicate (unat size_w * 4) 0\<rparr>
      else Inl Out_of_memory)"

text \<open>\<open>memcpy(buf + off, data, length data)\<close> when it stays inside the buffer.\<close>

definition overlay :: "nat \<Rightarrow> bytes \<Rightarrow> bytes \<Rightarrow> bytes" where
  "overlay off data buf = take off buf @ data @ drop (off + length data) buf"

definition image_store :: "image \<Rightarrow> u32 \<Rightarrow> bytes \<Rightarrow> u32 \<Rightarrow> elf_error + image" where
  "image_store img addr data len =
     (if addr < base_addr img \<or> base_addr img + size_words img * 4 < addr + len then Inr img
      else (let offset = addr - base_addr img in
            if unat offset + unat len \<le> length (buffer img)
            then Inr (img\<lparr>buffer := overlay (unat offset) (take (unat len) data) (buffer img)\<rparr>)
            else Inl Buffer_overflow))"

definition image_word :: "image \<Rightarrow> u32 \<Rightarrow> u32" where
  "image_word img word =
     (let offset = word * 4 in
      word_of (buffer img ! unat offset) (buffer img ! unat (offset + 1))
              (buffer img ! unat (offset + 2)) (buffer img ! unat (offset + 3)))"

definition image_text :: "image \<Rightarrow> bytes" where
  "image_text img =
     concat (map (\<lambda>i. fmt_08x (image_word img (of_nat i)) @ [10]) [0..<unat (size_words img)])"

definition image_write_hex ::
  "elf_env \<Rightarrow> image \<Rightarrow> bytes \<Rightarrow> files \<Rightarrow> (elf_error + unit) \<times> files" where
  "image_write_hex ev img path fs =
     (if ev_create ev path then (Inr (), fs(path \<mapsto> image_text img)) else (Inl (Cannot_open path), fs))"

subsection \<open>Command line\<close>

record elf_opts =
  elf_path :: "bytes option"
  program_hex :: bytes
  data_hex :: bytes
  imem_words :: u32
  dmem_words :: u32

definition elf_defaults :: elf_opts where
  "elf_defaults = \<lparr>elf_path = None, program_hex = ascii ''program.hex'', data_hex = ascii ''data.hex'',
     imem_words = 64, dmem_words = 64\<rparr>"

text \<open>\<open>None\<close> is the call of \<open>usage\<close>: an unknown option, or an option without its value.\<close>

fun elf_args :: "bytes list \<Rightarrow> elf_opts \<Rightarrow> elf_opts option" where
  "elf_args [] opts = Some opts"
| "elf_args [a] opts = None"
| "elf_args (a # v # rest) opts =
     (if a = ascii ''--elf'' then elf_args rest (opts\<lparr>elf_path := Some v\<rparr>)
      else if a = ascii ''--program'' then elf_args rest (opts\<lparr>program_hex := v\<rparr>)
      else if a = ascii ''--data'' then elf_args rest (opts\<lparr>data_hex := v\<rparr>)
      else if a = ascii ''--imem'' then elf_args rest (opts\<lparr>imem_words := of_nat (strtoul_0 v)\<rparr>)
      else if a = ascii ''--dmem'' then elf_args rest (opts\<lparr>dmem_words := of_nat (strtoul_0 v)\<rparr>)
      else None)"

subsection \<open>Loading\<close>

definition elf_store_segment ::
  "elf32_phdr \<Rightarrow> bytes \<Rightarrow> image \<times> image \<Rightarrow> elf_error + image \<times> image" where
  "elf_store_segment ph seg m =
     (case m of (imem, dmem) \<Rightarrow>
        if p_vaddr ph < 0x20000000
        then (case image_store imem (p_vaddr ph) seg (p_filesz ph) of
                Inl e \<Rightarrow> Inl e | Inr imem \<Rightarrow> Inr (imem, dmem))
        else (case image_store dmem (p_vaddr ph - 0x20000000) seg (p_filesz ph) of
                Inl e \<Rightarrow> Inl e | Inr dmem \<Rightarrow> Inr (imem, dmem)))"

text \<open>
  The loop over the program headers: \<open>i\<close> is its counter, \<open>pos\<close> the position in the file. The
  result of the second seek of the body is not checked by the program.
\<close>

fun elf_load ::
  "elf_env \<Rightarrow> bytes \<Rightarrow> nat \<Rightarrow> nat \<Rightarrow> nat \<Rightarrow> image \<times> image \<Rightarrow> elf_error + image \<times> image" where
  "elf_load ev elf 0 i pos m = Inr m"
| "elf_load ev elf (Suc n) i pos m =
     (if length elf < pos + 32 then Inl (Short_phdr i)
      else (let ph = read_phdr (drop pos elf); pos = pos + 32;
                off = unat (p_offset ph); len = unat (p_filesz ph) in
            if p_type ph \<noteq> PT_LOAD \<or> p_filesz ph = 0 then elf_load ev elf n (Suc i) pos m
            else if \<not> ev_alloc ev len then Inl Out_of_memory
            else if \<not> ev_seek ev off then Inl Cannot_seek_segment
            else if length elf < off + len then Inl Short_segment
            else (case elf_store_segment ph (take len (drop off elf)) m of
                    Inl e \<Rightarrow> Inl e
                  | Inr m \<Rightarrow> elf_load ev elf n (Suc i) (if ev_seek ev pos then pos else off + len) m)))"

definition elf_read :: "elf_env \<Rightarrow> elf_opts \<Rightarrow> bytes \<Rightarrow> elf_error + image \<times> image" where
  "elf_read ev opts elf =
     (if length elf < 52 then Inl Short_ehdr
      else (let eh = read_ehdr elf in
            if e_ident eh ! 0 \<noteq> 0x7F \<or> e_ident eh ! 1 \<noteq> 0x45 \<or> e_ident eh ! 2 \<noteq> 0x4C \<or>
               e_ident eh ! 3 \<noteq> 0x46 then Inl Not_elf
            else if e_machine eh \<noteq> EM_RISCV then Inl (Bad_machine (e_machine eh))
            else (case image_init ev 0 (imem_words opts) of
                    Inl e \<Rightarrow> Inl e
                  | Inr imem \<Rightarrow>
                      (case image_init ev 0 (dmem_words opts) of
                         Inl e \<Rightarrow> Inl e
                       | Inr dmem \<Rightarrow>
                           if \<not> ev_seek ev (unat (e_phoff eh)) then Inl Cannot_seek_phdrs
                           else elf_load ev elf (unat (e_phnum eh)) 0 (unat (e_phoff eh))
                                  (imem, dmem)))))"

definition elf2qar_main :: "elf_env \<Rightarrow> bytes list \<Rightarrow> files \<Rightarrow> (elf_error + unit) \<times> files" where
  "elf2qar_main ev args fs =
     (case elf_args args elf_defaults of
        None \<Rightarrow> (Inl Usage, fs)
      | Some opts \<Rightarrow>
          (case elf_path opts of
             None \<Rightarrow> (Inl Usage, fs)
           | Some path \<Rightarrow>
               (case fs path of
                  None \<Rightarrow> (Inl (Cannot_open path), fs)
                | Some elf \<Rightarrow>
                    (case elf_read ev opts elf of
                       Inl e \<Rightarrow> (Inl e, fs)
                     | Inr (imem, dmem) \<Rightarrow>
                         (case image_write_hex ev imem (program_hex opts) fs of
                            (Inl e, fs) \<Rightarrow> (Inl e, fs)
                          | (Inr _, fs) \<Rightarrow> image_write_hex ev dmem (data_hex opts) fs)))))"

end
