(* ===== verification/Elf2qar_Correct.thy ===== *)
theory Elf2qar_Correct
  imports Elf2qar
begin

text \<open>
  What \<open>elf2qar\<close> computes: an abstract loader on byte lists that the images refine, the absence of
  writes outside a buffer, and the text that is written.
\<close>

subsection \<open>The abstract loader\<close>

text \<open>The loadable segments of a file, with their target address and contents.\<close>

fun elf_segments :: "bytes \<Rightarrow> nat \<Rightarrow> nat \<Rightarrow> (u32 \<times> bytes) list option" where
  "elf_segments elf 0 pos = Some []"
| "elf_segments elf (Suc n) pos =
     (if length elf < pos + 32 then None
      else (let ph = read_phdr (drop pos elf); off = unat (p_offset ph); len = unat (p_filesz ph) in
            if p_type ph \<noteq> PT_LOAD \<or> p_filesz ph = 0 then elf_segments elf n (pos + 32)
            else if length elf < off + len then None
            else map_option (Cons (p_vaddr ph, take len (drop off elf)))
                   (elf_segments elf n (pos + 32))))"

text \<open>A memory takes a segment that lies inside it and ignores every other.\<close>

definition mem_store :: "nat \<Rightarrow> bytes \<Rightarrow> bytes \<Rightarrow> bytes" where
  "mem_store a d m = (if a + length d \<le> length m then overlay a d m else m)"

definition imem_segment :: "u32 \<times> bytes \<Rightarrow> bytes \<Rightarrow> bytes" where
  "imem_segment s m = (if fst s < 0x20000000 then mem_store (unat (fst s)) (snd s) m else m)"

definition dmem_segment :: "u32 \<times> bytes \<Rightarrow> bytes \<Rightarrow> bytes" where
  "dmem_segment s m =
     (if fst s < 0x20000000 then m else mem_store (unat (fst s) - 0x20000000) (snd s) m)"

lemma length_overlay [simp]:
  "off + length d \<le> length b \<Longrightarrow> length (overlay off d b) = length b"
  by (simp add: overlay_def)

lemma length_mem_store [simp]: "length (mem_store a d m) = length m"
  by (simp add: mem_store_def)

lemma length_segment [simp]:
  "length (imem_segment s m) = length m" "length (dmem_segment s m) = length m"
  by (simp_all add: imem_segment_def dmem_segment_def)

lemma length_fold_segments [simp]:
  "length (fold imem_segment segs m) = length m" "length (fold dmem_segment segs m) = length m"
  by (induction segs arbitrary: m) simp_all

text \<open>Byte \<open>k\<close> of a memory after a store: of the segment inside its range, the old one elsewhere.\<close>

lemma nth_mem_store:
  assumes "k < length m"
  shows "mem_store a d m ! k =
    (if a + length d \<le> length m \<and> a \<le> k \<and> k < a + length d then d ! (k - a) else m ! k)"
  using assms by (auto simp: mem_store_def overlay_def nth_append)

subsection \<open>The images refine the memories\<close>

definition image_ok :: "image \<Rightarrow> bool" where
  "image_ok img \<longleftrightarrow> base_addr img = 0 \<and> length (buffer img) = unat (size_words img) * 4"

lemma image_init_ok:
  "image_init ev 0 n = Inr img \<Longrightarrow>
     image_ok img \<and> size_words img = n \<and> buffer img = replicate (unat n * 4) 0"
  by (auto simp: image_init_def image_ok_def split: if_splits)

lemma unat_plus_no_wrap:
  "unat (a :: u32) + unat b < 2 ^ 32 \<Longrightarrow> unat (a + b) = unat a + unat b"
  by (simp add: unat_word_ariths)

lemma unat_times_4_le: "unat (n * 4 :: u32) \<le> unat n * 4"
  by (simp add: unat_word_ariths)

lemma unat_times_4: "unat (n :: u32) < 2 ^ 30 \<Longrightarrow> unat (n * 4) = unat n * 4"
  by (simp add: unat_word_ariths)

text \<open>A store whose end does not wrap is never outside the buffer, whatever the size of the image.\<close>

lemma image_store_no_wrap:
  assumes ok: "image_ok img" and fit: "unat addr + unat len < 2 ^ 32" and d: "length d = unat len"
  shows "\<exists>img'. image_store img addr d len = Inr img' \<and> image_ok img' \<and>
           size_words img' = size_words img"
proof (cases "size_words img * 4 < addr + len")
  case True
  then show ?thesis using ok by (simp add: image_store_def image_ok_def)
next
  case False
  then have "unat addr + unat len \<le> unat (size_words img * 4)"
    using fit by (simp add: word_less_nat_alt unat_plus_no_wrap)
  then have "unat addr + unat len \<le> length (buffer img)"
    using ok unat_times_4_le [of "size_words img"] by (simp add: image_ok_def)
  with False ok d show ?thesis by (simp add: image_store_def image_ok_def Let_def)
qed

lemma image_store_mem:
  assumes ok: "image_ok img" and small: "unat (size_words img) < 2 ^ 30"
    and fit: "unat addr + unat len < 2 ^ 32" and d: "length d = unat len"
  shows "image_store img addr d len = Inr (img\<lparr>buffer := mem_store (unat addr) d (buffer img)\<rparr>)"
proof -
  have "size_words img * 4 < addr + len \<longleftrightarrow> length (buffer img) < unat addr + unat len"
    using ok unat_times_4 [OF small] fit
    by (simp add: word_less_nat_alt unat_plus_no_wrap image_ok_def)
  then show ?thesis using ok d by (simp add: image_store_def mem_store_def image_ok_def Let_def)
qed

text \<open>The exact condition for a copy outside the buffer.\<close>

lemma image_store_overflow:
  assumes ok: "image_ok img" and small: "unat (size_words img) < 2 ^ 30" and d: "length d = unat len"
  shows "image_store img addr d len = Inl Buffer_overflow \<longleftrightarrow>
           2 ^ 32 \<le> unat addr + unat len \<and> addr + len \<le> size_words img * 4"
proof (cases "unat addr + unat len < 2 ^ 32")
  case True
  then show ?thesis using image_store_mem [OF ok small True d] by simp
next
  case False
  have "length (buffer img) < 2 ^ 32" using ok small by (simp add: image_ok_def)
  with False have "\<not> unat addr + unat len \<le> length (buffer img)" by simp
  then show ?thesis using False ok by (auto simp: image_store_def image_ok_def Let_def not_less)
qed

lemma segment_no_wrap:
  assumes "len < 2 ^ 29"
  shows "va < 0x20000000 \<Longrightarrow> unat (va :: u32) + len < 2 ^ 32"
    and "\<not> va < 0x20000000 \<Longrightarrow> unat (va - 0x20000000) = unat va - 0x20000000"
    and "\<not> va < 0x20000000 \<Longrightarrow> unat (va - 0x20000000) + len < 2 ^ 32"
proof -
  show "va < 0x20000000 \<Longrightarrow> unat va + len < 2 ^ 32"
    using assms by (simp add: word_less_nat_alt)
  show sub: "\<not> va < 0x20000000 \<Longrightarrow> unat (va - 0x20000000) = unat va - 0x20000000"
    using unat_sub [of "0x20000000" va] by (simp add: not_less)
  show "\<not> va < 0x20000000 \<Longrightarrow> unat (va - 0x20000000) + len < 2 ^ 32"
    using assms sub unsigned_less [where 'a = nat, of va] by (simp add: word_less_nat_alt)
qed

definition images_ok :: "image \<times> image \<Rightarrow> bool" where
  "images_ok m \<longleftrightarrow> image_ok (fst m) \<and> image_ok (snd m)"

lemma elf_store_segment_safe:
  assumes "images_ok m" and "unat (p_filesz ph) < 2 ^ 29" and "length d = unat (p_filesz ph)"
  shows "\<exists>m'. elf_store_segment ph d m = Inr m' \<and> images_ok m' \<and>
           size_words (fst m') = size_words (fst m) \<and> size_words (snd m') = size_words (snd m)"
proof (cases "p_vaddr ph < 0x20000000")
  case True
  then obtain img where "image_store (fst m) (p_vaddr ph) d (p_filesz ph) = Inr img" "image_ok img"
    "size_words img = size_words (fst m)"
    using image_store_no_wrap [of "fst m" "p_vaddr ph" "p_filesz ph" d]
      segment_no_wrap(1) [OF assms(2)] assms by (auto simp: images_ok_def)
  with True assms show ?thesis by (cases m) (auto simp: elf_store_segment_def images_ok_def)
next
  case False
  then obtain img where "image_store (snd m) (p_vaddr ph - 0x20000000) d (p_filesz ph) = Inr img"
    "image_ok img" "size_words img = size_words (snd m)"
    using image_store_no_wrap [of "snd m" "p_vaddr ph - 0x20000000" "p_filesz ph" d]
      segment_no_wrap(3) [OF assms(2)] assms by (auto simp: images_ok_def)
  with False assms show ?thesis by (cases m) (auto simp: elf_store_segment_def images_ok_def)
qed

lemma elf_load_safe:
  "images_ok m \<Longrightarrow> length elf < 2 ^ 29 \<Longrightarrow> elf_load ev elf n i pos m \<noteq> Inl Buffer_overflow"
proof (induction n arbitrary: i pos m)
  case (Suc n)
  let ?ph = "read_phdr (drop pos elf)"
  let ?off = "unat (p_offset ?ph)" and ?len = "unat (p_filesz ?ph)"
  let ?pos = "if ev_seek ev (pos + 32) then pos + 32 else ?off + ?len"
  show ?case
  proof (cases "length elf < ?off + ?len")
    case True
    with Suc show ?thesis by (simp add: Let_def)
  next
    case False
    then have "?len < 2 ^ 29" "length (take ?len (drop ?off elf)) = ?len"
      using Suc.prems by simp_all
    then obtain m' where m': "elf_store_segment ?ph (take ?len (drop ?off elf)) m = Inr m'" "images_ok m'"
      using elf_store_segment_safe [OF Suc.prems(1), of ?ph] by blast
    with Suc False show ?thesis by (simp add: Let_def)
  qed
qed simp

subsection \<open>Functional correctness of the loop\<close>

definition set_buffers :: "image \<times> image \<Rightarrow> bytes \<Rightarrow> bytes \<Rightarrow> image \<times> image" where
  "set_buffers m bi bd = ((fst m)\<lparr>buffer := bi\<rparr>, (snd m)\<lparr>buffer := bd\<rparr>)"

definition images_small :: "image \<times> image \<Rightarrow> bool" where
  "images_small m \<longleftrightarrow> unat (size_words (fst m)) < 2 ^ 30 \<and> unat (size_words (snd m)) < 2 ^ 30"

definition resources :: "elf_env \<Rightarrow> bool" where
  "resources ev \<longleftrightarrow> (\<forall>n. ev_alloc ev n) \<and> (\<forall>n. ev_seek ev n) \<and> (\<forall>p. ev_create ev p)"

lemma elf_store_segment_mem:
  assumes "images_ok m" "images_small m" and "unat (p_filesz ph) < 2 ^ 29"
    and "length d = unat (p_filesz ph)"
  shows "elf_store_segment ph d m = Inr (set_buffers m (imem_segment (p_vaddr ph, d) (buffer (fst m)))
           (dmem_segment (p_vaddr ph, d) (buffer (snd m))))"
proof (cases "p_vaddr ph < 0x20000000")
  case True
  then show ?thesis
    using image_store_mem [of "fst m" "p_vaddr ph" "p_filesz ph" d]
      segment_no_wrap(1) [OF assms(3) True] assms
    by (cases m) (simp add: elf_store_segment_def images_ok_def images_small_def imem_segment_def
        dmem_segment_def set_buffers_def)
next
  case False
  then show ?thesis
    using image_store_mem [of "snd m" "p_vaddr ph - 0x20000000" "p_filesz ph" d]
      segment_no_wrap(2,3) [OF assms(3) False] assms
    by (cases m) (simp add: elf_store_segment_def images_ok_def images_small_def imem_segment_def
        dmem_segment_def set_buffers_def)
qed

lemma set_buffers_keeps:
  assumes "images_ok m" "images_small m" "length bi = length (buffer (fst m))"
    "length bd = length (buffer (snd m))"
  shows "images_ok (set_buffers m bi bd) \<and> images_small (set_buffers m bi bd)"
  using assms by (simp add: set_buffers_def images_ok_def image_ok_def images_small_def)

lemma elf_load_segments:
  assumes ev: "resources ev" and small: "length elf < 2 ^ 29"
  shows "images_ok m \<Longrightarrow> images_small m \<Longrightarrow>
    (case elf_load ev elf n i pos m of Inl e \<Rightarrow> None | Inr m' \<Rightarrow> Some m') =
    map_option (\<lambda>segs. set_buffers m (fold imem_segment segs (buffer (fst m)))
                                     (fold dmem_segment segs (buffer (snd m))))
      (elf_segments elf n pos)"
proof (induction n arbitrary: i pos m)
  case 0
  then show ?case by (simp add: set_buffers_def)
next
  case (Suc n)
  let ?ph = "read_phdr (drop pos elf)"
  let ?off = "unat (p_offset ?ph)" and ?len = "unat (p_filesz ?ph)"
  let ?d = "take ?len (drop ?off elf)"
  show ?case
  proof (cases "p_type ?ph \<noteq> PT_LOAD \<or> p_filesz ?ph = 0 \<or> length elf < ?off + ?len")
    case True
    then show ?thesis using Suc ev by (auto simp: resources_def Let_def)
  next
    case False
    let ?m = "set_buffers m (imem_segment (p_vaddr ?ph, ?d) (buffer (fst m)))
                (dmem_segment (p_vaddr ?ph, ?d) (buffer (snd m)))"
    have "?off + ?len \<le> length elf" using False by simp
    then have "?len < 2 ^ 29" "length ?d = ?len" using small by simp_all
    then have st: "elf_store_segment ?ph ?d m = Inr ?m"
      using Suc.prems by (rule elf_store_segment_mem [rotated 2])
    have "images_ok ?m" "images_small ?m"
      using set_buffers_keeps [of m] Suc.prems by simp_all
    from Suc.IH [OF this, of "Suc i" "pos + 32"] show ?thesis
      using False st ev
      by (auto simp: resources_def Let_def set_buffers_def option.map_comp comp_def)
  qed
qed

subsection \<open>The text of an image\<close>

definition hex_text :: "u32 list \<Rightarrow> bytes" where
  "hex_text ws = concat (map (\<lambda>v. fmt_08x v @ [10]) ws)"

lemma image_word_at:
  assumes "image_ok img" and "i < unat (size_words img)" and "unat (size_words img) < 2 ^ 30"
  shows "image_word img (of_nat i) = words_of (buffer img) ! i"
proof -
  have "unat (of_nat i * 4 + of_nat k :: u32) = 4 * i + k" if "k < 4" for k
    using assms that by (simp add: unat_word_ariths unat_of_nat take_bit_eq_mod)
  from this [of 0] this [of 1] this [of 2] this [of 3]
  have "image_word img (of_nat i) = get32 (buffer img) (4 * i)"
    by (simp add: image_word_def get32_def Let_def)
  also have "\<dots> = words_of (buffer img) ! i"
    using assms by (intro nth_words_of [symmetric]) (simp add: image_ok_def)
  finally show ?thesis .
qed

lemma image_text_words:
  assumes "image_ok img" and "unat (size_words img) < 2 ^ 30"
  shows "image_text img = hex_text (words_of (buffer img))"
proof -
  have len: "length (words_of (buffer img)) = unat (size_words img)"
    using assms by (simp add: length_words_of image_ok_def)
  have "map (\<lambda>i. fmt_08x (image_word img (of_nat i)) @ [10]) [0..<unat (size_words img)] =
        map (\<lambda>v. fmt_08x v @ [10]) (words_of (buffer img))"
    using assms len by (intro nth_equalityI) (simp_all add: image_word_at)
  then show ?thesis by (simp add: image_text_def hex_text_def)
qed

subsection \<open>The whole program\<close>

definition elf_valid :: "bytes \<Rightarrow> bool" where
  "elf_valid elf \<longleftrightarrow> 52 \<le> length elf \<and> take 4 elf = [0x7F, 0x45, 0x4C, 0x46] \<and>
     e_machine (read_ehdr elf) = EM_RISCV"

definition elf_program_segments :: "bytes \<Rightarrow> (u32 \<times> bytes) list option" where
  "elf_program_segments elf =
     elf_segments elf (unat (e_phnum (read_ehdr elf))) (unat (e_phoff (read_ehdr elf)))"

definition memory_of :: "(u32 \<times> bytes \<Rightarrow> bytes \<Rightarrow> bytes) \<Rightarrow> u32 \<Rightarrow> (u32 \<times> bytes) list \<Rightarrow> bytes" where
  "memory_of seg words segs = fold seg segs (replicate (unat words * 4) 0)"

lemma elf_magic:
  assumes "elf_valid elf"
  shows "e_ident (read_ehdr elf) ! 0 = 0x7F" "e_ident (read_ehdr elf) ! 1 = 0x45"
    "e_ident (read_ehdr elf) ! 2 = 0x4C" "e_ident (read_ehdr elf) ! 3 = 0x46"
proof -
  have "e_ident (read_ehdr elf) ! k = take 4 elf ! k" if "k < 4" for k
    using that by (simp add: read_ehdr_def)
  with assms show "e_ident (read_ehdr elf) ! 0 = 0x7F" "e_ident (read_ehdr elf) ! 1 = 0x45"
    "e_ident (read_ehdr elf) ! 2 = 0x4C" "e_ident (read_ehdr elf) ! 3 = 0x46"
    by (simp_all add: elf_valid_def)
qed

lemma elf_read_images:
  assumes ev: "resources ev" and valid: "elf_valid elf" and small: "length elf < 2 ^ 29"
    and words: "unat (imem_words opts) < 2 ^ 30" "unat (dmem_words opts) < 2 ^ 30"
    and segs: "elf_program_segments elf = Some segs"
  shows "\<exists>imem dmem. elf_read ev opts elf = Inr (imem, dmem) \<and>
           image_text imem = hex_text (words_of (memory_of imem_segment (imem_words opts) segs)) \<and>
           image_text dmem = hex_text (words_of (memory_of dmem_segment (dmem_words opts) segs))"
proof -
  define mk where "mk = (\<lambda>n. \<lparr>base_addr = 0, size_words = n, addr_mask = n * 4 - 1,
                               buffer = replicate (unat n * 4) 0\<rparr>)"
  define m where "m = (mk (imem_words opts), mk (dmem_words opts))"
  have ini: "image_init ev 0 n = Inr (mk n)" for n
    using ev by (simp add: image_init_def mk_def resources_def)
  have m: "images_ok m" "images_small m"
    using words by (simp_all add: m_def mk_def images_ok_def image_ok_def images_small_def)
  let ?bi = "memory_of imem_segment (imem_words opts) segs"
  let ?bd = "memory_of dmem_segment (dmem_words opts) segs"
  have bufs: "buffer (fst m) = replicate (unat (imem_words opts) * 4) 0"
    "buffer (snd m) = replicate (unat (dmem_words opts) * 4) 0"
    by (simp_all add: m_def mk_def)
  have "elf_load ev elf (unat (e_phnum (read_ehdr elf))) 0 (unat (e_phoff (read_ehdr elf))) m =
      Inr (set_buffers m ?bi ?bd)"
    using elf_load_segments [OF ev small m, of "unat (e_phnum (read_ehdr elf))" 0
        "unat (e_phoff (read_ehdr elf))"] segs
    by (auto simp: elf_program_segments_def memory_of_def bufs split: sum.splits)
  then have rd: "elf_read ev opts elf = Inr (set_buffers m ?bi ?bd)"
    using valid ev elf_magic [OF valid]
    by (simp add: elf_read_def ini elf_valid_def m_def resources_def Let_def)
  have "images_ok (set_buffers m ?bi ?bd)" "images_small (set_buffers m ?bi ?bd)"
    using set_buffers_keeps [OF m, of ?bi ?bd] by (simp_all add: memory_of_def bufs)
  then have "image_text (fst (set_buffers m ?bi ?bd)) = hex_text (words_of ?bi)"
    "image_text (snd (set_buffers m ?bi ?bd)) = hex_text (words_of ?bd)"
    by (simp_all add: images_ok_def images_small_def image_text_words) (simp_all add: set_buffers_def)
  with rd show ?thesis by (cases "set_buffers m ?bi ?bd") auto
qed

lemma elf_read_truncated:
  assumes ev: "resources ev" and valid: "elf_valid elf" and small: "length elf < 2 ^ 29"
    and words: "unat (imem_words opts) < 2 ^ 30" "unat (dmem_words opts) < 2 ^ 30"
    and segs: "elf_program_segments elf = None"
  shows "\<exists>e. elf_read ev opts elf = Inl e"
proof (cases "image_init ev 0 (imem_words opts)")
  case imem: (Inr imem)
  show ?thesis
  proof (cases "image_init ev 0 (dmem_words opts)")
    case dmem: (Inr dmem)
    have "images_ok (imem, dmem)" "images_small (imem, dmem)"
      using image_init_ok [OF imem] image_init_ok [OF dmem] words
      by (simp_all add: images_ok_def images_small_def)
    from elf_load_segments [OF ev small this, of "unat (e_phnum (read_ehdr elf))" 0
        "unat (e_phoff (read_ehdr elf))"]
    obtain e where "elf_load ev elf (unat (e_phnum (read_ehdr elf))) 0
        (unat (e_phoff (read_ehdr elf))) (imem, dmem) = Inl e"
      using segs by (auto simp: elf_program_segments_def split: sum.splits)
    then show ?thesis
      using valid ev elf_magic [OF valid] imem dmem
      by (simp add: elf_read_def elf_valid_def resources_def Let_def)
  qed (use valid elf_magic [OF valid] imem in \<open>simp add: elf_read_def elf_valid_def Let_def\<close>)
qed (use valid elf_magic [OF valid] in \<open>simp add: elf_read_def elf_valid_def Let_def\<close>)

subsection \<open>A sample file\<close>

text \<open>One program header: four bytes to be loaded at address 0.\<close>

definition sample_elf :: bytes where
  "sample_elf =
     [0x7F, 0x45, 0x4C, 0x46, 1, 1, 1, 0, 0, 0, 0, 0, 0, 0, 0, 0] @ [2, 0, 243, 0] @
     le32 1 @ le32 0 @ le32 52 @ le32 0 @ le32 0 @ [52, 0, 32, 0, 1, 0, 0, 0, 0, 0, 0, 0] @
     le32 1 @ le32 84 @ le32 0 @ le32 0 @ le32 4 @ le32 4 @ le32 5 @ le32 4 @ [0x13, 0x05, 0, 0]"

lemma sample_elf_valid: "elf_valid sample_elf" "length sample_elf = 88"
  by (code_simp, code_simp)

lemma sample_elf_segments: "elf_program_segments sample_elf = Some [(0, [0x13, 0x05, 0, 0])]"
  by code_simp

definition all_resources :: elf_env where
  "all_resources = \<lparr>ev_alloc = \<lambda>_. True, ev_seek = \<lambda>_. True, ev_create = \<lambda>_. True\<rparr>"

lemma resources_all: "resources all_resources"
  by (simp add: resources_def all_resources_def)

subsection \<open>Properties\<close>

text \<open>
  C18. \<open>elf2qar\<close> never copies a segment outside an image when its input file is smaller than
  512 MiB, whatever the headers say, whatever sizes are asked for and whichever library calls
  fail.
\<close>

theorem elf2qar_memory_safe:
  assumes "\<forall>p elf. fs p = Some elf \<longrightarrow> length elf < 2 ^ 29"
  shows "fst (elf2qar_main ev args fs) \<noteq> Inl Buffer_overflow"
proof -
  have "elf_read ev opts elf \<noteq> Inl Buffer_overflow" if "length elf < 2 ^ 29" for opts elf
  proof -
    have "image_init ev 0 n \<noteq> Inl Buffer_overflow" for n by (simp add: image_init_def)
    then show ?thesis
      using elf_load_safe [of _ elf ev] that
      by (auto simp: elf_read_def Let_def images_ok_def dest!: image_init_ok split: sum.splits)
  qed
  then show ?thesis
    using assms
    by (auto simp: elf2qar_main_def image_write_hex_def split: option.splits sum.splits prod.splits
        if_splits)
qed

text \<open>
  C19. On a valid RISC-V ELF file below 512 MiB whose program headers and segment contents lie in
  the file, and for images below 4 GiB, \<open>elf2qar\<close> succeeds and writes two texts: the words of the
  instruction memory and of the data memory obtained by storing, in header order, every loadable
  segment that lies inside its memory into zeroed memory (segments from 0x20000000 upwards go to
  data memory, segments that do not fit are ignored).
\<close>

theorem elf2qar_writes_memories:
  assumes "resources ev" and "elf_args args elf_defaults = Some opts"
    and "elf_path opts = Some path" and "fs path = Some elf"
    and "elf_valid elf" and "length elf < 2 ^ 29"
    and "unat (imem_words opts) < 2 ^ 30" and "unat (dmem_words opts) < 2 ^ 30"
    and "elf_program_segments elf = Some segs"
  shows "elf2qar_main ev args fs =
    (Inr (), fs(program_hex opts \<mapsto> hex_text (words_of (memory_of imem_segment (imem_words opts) segs)),
                data_hex opts \<mapsto> hex_text (words_of (memory_of dmem_segment (dmem_words opts) segs))))"
proof -
  obtain imem dmem where "elf_read ev opts elf = Inr (imem, dmem)"
    "image_text imem = hex_text (words_of (memory_of imem_segment (imem_words opts) segs))"
    "image_text dmem = hex_text (words_of (memory_of dmem_segment (dmem_words opts) segs))"
    using elf_read_images [of ev elf opts segs] assms by blast
  then show ?thesis
    using assms by (simp add: elf2qar_main_def image_write_hex_def resources_def)
qed

lemma elf2qar_memory_safe_witness:
  "fst (elf2qar_main all_resources [ascii ''--elf'', ascii ''a.elf''] [ascii ''a.elf'' \<mapsto> sample_elf])
     \<noteq> Inl Buffer_overflow"
  by (rule elf2qar_memory_safe) (auto simp: sample_elf_valid split: if_splits)

lemma elf2qar_writes_memories_witness:
  "elf2qar_main all_resources [ascii ''--elf'', ascii ''a.elf''] [ascii ''a.elf'' \<mapsto> sample_elf] =
    (Inr (), [ascii ''a.elf'' \<mapsto> sample_elf,
       ascii ''program.hex'' \<mapsto> hex_text (words_of (memory_of imem_segment 64 [(0, [0x13, 0x05, 0, 0])])),
       ascii ''data.hex'' \<mapsto> hex_text (words_of (memory_of dmem_segment 64 [(0, [0x13, 0x05, 0, 0])]))])"
  using elf2qar_writes_memories [OF resources_all, of "[ascii ''--elf'', ascii ''a.elf'']"
      "elf_defaults\<lparr>elf_path := Some (ascii ''a.elf'')\<rparr>" "ascii ''a.elf''"
      "[ascii ''a.elf'' \<mapsto> sample_elf]" sample_elf "[(0, [0x13, 0x05, 0, 0])]"]
  by (simp add: sample_elf_valid sample_elf_segments elf_defaults_def)

text \<open>
  A valid file whose program headers or segment contents are cut off makes \<open>elf2qar\<close> fail
  before it touches any output: it exits with an error and the file system is unchanged.
\<close>

theorem elf2qar_truncated_fails:
  assumes "resources ev" and "elf_args args elf_defaults = Some opts"
    and "elf_path opts = Some path" and "fs path = Some elf"
    and "elf_valid elf" and "length elf < 2 ^ 29"
    and "unat (imem_words opts) < 2 ^ 30" and "unat (dmem_words opts) < 2 ^ 30"
    and "elf_program_segments elf = None"
  shows "\<exists>e. elf2qar_main ev args fs = (Inl e, fs)"
proof -
  obtain e where "elf_read ev opts elf = Inl e"
    using elf_read_truncated [of ev elf opts] assms by blast
  then show ?thesis using assms by (simp add: elf2qar_main_def)
qed

lemma elf2qar_truncated_fails_witness:
  "\<exists>e. elf2qar_main all_resources [ascii ''--elf'', ascii ''a.elf'']
     [ascii ''a.elf'' \<mapsto> take 87 sample_elf] = (Inl e, [ascii ''a.elf'' \<mapsto> take 87 sample_elf])"
proof -
  have "elf_valid (take 87 sample_elf)" by code_simp
  moreover have "elf_program_segments (take 87 sample_elf) = None" by code_simp
  ultimately show ?thesis
    using elf2qar_truncated_fails [OF resources_all, of "[ascii ''--elf'', ascii ''a.elf'']"
        "elf_defaults\<lparr>elf_path := Some (ascii ''a.elf'')\<rparr>" "ascii ''a.elf''"
        "[ascii ''a.elf'' \<mapsto> take 87 sample_elf]" "take 87 sample_elf"]
    by (simp add: sample_elf_valid elf_defaults_def)
qed

text \<open>
  C20. The range check of \<open>image_store\<close> wraps at 32 bits: on an image below 4 GiB, a copy leaves the
  buffer exactly when the end address of the segment passes 2^32 and its low 32 bits still lie
  inside the image.
\<close>

theorem image_store_overflow_iff:
  assumes "image_ok img" and "unat (size_words img) < 2 ^ 30" and "length d = unat len"
  shows "image_store img addr d len = Inl Buffer_overflow \<longleftrightarrow>
           2 ^ 32 \<le> unat addr + unat len \<and> addr + len \<le> size_words img * 4"
  using assms by (rule image_store_overflow)

lemma image_store_overflow_iff_witness:
  "image_store \<lparr>base_addr = 0, size_words = 64, addr_mask = 255, buffer = replicate 256 0\<rparr>
     0xFFFFFFF0 (replicate 32 7) 32 = Inl Buffer_overflow"
  using image_store_overflow_iff [of "\<lparr>base_addr = 0, size_words = 64, addr_mask = 255,
      buffer = replicate 256 0\<rparr>" "replicate 32 7" 32 "0xFFFFFFF0"]
  by (simp add: image_ok_def)

end
