(* ===== verification/Qhex_Correct.thy ===== *)
theory Qhex_Correct
  imports Qhex Elf2qar_Correct
begin

text \<open>
  What \<open>qhex\<close> computes: the invariant of its reading loop, the words of a text made of lines that
  fit its line buffer, the bytes it writes, and what happens to a line that does not fit.
\<close>

subsection \<open>The invariant of the loop\<close>

definition q_ok :: "qhex_state \<Rightarrow> bool" where
  "q_ok s \<longleftrightarrow> wb_ok (q_buf s) \<and>
     q_nonzero s = length (filter (\<lambda>v. v \<noteq> 0) (wb_words (q_buf s)))"

lemma q_start_ok: "q_ok q_start"
  by (simp add: q_ok_def q_start_def wb_ok_def wb_count_def)

lemma read_step_ok:
  assumes "q_ok s" and "read_step ev l s = Inr s'"
  shows "q_ok s'"
proof (cases "read_line l")
  case (Word v)
  then obtain b where "append_word ev (q_buf s) v = Some b"
    "s' = s\<lparr>q_line_num := q_line_num s + 1, q_buf := b,
            q_nonzero := (if v \<noteq> 0 then q_nonzero s + 1 else q_nonzero s)\<rparr>"
    using assms by (auto simp: read_step_def Let_def split: option.splits)
  then show ?thesis
    using append_word_ok [of "q_buf s" ev v b] assms by (simp add: q_ok_def)
qed (use assms in \<open>auto simp: read_step_def q_ok_def Let_def\<close>)

lemma read_loop_ok: "q_ok s \<Longrightarrow> read_loop ev inp s = Inr s' \<Longrightarrow> q_ok s'"
proof (induction "length inp" arbitrary: inp s rule: less_induct)
  case less
  show ?case
  proof (cases "inp = []")
    case True
    with less.prems show ?thesis by simp
  next
    case False
    obtain l rest where l: "(l, rest) = fgets_split 255 inp" by (metis surj_pair)
    with False less.prems obtain s1 where "read_step ev l s = Inr s1" "read_loop ev rest s1 = Inr s'"
      by (auto simp: read_loop.simps [of ev inp] split: prod.splits sum.splits)
    with less show ?thesis using read_step_ok fgets_line_shorter [OF l False] by blast
  qed
qed

subsection \<open>Texts whose lines fit\<close>

definition text_of :: "bytes list \<Rightarrow> bytes" where
  "text_of ls = concat (map (\<lambda>l. l @ [10]) ls)"

definition line_fits :: "bytes \<Rightarrow> bool" where
  "line_fits l \<longleftrightarrow> 10 \<notin> set l \<and> length l < 255"

lemma text_of_Cons: "text_of (l # ls) = l @ 10 # text_of ls"
  by (simp add: text_of_def)

text \<open>The words of the lines, when every line is blank, a comment or a number that fits.\<close>

fun words_of_lines :: "bytes list \<Rightarrow> u32 list option" where
  "words_of_lines [] = Some []"
| "words_of_lines (l # ls) =
     (case read_line (l @ [10]) of
        Skip \<Rightarrow> words_of_lines ls
      | Word v \<Rightarrow> map_option (Cons v) (words_of_lines ls)
      | _ \<Rightarrow> None)"

lemma append_word_resources:
  assumes "\<forall>n. qe_realloc ev n"
  obtains b' where "append_word ev b v = Some b'" "wb_words b' = wb_words b @ [v]"
proof (cases "append_word ev b v")
  case None
  then show ?thesis using assms by (simp add: append_word_def Let_def split: if_splits)
next
  case (Some b')
  then show ?thesis using append_word_words [OF Some] that by blast
qed

lemma read_loop_lines:
  assumes ev: "\<forall>n. qe_realloc ev n"
  shows "\<forall>l \<in> set ls. line_fits l \<Longrightarrow>
    (case read_loop ev (text_of ls) s of Inl e \<Rightarrow> None | Inr s' \<Rightarrow> Some (wb_words (q_buf s'))) =
    map_option (\<lambda>ws. wb_words (q_buf s) @ ws) (words_of_lines ls)"
proof (induction ls arbitrary: s)
  case Nil
  then show ?case by (simp add: text_of_def)
next
  case (Cons l ls)
  then have l: "read_loop ev (text_of (l # ls)) s =
      (case read_step ev (l @ [10]) s of Inl e \<Rightarrow> Inl e | Inr s \<Rightarrow> read_loop ev (text_of ls) s)"
    by (simp add: text_of_Cons line_fits_def read_loop_line)
  have IH: "(case read_loop ev (text_of ls) s of Inl e \<Rightarrow> None | Inr s' \<Rightarrow> Some (wb_words (q_buf s'))) =
    map_option (\<lambda>ws. wb_words (q_buf s) @ ws) (words_of_lines ls)" for s
    using Cons by simp
  show ?case
  proof (cases "read_line (l @ [10])")
    case (Word v)
    obtain b where "append_word ev (q_buf s) v = Some b" "wb_words b = wb_words (q_buf s) @ [v]"
      using append_word_resources [OF ev] by blast
    with Word show ?thesis
      by (simp add: l read_step_def IH option.map_comp comp_def Let_def)
  qed (simp_all add: l read_step_def IH Let_def)
qed

subsection \<open>Blank lines, comments and words\<close>

text \<open>A line of a hex file: blank, a comment, or a word of eight digits, each with padding.\<close>

datatype hex_line = Blank bytes | Comment bytes bytes | Value bytes u32 bytes

fun render_line :: "hex_line \<Rightarrow> bytes" where
  "render_line (Blank pad) = pad"
| "render_line (Comment pad cmt) = pad @ 35 # cmt"
| "render_line (Value pad v trail) = pad @ fmt_08x v @ trail"

definition blanks :: "bytes \<Rightarrow> bool" where
  "blanks p \<longleftrightarrow> (\<forall>c \<in> set p. c = 32 \<or> c = 9)"

text \<open>What may follow a word: nothing, or a text that starts with a blank or a comment mark.\<close>

fun line_ok :: "hex_line \<Rightarrow> bool" where
  "line_ok (Blank pad) \<longleftrightarrow> blanks pad"
| "line_ok (Comment pad cmt) \<longleftrightarrow> blanks pad"
| "line_ok (Value pad v trail) \<longleftrightarrow>
     blanks pad \<and> 0 \<notin> set trail \<and> (trail = [] \<or> hd trail = 32 \<or> hd trail = 9 \<or> hd trail = 35)"

fun line_words :: "hex_line \<Rightarrow> u32 list" where
  "line_words (Value pad v trail) = [v]"
| "line_words _ = []"

lemma blanks_neq: "blanks p \<Longrightarrow> c \<in> set p \<Longrightarrow> c \<noteq> 0 \<and> c \<noteq> 35 \<and> c \<noteq> 10"
  by (auto simp: blanks_def)

lemma trim_blanks: "blanks p \<Longrightarrow> trim_line (p @ s) = trim_line s"
  by (auto simp: trim_line_def blanks_def dropWhile_append2)

lemma cut_append:
  "\<forall>b \<in> set p. b \<noteq> 0 \<and> b \<noteq> 35 \<Longrightarrow> cut_at 35 (cstr (p @ s)) = p @ cut_at 35 (cstr s)"
  by (induction p) (auto simp: cut_at_def cstr_def)

lemma fmt_neq: "c \<in> set (fmt_08x v) \<Longrightarrow> c \<noteq> 0 \<and> c \<noteq> 35 \<and> c \<noteq> 32 \<and> c \<noteq> 9 \<and> c \<noteq> 10"
  using hex_char_not [of c] fmt_08x_digits by blast

lemma fmt_Cons: "\<exists>c cs. fmt_08x v = c # cs \<and> is_digit 16 c"
  using fmt_08x_digits [of v] by (cases "fmt_08x v") (metis length_fmt_08x list.size(3) zero_neq_numeral, auto)

lemma read_line_Value:
  assumes "line_ok (Value pad v trail)"
  shows "read_line (render_line (Value pad v trail) @ [10]) = Word v"
proof -
  define rest where "rest = cut_at 35 (cstr (trail @ [10]))"
  have "cut_at 35 (cstr (pad @ fmt_08x v @ trail @ [10])) = pad @ fmt_08x v @ rest"
    using assms blanks_neq fmt_neq cut_append [of "pad @ fmt_08x v" "trail @ [10]"]
    by (auto simp: rest_def)
  then have line: "trim_line (cut_at 35 (cstr (render_line (Value pad v trail) @ [10]))) =
      trim_line (fmt_08x v @ rest)"
    using assms by (simp add: trim_blanks)
  obtain c cs where c: "fmt_08x v = c # cs" "is_digit 16 c" using fmt_Cons by blast
  have trim: "trim_line (fmt_08x v @ rest) = fmt_08x v @ rest"
    using c hex_char_not [OF c(2)] by (simp add: trim_line_def)
  have "\<not> is_digit 16 10" "\<not> is_digit 16 32" "\<not> is_digit 16 9"
    by (simp_all add: is_digit_def digit_value_def)
  then have "rest = [] \<or> \<not> is_digit 16 (hd rest) \<and> hd rest \<noteq> 120 \<and> hd rest \<noteq> 88"
    using assms by (cases trail) (auto simp: rest_def cut_at_def cstr_def)
  then show ?thesis
    using line trim c hex_char_not [OF c(2)] sscanf_x_fmt [of rest v]
    by (simp add: read_line_def Let_def)
qed

lemma read_line_render:
  assumes "line_ok l"
  shows "read_line (render_line l @ [10]) = (case line_words l of [] \<Rightarrow> Skip | v # _ \<Rightarrow> Word v)"
proof (cases l)
  case (Blank pad)
  then have "cut_at 35 (cstr (pad @ [10])) = pad @ [10]"
    using assms blanks_neq cut_append [of pad "[10]"] by (auto simp: cut_at_def cstr_def)
  with Blank assms show ?thesis by (simp add: read_line_def trim_blanks) (simp add: trim_line_def)
next
  case (Comment pad cmt)
  then have "cut_at 35 (cstr (pad @ 35 # cmt @ [10])) = pad"
    using assms blanks_neq cut_append [of pad "35 # cmt @ [10]"] by (auto simp: cut_at_def cstr_def)
  with Comment assms show ?thesis
    using trim_blanks [of pad "[]"] by (simp add: read_line_def) (simp add: trim_line_def)
next
  case (Value pad v trail)
  with assms read_line_Value [of pad v trail] show ?thesis by simp
qed

lemma words_of_lines_render:
  "\<forall>l \<in> set ls. line_ok l \<Longrightarrow>
   words_of_lines (map render_line ls) = Some (concat (map line_words ls))"
proof (induction ls)
  case (Cons l ls)
  then show ?case using read_line_render [of l] by (cases l) simp_all
qed simp

text \<open>The output of \<open>elf2qar\<close> is such a text.\<close>

definition hex_lines :: "u32 list \<Rightarrow> hex_line list" where
  "hex_lines ws = map (\<lambda>v. Value [] v []) ws"

lemma hex_text_lines: "hex_text ws = text_of (map render_line (hex_lines ws))"
  by (simp add: hex_text_def text_of_def hex_lines_def comp_def)

lemma hex_lines_ok:
  "\<forall>l \<in> set (hex_lines ws). line_ok l" "\<forall>l \<in> set (map render_line (hex_lines ws)). line_fits l"
  using fmt_neq by (auto simp: hex_lines_def blanks_def line_fits_def)

lemma hex_lines_words: "concat (map line_words (hex_lines ws)) = ws"
  by (simp add: hex_lines_def comp_def)

subsection \<open>The bytes written\<close>

lemma word_bytes_le32: "word_bytes w = le32 w"
  by (simp add: word_bytes_def le32_def byte_of_def)

lemma write_words_all:
  "\<forall>i. qe_write ev i \<Longrightarrow> write_words ev i ws out = (True, out @ bytes_of ws)"
  by (induction ws arbitrary: i out) (simp_all add: bytes_of_def word_bytes_le32)

definition q_resources :: "qhex_env \<Rightarrow> bool" where
  "q_resources ev \<longleftrightarrow> (\<forall>n. qe_realloc ev n) \<and> (\<forall>p. qe_create ev p) \<and> (\<forall>i. qe_write ev i)"

definition q_all :: qhex_env where
  "q_all = \<lparr>qe_realloc = \<lambda>_. True, qe_create = \<lambda>_. True, qe_write = \<lambda>_. True\<rparr>"

lemma q_resources_all: "q_resources q_all"
  by (simp add: q_resources_def q_all_def)

definition ends_of :: "u32 list \<Rightarrow> (u32 \<times> u32) option" where
  "ends_of ws = (if ws = [] then None else Some (hd ws, last ws))"

lemma qhex_main_lines:
  assumes ev: "q_resources ev" and fits: "\<forall>l \<in> set ls. line_fits l"
    and fs: "fs path = Some (text_of ls)" and ws: "words_of_lines ls = Some ws"
    and path: "path \<noteq> ascii ''--bin''"
  shows "qhex_main ev [ascii ''--bin'', out, path] fs =
     (Inr \<lparr>rp_count = length ws, rp_nonzero = length (filter (\<lambda>v. v \<noteq> 0) ws), rp_ends = ends_of ws,
           rp_written = Some (length ws * 4)\<rparr>, fs(out \<mapsto> bytes_of ws))"
proof -
  have "(case read_loop ev (text_of ls) q_start of Inl e \<Rightarrow> None
         | Inr s' \<Rightarrow> Some (wb_words (q_buf s'))) = Some ws"
    using read_loop_lines [of ev ls q_start] ev fits ws by (simp add: q_resources_def q_start_def)
  then obtain s where s: "read_loop ev (text_of ls) q_start = Inr s" "wb_words (q_buf s) = ws"
    by (auto split: sum.splits)
  then have "q_nonzero s = length (filter (\<lambda>v. v \<noteq> 0) ws)"
    using read_loop_ok [OF q_start_ok s(1)] by (simp add: q_ok_def)
  with s ev fs path show ?thesis
    by (simp add: qhex_main_def wb_count_def Let_def write_binary_def q_resources_def
        write_words_all ends_of_def hd_conv_nth last_conv_nth)
qed

subsection \<open>Properties\<close>

text \<open>
  C21. On a text of blank lines, comment lines and lines with one eight-digit word (each with
  padding and possibly a comment after the word) that fit the line buffer, \<open>qhex --bin\<close> succeeds:
  it counts exactly the words of the text, counts the non-zero ones, shows the first and the last,
  and writes the little-endian bytes of the words in order.
\<close>

theorem qhex_reads_hex_text:
  assumes "q_resources ev" and "\<forall>l \<in> set ls. line_ok l \<and> line_fits (render_line l)"
    and "fs path = Some (text_of (map render_line ls))" and "path \<noteq> ascii ''--bin''"
  shows "let ws = concat (map line_words ls) in
     qhex_main ev [ascii ''--bin'', out, path] fs =
       (Inr \<lparr>rp_count = length ws, rp_nonzero = length (filter (\<lambda>v. v \<noteq> 0) ws),
             rp_ends = ends_of ws, rp_written = Some (length ws * 4)\<rparr>, fs(out \<mapsto> bytes_of ws))"
  using qhex_main_lines [of ev "map render_line ls" fs path _ out] words_of_lines_render [of ls] assms
  by (simp add: Let_def)

definition sample_lines :: "hex_line list" where
  "sample_lines = [Comment [] (ascii ''boot''), Value [32] 0xDEADBEEF (ascii ''  # entry''), Blank [9],
     Value [] 0 []]"

lemma qhex_reads_hex_text_witness:
  "qhex_main q_all [ascii ''--bin'', ascii ''o'', ascii ''i'']
     [ascii ''i'' \<mapsto> text_of (map render_line sample_lines)] =
   (Inr \<lparr>rp_count = 2, rp_nonzero = 1, rp_ends = Some (0xDEADBEEF, 0), rp_written = Some 8\<rparr>,
    [ascii ''i'' \<mapsto> text_of (map render_line sample_lines),
     ascii ''o'' \<mapsto> [0xEF, 0xBE, 0xAD, 0xDE, 0, 0, 0, 0]])"
proof -
  have "\<forall>l \<in> set sample_lines. line_ok l \<and> line_fits (render_line l)"
    by (simp add: sample_lines_def line_fits_def blanks_def ascii_def fmt_neq)
       (use fmt_neq in blast)
  moreover have "concat (map line_words sample_lines) = [0xDEADBEEF, 0]"
    by (simp add: sample_lines_def)
  moreover have "bytes_of [0xDEADBEEF, 0] = [0xEF, 0xBE, 0xAD, 0xDE, 0, 0, 0, 0]" by code_simp
  ultimately show ?thesis
    using qhex_reads_hex_text [OF q_resources_all, of sample_lines
        "[ascii ''i'' \<mapsto> text_of (map render_line sample_lines)]" "ascii ''i''" "ascii ''o''"]
    by (simp add: ends_of_def ascii_def Let_def)
qed

text \<open>
  C22. Whatever the input, when the reading loop of \<open>qhex\<close> ends without an error, the buffer has
  not been written beyond its capacity, the capacity is zero or 64 doubled a number of times, and
  the count of non-zero words is that of the words read.
\<close>

theorem qhex_loop_invariant:
  assumes "read_loop ev inp q_start = Inr s"
  shows "length (wb_words (q_buf s)) \<le> wb_capacity (q_buf s) \<and>
         (wb_capacity (q_buf s) = 0 \<or> (\<exists>k. wb_capacity (q_buf s) = 64 * 2 ^ k)) \<and>
         q_nonzero s = length (filter (\<lambda>v. v \<noteq> 0) (wb_words (q_buf s)))"
  using read_loop_ok [OF q_start_ok assms] by (simp add: q_ok_def wb_ok_def wb_count_def)

lemma qhex_loop_invariant_witness:
  "\<exists>s. read_loop q_all (fmt_08x 0xFF @ [10]) q_start = Inr s \<and>
       length (wb_words (q_buf s)) \<le> wb_capacity (q_buf s) \<and> wb_words (q_buf s) = [0xFF]"
proof -
  have "read_line (fmt_08x 0xFF @ [10]) = Word 0xFF"
    using read_line_Value [of "[]" "0xFF" "[]"] by (simp add: blanks_def)
  then have "read_step q_all (fmt_08x 0xFF @ [10]) q_start =
      Inr \<lparr>q_buf = \<lparr>wb_words = [0xFF], wb_capacity = 64\<rparr>, q_nonzero = 1, q_line_num = 1\<rparr>"
    by (simp add: read_step_def q_start_def append_word_def wb_count_def q_all_def Let_def)
  then obtain s where s: "read_loop q_all (fmt_08x 0xFF @ [10]) q_start = Inr s"
      "wb_words (q_buf s) = [0xFF]"
    using read_loop_line [of "fmt_08x 0xFF" q_all "[]" q_start] fmt_neq by fastforce
  then show ?thesis using qhex_loop_invariant [OF s(1)] by blast
qed

text \<open>
  A comment line that does not fit the line buffer is not a comment to its end: after a
  comment mark and 254 characters, the rest of the line is parsed as a line of its own, and a
  hexadecimal number there becomes a word of the image.
\<close>

theorem qhex_long_comment_is_data:
  assumes "q_resources ev" and "length c = 254" and "10 \<notin> set c" and "path \<noteq> ascii ''--bin''"
    and "fs path = Some (35 # c @ fmt_08x v @ [10])"
  shows "qhex_main ev [ascii ''--bin'', out, path] fs =
     (Inr \<lparr>rp_count = 1, rp_nonzero = (if v \<noteq> 0 then 1 else 0), rp_ends = Some (v, v),
           rp_written = Some 4\<rparr>, fs(out \<mapsto> bytes_of [v]))"
proof -
  define s1 where "s1 = q_start\<lparr>q_line_num := 1\<rparr>"
  have skip: "read_step ev (35 # c) q_start = Inr s1"
    by (simp add: read_step_def read_line_def cut_at_def cstr_def trim_line_def s1_def q_start_def Let_def)
  have 1: "read_loop ev (35 # c @ fmt_08x v @ [10]) q_start = read_loop ev (fmt_08x v @ [10]) s1"
    using read_loop_cut [of "35 # c" ev "fmt_08x v @ [10]" q_start] assms(2,3) skip by simp
  have "read_line (fmt_08x v @ [10]) = Word v"
    using read_line_Value [of "[]" v "[]"] by (simp add: blanks_def)
  then have "read_step ev (fmt_08x v @ [10]) s1 = Inr \<lparr>q_buf = \<lparr>wb_words = [v], wb_capacity = 64\<rparr>,
      q_nonzero = (if v \<noteq> 0 then 1 else 0), q_line_num = 2\<rparr>"
    using assms(1) by (simp add: read_step_def s1_def q_start_def append_word_def wb_count_def
        q_resources_def Let_def)
  then have "read_loop ev (35 # c @ fmt_08x v @ [10]) q_start = Inr \<lparr>q_buf = \<lparr>wb_words = [v],
      wb_capacity = 64\<rparr>, q_nonzero = (if v \<noteq> 0 then 1 else 0), q_line_num = 2\<rparr>"
    using 1 read_loop_line [of "fmt_08x v" ev "[]" s1] fmt_neq by fastforce
  then show ?thesis
    using assms by (simp add: qhex_main_def wb_count_def write_binary_def q_resources_def
        write_words_all Let_def)
qed

lemma qhex_long_comment_is_data_witness:
  "qhex_main q_all [ascii ''--bin'', ascii ''o'', ascii ''i'']
     [ascii ''i'' \<mapsto> 35 # replicate 254 45 @ fmt_08x 7 @ [10]] =
   (Inr \<lparr>rp_count = 1, rp_nonzero = 1, rp_ends = Some (7, 7), rp_written = Some 4\<rparr>,
    [ascii ''i'' \<mapsto> 35 # replicate 254 45 @ fmt_08x 7 @ [10], ascii ''o'' \<mapsto> bytes_of [7]])"
  using qhex_long_comment_is_data [OF q_resources_all, of "replicate 254 45" "ascii ''i''"
      "[ascii ''i'' \<mapsto> 35 # replicate 254 45 @ fmt_08x 7 @ [10]]" 7 "ascii ''o''"]
  by (simp add: ascii_def)

text \<open>
  A file with Windows line ends is refused at its first empty line: the carriage return is
  neither blank nor the end of the line for the parser, so a line of blanks before a carriage
  return is reported as an invalid word, with its line number, and no output is written.
\<close>

theorem qhex_rejects_crlf_blank_line:
  assumes "fs path = Some (text_of (map render_line ls) @ p @ 13 # 10 # rest)" and "blanks p"
    and "length p < 254" and "\<forall>l \<in> set ls. line_fits (render_line l) \<and> line_words l = [] \<and> line_ok l"
    and "path \<noteq> ascii ''--bin''"
  shows "qhex_main ev [ascii ''--bin'', out, path] fs =
    (Inl (Q_Invalid_word (length ls + 1) [13, 10]), fs)"
proof -
  have skip: "read_loop ev (text_of (map render_line ls) @ tl_text) s =
      read_loop ev tl_text (s\<lparr>q_line_num := q_line_num s + length ls\<rparr>)" for tl_text s
    using assms(4)
  proof (induction ls arbitrary: s)
    case (Cons l ls)
    have "read_line (render_line l @ [10]) = Skip" using read_line_render [of l] Cons.prems by simp
    then show ?case
      using read_loop_line [of "render_line l" ev "text_of (map render_line ls) @ tl_text" s] Cons
      by (simp add: text_of_Cons line_fits_def read_step_def)
  qed (simp add: text_of_def)
  have p: "10 \<notin> set (p @ [13])" "length (p @ [13]) < 255"
    using assms(2,3) blanks_neq by auto
  have "cut_at 35 (cstr (p @ [13, 10])) = p @ [13, 10]"
    using assms(2) blanks_neq cut_append [of p "[13, 10]"] by (auto simp: cut_at_def cstr_def)
  moreover have "trim_line (p @ [13, 10]) = [13, 10]"
    using assms(2) by (simp add: trim_blanks) (simp add: trim_line_def)
  moreover have "sscanf_x [13, 10] = No_Match" by code_simp
  ultimately have "read_line (p @ [13, 10]) = Bad [13, 10]" by (simp add: read_line_def)
  then have "read_loop ev (p @ 13 # 10 # rest) s = Inl (Q_Invalid_word (q_line_num s + 1) [13, 10])" for s
    using read_loop_line [OF p, of ev rest s] by (simp add: read_step_def Let_def)
  then show ?thesis
    using assms(1,5) by (simp add: qhex_main_def skip q_start_def)
qed

lemma qhex_rejects_crlf_blank_line_witness:
  "qhex_main q_all [ascii ''--bin'', ascii ''o'', ascii ''i''] [ascii ''i'' \<mapsto> [13, 10]] =
    (Inl (Q_Invalid_word 1 [13, 10]), [ascii ''i'' \<mapsto> [13, 10]])"
  using qhex_rejects_crlf_blank_line [of "[ascii ''i'' \<mapsto> [13, 10]]" "ascii ''i''" "[]" "[]" "[]" q_all
      "ascii ''o''"]
  by (simp add: text_of_def blanks_def ascii_def)

end
