(* ===== verification/Rtl_Core.thy ===== *)
theory Rtl_Core
  imports Soc
begin

text \<open>
  The processor core of \<^verbatim>\<open>qar_core.v\<close> with \<^verbatim>\<open>alu.v\<close> and \<^verbatim>\<open>regfile.v\<close>: a pipeline of three stages in
  front of a prefetch queue and an optional instruction cache, control and status registers, traps and
  interrupts. One record holds the registers of the clocked block, one the signals that the combinational
  block computes from them, and a clock cycle is the composition of the parts of the clocked block in the
  order of the source: every part reads the state \<open>s\<close> before the edge and writes the state \<open>n\<close>.
\<close>

subsection \<open>ALU and register file\<close>

definition ALU_ADD :: "4 word" where "ALU_ADD = 0"
definition ALU_SUB :: "4 word" where "ALU_SUB = 1"
definition ALU_AND :: "4 word" where "ALU_AND = 2"
definition ALU_OR :: "4 word" where "ALU_OR = 3"
definition ALU_XOR :: "4 word" where "ALU_XOR = 4"
definition ALU_SLL :: "4 word" where "ALU_SLL = 5"
definition ALU_SRL :: "4 word" where "ALU_SRL = 6"

lemmas alu_op_defs = ALU_ADD_def ALU_SUB_def ALU_AND_def ALU_OR_def ALU_XOR_def ALU_SLL_def ALU_SRL_def

definition alu :: "u32 \<Rightarrow> u32 \<Rightarrow> 4 word \<Rightarrow> u32" where
  "alu op_a op_b alu_op =
     (if alu_op = ALU_ADD then op_a + op_b
      else if alu_op = ALU_SUB then op_a - op_b
      else if alu_op = ALU_AND then op_a AND op_b
      else if alu_op = ALU_OR then op_a OR op_b
      else if alu_op = ALU_XOR then op_a XOR op_b
      else if alu_op = ALU_SLL then push_bit (unat (op_b AND mask 5)) op_a
      else if alu_op = ALU_SRL then drop_bit (unat (op_b AND mask 5)) op_a
      else 0)"

type_synonym regs = "5 word \<Rightarrow> u32"

definition rf_read :: "regs \<Rightarrow> 5 word \<Rightarrow> u32" where
  "rf_read regs raddr = (if raddr = 0 then 0 else regs raddr)"

definition rf_write :: "bool \<Rightarrow> 5 word \<Rightarrow> u32 \<Rightarrow> regs \<Rightarrow> regs" where
  "rf_write we waddr wdata regs = (if we \<and> waddr \<noteq> 0 then regs(waddr := wdata) else regs)"

subsection \<open>The registers of the core\<close>

record core =
  pc_fetch :: u32
  fetch_req_pending :: bool
  fetch_req_addr :: u32
  if_valid :: bool
  if_instr :: u32
  if_pc :: u32
  prefetch_slot_valid :: bool
  prefetch_slot_instr :: u32
  prefetch_slot_pc :: u32
  icache_data :: "nat \<Rightarrow> u32"
  icache_tag :: "nat \<Rightarrow> u32"
  icache_valid :: "nat \<Rightarrow> bool"
  icache_fill_index :: nat
  icache_fill_tag :: u32
  fetch_req_cacheable :: bool
  id_valid :: bool
  id_instr :: u32
  id_pc :: u32
  ex_valid :: bool
  ex_instr :: u32
  ex_pc :: u32
  ex_rs1_val :: u32
  ex_rs2_val :: u32
  mem_req_valid :: bool
  mem_req_we :: bool
  mem_req_addr :: u32
  mem_req_wdata :: u32
  dmem_pending :: bool
  dmem_is_load :: bool
  dmem_rd :: "5 word"
  csr_mstatus :: u32
  csr_mtvec :: u32
  csr_mepc :: u32
  csr_mcause :: u32
  csr_mie :: u32
  csr_mip :: u32
  csr_mtimecmp :: u32
  csr_mtime :: u32
  csr_irq_priority :: bool
  irq_timer_ack :: bool
  irq_external_ack :: bool

definition core_reset :: "core \<Rightarrow> core" where
  "core_reset s = s\<lparr>pc_fetch := 0, fetch_req_pending := False, fetch_req_addr := 0,
     if_valid := False, if_instr := 0, if_pc := 0,
     prefetch_slot_valid := False, prefetch_slot_instr := 0, prefetch_slot_pc := 0,
     fetch_req_cacheable := False, icache_fill_index := 0, icache_fill_tag := 0,
     id_valid := False, id_instr := 0, id_pc := 0,
     ex_valid := False, ex_instr := 0, ex_pc := 0, ex_rs1_val := 0, ex_rs2_val := 0,
     dmem_pending := False, dmem_is_load := False, dmem_rd := 0,
     mem_req_valid := False, mem_req_we := False, mem_req_addr := 0, mem_req_wdata := 0,
     csr_mstatus := 0, csr_mtvec := 0x100, csr_mepc := 0, csr_mcause := 0, csr_mie := 0,
     csr_mip := 0, csr_mtime := 0, csr_mtimecmp := 200, csr_irq_priority := False,
     irq_timer_ack := False, irq_external_ack := False,
     icache_valid := (\<lambda>_. False), icache_data := (\<lambda>_. 0), icache_tag := (\<lambda>_. 0)\<rparr>"

text \<open>
  What a cycle of the core reads from outside: the two memory ports, the read data of the addressed
  peripheral, the interrupt pins and the interrupt requests of the timer and of the other peripherals.
\<close>

record core_in =
  ci_imem_ready :: bool
  ci_imem_rdata :: u32
  ci_mem_ready :: bool
  ci_mem_rdata :: u32
  ci_dev_rdata :: u32
  ci_irq_timer :: bool
  ci_irq_external :: bool
  ci_soc_timer_irq :: bool
  ci_soc_external_irq :: bool

subsection \<open>Instruction fields\<close>

definition opcode_of :: "u32 \<Rightarrow> 7 word" where "opcode_of i = ucast i"
definition rd_of :: "u32 \<Rightarrow> 5 word" where "rd_of i = ucast (drop_bit 7 i)"
definition funct3_of :: "u32 \<Rightarrow> 3 word" where "funct3_of i = ucast (drop_bit 12 i)"
definition rs1_of :: "u32 \<Rightarrow> 5 word" where "rs1_of i = ucast (drop_bit 15 i)"
definition rs2_of :: "u32 \<Rightarrow> 5 word" where "rs2_of i = ucast (drop_bit 20 i)"
definition funct7_of :: "u32 \<Rightarrow> 7 word" where "funct7_of i = ucast (drop_bit 25 i)"
definition csr_of :: "u32 \<Rightarrow> 12 word" where "csr_of i = ucast (drop_bit 20 i)"

definition imm_i :: "u32 \<Rightarrow> u32" where
  "imm_i i = scast (ucast (drop_bit 20 i) :: 12 word)"

definition imm_s :: "u32 \<Rightarrow> u32" where
  "imm_s i = scast (push_bit 5 (ucast (funct7_of i)) OR ucast (rd_of i) :: 12 word)"

definition imm_b :: "u32 \<Rightarrow> u32" where
  "imm_b i = scast (push_bit 12 (ucast (drop_bit 31 i AND 1)) OR push_bit 11 (ucast (drop_bit 7 i AND 1)) OR
     push_bit 5 (ucast (drop_bit 25 i AND 0x3F)) OR push_bit 1 (ucast (drop_bit 8 i AND 0xF)) :: 13 word)"

definition imm_j :: "u32 \<Rightarrow> u32" where
  "imm_j i = scast (push_bit 20 (ucast (drop_bit 31 i AND 1)) OR push_bit 12 (ucast (drop_bit 12 i AND 0xFF)) OR
     push_bit 11 (ucast (drop_bit 20 i AND 1)) OR push_bit 1 (ucast (drop_bit 21 i AND 0x3FF)) :: 21 word)"

definition imm_u :: "u32 \<Rightarrow> u32" where
  "imm_u i = i AND 0xFFFFF000"

definition OP_IMM :: "7 word" where "OP_IMM = 0x13"
definition OP_REG :: "7 word" where "OP_REG = 0x33"
definition OP_LOAD :: "7 word" where "OP_LOAD = 0x03"
definition OP_STORE :: "7 word" where "OP_STORE = 0x23"
definition OP_BRANCH :: "7 word" where "OP_BRANCH = 0x63"
definition OP_JAL :: "7 word" where "OP_JAL = 0x6F"
definition OP_JALR :: "7 word" where "OP_JALR = 0x67"
definition OP_SYSTEM :: "7 word" where "OP_SYSTEM = 0x73"
definition OP_LUI :: "7 word" where "OP_LUI = 0x37"
definition OP_AUIPC :: "7 word" where "OP_AUIPC = 0x17"

lemmas opcode_defs = OP_IMM_def OP_REG_def OP_LOAD_def OP_STORE_def OP_BRANCH_def OP_JAL_def OP_JALR_def
  OP_SYSTEM_def OP_LUI_def OP_AUIPC_def

definition uses_rs1 :: "u32 \<Rightarrow> bool" where
  "uses_rs1 i \<longleftrightarrow> opcode_of i = OP_REG \<or> opcode_of i = OP_IMM \<or> opcode_of i = OP_LOAD \<or> opcode_of i = OP_STORE \<or>
     opcode_of i = OP_BRANCH \<or> opcode_of i = OP_JALR \<or> opcode_of i = OP_SYSTEM \<and> funct3_of i \<noteq> 0"

definition uses_rs2 :: "u32 \<Rightarrow> bool" where
  "uses_rs2 i \<longleftrightarrow> opcode_of i = OP_REG \<or> opcode_of i = OP_STORE \<or> opcode_of i = OP_BRANCH"

subsection \<open>Control and status registers\<close>

definition CSR_ADDR_MSTATUS :: "12 word" where "CSR_ADDR_MSTATUS = 0x300"
definition CSR_ADDR_MIE :: "12 word" where "CSR_ADDR_MIE = 0x304"
definition CSR_ADDR_MTVEC :: "12 word" where "CSR_ADDR_MTVEC = 0x305"
definition CSR_ADDR_MEPC :: "12 word" where "CSR_ADDR_MEPC = 0x341"
definition CSR_ADDR_MCAUSE :: "12 word" where "CSR_ADDR_MCAUSE = 0x342"
definition CSR_ADDR_MIP :: "12 word" where "CSR_ADDR_MIP = 0x344"
definition CSR_ADDR_MTIME :: "12 word" where "CSR_ADDR_MTIME = 0x701"
definition CSR_ADDR_MTIMECMP :: "12 word" where "CSR_ADDR_MTIMECMP = 0x720"
definition CSR_ADDR_IRQ_PRIORITY :: "12 word" where "CSR_ADDR_IRQ_PRIORITY = 0xBC0"
definition CSR_ADDR_IRQ_ACK :: "12 word" where "CSR_ADDR_IRQ_ACK = 0xBC1"

lemmas csr_addr_defs = CSR_ADDR_MSTATUS_def CSR_ADDR_MIE_def CSR_ADDR_MTVEC_def CSR_ADDR_MEPC_def
  CSR_ADDR_MCAUSE_def CSR_ADDR_MIP_def CSR_ADDR_MTIME_def CSR_ADDR_MTIMECMP_def
  CSR_ADDR_IRQ_PRIORITY_def CSR_ADDR_IRQ_ACK_def

definition MCAUSE_ECALL :: u32 where "MCAUSE_ECALL = 11"
definition MCAUSE_ILLEGAL :: u32 where "MCAUSE_ILLEGAL = 2"
definition MCAUSE_TIMER_IRQ :: u32 where "MCAUSE_TIMER_IRQ = 0x80000007"
definition MCAUSE_EXT_IRQ :: u32 where "MCAUSE_EXT_IRQ = 0x8000000B"

lemmas mcause_defs = MCAUSE_ECALL_def MCAUSE_ILLEGAL_def MCAUSE_TIMER_IRQ_def MCAUSE_EXT_IRQ_def

definition csr_read :: "core \<Rightarrow> 12 word \<Rightarrow> u32" where
  "csr_read s a =
     (if a = CSR_ADDR_MSTATUS then csr_mstatus s
      else if a = CSR_ADDR_MTVEC then csr_mtvec s
      else if a = CSR_ADDR_MEPC then csr_mepc s
      else if a = CSR_ADDR_MCAUSE then csr_mcause s
      else if a = CSR_ADDR_MIE then csr_mie s
      else if a = CSR_ADDR_MIP then csr_mip s
      else if a = CSR_ADDR_MTIME then csr_mtime s
      else if a = CSR_ADDR_MTIMECMP then csr_mtimecmp s
      else if a = CSR_ADDR_IRQ_PRIORITY then (if csr_irq_priority s then 1 else 0)
      else 0)"

subsection \<open>Interrupt detection\<close>

definition timer_trigger_level :: "core_in \<Rightarrow> core \<Rightarrow> bool" where
  "timer_trigger_level ci s \<longleftrightarrow> csr_mtimecmp s \<le> csr_mtime s \<or> ci_irq_timer ci \<or> ci_soc_timer_irq ci"

definition external_trigger_level :: "core_in \<Rightarrow> bool" where
  "external_trigger_level ci \<longleftrightarrow> ci_irq_external ci \<or> ci_soc_external_irq ci"

definition timer_can_fire :: "core \<Rightarrow> bool" where
  "timer_can_fire s \<longleftrightarrow> bit (csr_mstatus s) 3 \<and> bit (csr_mie s) 7 \<and> bit (csr_mip s) 7"

definition ext_can_fire :: "core \<Rightarrow> bool" where
  "ext_can_fire s \<longleftrightarrow> bit (csr_mstatus s) 3 \<and> bit (csr_mie s) 11 \<and> bit (csr_mip s) 11"

definition take_timer_irq :: "core \<Rightarrow> bool" where
  "take_timer_irq s \<longleftrightarrow> timer_can_fire s \<and> (\<not> ext_can_fire s \<or> \<not> csr_irq_priority s)"

definition take_ext_irq :: "core \<Rightarrow> bool" where
  "take_ext_irq s \<longleftrightarrow> ext_can_fire s \<and> (\<not> timer_can_fire s \<or> csr_irq_priority s)"

subsection \<open>The combinational block\<close>

record ex_out =
  rf_we :: bool
  rf_waddr :: "5 word"
  rf_wdata :: u32
  branch_target :: u32
  flush_pipe :: bool
  stall_ex :: bool
  start_mem :: bool
  start_mem_is_load :: bool
  start_mem_addr :: u32
  start_mem_wdata :: u32
  start_mem_rd :: "5 word"
  start_dev :: access
  csr_write_en :: bool
  csr_write_addr :: "12 word"
  csr_write_data :: u32
  trap_request :: bool
  trap_target :: u32
  trap_cause :: u32
  trap_mepc_value :: u32
  illegal_instr :: bool

definition addr_load_candidate :: "core \<Rightarrow> u32" where
  "addr_load_candidate s = ex_rs1_val s + imm_i (ex_instr s)"

definition addr_store_candidate :: "core \<Rightarrow> u32" where
  "addr_store_candidate s = ex_rs1_val s + imm_s (ex_instr s)"

text \<open>The values before the decoder; the default result is the sum of the two operands.\<close>

definition ex_defaults :: "core_in \<Rightarrow> core \<Rightarrow> ex_out" where
  "ex_defaults ci s = \<lparr>rf_we = False, rf_waddr = rd_of (ex_instr s),
     rf_wdata = alu (ex_rs1_val s) (ex_rs2_val s) ALU_ADD,
     branch_target = ex_pc s + 4, flush_pipe = False,
     stall_ex = (dmem_pending s \<and> \<not> ci_mem_ready ci),
     start_mem = False, start_mem_is_load = False, start_mem_addr = 0, start_mem_wdata = 0,
     start_mem_rd = rd_of (ex_instr s), start_dev = NoAccess,
     csr_write_en = False, csr_write_addr = 0, csr_write_data = 0,
     trap_request = False, trap_target = csr_mtvec s, trap_cause = 0, trap_mepc_value = ex_pc s,
     illegal_instr = False\<rparr>"

definition ex_op_imm :: "core \<Rightarrow> ex_out \<Rightarrow> ex_out" where
  "ex_op_imm s x = x\<lparr>rf_we := True, rf_wdata := alu (ex_rs1_val s) (imm_i (ex_instr s)) ALU_ADD\<rparr>"

definition ex_op :: "core \<Rightarrow> ex_out \<Rightarrow> ex_out" where
  "ex_op s x =
     (let f3 = funct3_of (ex_instr s); f7 = funct7_of (ex_instr s);
          res = (\<lambda>sel x. x\<lparr>rf_wdata := alu (ex_rs1_val s) (ex_rs2_val s) sel\<rparr>);
          x = x\<lparr>rf_we := True\<rparr>
      in if f3 = 0 then (if f7 = 0 then res ALU_ADD x else if f7 = 0x20 then res ALU_SUB x
                         else x\<lparr>illegal_instr := True\<rparr>)
         else if f3 = 7 then res ALU_AND x
         else if f3 = 6 then res ALU_OR x
         else if f3 = 4 then res ALU_XOR x
         else if f3 = 1 then res ALU_SLL x
         else if f3 = 5 then (if f7 = 0 then res ALU_SRL x else x\<lparr>illegal_instr := True\<rparr>)
         else x\<lparr>illegal_instr := True\<rparr>)"

definition ex_load :: "core_in \<Rightarrow> core \<Rightarrow> ex_out \<Rightarrow> ex_out" where
  "ex_load ci s x =
     (if funct3_of (ex_instr s) = 2
      then (let a = addr_load_candidate s in
            if soc_decode a \<noteq> None
            then x\<lparr>start_dev := Load a, rf_we := True, rf_wdata := ci_dev_rdata ci\<rparr>
            else (let x = (if \<not> dmem_pending s
                           then x\<lparr>start_mem := True, start_mem_is_load := True, start_mem_addr := a\<rparr> else x)
                  in x\<lparr>stall_ex := (dmem_pending s \<and> \<not> ci_mem_ready ci) \<or> start_mem x\<rparr>))
      else x\<lparr>illegal_instr := True\<rparr>)"

definition ex_store :: "core_in \<Rightarrow> core \<Rightarrow> ex_out \<Rightarrow> ex_out" where
  "ex_store ci s x =
     (if funct3_of (ex_instr s) = 2
      then (let a = addr_store_candidate s in
            if soc_decode a \<noteq> None then x\<lparr>start_dev := Store a (ex_rs2_val s)\<rparr>
            else (let x = (if \<not> dmem_pending s
                           then x\<lparr>start_mem := True, start_mem_is_load := False, start_mem_addr := a,
                                  start_mem_wdata := ex_rs2_val s\<rparr> else x)
                  in x\<lparr>stall_ex := (dmem_pending s \<and> \<not> ci_mem_ready ci) \<or> start_mem x\<rparr>))
      else x\<lparr>illegal_instr := True\<rparr>)"

definition ex_branch :: "core \<Rightarrow> ex_out \<Rightarrow> ex_out" where
  "ex_branch s x =
     (let f3 = funct3_of (ex_instr s); a = ex_rs1_val s; b = ex_rs2_val s;
          taken = (if f3 = 0 then a = b else if f3 = 1 then a \<noteq> b
                   else if f3 = 4 then sint a < sint b else if f3 = 5 then sint b \<le> sint a
                   else if f3 = 6 then a < b else if f3 = 7 then b \<le> a else False);
          x = (if f3 = 2 \<or> f3 = 3 then x\<lparr>illegal_instr := True\<rparr> else x)
      in if taken then x\<lparr>branch_target := ex_pc s + imm_b (ex_instr s), flush_pipe := True\<rparr> else x)"

definition ex_jal :: "core \<Rightarrow> ex_out \<Rightarrow> ex_out" where
  "ex_jal s x = x\<lparr>rf_we := True, rf_wdata := ex_pc s + 4,
     branch_target := ex_pc s + imm_j (ex_instr s), flush_pipe := True\<rparr>"

definition ex_jalr :: "core \<Rightarrow> ex_out \<Rightarrow> ex_out" where
  "ex_jalr s x =
     (if funct3_of (ex_instr s) = 0
      then x\<lparr>rf_we := True, rf_wdata := ex_pc s + 4,
             branch_target := (ex_rs1_val s + imm_i (ex_instr s)) AND 0xFFFFFFFE, flush_pipe := True\<rparr>
      else x\<lparr>illegal_instr := True\<rparr>)"

definition ex_csr :: "core \<Rightarrow> bool \<Rightarrow> u32 \<Rightarrow> ex_out \<Rightarrow> ex_out" where
  "ex_csr s we wdata x =
     x\<lparr>rf_we := (rd_of (ex_instr s) \<noteq> 0), rf_wdata := csr_read s (csr_of (ex_instr s)),
       csr_write_en := we, csr_write_addr := csr_of (ex_instr s), csr_write_data := wdata\<rparr>"

definition ex_system :: "core \<Rightarrow> ex_out \<Rightarrow> ex_out" where
  "ex_system s x =
     (let i = ex_instr s; f3 = funct3_of i; old = csr_read s (csr_of i)
      in if f3 = 1 then ex_csr s True (ex_rs1_val s) x
         else if f3 = 2 then ex_csr s (rs1_of i \<noteq> 0) (old OR ex_rs1_val s) x
         else if f3 = 3 then ex_csr s (rs1_of i \<noteq> 0) (old AND NOT (ex_rs1_val s)) x
         else if f3 = 0 \<and> csr_of i = 0
         then x\<lparr>trap_request := True, trap_target := csr_mtvec s, trap_cause := MCAUSE_ECALL,
                trap_mepc_value := ex_pc s\<rparr>
         else if f3 = 0 \<and> csr_of i = 0x302
         then x\<lparr>branch_target := csr_mepc s, flush_pipe := True\<rparr>
         else x\<lparr>illegal_instr := True\<rparr>)"

definition ex_decode :: "core_in \<Rightarrow> core \<Rightarrow> ex_out \<Rightarrow> ex_out" where
  "ex_decode ci s x =
     (let op = opcode_of (ex_instr s)
      in if op = OP_IMM then ex_op_imm s x
         else if op = OP_REG then ex_op s x
         else if op = OP_LOAD then ex_load ci s x
         else if op = OP_STORE then ex_store ci s x
         else if op = OP_BRANCH then ex_branch s x
         else if op = OP_JAL then ex_jal s x
         else if op = OP_JALR then ex_jalr s x
         else if op = OP_SYSTEM then ex_system s x
         else if op = OP_LUI then x\<lparr>rf_we := True, rf_wdata := imm_u (ex_instr s)\<rparr>
         else if op = OP_AUIPC then x\<lparr>rf_we := True, rf_wdata := ex_pc s + imm_u (ex_instr s)\<rparr>
         else if ex_instr s \<noteq> 0 then x\<lparr>illegal_instr := True\<rparr> else x)"

definition load_commit :: "core_in \<Rightarrow> core \<Rightarrow> bool" where
  "load_commit ci s \<longleftrightarrow> dmem_pending s \<and> ci_mem_ready ci \<and> dmem_is_load s"

definition ex_commit :: "core_in \<Rightarrow> core \<Rightarrow> ex_out \<Rightarrow> ex_out" where
  "ex_commit ci s x =
     (if load_commit ci s then x\<lparr>rf_we := True, rf_waddr := dmem_rd s, rf_wdata := ci_mem_rdata ci\<rparr> else x)"

definition ex_illegal :: "core \<Rightarrow> ex_out \<Rightarrow> ex_out" where
  "ex_illegal s x =
     (if illegal_instr x \<and> ex_valid s
      then x\<lparr>trap_request := True, trap_target := csr_mtvec s, trap_cause := MCAUSE_ILLEGAL,
             trap_mepc_value := ex_pc s\<rparr>
      else x)"

definition irq_mepc :: "core \<Rightarrow> u32" where
  "irq_mepc s = (if ex_valid s then ex_pc s else if id_valid s then id_pc s
                 else if if_valid s then if_pc s else pc_fetch s)"

definition ex_interrupt :: "core \<Rightarrow> ex_out \<Rightarrow> ex_out" where
  "ex_interrupt s x =
     (if trap_request x then x
      else if take_timer_irq s
      then x\<lparr>trap_request := True, trap_target := csr_mtvec s, trap_cause := MCAUSE_TIMER_IRQ,
             trap_mepc_value := irq_mepc s\<rparr>
      else if take_ext_irq s
      then x\<lparr>trap_request := True, trap_target := csr_mtvec s, trap_cause := MCAUSE_EXT_IRQ,
             trap_mepc_value := irq_mepc s\<rparr>
      else x)"

definition core_ex :: "core_in \<Rightarrow> core \<Rightarrow> ex_out" where
  "core_ex ci s =
     (let x = ex_defaults ci s;
          x = (if ex_valid s then ex_decode ci s x else x);
          x = ex_commit ci s x;
          x = ex_illegal s x
      in ex_interrupt s x)"

subsection \<open>Pipeline control\<close>

definition wb_en_forward :: "core \<Rightarrow> ex_out \<Rightarrow> bool" where
  "wb_en_forward s x \<longleftrightarrow> ex_valid s \<and> \<not> stall_ex x \<and> rf_we x \<and> rf_waddr x \<noteq> 0"

definition forward_rs1 :: "regs \<Rightarrow> core \<Rightarrow> ex_out \<Rightarrow> u32" where
  "forward_rs1 regs s x =
     (if wb_en_forward s x \<and> rf_waddr x = rs1_of (id_instr s) \<and> uses_rs1 (id_instr s) then rf_wdata x
      else rf_read regs (if id_valid s then rs1_of (id_instr s) else 0))"

definition forward_rs2 :: "regs \<Rightarrow> core \<Rightarrow> ex_out \<Rightarrow> u32" where
  "forward_rs2 regs s x =
     (if wb_en_forward s x \<and> rf_waddr x = rs2_of (id_instr s) \<and> uses_rs2 (id_instr s) then rf_wdata x
      else rf_read regs (if id_valid s then rs2_of (id_instr s) else 0))"

definition load_use_hazard :: "core \<Rightarrow> bool" where
  "load_use_hazard s \<longleftrightarrow> id_valid s \<and> dmem_pending s \<and> dmem_is_load s \<and>
     (uses_rs1 (id_instr s) \<and> rs1_of (id_instr s) \<noteq> 0 \<and> rs1_of (id_instr s) = dmem_rd s \<or>
      uses_rs2 (id_instr s) \<and> rs2_of (id_instr s) \<noteq> 0 \<and> rs2_of (id_instr s) = dmem_rd s)"

definition ex_can_accept :: "core \<Rightarrow> ex_out \<Rightarrow> bool" where
  "ex_can_accept s x \<longleftrightarrow> \<not> ex_valid s \<or> \<not> stall_ex x"

definition id_stall :: "core \<Rightarrow> ex_out \<Rightarrow> bool" where
  "id_stall s x \<longleftrightarrow> load_use_hazard s \<or> (\<not> ex_can_accept s x \<and> id_valid s)"

definition id_accept :: "core \<Rightarrow> ex_out \<Rightarrow> bool" where
  "id_accept s x \<longleftrightarrow> if_valid s \<and> \<not> id_valid s \<and> \<not> id_stall s x"

definition fetch_buffer_occupancy :: "core \<Rightarrow> nat" where
  "fetch_buffer_occupancy s = (if if_valid s then 1 else 0) + (if prefetch_slot_valid s then 1 else 0)"

definition slot_to_if :: "core \<Rightarrow> ex_out \<Rightarrow> bool" where
  "slot_to_if s x \<longleftrightarrow> prefetch_slot_valid s \<and> (\<not> if_valid s \<or> id_accept s x)"

definition if_fetch_target :: "core \<Rightarrow> ex_out \<Rightarrow> bool" where
  "if_fetch_target s x \<longleftrightarrow> (\<not> if_valid s \<or> id_accept s x) \<and> \<not> slot_to_if s x"

subsection \<open>The instruction cache\<close>

text \<open>
  The cache has \<open>2 ^ cb\<close> entries; \<open>cb = 0\<close> stands for the configuration without a cache, which the
  code gives one index bit and never looks up.
\<close>

definition cache_index :: "nat \<Rightarrow> u32 \<Rightarrow> nat" where
  "cache_index cb a = (if cb \<noteq> 0 then unat (drop_bit 2 a) mod 2 ^ cb else 0)"

definition cache_tag :: "nat \<Rightarrow> u32 \<Rightarrow> u32" where
  "cache_tag cb a = drop_bit (2 + (if cb \<noteq> 0 then cb else 1)) a"

definition icache_lookup_hit :: "nat \<Rightarrow> core \<Rightarrow> bool" where
  "icache_lookup_hit cb s \<longleftrightarrow> cb \<noteq> 0 \<and> icache_valid s (cache_index cb (pc_fetch s)) \<and>
     icache_tag s (cache_index cb (pc_fetch s)) = cache_tag cb (pc_fetch s)"

definition icache_lookup_word :: "nat \<Rightarrow> core \<Rightarrow> u32" where
  "icache_lookup_word cb s = icache_data s (cache_index cb (pc_fetch s))"

subsection \<open>The clocked block\<close>

definition core_mip :: "core_in \<Rightarrow> ex_out \<Rightarrow> core \<Rightarrow> core \<Rightarrow> core" where
  "core_mip ci x s n =
     (let n = n\<lparr>irq_timer_ack := False, irq_external_ack := False, csr_mtime := csr_mtime s + 1\<rparr>
      in if csr_write_en x \<and> csr_write_addr x = CSR_ADDR_MIP then n\<lparr>csr_mip := csr_write_data x\<rparr>
         else n\<lparr>csr_mip := assign_bit 11 (external_trigger_level ci)
                             (assign_bit 7 (timer_trigger_level ci s) (csr_mip n))\<rparr>)"

definition core_flush :: "ex_out \<Rightarrow> core \<Rightarrow> core" where
  "core_flush x n = n\<lparr>pc_fetch := (if trap_request x then trap_target x else branch_target x),
     fetch_req_pending := False, fetch_req_cacheable := False, if_valid := False,
     prefetch_slot_valid := False, id_valid := False, ex_valid := False\<rparr>"

text \<open>A fetched word goes to the fetch register when that is free, else to the prefetch slot.\<close>

definition core_put :: "u32 \<Rightarrow> u32 \<Rightarrow> core \<Rightarrow> ex_out \<Rightarrow> core \<Rightarrow> core" where
  "core_put word pc s x n =
     (if if_fetch_target s x then n\<lparr>if_valid := True, if_instr := word, if_pc := pc\<rparr>
      else n\<lparr>prefetch_slot_valid := True, prefetch_slot_instr := word, prefetch_slot_pc := pc\<rparr>)"

definition core_fetch_issue :: "nat \<Rightarrow> core \<Rightarrow> ex_out \<Rightarrow> core \<Rightarrow> core" where
  "core_fetch_issue cb s x n =
     (if \<not> fetch_req_pending s \<and> fetch_buffer_occupancy s < 2
      then (if icache_lookup_hit cb s
            then (core_put (icache_lookup_word cb s) (pc_fetch s) s x n)\<lparr>pc_fetch := pc_fetch s + 4\<rparr>
            else n\<lparr>fetch_req_pending := True, fetch_req_addr := pc_fetch s, fetch_req_cacheable := (cb \<noteq> 0),
                   icache_fill_index := cache_index cb (pc_fetch s), icache_fill_tag := cache_tag cb (pc_fetch s),
                   pc_fetch := pc_fetch s + 4\<rparr>)
      else n)"

definition core_id_accept :: "core \<Rightarrow> ex_out \<Rightarrow> core \<Rightarrow> core" where
  "core_id_accept s x n =
     (if id_accept s x
      then n\<lparr>id_valid := True, id_instr := if_instr s, id_pc := if_pc s, if_valid := False\<rparr> else n)"

definition core_slot_to_if :: "core \<Rightarrow> ex_out \<Rightarrow> core \<Rightarrow> core" where
  "core_slot_to_if s x n =
     (if slot_to_if s x
      then n\<lparr>if_valid := True, if_instr := prefetch_slot_instr s, if_pc := prefetch_slot_pc s,
             prefetch_slot_valid := False\<rparr> else n)"

definition core_fetch_response :: "nat \<Rightarrow> core_in \<Rightarrow> core \<Rightarrow> ex_out \<Rightarrow> core \<Rightarrow> core" where
  "core_fetch_response cb ci s x n =
     (if fetch_req_pending s \<and> ci_imem_ready ci
      then (let n = core_put (ci_imem_rdata ci) (fetch_req_addr s) s x (n\<lparr>fetch_req_pending := False\<rparr>);
                n = (if fetch_req_cacheable s \<and> cb \<noteq> 0
                     then n\<lparr>icache_data := (icache_data n)(icache_fill_index s := ci_imem_rdata ci),
                            icache_tag := (icache_tag n)(icache_fill_index s := icache_fill_tag s),
                            icache_valid := (icache_valid n)(icache_fill_index s := True)\<rparr>
                     else n)
            in n\<lparr>fetch_req_cacheable := False\<rparr>)
      else n)"

definition core_issue :: "regs \<Rightarrow> core \<Rightarrow> ex_out \<Rightarrow> core \<Rightarrow> core" where
  "core_issue regs s x n =
     (if id_valid s \<and> \<not> id_stall s x \<and> ex_can_accept s x
      then n\<lparr>ex_valid := True, ex_instr := id_instr s, ex_pc := id_pc s,
             ex_rs1_val := forward_rs1 regs s x, ex_rs2_val := forward_rs2 regs s x, id_valid := False\<rparr>
      else if ex_valid s \<and> \<not> stall_ex x then n\<lparr>ex_valid := False\<rparr>
      else n)"

definition core_mem :: "core_in \<Rightarrow> ex_out \<Rightarrow> core \<Rightarrow> core \<Rightarrow> core" where
  "core_mem ci x s n =
     (if start_mem x \<and> \<not> dmem_pending s
      then n\<lparr>mem_req_valid := True, mem_req_we := (\<not> start_mem_is_load x), mem_req_addr := start_mem_addr x,
             mem_req_wdata := start_mem_wdata x, dmem_pending := True, dmem_is_load := start_mem_is_load x,
             dmem_rd := start_mem_rd x\<rparr>
      else if dmem_pending s \<and> ci_mem_ready ci then n\<lparr>mem_req_valid := False, dmem_pending := False\<rparr>
      else n)"

definition core_csr_write :: "ex_out \<Rightarrow> core \<Rightarrow> core" where
  "core_csr_write x n =
     (let a = csr_write_addr x; v = csr_write_data x
      in if \<not> csr_write_en x then n
         else if a = CSR_ADDR_MSTATUS then n\<lparr>csr_mstatus := v\<rparr>
         else if a = CSR_ADDR_MTVEC then n\<lparr>csr_mtvec := v\<rparr>
         else if a = CSR_ADDR_MEPC then n\<lparr>csr_mepc := v\<rparr>
         else if a = CSR_ADDR_MCAUSE then n\<lparr>csr_mcause := v\<rparr>
         else if a = CSR_ADDR_MIE then n\<lparr>csr_mie := v\<rparr>
         else if a = CSR_ADDR_MTIME then n\<lparr>csr_mtime := v\<rparr>
         else if a = CSR_ADDR_MTIMECMP then n\<lparr>csr_mtimecmp := v\<rparr>
         else if a = CSR_ADDR_IRQ_PRIORITY then n\<lparr>csr_irq_priority := bit v 0\<rparr>
         else if a = CSR_ADDR_IRQ_ACK
         then (let n = (if bit v 0 then n\<lparr>irq_timer_ack := True\<rparr> else n)
               in if bit v 1 then n\<lparr>irq_external_ack := True, csr_mip := assign_bit 11 False (csr_mip n)\<rparr> else n)
         else n)"

definition is_mret :: "core \<Rightarrow> bool" where
  "is_mret s \<longleftrightarrow> ex_valid s \<and> opcode_of (ex_instr s) = OP_SYSTEM \<and> funct3_of (ex_instr s) = 0 \<and>
     csr_of (ex_instr s) = 0x302"

definition core_trap :: "ex_out \<Rightarrow> core \<Rightarrow> core \<Rightarrow> core" where
  "core_trap x s n =
     (if trap_request x
      then n\<lparr>csr_mepc := trap_mepc_value x, csr_mcause := trap_cause x,
             csr_mstatus := assign_bit 3 False (assign_bit 7 (bit (csr_mstatus s) 3) (csr_mstatus n))\<rparr>
      else if is_mret s \<and> \<not> illegal_instr x
      then n\<lparr>csr_mstatus := assign_bit 7 True (assign_bit 3 (bit (csr_mstatus s) 7) (csr_mstatus n))\<rparr>
      else n)"

definition core_advance :: "nat \<Rightarrow> core_in \<Rightarrow> regs \<Rightarrow> ex_out \<Rightarrow> core \<Rightarrow> core \<Rightarrow> core" where
  "core_advance cb ci regs x s n =
     (if trap_request x \<or> flush_pipe x then core_flush x n
      else (let n = core_fetch_issue cb s x n;
                n = core_id_accept s x n;
                n = core_slot_to_if s x n;
                n = core_fetch_response cb ci s x n
            in core_issue regs s x n))"

definition core_step :: "nat \<Rightarrow> core_in \<Rightarrow> regs \<Rightarrow> core \<Rightarrow> core" where
  "core_step cb ci regs s =
     (let x = core_ex ci s;
          n = core_mip ci x s s;
          n = core_advance cb ci regs x s n;
          n = core_mem ci x s n;
          n = core_csr_write x n
      in core_trap x s n)"

definition core_regs_step :: "core_in \<Rightarrow> core \<Rightarrow> regs \<Rightarrow> regs" where
  "core_regs_step ci s regs =
     (let x = core_ex ci s in rf_write (rf_we x) (rf_waddr x) (rf_wdata x) regs)"

end
