(* ===== verification/Isa.thy ===== *)
theory Isa
  imports Rtl_Core
begin

text \<open>
  The instruction set that the documentation of the core promises (\<^verbatim>\<open>README.md\<close>, \<^verbatim>\<open>docs/architecture.md\<close>),
  as a reference: instructions as a datatype, their encodings, and what one instruction does to the
  registers, the program counter, the control registers and the outside world. Nothing here mentions the
  pipeline.
\<close>

datatype alu_fun = F_ADD | F_SUB | F_AND | F_OR | F_XOR | F_SLL | F_SRL

datatype cond = C_EQ | C_NE | C_LT | C_GE | C_LTU | C_GEU

datatype csr_fun = CSRRW | CSRRS | CSRRC

datatype instr =
    Addi "5 word" "5 word" u32
  | Alu alu_fun "5 word" "5 word" "5 word"
  | Lui "5 word" u32
  | Auipc "5 word" u32
  | Lw "5 word" "5 word" u32
  | Sw "5 word" "5 word" u32
  | Branch cond "5 word" "5 word" u32
  | Jal "5 word" u32
  | Jalr "5 word" "5 word" u32
  | Csr csr_fun "5 word" "5 word" "12 word"
  | Ecall
  | Mret

subsection \<open>Encodings\<close>

definition alu_fun_of :: "7 word \<Rightarrow> 3 word \<Rightarrow> alu_fun option" where
  "alu_fun_of f7 f3 =
     (if f7 = 0x20 \<and> f3 = 0 then Some F_SUB
      else if f7 \<noteq> 0 then None
      else if f3 = 0 then Some F_ADD
      else if f3 = 1 then Some F_SLL
      else if f3 = 4 then Some F_XOR
      else if f3 = 5 then Some F_SRL
      else if f3 = 6 then Some F_OR
      else if f3 = 7 then Some F_AND
      else None)"

definition cond_of :: "3 word \<Rightarrow> cond option" where
  "cond_of f3 =
     (if f3 = 0 then Some C_EQ
      else if f3 = 1 then Some C_NE
      else if f3 = 4 then Some C_LT
      else if f3 = 5 then Some C_GE
      else if f3 = 6 then Some C_LTU
      else if f3 = 7 then Some C_GEU
      else None)"

definition csr_fun_of :: "3 word \<Rightarrow> csr_fun option" where
  "csr_fun_of f3 = (if f3 = 1 then Some CSRRW else if f3 = 2 then Some CSRRS else if f3 = 3 then Some CSRRC else None)"

definition isa_decode :: "u32 \<Rightarrow> instr option" where
  "isa_decode i =
     (let op = opcode_of i; f3 = funct3_of i; f7 = funct7_of i; rd = rd_of i; r1 = rs1_of i; r2 = rs2_of i
      in if op = OP_IMM then (if f3 = 0 then Some (Addi rd r1 (imm_i i)) else None)
         else if op = OP_REG then map_option (\<lambda>f. Alu f rd r1 r2) (alu_fun_of f7 f3)
         else if op = OP_LUI then Some (Lui rd (imm_u i))
         else if op = OP_AUIPC then Some (Auipc rd (imm_u i))
         else if op = OP_LOAD then (if f3 = 2 then Some (Lw rd r1 (imm_i i)) else None)
         else if op = OP_STORE then (if f3 = 2 then Some (Sw r1 r2 (imm_s i)) else None)
         else if op = OP_BRANCH then map_option (\<lambda>c. Branch c r1 r2 (imm_b i)) (cond_of f3)
         else if op = OP_JAL then Some (Jal rd (imm_j i))
         else if op = OP_JALR then (if f3 = 0 then Some (Jalr rd r1 (imm_i i)) else None)
         else if i = 0x00000073 then Some Ecall
         else if i = 0x30200073 then Some Mret
         else if op = OP_SYSTEM then map_option (\<lambda>f. Csr f rd r1 (csr_of i)) (csr_fun_of f3)
         else None)"

subsection \<open>Meaning\<close>

fun alu_val :: "alu_fun \<Rightarrow> u32 \<Rightarrow> u32 \<Rightarrow> u32" where
  "alu_val F_ADD a b = a + b"
| "alu_val F_SUB a b = a - b"
| "alu_val F_AND a b = a AND b"
| "alu_val F_OR a b = a OR b"
| "alu_val F_XOR a b = a XOR b"
| "alu_val F_SLL a b = push_bit (unat b mod 32) a"
| "alu_val F_SRL a b = drop_bit (unat b mod 32) a"

fun cond_holds :: "cond \<Rightarrow> u32 \<Rightarrow> u32 \<Rightarrow> bool" where
  "cond_holds C_EQ a b = (a = b)"
| "cond_holds C_NE a b = (a \<noteq> b)"
| "cond_holds C_LT a b = (sint a < sint b)"
| "cond_holds C_GE a b = (sint b \<le> sint a)"
| "cond_holds C_LTU a b = (unat a < unat b)"
| "cond_holds C_GEU a b = (unat b \<le> unat a)"

text \<open>The new value of a control register, if it is written.\<close>

fun csr_update :: "csr_fun \<Rightarrow> 5 word \<Rightarrow> u32 \<Rightarrow> u32 \<Rightarrow> u32 option" where
  "csr_update CSRRW r1 old v = Some v"
| "csr_update CSRRS r1 old v = (if r1 = 0 then None else Some (old OR v))"
| "csr_update CSRRC r1 old v = (if r1 = 0 then None else Some (old AND NOT v))"

text \<open>
  What an instruction does: the register it writes, the next program counter, its access to the outside,
  the control register it writes, the trap it raises and whether it returns from one.
\<close>

record outcome =
  oc_rd :: "(5 word \<times> u32) option"
  oc_next :: u32
  oc_access :: access
  oc_csr :: "(12 word \<times> u32) option"
  oc_trap :: "u32 option"
  oc_mret :: bool

definition oc_plain :: "u32 \<Rightarrow> outcome" where
  "oc_plain pc = \<lparr>oc_rd = None, oc_next = pc + 4, oc_access = NoAccess, oc_csr = None, oc_trap = None,
     oc_mret = False\<rparr>"

text \<open>\<open>isa_exec csr loaded pc regs\<close>: \<open>csr\<close> reads the control registers, \<open>loaded\<close> is the word a load returns.\<close>

fun isa_exec :: "(12 word \<Rightarrow> u32) \<Rightarrow> u32 \<Rightarrow> u32 \<Rightarrow> regs \<Rightarrow> instr \<Rightarrow> outcome" where
  "isa_exec csr loaded pc regs (Addi rd r1 imm) = (oc_plain pc)\<lparr>oc_rd := Some (rd, rf_read regs r1 + imm)\<rparr>"
| "isa_exec csr loaded pc regs (Alu f rd r1 r2) =
     (oc_plain pc)\<lparr>oc_rd := Some (rd, alu_val f (rf_read regs r1) (rf_read regs r2))\<rparr>"
| "isa_exec csr loaded pc regs (Lui rd imm) = (oc_plain pc)\<lparr>oc_rd := Some (rd, imm)\<rparr>"
| "isa_exec csr loaded pc regs (Auipc rd imm) = (oc_plain pc)\<lparr>oc_rd := Some (rd, pc + imm)\<rparr>"
| "isa_exec csr loaded pc regs (Lw rd r1 imm) =
     (oc_plain pc)\<lparr>oc_rd := Some (rd, loaded), oc_access := Load (rf_read regs r1 + imm)\<rparr>"
| "isa_exec csr loaded pc regs (Sw r1 r2 imm) =
     (oc_plain pc)\<lparr>oc_access := Store (rf_read regs r1 + imm) (rf_read regs r2)\<rparr>"
| "isa_exec csr loaded pc regs (Branch c r1 r2 off) =
     (oc_plain pc)\<lparr>oc_next := (if cond_holds c (rf_read regs r1) (rf_read regs r2) then pc + off else pc + 4)\<rparr>"
| "isa_exec csr loaded pc regs (Jal rd off) = (oc_plain pc)\<lparr>oc_rd := Some (rd, pc + 4), oc_next := pc + off\<rparr>"
| "isa_exec csr loaded pc regs (Jalr rd r1 off) =
     (oc_plain pc)\<lparr>oc_rd := Some (rd, pc + 4), oc_next := (rf_read regs r1 + off) AND NOT 1\<rparr>"
| "isa_exec csr loaded pc regs (Csr f rd r1 a) =
     (oc_plain pc)\<lparr>oc_rd := (if rd = 0 then None else Some (rd, csr a)),
                   oc_csr := map_option (Pair a) (csr_update f r1 (csr a) (rf_read regs r1))\<rparr>"
| "isa_exec csr loaded pc regs Ecall =
     (oc_plain pc)\<lparr>oc_next := csr CSR_ADDR_MTVEC, oc_trap := Some MCAUSE_ECALL\<rparr>"
| "isa_exec csr loaded pc regs Mret = (oc_plain pc)\<lparr>oc_next := csr CSR_ADDR_MEPC, oc_mret := True\<rparr>"

definition oc_regs :: "outcome \<Rightarrow> regs \<Rightarrow> regs" where
  "oc_regs x regs = (case oc_rd x of None \<Rightarrow> regs | Some (rd, v) \<Rightarrow> if rd = 0 then regs else regs(rd := v))"

subsection \<open>The sequential machine\<close>

text \<open>
  The state a program sees: program counter, registers and the control registers that only instructions
  and traps change. The counters and pending bits move with time; their values, like the loaded words,
  come from outside.
\<close>

record arch =
  a_pc :: u32
  a_regs :: regs
  a_csr :: "12 word \<Rightarrow> u32"

definition csr_soft :: "12 word \<Rightarrow> bool" where
  "csr_soft a \<longleftrightarrow> a = CSR_ADDR_MSTATUS \<or> a = CSR_ADDR_MTVEC \<or> a = CSR_ADDR_MEPC \<or> a = CSR_ADDR_MCAUSE \<or> a = CSR_ADDR_MIE"

text \<open>Trap entry saves the interrupt enable bit 3 in bit 7, the return restores it.\<close>

definition mstatus_trap :: "u32 \<Rightarrow> u32" where
  "mstatus_trap v = assign_bit 3 False (assign_bit 7 (bit v 3) v)"

definition mstatus_mret :: "u32 \<Rightarrow> u32" where
  "mstatus_mret v = assign_bit 7 True (assign_bit 3 (bit v 7) v)"

definition oc_csrs :: "outcome \<Rightarrow> u32 \<Rightarrow> (12 word \<Rightarrow> u32) \<Rightarrow> 12 word \<Rightarrow> u32" where
  "oc_csrs x pc c =
     (case oc_trap x of
        Some cause \<Rightarrow> c(CSR_ADDR_MEPC := pc, CSR_ADDR_MCAUSE := cause, CSR_ADDR_MSTATUS := mstatus_trap (c CSR_ADDR_MSTATUS))
      | None \<Rightarrow>
          if oc_mret x then c(CSR_ADDR_MSTATUS := mstatus_mret (c CSR_ADDR_MSTATUS))
          else (case oc_csr x of Some (a, v) \<Rightarrow> if csr_soft a then c(a := v) else c | None \<Rightarrow> c))"

definition arch_next :: "outcome \<Rightarrow> arch \<Rightarrow> arch" where
  "arch_next x a = \<lparr>a_pc = oc_next x, a_regs = oc_regs x (a_regs a), a_csr = oc_csrs x (a_pc a) (a_csr a)\<rparr>"

text \<open>
  The control registers an instruction reads: those of the machine itself, and for the counters and
  pending bits the values from outside.
\<close>

definition csr_view :: "(12 word \<Rightarrow> u32) \<Rightarrow> arch \<Rightarrow> 12 word \<Rightarrow> u32" where
  "csr_view csr a ad = (if csr_soft ad then a_csr a ad else csr ad)"

text \<open>One instruction of the program; a word outside the set changes nothing.\<close>

definition isa_step :: "(u32 \<Rightarrow> u32) \<Rightarrow> (12 word \<Rightarrow> u32) \<times> u32 \<Rightarrow> arch \<Rightarrow> arch" where
  "isa_step prog e a =
     (case isa_decode (prog (a_pc a)) of
        Some ins \<Rightarrow> arch_next (isa_exec (csr_view (fst e) a) (snd e) (a_pc a) (a_regs a) ins) a
      | None \<Rightarrow> a)"

end
