(* ===== verification/Core_Execute.thy ===== *)
theory Core_Execute
  imports Isa
begin

text \<open>
  The execute stage against the reference instruction set: an instruction of the documented subset that
  leaves the stage does exactly what the reference says.
\<close>

subsection \<open>What the signals of a cycle amount to\<close>

text \<open>The outputs of the combinational block before an interrupt is considered.\<close>

definition ex_plain :: "core_in \<Rightarrow> core \<Rightarrow> ex_out" where
  "ex_plain ci s =
     ex_illegal s (ex_commit ci s (if ex_valid s then ex_decode ci s (ex_defaults ci s) else ex_defaults ci s))"

lemma core_ex_plain: "core_ex ci s = ex_interrupt s (ex_plain ci s)"
  by (simp add: core_ex_def ex_plain_def Let_def)

definition retires :: "core_in \<Rightarrow> core \<Rightarrow> bool" where
  "retires ci s \<longleftrightarrow> ex_valid s \<and> \<not> stall_ex (ex_plain ci s)"

definition quiet_irq :: "core \<Rightarrow> bool" where
  "quiet_irq s \<longleftrightarrow> \<not> take_timer_irq s \<and> \<not> take_ext_irq s"

lemma core_ex_quiet: "quiet_irq s \<Longrightarrow> core_ex ci s = ex_plain ci s"
  by (simp add: core_ex_plain ex_interrupt_def quiet_irq_def)

text \<open>An interrupt adds a trap and changes nothing else.\<close>

lemma core_ex_sel [simp]:
  "rf_we (core_ex ci s) = rf_we (ex_plain ci s)" "rf_waddr (core_ex ci s) = rf_waddr (ex_plain ci s)"
  "rf_wdata (core_ex ci s) = rf_wdata (ex_plain ci s)" "stall_ex (core_ex ci s) = stall_ex (ex_plain ci s)"
  "flush_pipe (core_ex ci s) = flush_pipe (ex_plain ci s)" "start_mem (core_ex ci s) = start_mem (ex_plain ci s)"
  "start_mem_is_load (core_ex ci s) = start_mem_is_load (ex_plain ci s)"
  "start_mem_addr (core_ex ci s) = start_mem_addr (ex_plain ci s)"
  "start_mem_wdata (core_ex ci s) = start_mem_wdata (ex_plain ci s)"
  "start_mem_rd (core_ex ci s) = start_mem_rd (ex_plain ci s)" "start_dev (core_ex ci s) = start_dev (ex_plain ci s)"
  "csr_write_en (core_ex ci s) = csr_write_en (ex_plain ci s)"
  "csr_write_addr (core_ex ci s) = csr_write_addr (ex_plain ci s)"
  "csr_write_data (core_ex ci s) = csr_write_data (ex_plain ci s)"
  "illegal_instr (core_ex ci s) = illegal_instr (ex_plain ci s)"
  "branch_target (core_ex ci s) = branch_target (ex_plain ci s)"
  by (simp_all add: core_ex_plain ex_interrupt_def)

text \<open>The access of the instruction in the execute stage: on the peripheral ports or on the memory port.\<close>

definition ex_access :: "core_in \<Rightarrow> core \<Rightarrow> access" where
  "ex_access ci s =
     (if dmem_pending s
      then (if mem_req_we s then Store (mem_req_addr s) (mem_req_wdata s) else Load (mem_req_addr s))
      else start_dev (ex_plain ci s))"

definition ex_loaded :: "core_in \<Rightarrow> core \<Rightarrow> u32" where
  "ex_loaded ci s = (if dmem_pending s then ci_mem_rdata ci else ci_dev_rdata ci)"

definition ex_result :: "core_in \<Rightarrow> core \<Rightarrow> outcome" where
  "ex_result ci s =
     (let x = ex_plain ci s
      in \<lparr>oc_rd = (if rf_we x then Some (rf_waddr x, rf_wdata x) else None),
          oc_next = (if trap_request x then trap_target x else if flush_pipe x then branch_target x else ex_pc s + 4),
          oc_access = ex_access ci s,
          oc_csr = (if csr_write_en x then Some (csr_write_addr x, csr_write_data x) else None),
          oc_trap = (if trap_request x then Some (trap_cause x) else None),
          oc_mret = (is_mret s \<and> \<not> trap_request x \<and> \<not> illegal_instr x)\<rparr>)"

text \<open>The operands latched with the instruction are those of the register file.\<close>

definition operands_ok :: "regs \<Rightarrow> core \<Rightarrow> bool" where
  "operands_ok regs s \<longleftrightarrow>
     (uses_rs1 (ex_instr s) \<longrightarrow> ex_rs1_val s = rf_read regs (rs1_of (ex_instr s))) \<and>
     (uses_rs2 (ex_instr s) \<longrightarrow> ex_rs2_val s = rf_read regs (rs2_of (ex_instr s)))"

text \<open>A pending memory access is that of the load or store in the execute stage.\<close>

definition mem_word_op :: "core \<Rightarrow> bool" where
  "mem_word_op s \<longleftrightarrow> funct3_of (ex_instr s) = 2 \<and>
     (opcode_of (ex_instr s) = OP_LOAD \<and> soc_decode (addr_load_candidate s) = None \<or>
      opcode_of (ex_instr s) = OP_STORE \<and> soc_decode (addr_store_candidate s) = None)"

definition mem_port_ok :: "core \<Rightarrow> bool" where
  "mem_port_ok s \<longleftrightarrow> mem_req_valid s = dmem_pending s \<and>
     (dmem_pending s \<longrightarrow> ex_valid s \<and> mem_word_op s \<and>
        dmem_is_load s = (opcode_of (ex_instr s) = OP_LOAD) \<and> mem_req_we s = (opcode_of (ex_instr s) = OP_STORE) \<and>
        (opcode_of (ex_instr s) = OP_LOAD \<longrightarrow> mem_req_addr s = addr_load_candidate s \<and> dmem_rd s = rd_of (ex_instr s)) \<and>
        (opcode_of (ex_instr s) = OP_STORE \<longrightarrow> mem_req_addr s = addr_store_candidate s \<and> mem_req_wdata s = ex_rs2_val s))"

subsection \<open>One opcode at a time\<close>

lemmas ex_stage_defs = ex_defaults_def ex_commit_def ex_illegal_def load_commit_def

text \<open>The execute stage waits while a memory access starts or is unanswered.\<close>

lemma stall_ex_decode:
  "stall_ex (ex_decode ci s x) =
     (if mem_word_op s then dmem_pending s \<and> \<not> ci_mem_ready ci \<or> \<not> dmem_pending s \<or> start_mem x else stall_ex x)"
proof -
  have same: "stall_ex (ex_op s x) = stall_ex x" "stall_ex (ex_op_imm s x) = stall_ex x"
    "stall_ex (ex_branch s x) = stall_ex x" "stall_ex (ex_jal s x) = stall_ex x" "stall_ex (ex_jalr s x) = stall_ex x"
    "stall_ex (ex_system s x) = stall_ex x"
    by (simp_all add: ex_op_def ex_op_imm_def ex_branch_def ex_jal_def ex_jalr_def ex_system_def ex_csr_def Let_def)
  have mem: "opcode_of (ex_instr s) = OP_LOAD \<Longrightarrow> stall_ex (ex_load ci s x) =
      (if mem_word_op s then dmem_pending s \<and> \<not> ci_mem_ready ci \<or> \<not> dmem_pending s \<or> start_mem x else stall_ex x)"
    "opcode_of (ex_instr s) = OP_STORE \<Longrightarrow> stall_ex (ex_store ci s x) =
      (if mem_word_op s then dmem_pending s \<and> \<not> ci_mem_ready ci \<or> \<not> dmem_pending s \<or> start_mem x else stall_ex x)"
    by (simp_all add: ex_load_def ex_store_def mem_word_op_def opcode_defs Let_def)
  show ?thesis
    using mem by (auto simp: ex_decode_def same Let_def mem_word_op_def opcode_defs)
qed

lemma stall_ex_core:
  "stall_ex (ex_plain ci s) =
     (dmem_pending s \<and> \<not> ci_mem_ready ci \<or> ex_valid s \<and> mem_word_op s \<and> \<not> dmem_pending s)"
proof -
  have "stall_ex (ex_illegal s (ex_commit ci s x)) = stall_ex x" for x
    by (simp add: ex_illegal_def ex_commit_def)
  then show ?thesis by (auto simp: ex_plain_def stall_ex_decode ex_defaults_def)
qed

lemma ex_plain_valid:
  "ex_valid s \<Longrightarrow> ex_plain ci s = ex_illegal s (ex_commit ci s (ex_decode ci s (ex_defaults ci s)))"
  by (simp add: ex_plain_def)

lemma mask5: "unat (b AND mask 5 :: u32) = unat b mod 32"
  unfolding take_bit_eq_mask [symmetric] unsigned_take_bit_eq by (simp add: take_bit_eq_mod)

lemma alu_sel:
  "alu a b ALU_ADD = a + b" "alu a b ALU_SUB = a - b" "alu a b ALU_AND = a AND b" "alu a b ALU_OR = a OR b"
  "alu a b ALU_XOR = a XOR b" "alu a b ALU_SLL = push_bit (unat b mod 32) a"
  "alu a b ALU_SRL = drop_bit (unat b mod 32) a"
  by (simp_all add: alu_def alu_op_defs mask5)

lemma not_pending:
  "mem_port_ok s \<Longrightarrow> \<not> mem_word_op s \<Longrightarrow> \<not> dmem_pending s"
  by (auto simp: mem_port_ok_def)

lemma ex_plain_no_mem:
  assumes "ex_valid s" and "\<not> dmem_pending s"
  shows "ex_plain ci s = ex_illegal s (ex_decode ci s (ex_defaults ci s))"
  using assms by (simp add: ex_plain_valid ex_commit_def load_commit_def)

text \<open>The instructions without a memory access.\<close>

lemma ex_result_no_mem:
  assumes "ex_valid s" and "\<not> dmem_pending s"
    and "x = ex_decode ci s (ex_defaults ci s)" and "\<not> illegal_instr x"
  shows "ex_result ci s =
    \<lparr>oc_rd = (if rf_we x then Some (rf_waddr x, rf_wdata x) else None),
     oc_next = (if trap_request x then trap_target x else if flush_pipe x then branch_target x else ex_pc s + 4),
     oc_access = start_dev x,
     oc_csr = (if csr_write_en x then Some (csr_write_addr x, csr_write_data x) else None),
     oc_trap = (if trap_request x then Some (trap_cause x) else None),
     oc_mret = (is_mret s \<and> \<not> trap_request x)\<rparr>"
  using assms by (simp add: ex_result_def ex_access_def ex_plain_no_mem ex_illegal_def Let_def)

lemma op_not_system [simp]:
  "OP_IMM \<noteq> OP_SYSTEM" "OP_REG \<noteq> OP_SYSTEM" "OP_LOAD \<noteq> OP_SYSTEM" "OP_STORE \<noteq> OP_SYSTEM"
  by (simp_all add: opcode_defs)

lemma not_mret: "opcode_of (ex_instr s) \<noteq> OP_SYSTEM \<Longrightarrow> \<not> is_mret s"
  by (simp add: is_mret_def)

lemmas ex_fields = ex_result_no_mem [OF _ _ refl] ex_defaults_def oc_plain_def operands_ok_def is_mret_def

lemma ex_result_op_imm:
  assumes "ex_valid s" and "operands_ok regs s" and "\<not> dmem_pending s"
    and "opcode_of (ex_instr s) = OP_IMM"
  shows "ex_result ci s = isa_exec (csr_read s) l (ex_pc s) regs
    (Addi (rd_of (ex_instr s)) (rs1_of (ex_instr s)) (imm_i (ex_instr s)))"
  using assms by (simp add: ex_fields ex_decode_def ex_op_imm_def uses_rs1_def alu_sel)

lemma ex_result_op:
  assumes "ex_valid s" and "operands_ok regs s" and "\<not> dmem_pending s"
    and "opcode_of (ex_instr s) = OP_REG" and "alu_fun_of (funct7_of (ex_instr s)) (funct3_of (ex_instr s)) = Some f"
  shows "ex_result ci s = isa_exec (csr_read s) l (ex_pc s) regs
    (Alu f (rd_of (ex_instr s)) (rs1_of (ex_instr s)) (rs2_of (ex_instr s)))"
proof -
  have "OP_REG \<noteq> OP_IMM" by (simp add: opcode_defs)
  then show ?thesis
    using assms
    by (auto simp: ex_fields ex_decode_def ex_op_def uses_rs1_def uses_rs2_def alu_sel alu_fun_of_def Let_def
        split: if_splits)
qed

lemma ex_result_upper:
  assumes "ex_valid s" and "\<not> dmem_pending s"
  shows "opcode_of (ex_instr s) = OP_LUI \<Longrightarrow> ex_result ci s = isa_exec (csr_read s) l (ex_pc s) regs
      (Lui (rd_of (ex_instr s)) (imm_u (ex_instr s)))"
    and "opcode_of (ex_instr s) = OP_AUIPC \<Longrightarrow> ex_result ci s = isa_exec (csr_read s) l (ex_pc s) regs
      (Auipc (rd_of (ex_instr s)) (imm_u (ex_instr s)))"
  using assms by (simp_all add: ex_fields ex_decode_def Let_def opcode_defs)

lemma ex_result_branch:
  assumes "ex_valid s" and "operands_ok regs s" and "\<not> dmem_pending s"
    and "opcode_of (ex_instr s) = OP_BRANCH" and "cond_of (funct3_of (ex_instr s)) = Some c"
  shows "ex_result ci s = isa_exec (csr_read s) l (ex_pc s) regs
    (Branch c (rs1_of (ex_instr s)) (rs2_of (ex_instr s)) (imm_b (ex_instr s)))"
  using assms
  by (auto simp: ex_fields ex_decode_def ex_branch_def uses_rs1_def uses_rs2_def opcode_defs cond_of_def Let_def
      word_less_nat_alt word_le_nat_alt split: if_splits)

lemma ex_result_jump:
  assumes "ex_valid s" and "operands_ok regs s" and "\<not> dmem_pending s"
  shows "opcode_of (ex_instr s) = OP_JAL \<Longrightarrow> ex_result ci s = isa_exec (csr_read s) l (ex_pc s) regs
      (Jal (rd_of (ex_instr s)) (imm_j (ex_instr s)))"
    and "opcode_of (ex_instr s) = OP_JALR \<Longrightarrow> funct3_of (ex_instr s) = 0 \<Longrightarrow>
      ex_result ci s = isa_exec (csr_read s) l (ex_pc s) regs
      (Jalr (rd_of (ex_instr s)) (rs1_of (ex_instr s)) (imm_i (ex_instr s)))"
proof -
  have "x AND 0xFFFFFFFE = x AND - 2" for x :: u32 by (rule arg_cong [where f = "\<lambda>m. x AND m"]) simp
  then show "opcode_of (ex_instr s) = OP_JAL \<Longrightarrow> ex_result ci s = isa_exec (csr_read s) l (ex_pc s) regs
      (Jal (rd_of (ex_instr s)) (imm_j (ex_instr s)))"
    and "opcode_of (ex_instr s) = OP_JALR \<Longrightarrow> funct3_of (ex_instr s) = 0 \<Longrightarrow>
      ex_result ci s = isa_exec (csr_read s) l (ex_pc s) regs
      (Jalr (rd_of (ex_instr s)) (rs1_of (ex_instr s)) (imm_i (ex_instr s)))"
    using assms by (simp_all add: ex_fields ex_decode_def ex_jal_def ex_jalr_def uses_rs1_def opcode_defs Let_def)
qed

lemma ex_result_csr:
  assumes "ex_valid s" and "operands_ok regs s" and "\<not> dmem_pending s"
    and "opcode_of (ex_instr s) = OP_SYSTEM" and "csr_fun_of (funct3_of (ex_instr s)) = Some f"
  shows "ex_result ci s = isa_exec (csr_read s) l (ex_pc s) regs
    (Csr f (rd_of (ex_instr s)) (rs1_of (ex_instr s)) (csr_of (ex_instr s)))"
  using assms
  by (auto simp: ex_fields ex_decode_def ex_system_def ex_csr_def uses_rs1_def opcode_defs csr_fun_of_def Let_def
      split: if_splits)

lemma ex_result_trap:
  assumes "ex_valid s" and "\<not> dmem_pending s"
  shows "ex_instr s = 0x73 \<Longrightarrow> ex_result ci s = isa_exec (csr_read s) l (ex_pc s) regs Ecall"
    and "ex_instr s = 0x30200073 \<Longrightarrow> ex_result ci s = isa_exec (csr_read s) l (ex_pc s) regs Mret"
  using assms
  by (simp_all add: ex_fields ex_decode_def ex_system_def opcode_defs opcode_of_def funct3_of_def csr_of_def
      csr_read_def csr_addr_defs Let_def)

text \<open>Loads and stores: of a peripheral at once, of the memory in the cycle of its answer.\<close>

lemma ex_decode_load:
  "opcode_of (ex_instr s) = OP_LOAD \<Longrightarrow> ex_decode ci s x = ex_load ci s x"
  by (simp add: ex_decode_def opcode_defs)

lemma ex_decode_store:
  "opcode_of (ex_instr s) = OP_STORE \<Longrightarrow> ex_decode ci s x = ex_store ci s x"
  by (simp add: ex_decode_def opcode_defs)

lemma mem_port_dev:
  "mem_port_ok s \<Longrightarrow> opcode_of (ex_instr s) = OP_LOAD \<Longrightarrow> soc_decode (addr_load_candidate s) \<noteq> None \<Longrightarrow> \<not> dmem_pending s"
  "mem_port_ok s \<Longrightarrow> opcode_of (ex_instr s) = OP_STORE \<Longrightarrow> soc_decode (addr_store_candidate s) \<noteq> None \<Longrightarrow> \<not> dmem_pending s"
  by (auto simp: mem_port_ok_def mem_word_op_def opcode_defs)

lemma ex_result_load:
  assumes v: "retires ci s" and "operands_ok regs s" and m: "mem_port_ok s"
    and i: "opcode_of (ex_instr s) = OP_LOAD" "funct3_of (ex_instr s) = 2"
  shows "ex_result ci s = isa_exec (csr_read s) (ex_loaded ci s) (ex_pc s) regs
    (Lw (rd_of (ex_instr s)) (rs1_of (ex_instr s)) (imm_i (ex_instr s)))"
proof -
  have ex: "ex_valid s" "\<not> stall_ex (ex_plain ci s)" using v by (simp_all add: retires_def)
  have rs1: "addr_load_candidate s = rf_read regs (rs1_of (ex_instr s)) + imm_i (ex_instr s)"
    using assms(2) i by (simp add: addr_load_candidate_def operands_ok_def uses_rs1_def)
  show ?thesis
  proof (cases "dmem_pending s")
    case False
    then have "soc_decode (addr_load_candidate s) \<noteq> None"
      using ex i by (auto simp: stall_ex_core mem_word_op_def)
    then show ?thesis
      using False ex(1) i rs1 by (simp add: ex_fields(1-3) not_mret ex_decode_load ex_load_def ex_loaded_def Let_def)
  next
    case True
    then have p: "soc_decode (addr_load_candidate s) = None" "dmem_is_load s" "\<not> mem_req_we s"
      "mem_req_addr s = addr_load_candidate s" "dmem_rd s = rd_of (ex_instr s)"
      using m i by (simp_all add: mem_port_ok_def mem_word_op_def opcode_defs)
    have "ci_mem_ready ci" using ex True by (simp add: stall_ex_core)
    then show ?thesis
      using ex p True i rs1
      by (simp add: ex_result_def ex_access_def ex_loaded_def ex_plain_valid ex_decode_load ex_load_def
          ex_illegal_def ex_commit_def load_commit_def ex_defaults_def oc_plain_def not_mret Let_def)
  qed
qed

lemma ex_result_store:
  assumes v: "retires ci s" and "operands_ok regs s" and m: "mem_port_ok s"
    and i: "opcode_of (ex_instr s) = OP_STORE" "funct3_of (ex_instr s) = 2"
  shows "ex_result ci s = isa_exec (csr_read s) (ex_loaded ci s) (ex_pc s) regs
    (Sw (rs1_of (ex_instr s)) (rs2_of (ex_instr s)) (imm_s (ex_instr s)))"
proof -
  have ex: "ex_valid s" "\<not> stall_ex (ex_plain ci s)" using v by (simp_all add: retires_def)
  have rs: "addr_store_candidate s = rf_read regs (rs1_of (ex_instr s)) + imm_s (ex_instr s)"
    "ex_rs2_val s = rf_read regs (rs2_of (ex_instr s))"
    using assms(2) i by (simp_all add: addr_store_candidate_def operands_ok_def uses_rs1_def uses_rs2_def)
  show ?thesis
  proof (cases "dmem_pending s")
    case False
    then have "soc_decode (addr_store_candidate s) \<noteq> None"
      using ex i by (auto simp: stall_ex_core mem_word_op_def)
    then show ?thesis
      using False ex(1) i rs by (simp add: ex_fields(1-3) not_mret ex_decode_store ex_store_def Let_def)
  next
    case True
    then have p: "soc_decode (addr_store_candidate s) = None" "\<not> dmem_is_load s" "mem_req_we s"
      "mem_req_addr s = addr_store_candidate s" "mem_req_wdata s = ex_rs2_val s"
      using m i by (simp_all add: mem_port_ok_def mem_word_op_def opcode_defs)
    then show ?thesis
      using ex True i rs
      by (simp add: ex_result_def ex_access_def ex_plain_valid ex_decode_store ex_store_def
          ex_illegal_def ex_commit_def load_commit_def ex_defaults_def oc_plain_def not_mret Let_def)
  qed
qed

subsection \<open>The execute stage implements the reference\<close>

lemma isa_mem_word:
  "isa_decode (ex_instr s) = Some ins \<Longrightarrow> mem_word_op s \<Longrightarrow> \<exists>rd r imm. ins = Lw rd r imm \<or> ins = Sw rd r imm"
  by (auto simp: isa_decode_def mem_word_op_def opcode_defs Let_def split: if_splits)

lemma ex_result_isa:
  assumes v: "retires ci s" and ops: "operands_ok regs s" and m: "mem_port_ok s"
    and ins: "isa_decode (ex_instr s) = Some ins"
  shows "ex_result ci s = isa_exec (csr_read s) (ex_loaded ci s) (ex_pc s) regs ins"
proof (cases "mem_word_op s \<or> (\<exists>rd r imm. ins = Lw rd r imm \<or> ins = Sw rd r imm)")
  case True
  then obtain rd r imm where "ins = Lw rd r imm \<or> ins = Sw rd r imm" using isa_mem_word [OF ins] by blast
  then show ?thesis
    using ins ex_result_load [OF v ops m] ex_result_store [OF v ops m]
    by (auto simp: isa_decode_def Let_def split: if_splits)
next
  case False
  have ex: "ex_valid s" using v by (simp add: retires_def)
  have "\<not> dmem_pending s" using m False not_pending by blast
  note no = ex this
  note with_ops = ex ops \<open>\<not> dmem_pending s\<close>
  show ?thesis
    using ins False ex_result_op_imm [OF with_ops] ex_result_op [OF with_ops] ex_result_upper [OF no]
      ex_result_branch [OF with_ops] ex_result_jump [OF with_ops] ex_result_csr [OF with_ops] ex_result_trap [OF no]
    by (auto simp: isa_decode_def Let_def split: if_splits)
qed

end
