(* ===== verification/Core_Pipeline.thy ===== *)
theory Core_Pipeline
  imports Core_Execute
begin

text \<open>
  The pipeline as an implementation of the sequential machine: the stages hold consecutive instructions of
  the program, the oldest of them is the next one to execute, and a cycle either executes it or leaves
  program counter and registers as they are.
\<close>

subsection \<open>The instructions in flight\<close>

text \<open>The address of the oldest instruction from each stage on; \<open>arch_pc\<close> is that of the oldest of all.\<close>

definition fetch_front :: "core \<Rightarrow> u32" where
  "fetch_front s = (if fetch_req_pending s then fetch_req_addr s else pc_fetch s)"

definition slot_front :: "core \<Rightarrow> u32" where
  "slot_front s = (if prefetch_slot_valid s then prefetch_slot_pc s else fetch_front s)"

definition if_front :: "core \<Rightarrow> u32" where
  "if_front s = (if if_valid s then if_pc s else slot_front s)"

definition id_front :: "core \<Rightarrow> u32" where
  "id_front s = (if id_valid s then id_pc s else if_front s)"

definition arch_pc :: "core \<Rightarrow> u32" where
  "arch_pc s = (if ex_valid s then ex_pc s else id_front s)"

lemmas front_defs = arch_pc_def id_front_def if_front_def slot_front_def fetch_front_def

text \<open>The prefetch slot is behind a full fetch register, and a request is only open while the slot is free.\<close>

definition queue_ok :: "core \<Rightarrow> bool" where
  "queue_ok s \<longleftrightarrow> (prefetch_slot_valid s \<longrightarrow> if_valid s) \<and> (fetch_req_pending s \<longrightarrow> \<not> prefetch_slot_valid s)"

text \<open>Each stage holds the instruction just before the oldest one behind it.\<close>

definition order_ok :: "core \<Rightarrow> bool" where
  "order_ok s \<longleftrightarrow>
     (fetch_req_pending s \<longrightarrow> pc_fetch s = fetch_req_addr s + 4) \<and>
     (prefetch_slot_valid s \<longrightarrow> fetch_front s = prefetch_slot_pc s + 4) \<and>
     (if_valid s \<longrightarrow> slot_front s = if_pc s + 4) \<and>
     (id_valid s \<longrightarrow> if_front s = id_pc s + 4) \<and>
     (ex_valid s \<longrightarrow> id_front s = ex_pc s + 4)"

definition words_ok :: "(u32 \<Rightarrow> u32) \<Rightarrow> core \<Rightarrow> bool" where
  "words_ok prog s \<longleftrightarrow>
     (prefetch_slot_valid s \<longrightarrow> prefetch_slot_instr s = prog (prefetch_slot_pc s)) \<and>
     (if_valid s \<longrightarrow> if_instr s = prog (if_pc s)) \<and>
     (id_valid s \<longrightarrow> id_instr s = prog (id_pc s)) \<and>
     (ex_valid s \<longrightarrow> ex_instr s = prog (ex_pc s))"

text \<open>The instruction memory answers a request with the word of the program.\<close>

definition imem_ok :: "(u32 \<Rightarrow> u32) \<Rightarrow> core_in \<Rightarrow> core \<Rightarrow> bool" where
  "imem_ok prog ci s \<longleftrightarrow> (fetch_req_pending s \<and> ci_imem_ready ci \<longrightarrow> ci_imem_rdata ci = prog (fetch_req_addr s))"

subsection \<open>The pipeline registers after a cycle\<close>

definition core_pre :: "core_in \<Rightarrow> core \<Rightarrow> core" where
  "core_pre ci s = core_mip ci (core_ex ci s) s s"

lemma core_pre_sel [simp]:
  "pc_fetch (core_pre ci s) = pc_fetch s" "fetch_req_pending (core_pre ci s) = fetch_req_pending s"
  "fetch_req_addr (core_pre ci s) = fetch_req_addr s" "if_valid (core_pre ci s) = if_valid s"
  "if_instr (core_pre ci s) = if_instr s" "if_pc (core_pre ci s) = if_pc s"
  "prefetch_slot_valid (core_pre ci s) = prefetch_slot_valid s"
  "prefetch_slot_instr (core_pre ci s) = prefetch_slot_instr s"
  "prefetch_slot_pc (core_pre ci s) = prefetch_slot_pc s"
  "id_valid (core_pre ci s) = id_valid s" "id_instr (core_pre ci s) = id_instr s" "id_pc (core_pre ci s) = id_pc s"
  "ex_valid (core_pre ci s) = ex_valid s" "ex_instr (core_pre ci s) = ex_instr s" "ex_pc (core_pre ci s) = ex_pc s"
  "ex_rs1_val (core_pre ci s) = ex_rs1_val s" "ex_rs2_val (core_pre ci s) = ex_rs2_val s"
  "icache_data (core_pre ci s) = icache_data s" "icache_tag (core_pre ci s) = icache_tag s"
  "icache_valid (core_pre ci s) = icache_valid s" "icache_fill_index (core_pre ci s) = icache_fill_index s"
  "icache_fill_tag (core_pre ci s) = icache_fill_tag s" "fetch_req_cacheable (core_pre ci s) = fetch_req_cacheable s"
  by (simp_all add: core_pre_def core_mip_def Let_def)

text \<open>The later parts of the clocked block do not touch the pipeline.\<close>

lemma core_trap_sel [simp]:
  "pc_fetch (core_trap x s n) = pc_fetch n" "fetch_req_pending (core_trap x s n) = fetch_req_pending n"
  "fetch_req_addr (core_trap x s n) = fetch_req_addr n" "if_valid (core_trap x s n) = if_valid n"
  "if_instr (core_trap x s n) = if_instr n" "if_pc (core_trap x s n) = if_pc n"
  "prefetch_slot_valid (core_trap x s n) = prefetch_slot_valid n"
  "prefetch_slot_instr (core_trap x s n) = prefetch_slot_instr n"
  "prefetch_slot_pc (core_trap x s n) = prefetch_slot_pc n" "id_valid (core_trap x s n) = id_valid n"
  "id_instr (core_trap x s n) = id_instr n" "id_pc (core_trap x s n) = id_pc n"
  "ex_valid (core_trap x s n) = ex_valid n" "ex_instr (core_trap x s n) = ex_instr n"
  "ex_pc (core_trap x s n) = ex_pc n" "ex_rs1_val (core_trap x s n) = ex_rs1_val n"
  "ex_rs2_val (core_trap x s n) = ex_rs2_val n" "icache_data (core_trap x s n) = icache_data n"
  "icache_tag (core_trap x s n) = icache_tag n" "icache_valid (core_trap x s n) = icache_valid n"
  "icache_fill_index (core_trap x s n) = icache_fill_index n"
  "icache_fill_tag (core_trap x s n) = icache_fill_tag n"
  "fetch_req_cacheable (core_trap x s n) = fetch_req_cacheable n"
  by (simp_all add: core_trap_def)

lemma core_mem_sel [simp]:
  "pc_fetch (core_mem ci x s n) = pc_fetch n"
  "fetch_req_pending (core_mem ci x s n) = fetch_req_pending n"
  "fetch_req_addr (core_mem ci x s n) = fetch_req_addr n" "if_valid (core_mem ci x s n) = if_valid n"
  "if_instr (core_mem ci x s n) = if_instr n" "if_pc (core_mem ci x s n) = if_pc n"
  "prefetch_slot_valid (core_mem ci x s n) = prefetch_slot_valid n"
  "prefetch_slot_instr (core_mem ci x s n) = prefetch_slot_instr n"
  "prefetch_slot_pc (core_mem ci x s n) = prefetch_slot_pc n"
  "id_valid (core_mem ci x s n) = id_valid n" "id_instr (core_mem ci x s n) = id_instr n"
  "id_pc (core_mem ci x s n) = id_pc n" "ex_valid (core_mem ci x s n) = ex_valid n"
  "ex_instr (core_mem ci x s n) = ex_instr n" "ex_pc (core_mem ci x s n) = ex_pc n"
  "ex_rs1_val (core_mem ci x s n) = ex_rs1_val n" "ex_rs2_val (core_mem ci x s n) = ex_rs2_val n"
  "icache_data (core_mem ci x s n) = icache_data n" "icache_tag (core_mem ci x s n) = icache_tag n"
  "icache_valid (core_mem ci x s n) = icache_valid n"
  "icache_fill_index (core_mem ci x s n) = icache_fill_index n"
  "icache_fill_tag (core_mem ci x s n) = icache_fill_tag n"
  "fetch_req_cacheable (core_mem ci x s n) = fetch_req_cacheable n"
  by (simp_all add: core_mem_def)

lemma core_csr_write_sel [simp]:
  "pc_fetch (core_csr_write x n) = pc_fetch n"
  "fetch_req_pending (core_csr_write x n) = fetch_req_pending n"
  "fetch_req_addr (core_csr_write x n) = fetch_req_addr n" "if_valid (core_csr_write x n) = if_valid n"
  "if_instr (core_csr_write x n) = if_instr n" "if_pc (core_csr_write x n) = if_pc n"
  "prefetch_slot_valid (core_csr_write x n) = prefetch_slot_valid n"
  "prefetch_slot_instr (core_csr_write x n) = prefetch_slot_instr n"
  "prefetch_slot_pc (core_csr_write x n) = prefetch_slot_pc n"
  "id_valid (core_csr_write x n) = id_valid n" "id_instr (core_csr_write x n) = id_instr n"
  "id_pc (core_csr_write x n) = id_pc n" "ex_valid (core_csr_write x n) = ex_valid n"
  "ex_instr (core_csr_write x n) = ex_instr n" "ex_pc (core_csr_write x n) = ex_pc n"
  "ex_rs1_val (core_csr_write x n) = ex_rs1_val n" "ex_rs2_val (core_csr_write x n) = ex_rs2_val n"
  "icache_data (core_csr_write x n) = icache_data n" "icache_tag (core_csr_write x n) = icache_tag n"
  "icache_valid (core_csr_write x n) = icache_valid n"
  "icache_fill_index (core_csr_write x n) = icache_fill_index n"
  "icache_fill_tag (core_csr_write x n) = icache_fill_tag n"
  "fetch_req_cacheable (core_csr_write x n) = fetch_req_cacheable n"
  by (simp_all add: core_csr_write_def Let_def)

definition core_front :: "nat \<Rightarrow> core_in \<Rightarrow> regs \<Rightarrow> core \<Rightarrow> core" where
  "core_front cb ci regs s = core_advance cb ci regs (core_ex ci s) s (core_pre ci s)"

lemma core_step_front:
  "core_step cb ci regs s =
     core_trap (core_ex ci s) s (core_csr_write (core_ex ci s) (core_mem ci (core_ex ci s) s (core_front cb ci regs s)))"
  by (simp add: core_step_def core_front_def core_pre_def Let_def)

subsection \<open>The queue and the order of the instructions\<close>

lemma flush_front:
  assumes "trap_request x \<or> flush_pipe x"
  shows "core_advance cb ci regs x s n = core_flush x n"
  using assms by (simp add: core_advance_def)

lemma flush_queue: "queue_ok (core_flush x n)"
  by (simp add: queue_ok_def core_flush_def)

lemma flush_order: "order_ok (core_flush x n)"
  by (simp add: order_ok_def core_flush_def)

lemma flush_words: "words_ok prog (core_flush x n)"
  by (simp add: words_ok_def core_flush_def)

lemma flush_pc: "arch_pc (core_flush x n) = (if trap_request x then trap_target x else branch_target x)"
  by (simp add: front_defs core_flush_def)

lemma same_front:
  assumes "m = core_step cb ci regs s" and "n = core_front cb ci regs s"
  shows "queue_ok m = queue_ok n" "order_ok m = order_ok n" "words_ok prog m = words_ok prog n" "arch_pc m = arch_pc n"
  using assms by (simp_all add: core_step_front queue_ok_def order_ok_def words_ok_def front_defs)

text \<open>The queue keeps its shape for every input, with or without cache, interrupts included.\<close>

lemma queue_step:
  assumes "queue_ok s"
  shows "queue_ok (core_step cb ci regs s)"
proof (cases "trap_request (core_ex ci s) \<or> flush_pipe (core_ex ci s)")
  case True
  then show ?thesis by (simp add: same_front core_front_def flush_front flush_queue)
next
  case False
  then show ?thesis
    using assms unfolding same_front(1) [OF refl refl]
    by (cases "if_valid s"; cases "prefetch_slot_valid s"; cases "fetch_req_pending s")
      (auto simp: core_front_def core_advance_def core_fetch_issue_def core_id_accept_def core_slot_to_if_def
        core_fetch_response_def core_issue_def core_put_def slot_to_if_def if_fetch_target_def queue_ok_def
        fetch_buffer_occupancy_def id_accept_def Let_def)
qed

text \<open>The order, without a cache: no instruction is lost or fetched twice, whatever the memory latency.\<close>

lemma no_cache [simp]: "\<not> icache_lookup_hit 0 s"
  by (simp add: icache_lookup_hit_def)

lemma order_step:
  assumes "queue_ok s" and "order_ok s"
  shows "order_ok (core_step 0 ci regs s)"
proof (cases "trap_request (core_ex ci s) \<or> flush_pipe (core_ex ci s)")
  case True
  then show ?thesis by (simp add: same_front core_front_def flush_front flush_order)
next
  case False
  then show ?thesis
    using assms unfolding same_front(2) [OF refl refl]
    by (cases "if_valid s"; cases "prefetch_slot_valid s"; cases "fetch_req_pending s"; cases "id_valid s"; cases "ex_valid s")
      (auto simp: core_front_def core_advance_def core_fetch_issue_def core_id_accept_def core_slot_to_if_def
        core_fetch_response_def core_issue_def core_put_def slot_to_if_def if_fetch_target_def queue_ok_def
        fetch_buffer_occupancy_def id_accept_def id_stall_def ex_can_accept_def order_ok_def front_defs Let_def)
qed

lemma words_step:
  assumes "queue_ok s" and "words_ok prog s" and "imem_ok prog ci s"
  shows "words_ok prog (core_step 0 ci regs s)"
proof (cases "trap_request (core_ex ci s) \<or> flush_pipe (core_ex ci s)")
  case True
  then show ?thesis by (simp add: same_front core_front_def flush_front flush_words)
next
  case False
  then show ?thesis
    using assms unfolding same_front(3) [OF refl refl]
    by (cases "if_valid s"; cases "prefetch_slot_valid s"; cases "fetch_req_pending s"; cases "id_valid s"; cases "ex_valid s")
      (auto simp: core_front_def core_advance_def core_fetch_issue_def core_id_accept_def core_slot_to_if_def
        core_fetch_response_def core_issue_def core_put_def slot_to_if_def if_fetch_target_def queue_ok_def
        fetch_buffer_occupancy_def id_accept_def id_stall_def ex_can_accept_def words_ok_def imem_ok_def Let_def)
qed

text \<open>Without a flush the oldest instruction changes only when the execute stage lets one go.\<close>

lemma front_step:
  assumes "queue_ok s" and "order_ok s" and "\<not> trap_request (core_ex ci s)" and "\<not> flush_pipe (core_ex ci s)"
  shows "arch_pc (core_step 0 ci regs s) = (if retires ci s then arch_pc s + 4 else arch_pc s)"
  using assms unfolding same_front(4) [OF refl refl]
  by (cases "if_valid s"; cases "prefetch_slot_valid s"; cases "fetch_req_pending s"; cases "id_valid s"; cases "ex_valid s")
    (auto simp: core_front_def core_advance_def core_fetch_issue_def core_id_accept_def core_slot_to_if_def
      core_fetch_response_def core_issue_def core_put_def slot_to_if_def if_fetch_target_def queue_ok_def
      fetch_buffer_occupancy_def id_accept_def id_stall_def ex_can_accept_def order_ok_def front_defs retires_def Let_def)

end
