(* ===== verification/Core_Refine.thy ===== *)
theory Core_Refine
  imports Core_Pipeline
begin

text \<open>
  The whole core against the sequential machine: the memory port and the operands of the execute stage as
  invariants, the architectural state the pipeline stands for, and the refinement of one instruction per
  retiring cycle.
\<close>

subsection \<open>The execute stage in a cycle that does not complete a memory access\<close>

lemma ex_defaults_sel [simp]:
  "\<not> rf_we (ex_defaults ci s)" "\<not> start_mem (ex_defaults ci s)" "\<not> csr_write_en (ex_defaults ci s)"
  "\<not> flush_pipe (ex_defaults ci s)" "\<not> trap_request (ex_defaults ci s)" "\<not> illegal_instr (ex_defaults ci s)"
  "start_mem_rd (ex_defaults ci s) = rd_of (ex_instr s)"
  by (simp_all add: ex_defaults_def)

lemma ex_plain_sel:
  "rf_we (ex_plain ci s) = rf_we (ex_commit ci s (if ex_valid s then ex_decode ci s (ex_defaults ci s) else ex_defaults ci s))"
  "start_mem (ex_plain ci s) = start_mem (if ex_valid s then ex_decode ci s (ex_defaults ci s) else ex_defaults ci s)"
  "csr_write_en (ex_plain ci s) = csr_write_en (if ex_valid s then ex_decode ci s (ex_defaults ci s) else ex_defaults ci s)"
  "flush_pipe (ex_plain ci s) = flush_pipe (if ex_valid s then ex_decode ci s (ex_defaults ci s) else ex_defaults ci s)"
  by (simp_all add: ex_plain_def ex_illegal_def ex_commit_def Let_def)

lemma start_mem_decode:
  "start_mem (ex_decode ci s (ex_defaults ci s)) = (mem_word_op s \<and> \<not> dmem_pending s)"
proof -
  have same: "start_mem (ex_op s x) = start_mem x" "start_mem (ex_op_imm s x) = start_mem x"
    "start_mem (ex_branch s x) = start_mem x" "start_mem (ex_jal s x) = start_mem x" "start_mem (ex_jalr s x) = start_mem x"
    "start_mem (ex_system s x) = start_mem x" for x
    by (simp_all add: ex_op_def ex_op_imm_def ex_branch_def ex_jal_def ex_jalr_def ex_system_def ex_csr_def Let_def)
  have mem: "opcode_of (ex_instr s) = OP_LOAD \<Longrightarrow>
      start_mem (ex_load ci s (ex_defaults ci s)) = (mem_word_op s \<and> \<not> dmem_pending s)"
    "opcode_of (ex_instr s) = OP_STORE \<Longrightarrow>
      start_mem (ex_store ci s (ex_defaults ci s)) = (mem_word_op s \<and> \<not> dmem_pending s)"
    by (cases "soc_decode (addr_load_candidate s)"; cases "soc_decode (addr_store_candidate s)";
      simp add: ex_load_def ex_store_def mem_word_op_def opcode_defs Let_def)+
  show ?thesis
  proof (cases "opcode_of (ex_instr s) = OP_LOAD \<or> opcode_of (ex_instr s) = OP_STORE")
    case True
    then show ?thesis using mem by (auto simp: ex_decode_load ex_decode_store)
  next
    case False
    then show ?thesis by (simp add: ex_decode_def same mem_word_op_def Let_def)
  qed
qed

lemma start_mem_core: "start_mem (ex_plain ci s) = (ex_valid s \<and> mem_word_op s \<and> \<not> dmem_pending s)"
  by (cases "ex_valid s") (simp_all add: ex_plain_sel start_mem_decode)

text \<open>A load or store of the data memory writes nothing but the loaded word and goes on to the next instruction.\<close>

lemma ex_mem_word:
  assumes "mem_word_op s"
  shows "\<not> rf_we (ex_decode ci s (ex_defaults ci s))" "\<not> csr_write_en (ex_decode ci s (ex_defaults ci s))"
    "\<not> flush_pipe (ex_decode ci s (ex_defaults ci s))" "\<not> trap_request (ex_decode ci s (ex_defaults ci s))"
    "\<not> illegal_instr (ex_decode ci s (ex_defaults ci s))"
  using assms
  by (cases "dmem_pending s"; auto simp: mem_word_op_def ex_decode_load ex_decode_store ex_load_def ex_store_def Let_def)+

lemma ex_mem_word_args:
  assumes "mem_word_op s" and "ex_valid s" and "\<not> dmem_pending s"
  shows "start_mem_is_load (ex_plain ci s) = (opcode_of (ex_instr s) = OP_LOAD)"
    "start_mem_addr (ex_plain ci s) = (if opcode_of (ex_instr s) = OP_LOAD then addr_load_candidate s else addr_store_candidate s)"
    "opcode_of (ex_instr s) = OP_STORE \<Longrightarrow> start_mem_wdata (ex_plain ci s) = ex_rs2_val s"
    "start_mem_rd (ex_plain ci s) = rd_of (ex_instr s)"
proof -
  have x: "ex_plain ci s = ex_decode ci s (ex_defaults ci s)"
    using assms ex_mem_word(5) by (simp add: ex_plain_no_mem ex_illegal_def)
  show "start_mem_is_load (ex_plain ci s) = (opcode_of (ex_instr s) = OP_LOAD)"
    "start_mem_addr (ex_plain ci s) = (if opcode_of (ex_instr s) = OP_LOAD then addr_load_candidate s else addr_store_candidate s)"
    "opcode_of (ex_instr s) = OP_STORE \<Longrightarrow> start_mem_wdata (ex_plain ci s) = ex_rs2_val s"
    "start_mem_rd (ex_plain ci s) = rd_of (ex_instr s)"
    using assms unfolding x
    by (auto simp: mem_word_op_def ex_decode_load ex_decode_store ex_load_def ex_store_def opcode_defs Let_def)
qed

lemma ex_waits:
  assumes "mem_port_ok s" and "\<not> retires ci s"
  shows "\<not> rf_we (ex_plain ci s)" "\<not> csr_write_en (ex_plain ci s)" "\<not> flush_pipe (ex_plain ci s)"
    "\<not> trap_request (ex_plain ci s)"
proof -
  have idle: "\<not> ex_valid s \<Longrightarrow> \<not> dmem_pending s" using assms(1) by (auto simp: mem_port_ok_def)
  have word: "ex_valid s \<Longrightarrow> mem_word_op s \<and> \<not> load_commit ci s"
    using assms by (auto simp: retires_def stall_ex_core mem_port_ok_def load_commit_def)
  show "\<not> rf_we (ex_plain ci s)" "\<not> csr_write_en (ex_plain ci s)" "\<not> flush_pipe (ex_plain ci s)"
    using idle word ex_mem_word by (auto simp: ex_plain_sel ex_commit_def load_commit_def)
  show "\<not> trap_request (ex_plain ci s)"
  proof (cases "ex_valid s")
    case True
    then show ?thesis
      using word ex_mem_word by (simp add: ex_plain_valid ex_illegal_def ex_commit_def)
  next
    case False
    then show ?thesis
      by (simp add: ex_plain_def ex_illegal_def ex_commit_def)
  qed
qed

subsection \<open>Registers, operands and memory port after a cycle\<close>

lemma regs_step:
  assumes "mem_port_ok s"
  shows "core_regs_step ci s regs = (if retires ci s then oc_regs (ex_result ci s) regs else regs)"
proof (cases "retires ci s")
  case True
  then show ?thesis by (simp add: core_regs_step_def ex_result_def oc_regs_def rf_write_def Let_def)
next
  case False
  then show ?thesis using ex_waits(1) [OF assms] by (simp add: core_regs_step_def rf_write_def Let_def)
qed

text \<open>Forwarding: the operand that leaves the decode stage is the one the registers hold after the cycle.\<close>

lemma forward_ok:
  assumes "mem_port_ok s" and "id_valid s"
  shows "uses_rs1 (id_instr s) \<Longrightarrow>
      forward_rs1 regs s (core_ex ci s) = rf_read (core_regs_step ci s regs) (rs1_of (id_instr s))"
    and "uses_rs2 (id_instr s) \<Longrightarrow>
      forward_rs2 regs s (core_ex ci s) = rf_read (core_regs_step ci s regs) (rs2_of (id_instr s))"
proof -
  have "rf_we (ex_plain ci s) \<Longrightarrow> ex_valid s \<and> \<not> stall_ex (ex_plain ci s)"
    using ex_waits(1) [OF assms(1)] by (auto simp: retires_def)
  then show "uses_rs1 (id_instr s) \<Longrightarrow>
      forward_rs1 regs s (core_ex ci s) = rf_read (core_regs_step ci s regs) (rs1_of (id_instr s))"
    and "uses_rs2 (id_instr s) \<Longrightarrow>
      forward_rs2 regs s (core_ex ci s) = rf_read (core_regs_step ci s regs) (rs2_of (id_instr s))"
    using assms(2)
    by (auto simp: forward_rs1_def forward_rs2_def wb_en_forward_def core_regs_step_def rf_read_def rf_write_def Let_def)
qed

definition ex_stage :: "core \<Rightarrow> bool \<times> u32 \<times> u32 \<times> u32 \<times> u32" where
  "ex_stage s = (ex_valid s, ex_instr s, ex_pc s, ex_rs1_val s, ex_rs2_val s)"

lemma ex_stage_fetch [simp]:
  "ex_stage (core_fetch_issue cb s x n) = ex_stage n" "ex_stage (core_id_accept s x n) = ex_stage n"
  "ex_stage (core_slot_to_if s x n) = ex_stage n" "ex_stage (core_fetch_response cb ci s x n) = ex_stage n"
  "ex_stage (core_pre ci s) = ex_stage s"
  by (simp_all add: ex_stage_def core_fetch_issue_def core_id_accept_def core_slot_to_if_def
      core_fetch_response_def core_put_def Let_def)

lemma ex_stage_issue:
  "ex_stage (core_issue regs s x n) =
     (if id_valid s \<and> \<not> id_stall s x \<and> ex_can_accept s x
      then (True, id_instr s, id_pc s, forward_rs1 regs s x, forward_rs2 regs s x)
      else (ex_valid n \<and> \<not> (ex_valid s \<and> \<not> stall_ex x), snd (ex_stage n)))"
  by (simp add: ex_stage_def core_issue_def)

text \<open>The execute stage after a cycle: flushed, filled from the decode stage, kept or emptied.\<close>

lemma ex_stage_step:
  "ex_stage (core_step cb ci regs s) =
     (if trap_request (core_ex ci s) \<or> flush_pipe (core_ex ci s) then (False, snd (ex_stage s))
      else if id_valid s \<and> \<not> id_stall s (core_ex ci s) \<and> ex_can_accept s (core_ex ci s)
      then (True, id_instr s, id_pc s, forward_rs1 regs s (core_ex ci s), forward_rs2 regs s (core_ex ci s))
      else (ex_valid s \<and> stall_ex (core_ex ci s), snd (ex_stage s)))"
proof -
  have step: "ex_stage (core_step cb ci regs s) = ex_stage (core_front cb ci regs s)"
    by (simp add: ex_stage_def core_step_front)
  show ?thesis
  proof (cases "trap_request (core_ex ci s) \<or> flush_pipe (core_ex ci s)")
    case True
    then show ?thesis unfolding step core_front_def flush_front [OF True] by (simp add: ex_stage_def core_flush_def)
  next
    case False
    let ?n = "\<lambda>x. core_fetch_response cb ci s x (core_slot_to_if s x (core_id_accept s x (core_fetch_issue cb s x (core_pre ci s))))"
    have same: "ex_stage (?n x) = ex_stage s" for x by simp
    then have pre: "ex_valid (?n x) = ex_valid s" for x unfolding ex_stage_def by simp
    show ?thesis
      using False unfolding step core_front_def core_advance_def Let_def
      by (auto simp: ex_stage_issue pre same)
  qed
qed

lemma operands_step:
  assumes m: "mem_port_ok s" and ops: "ex_valid s \<longrightarrow> operands_ok regs s"
    and v: "ex_valid (core_step cb ci regs s)"
  shows "operands_ok (core_regs_step ci s regs) (core_step cb ci regs s)"
proof (cases "id_valid s \<and> \<not> id_stall s (core_ex ci s) \<and> ex_can_accept s (core_ex ci s)")
  case True
  then show ?thesis
    using v ex_stage_step [of cb ci regs s] forward_ok [OF m, of regs ci]
    by (simp add: ex_stage_def operands_ok_def split: if_splits)
next
  case False
  then have e: "ex_valid s" "stall_ex (ex_plain ci s)" and "snd (ex_stage (core_step cb ci regs s)) = snd (ex_stage s)"
    using v ex_stage_step [of cb ci regs s] by (auto simp: ex_stage_def split: if_splits)
  moreover have "core_regs_step ci s regs = regs"
    using e by (simp add: regs_step [OF m] retires_def)
  ultimately show ?thesis using ops by (simp add: operands_ok_def ex_stage_def)
qed

text \<open>The registers of the memory port after a cycle.\<close>

definition mem_port :: "core \<Rightarrow> bool \<times> bool \<times> u32 \<times> u32 \<times> bool \<times> bool \<times> 5 word" where
  "mem_port s = (mem_req_valid s, mem_req_we s, mem_req_addr s, mem_req_wdata s, dmem_pending s, dmem_is_load s, dmem_rd s)"

lemma mem_port_same [simp]:
  "mem_port (core_fetch_issue cb s x n) = mem_port n" "mem_port (core_id_accept s x n) = mem_port n"
  "mem_port (core_slot_to_if s x n) = mem_port n" "mem_port (core_fetch_response cb ci s x n) = mem_port n"
  "mem_port (core_issue regs s x n) = mem_port n" "mem_port (core_flush x n) = mem_port n"
  "mem_port (core_pre ci s) = mem_port s" "mem_port (core_trap x s n) = mem_port n"
  "mem_port (core_csr_write x n) = mem_port n"
  by (simp_all add: mem_port_def core_fetch_issue_def core_id_accept_def core_slot_to_if_def core_flush_def
      core_fetch_response_def core_put_def core_issue_def core_pre_def core_mip_def core_trap_def
      core_csr_write_def Let_def)

lemma mem_port_front [simp]: "mem_port (core_front cb ci regs s) = mem_port s"
  by (simp add: core_front_def core_advance_def Let_def)

lemma mem_port_mem:
  "mem_port (core_mem ci x s n) =
     (if start_mem x \<and> \<not> dmem_pending s
      then (True, \<not> start_mem_is_load x, start_mem_addr x, start_mem_wdata x, True, start_mem_is_load x, start_mem_rd x)
      else if dmem_pending s \<and> ci_mem_ready ci
      then (False, mem_req_we n, mem_req_addr n, mem_req_wdata n, False, dmem_is_load n, dmem_rd n)
      else mem_port n)"
  by (simp add: mem_port_def core_mem_def)

lemma mem_port_step:
  assumes q: "quiet_irq s" and m: "mem_port_ok s"
  shows "mem_port_ok (core_step cb ci regs s)"
proof (cases "dmem_pending s \<and> \<not> ci_mem_ready ci \<or> ex_valid s \<and> mem_word_op s \<and> \<not> dmem_pending s")
  case False
  then have "dmem_pending (core_step cb ci regs s) = mem_req_valid (core_step cb ci regs s)"
    "\<not> dmem_pending (core_step cb ci regs s)"
    using m mem_port_mem [of ci "core_ex ci s" s "core_front cb ci regs s"] mem_port_front [of cb ci regs s]
      mem_port_same(8,9) core_step_front [of cb ci regs s]
    by (auto simp: start_mem_core mem_port_def mem_port_ok_def split: if_splits)
  then show ?thesis by (simp add: mem_port_ok_def)
next
  case True
  then have st: "stall_ex (ex_plain ci s)" "ex_valid s" "mem_word_op s"
    using m by (auto simp: stall_ex_core mem_port_ok_def)
  then have "\<not> retires ci s" by (simp add: retires_def)
  note w = ex_waits [OF m this]
  have kept: "ex_stage (core_step cb ci regs s) = ex_stage s"
    using st w q by (simp add: ex_stage_step ex_can_accept_def core_ex_quiet) (simp add: ex_stage_def)
  have port: "mem_port (core_step cb ci regs s) =
     (if dmem_pending s then mem_port s
      else (True, opcode_of (ex_instr s) = OP_STORE,
            if opcode_of (ex_instr s) = OP_LOAD then addr_load_candidate s else addr_store_candidate s,
            start_mem_wdata (ex_plain ci s), True, opcode_of (ex_instr s) = OP_LOAD, rd_of (ex_instr s)))"
    using True st ex_mem_word_args [OF st(3) st(2)]
    by (auto simp: core_step_front mem_port_mem start_mem_core) (auto simp: mem_word_op_def opcode_defs)
  show ?thesis
    using st m kept port ex_mem_word_args(3) [OF st(3) st(2)]
    by (cases "dmem_pending s")
      (auto simp: mem_port_ok_def mem_port_def ex_stage_def mem_word_op_def addr_load_candidate_def
        addr_store_candidate_def opcode_defs)
qed

subsection \<open>The architectural state\<close>

definition arch_csr :: "core \<Rightarrow> 12 word \<Rightarrow> u32" where
  "arch_csr s a = (if csr_soft a then csr_read s a else 0)"

definition arch_of :: "regs \<times> core \<Rightarrow> arch" where
  "arch_of m = \<lparr>a_pc = arch_pc (snd m), a_regs = fst m, a_csr = arch_csr (snd m)\<rparr>"

definition machine_step :: "nat \<Rightarrow> core_in \<Rightarrow> regs \<times> core \<Rightarrow> regs \<times> core" where
  "machine_step cb ci m = (core_regs_step ci (snd m) (fst m), core_step cb ci (fst m) (snd m))"

definition pipe_ok :: "(u32 \<Rightarrow> u32) \<Rightarrow> regs \<times> core \<Rightarrow> bool" where
  "pipe_ok prog m \<longleftrightarrow> queue_ok (snd m) \<and> order_ok (snd m) \<and> words_ok prog (snd m) \<and> mem_port_ok (snd m) \<and>
     (ex_valid (snd m) \<longrightarrow> operands_ok (fst m) (snd m))"

text \<open>Software-visible control registers through the clocked block.\<close>

definition soft_csrs :: "core \<Rightarrow> u32 \<times> u32 \<times> u32 \<times> u32 \<times> u32" where
  "soft_csrs s = (csr_mstatus s, csr_mtvec s, csr_mepc s, csr_mcause s, csr_mie s)"

lemma soft_csrs_same [simp]:
  "soft_csrs (core_fetch_issue cb s x n) = soft_csrs n" "soft_csrs (core_id_accept s x n) = soft_csrs n"
  "soft_csrs (core_slot_to_if s x n) = soft_csrs n" "soft_csrs (core_fetch_response cb ci s x n) = soft_csrs n"
  "soft_csrs (core_issue regs s x n) = soft_csrs n" "soft_csrs (core_flush x n) = soft_csrs n"
  "soft_csrs (core_pre ci s) = soft_csrs s" "soft_csrs (core_mem ci x s n) = soft_csrs n"
  by (simp_all add: soft_csrs_def core_fetch_issue_def core_id_accept_def core_slot_to_if_def core_flush_def
      core_fetch_response_def core_put_def core_issue_def core_pre_def core_mip_def core_mem_def Let_def)

lemma soft_csrs_front [simp]: "soft_csrs (core_front cb ci regs s) = soft_csrs s"
  by (simp add: core_front_def core_advance_def Let_def)

lemma arch_csr_soft:
  "soft_csrs s = soft_csrs n \<Longrightarrow> arch_csr s = arch_csr n"
  by (auto simp: fun_eq_iff arch_csr_def csr_soft_def csr_read_def soft_csrs_def csr_addr_defs)

lemma arch_csr_write:
  "arch_csr (core_csr_write x n) =
     (if csr_write_en x \<and> csr_soft (csr_write_addr x) then (arch_csr n)(csr_write_addr x := csr_write_data x) else arch_csr n)"
  by (auto simp: fun_eq_iff arch_csr_def csr_soft_def csr_read_def core_csr_write_def csr_addr_defs Let_def)

lemma arch_csr_trap:
  "arch_csr (core_trap x s n) =
     (if trap_request x
      then (arch_csr n)(CSR_ADDR_MEPC := trap_mepc_value x, CSR_ADDR_MCAUSE := trap_cause x,
             CSR_ADDR_MSTATUS := assign_bit 3 False (assign_bit 7 (bit (csr_mstatus s) 3) (csr_mstatus n)))
      else if is_mret s \<and> \<not> illegal_instr x
      then (arch_csr n)(CSR_ADDR_MSTATUS := assign_bit 7 True (assign_bit 3 (bit (csr_mstatus s) 7) (csr_mstatus n)))
      else arch_csr n)"
  by (auto simp: fun_eq_iff arch_csr_def csr_soft_def csr_read_def core_trap_def csr_addr_defs)

text \<open>An instruction traps or returns from a trap, or writes a control register, never both.\<close>

lemma ex_csr_alone:
  assumes "csr_write_en (ex_decode ci s (ex_defaults ci s))"
  shows "\<not> trap_request (ex_decode ci s (ex_defaults ci s))" "\<not> illegal_instr (ex_decode ci s (ex_defaults ci s))"
    "\<not> is_mret s"
proof -
  have "\<not> csr_write_en (ex_op s x)" "\<not> csr_write_en (ex_op_imm s x)" "\<not> csr_write_en (ex_branch s x)"
    "\<not> csr_write_en (ex_jal s x)" "\<not> csr_write_en (ex_jalr s x)" "\<not> csr_write_en (ex_load ci s x)"
    "\<not> csr_write_en (ex_store ci s x)" if "\<not> csr_write_en x" for x
    using that by (auto simp: ex_op_def ex_op_imm_def ex_branch_def ex_jal_def ex_jalr_def ex_load_def ex_store_def Let_def)
  then have sys: "opcode_of (ex_instr s) = OP_SYSTEM"
    using assms by (auto simp: ex_decode_def Let_def split: if_splits)
  then have d: "ex_decode ci s x = ex_system s x" for x by (simp add: ex_decode_def opcode_defs)
  show "\<not> trap_request (ex_decode ci s (ex_defaults ci s))" "\<not> illegal_instr (ex_decode ci s (ex_defaults ci s))"
    "\<not> is_mret s"
    using assms unfolding d
    by (auto simp: ex_system_def ex_csr_def is_mret_def Let_def split: if_splits)
qed

lemma trap_mepc_decode: "trap_mepc_value (ex_decode ci s (ex_defaults ci s)) = ex_pc s"
proof -
  have "trap_mepc_value (ex_op s x) = trap_mepc_value x" "trap_mepc_value (ex_op_imm s x) = trap_mepc_value x"
    "trap_mepc_value (ex_branch s x) = trap_mepc_value x" "trap_mepc_value (ex_jal s x) = trap_mepc_value x"
    "trap_mepc_value (ex_jalr s x) = trap_mepc_value x" "trap_mepc_value (ex_load ci s x) = trap_mepc_value x"
    "trap_mepc_value (ex_store ci s x) = trap_mepc_value x"
    "trap_mepc_value x = ex_pc s \<Longrightarrow> trap_mepc_value (ex_system s x) = ex_pc s" for x
    by (simp_all add: ex_op_def ex_op_imm_def ex_branch_def ex_jal_def ex_jalr_def ex_load_def ex_store_def
        ex_system_def ex_csr_def Let_def)
  moreover have "trap_mepc_value (ex_defaults ci s) = ex_pc s" by (simp add: ex_defaults_def)
  ultimately show ?thesis by (simp add: ex_decode_def Let_def)
qed

lemma ex_late_sel [simp]:
  "csr_write_en (ex_illegal s x) = csr_write_en x" "csr_write_en (ex_commit ci s x) = csr_write_en x"
  "trap_request (ex_illegal s x) = (trap_request x \<or> illegal_instr x \<and> ex_valid s)"
  "trap_request (ex_commit ci s x) = trap_request x" "illegal_instr (ex_commit ci s x) = illegal_instr x"
  "trap_mepc_value (ex_illegal s x) = (if illegal_instr x \<and> ex_valid s then ex_pc s else trap_mepc_value x)"
  "trap_mepc_value (ex_commit ci s x) = trap_mepc_value x"
  by (auto simp: ex_illegal_def ex_commit_def)

lemma ex_trap_plain:
  assumes "ex_valid s"
  shows "trap_mepc_value (ex_plain ci s) = ex_pc s"
    and "csr_write_en (ex_plain ci s) \<Longrightarrow> \<not> trap_request (ex_plain ci s) \<and> \<not> is_mret s"
  using ex_csr_alone [of ci s] trap_mepc_decode [of ci s] assms
  by (auto simp: ex_plain_valid)

subsection \<open>One cycle\<close>

lemma csrs_step:
  assumes q: "quiet_irq s" and m: "mem_port_ok s"
  shows "arch_csr (core_step cb ci regs s) =
    (if retires ci s then oc_csrs (ex_result ci s) (ex_pc s) (arch_csr s) else arch_csr s)"
proof -
  let ?x = "ex_plain ci s" and ?n = "core_mem ci (ex_plain ci s) s (core_front cb ci regs s)"
  have n: "arch_csr ?n = arch_csr s" "csr_mstatus ?n = csr_mstatus s"
    using arch_csr_soft [of ?n s] soft_csrs_same(8) [of ci ?x s "core_front cb ci regs s"]
      soft_csrs_front [of cb ci regs s] by (simp_all add: soft_csrs_def)
  have st: "csr_mstatus s = arch_csr s CSR_ADDR_MSTATUS" by (simp add: arch_csr_def csr_soft_def csr_read_def)
  show ?thesis
  proof (cases "retires ci s")
    case False
    note w = ex_waits [OF m this]
    have "\<not> is_mret s"
    proof
      assume "is_mret s"
      then have "\<not> mem_word_op s" "ex_valid s" by (auto simp: is_mret_def mem_word_op_def)
      then show False using False m not_pending [OF m] by (auto simp: retires_def stall_ex_core)
    qed
    then show ?thesis
      using False w n by (simp add: core_step_front core_ex_quiet [OF q] arch_csr_trap arch_csr_write)
  next
    case True
    then have "ex_valid s" by (simp add: retires_def)
    note t = ex_trap_plain [OF this, of ci]
    have step: "arch_csr (core_step cb ci regs s) = arch_csr (core_trap ?x s (core_csr_write ?x ?n))"
      by (simp add: core_step_front core_ex_quiet [OF q])
    show ?thesis
    proof (cases "csr_write_en ?x")
      case True
      then have "\<not> trap_request ?x" "\<not> is_mret s" using t(2) by simp_all
      then show ?thesis
        using True \<open>retires ci s\<close> unfolding step arch_csr_trap arch_csr_write n
        by (simp add: oc_csrs_def ex_result_def Let_def)
    next
      case False
      then have "core_csr_write ?x ?n = ?n" by (simp add: core_csr_write_def Let_def)
      then show ?thesis
        using False \<open>retires ci s\<close> t(1) unfolding step arch_csr_trap n
        by (auto simp: oc_csrs_def ex_result_def mstatus_trap_def mstatus_mret_def st n Let_def)
    qed
  qed
qed

lemma pc_step:
  assumes "queue_ok s" and "order_ok s" and q: "quiet_irq s" and m: "mem_port_ok s"
  shows "arch_pc (core_step 0 ci regs s) = (if retires ci s then oc_next (ex_result ci s) else arch_pc s)"
proof (cases "trap_request (ex_plain ci s) \<or> flush_pipe (ex_plain ci s)")
  case True
  then have "retires ci s" using ex_waits [OF m, of ci] by blast
  then show ?thesis
    using True by (auto simp: same_front core_front_def core_ex_quiet [OF q] flush_front flush_pc ex_result_def Let_def)
next
  case False
  then show ?thesis
    using front_step [OF assms(1,2), of ci regs]
    by (auto simp: core_ex_quiet [OF q] retires_def ex_result_def arch_pc_def Let_def)
qed

theorem machine_commits:
  assumes "pipe_ok prog m" and q: "quiet_irq (snd m)" and "imem_ok prog ci (snd m)"
  shows "pipe_ok prog (machine_step 0 ci m)"
    and "arch_of (machine_step 0 ci m) =
      (if retires ci (snd m) then arch_next (ex_result ci (snd m)) (arch_of m) else arch_of m)"
proof -
  have ok: "queue_ok (snd m)" "order_ok (snd m)" "words_ok prog (snd m)" "mem_port_ok (snd m)"
    "ex_valid (snd m) \<longrightarrow> operands_ok (fst m) (snd m)"
    using assms(1) by (simp_all add: pipe_ok_def)
  show "pipe_ok prog (machine_step 0 ci m)"
    using ok q assms(3)
    by (simp add: pipe_ok_def machine_step_def queue_step order_step words_step mem_port_step operands_step)
  have "retires ci (snd m) \<Longrightarrow> arch_pc (snd m) = ex_pc (snd m)" by (simp add: retires_def arch_pc_def)
  then show "arch_of (machine_step 0 ci m) =
      (if retires ci (snd m) then arch_next (ex_result ci (snd m)) (arch_of m) else arch_of m)"
    using ok q
    by (simp add: arch_of_def machine_step_def arch_next_def pc_step regs_step csrs_step)
qed

end
