(* ===== verification/Stutter.thy ===== *)
theory Stutter
  imports Qar_Prelude
begin

text \<open>
  Machines that take several cycles for one abstract step. The interface: in every good cycle a concrete
  state either commits one event, which the abstract machine executes, or leaves the abstract state as it
  is. The conclusion is about runs: after any number of good cycles the abstract machine has executed the
  committed events in their order.
\<close>

subsection \<open>Runs\<close>

primrec all_good :: "('i \<Rightarrow> 's \<Rightarrow> 's) \<Rightarrow> ('i \<Rightarrow> 's \<Rightarrow> bool) \<Rightarrow> 'i list \<Rightarrow> 's \<Rightarrow> bool" where
  "all_good step good [] s = True"
| "all_good step good (i # is) s = (good i s \<and> all_good step good is (step i s))"

primrec events_of :: "('i \<Rightarrow> 's \<Rightarrow> 's) \<Rightarrow> ('i \<Rightarrow> 's \<Rightarrow> bool) \<Rightarrow> ('i \<Rightarrow> 's \<Rightarrow> 'e) \<Rightarrow> 'i list \<Rightarrow> 's \<Rightarrow> 'e list" where
  "events_of step commits event [] s = []"
| "events_of step commits event (i # is) s =
     (if commits i s then [event i s] else []) @ events_of step commits event is (step i s)"

lemma all_good_mono:
  "(\<And>i s. good i s \<Longrightarrow> good' i s) \<Longrightarrow> all_good step good is s \<Longrightarrow> all_good step good' is s"
  by (induction "is" arbitrary: s) simp_all

lemma length_events:
  "length (events_of step commits event is s) = length (events_of step commits event' is s)"
  by (induction "is" arbitrary: s) simp_all

subsection \<open>The interface\<close>

locale stuttering =
  fixes step :: "'i \<Rightarrow> 's \<Rightarrow> 's"
    and good :: "'i \<Rightarrow> 's \<Rightarrow> bool"
    and inv :: "'s \<Rightarrow> bool"
    and abs_of :: "'s \<Rightarrow> 'a"
    and commits :: "'i \<Rightarrow> 's \<Rightarrow> bool"
    and event :: "'i \<Rightarrow> 's \<Rightarrow> 'e"
    and exec :: "'e \<Rightarrow> 'a \<Rightarrow> 'a"
  assumes inv_step: "inv s \<Longrightarrow> good i s \<Longrightarrow> inv (step i s)"
    and commit_step: "inv s \<Longrightarrow> good i s \<Longrightarrow> commits i s \<Longrightarrow> abs_of (step i s) = exec (event i s) (abs_of s)"
    and quiet_step: "inv s \<Longrightarrow> good i s \<Longrightarrow> \<not> commits i s \<Longrightarrow> abs_of (step i s) = abs_of s"
begin

lemma inv_run: "inv s \<Longrightarrow> all_good step good is s \<Longrightarrow> inv (fold step is s)"
  by (induction "is" arbitrary: s) (simp_all add: inv_step)

lemma run_executes:
  "inv s \<Longrightarrow> all_good step good is s \<Longrightarrow>
   abs_of (fold step is s) = fold exec (events_of step commits event is s) (abs_of s)"
  by (induction "is" arbitrary: s) (simp_all add: inv_step commit_step quiet_step)

end

text \<open>With a distance to the next commit that every other good cycle shortens, commits keep coming.\<close>

locale stuttering_live = stuttering +
  fixes dist :: "'c \<Rightarrow> nat" and bound :: nat
  assumes dist_bound: "inv s \<Longrightarrow> dist s < bound"
    and dist_less: "inv s \<Longrightarrow> good i s \<Longrightarrow> \<not> commits i s \<Longrightarrow> dist (step i s) < dist s"
begin

lemma commits_soon:
  "inv s \<Longrightarrow> all_good step good is s \<Longrightarrow> dist s < length is \<Longrightarrow> events_of step commits event is s \<noteq> []"
proof (induction "is" arbitrary: s)
  case (Cons i "is")
  then show ?case
    using dist_less [of s i] inv_step [of s i] by (cases "commits i s") auto
qed simp

lemma all_good_append:
  "all_good step good (is @ js) s \<longleftrightarrow> all_good step good is s \<and> all_good step good js (fold step is s)"
  by (induction "is" arbitrary: s) simp_all

lemma events_append:
  "events_of step commits event (is @ js) s =
     events_of step commits event is s @ events_of step commits event js (fold step is s)"
  by (induction "is" arbitrary: s) simp_all

lemma throughput:
  "inv s \<Longrightarrow> all_good step good is s \<Longrightarrow> n * bound \<le> length is \<Longrightarrow> n \<le> length (events_of step commits event is s)"
proof (induction n arbitrary: "is" s)
  case (Suc n)
  define js where "js = take bound is"
  define ks where "ks = drop bound is"
  have "is": "is = js @ ks" by (simp add: js_def ks_def)
  have len: "length js = bound" "n * bound \<le> length ks" using Suc.prems(3) by (auto simp: js_def ks_def)
  have good: "all_good step good js s" "all_good step good ks (fold step js s)"
    using Suc.prems(2) by (simp_all add: "is" all_good_append)
  have "events_of step commits event js s \<noteq> []"
    using commits_soon [OF Suc.prems(1) good(1)] dist_bound [OF Suc.prems(1)] len by simp
  then have "1 \<le> length (events_of step commits event js s)" by (simp add: Suc_le_eq)
  moreover have "n \<le> length (events_of step commits event ks (fold step js s))"
    using Suc.IH [OF inv_run [OF Suc.prems(1) good(1)] good(2) len(2)] .
  ultimately show ?case by (simp add: "is" events_append)
qed simp

end

end
