(* ===== verification/Core_Run.thy ===== *)
theory Core_Run
  imports Core_Refine Stutter
begin

text \<open>
  Runs of the core: any number of cycles, with any latency of the memories, amount to the instructions
  of the program executed one after the other.
\<close>

subsection \<open>The interpretation\<close>

text \<open>What a cycle must provide: the words of the program, no interrupt, an instruction of the documented set.\<close>

definition cycle_ok :: "(u32 \<Rightarrow> u32) \<Rightarrow> core_in \<Rightarrow> regs \<times> core \<Rightarrow> bool" where
  "cycle_ok prog ci m \<longleftrightarrow> imem_ok prog ci (snd m) \<and> quiet_irq (snd m) \<and>
     (retires ci (snd m) \<longrightarrow> isa_decode (ex_instr (snd m)) \<noteq> None)"

text \<open>The outside values an instruction could use: the control registers that move with time and the word it loaded.\<close>

definition seen :: "core_in \<Rightarrow> regs \<times> core \<Rightarrow> (12 word \<Rightarrow> u32) \<times> u32" where
  "seen ci m = (csr_read (snd m), ex_loaded ci (snd m))"

lemma csr_view_core: "csr_view (csr_read (snd m)) (arch_of m) = csr_read (snd m)"
  by (rule ext) (simp add: csr_view_def arch_of_def arch_csr_def)

lemma machine_executes:
  assumes "pipe_ok prog m" and "cycle_ok prog ci m" and r: "retires ci (snd m)"
  shows "arch_of (machine_step 0 ci m) = isa_step prog (seen ci m) (arch_of m)"
proof -
  have q: "quiet_irq (snd m)" "imem_ok prog ci (snd m)" using assms(2) by (simp_all add: cycle_ok_def)
  obtain ins where ins: "isa_decode (ex_instr (snd m)) = Some ins"
    using assms(2) r by (auto simp: cycle_ok_def)
  have v: "ex_valid (snd m)" using r by (simp add: retires_def)
  have ok: "operands_ok (fst m) (snd m)" "mem_port_ok (snd m)" "ex_instr (snd m) = prog (ex_pc (snd m))"
    using assms(1) v by (simp_all add: pipe_ok_def words_ok_def)
  have pc: "a_pc (arch_of m) = ex_pc (snd m)" "a_regs (arch_of m) = fst m"
    using v by (simp_all add: arch_of_def arch_pc_def)
  show ?thesis
    using machine_commits(2) [OF assms(1) q] r ex_result_isa [OF r ok(1,2) ins] ins
    by (simp add: isa_step_def pc ok(3) seen_def csr_view_core)
qed

interpretation mach: stuttering "machine_step 0" "cycle_ok prog" "pipe_ok prog" arch_of
    "\<lambda>ci m. retires ci (snd m)" seen "isa_step prog" for prog
proof unfold_locales
  fix m ci
  assume ok: "pipe_ok prog m" "cycle_ok prog ci m"
  then show "pipe_ok prog (machine_step 0 ci m)"
    by (simp add: machine_commits(1) cycle_ok_def)
  show "retires ci (snd m) \<Longrightarrow> arch_of (machine_step 0 ci m) = isa_step prog (seen ci m) (arch_of m)"
    using ok machine_executes by blast
  show "\<not> retires ci (snd m) \<Longrightarrow> arch_of (machine_step 0 ci m) = arch_of m"
    using ok by (simp add: machine_commits(2) cycle_ok_def)
qed

subsection \<open>Reset\<close>

text \<open>Reset leaves no register of the core undetermined.\<close>

definition core_boot :: core where
  "core_boot = \<lparr>pc_fetch = 0, fetch_req_pending = False, fetch_req_addr = 0,
     if_valid = False, if_instr = 0, if_pc = 0,
     prefetch_slot_valid = False, prefetch_slot_instr = 0, prefetch_slot_pc = 0,
     icache_data = (\<lambda>_. 0), icache_tag = (\<lambda>_. 0), icache_valid = (\<lambda>_. False),
     icache_fill_index = 0, icache_fill_tag = 0, fetch_req_cacheable = False,
     id_valid = False, id_instr = 0, id_pc = 0,
     ex_valid = False, ex_instr = 0, ex_pc = 0, ex_rs1_val = 0, ex_rs2_val = 0,
     mem_req_valid = False, mem_req_we = False, mem_req_addr = 0, mem_req_wdata = 0,
     dmem_pending = False, dmem_is_load = False, dmem_rd = 0,
     csr_mstatus = 0, csr_mtvec = 0x100, csr_mepc = 0, csr_mcause = 0, csr_mie = 0,
     csr_mip = 0, csr_mtimecmp = 200, csr_mtime = 0, csr_irq_priority = False,
     irq_timer_ack = False, irq_external_ack = False\<rparr>"

lemma core_reset_boot: "core_reset s = core_boot"
  by (cases s) (simp add: core_reset_def core_boot_def)

lemma pipe_ok_boot: "pipe_ok prog (regs, core_boot)"
  by (simp add: pipe_ok_def core_boot_def queue_ok_def order_ok_def words_ok_def mem_port_ok_def)

subsection \<open>Progress\<close>

text \<open>Cycles until the oldest instruction leaves the pipeline when both memories answer at once.\<close>

definition stages_left :: "core \<Rightarrow> nat" where
  "stages_left s =
     (if ex_valid s then (if mem_word_op s \<and> \<not> dmem_pending s then 1 else 0)
      else if id_valid s then 2 else if if_valid s then 3 else if fetch_req_pending s then 4 else 5)"

definition ready :: "core_in \<Rightarrow> core \<Rightarrow> bool" where
  "ready ci s \<longleftrightarrow> (fetch_req_pending s \<longrightarrow> ci_imem_ready ci) \<and> (mem_req_valid s \<longrightarrow> ci_mem_ready ci)"

definition live_cycle :: "(u32 \<Rightarrow> u32) \<Rightarrow> core_in \<Rightarrow> regs \<times> core \<Rightarrow> bool" where
  "live_cycle prog ci m \<longleftrightarrow> cycle_ok prog ci m \<and> ready ci (snd m)"

lemma stages_left_step:
  assumes "queue_ok s" and m: "mem_port_ok s" and q: "quiet_irq s" and "ready ci s" and r: "\<not> retires ci s"
  shows "stages_left (core_step 0 ci regs s) < stages_left s"
proof (cases "ex_valid s")
  case True
  then have st: "stall_ex (ex_plain ci s)" "mem_word_op s" "\<not> dmem_pending s"
    using r m \<open>ready ci s\<close> by (auto simp: retires_def stall_ex_core ready_def mem_port_ok_def)
  note w = ex_waits [OF m r]
  have "ex_stage (core_step 0 ci regs s) = ex_stage s"
    using True st w q by (simp add: ex_stage_step ex_can_accept_def core_ex_quiet) (simp add: ex_stage_def)
  moreover have "dmem_pending (core_step 0 ci regs s)"
    using True st mem_port_mem [of ci "core_ex ci s" s "core_front 0 ci regs s"]
      mem_port_same(8,9) core_step_front [of 0 ci regs s]
    by (auto simp: start_mem_core mem_port_def)
  ultimately show ?thesis using True st by (simp add: stages_left_def ex_stage_def)
next
  case False
  then have p: "\<not> dmem_pending s" using m by (auto simp: mem_port_ok_def)
  note w = ex_waits [OF m r]
  have adv: "\<not> (trap_request (core_ex ci s) \<or> flush_pipe (core_ex ci s))" using w q by (simp add: core_ex_quiet)
  show ?thesis
  proof (cases "id_valid s")
    case True
    then have "ex_valid (core_step 0 ci regs s)"
      using False adv p ex_stage_step [of 0 ci regs s]
      by (simp add: ex_stage_def id_stall_def load_use_hazard_def ex_can_accept_def)
    then show ?thesis using True False by (simp add: stages_left_def)
  next
    case False
    have sel: "id_valid (core_step 0 ci regs s) = id_valid (core_front 0 ci regs s)"
      "if_valid (core_step 0 ci regs s) = if_valid (core_front 0 ci regs s)"
      "fetch_req_pending (core_step 0 ci regs s) = fetch_req_pending (core_front 0 ci regs s)"
      by (simp_all add: core_step_front)
    have "stages_left (core_step 0 ci regs s) < stages_left s" if "\<not> ex_valid (core_step 0 ci regs s)"
      using that False \<open>\<not> ex_valid s\<close> adv p \<open>ready ci s\<close> \<open>queue_ok s\<close>
      by (cases "if_valid s"; cases "fetch_req_pending s")
        (auto simp: stages_left_def sel core_front_def core_advance_def core_fetch_issue_def core_id_accept_def
          core_slot_to_if_def core_fetch_response_def core_issue_def core_put_def slot_to_if_def if_fetch_target_def
          queue_ok_def fetch_buffer_occupancy_def id_accept_def id_stall_def load_use_hazard_def ready_def Let_def)
    moreover have "\<not> ex_valid (core_step 0 ci regs s)"
      using False \<open>\<not> ex_valid s\<close> adv ex_stage_step [of 0 ci regs s] by (simp add: ex_stage_def)
    ultimately show ?thesis .
  qed
qed

interpretation mach_live: stuttering_live "machine_step 0" "live_cycle prog" "pipe_ok prog" arch_of
    "\<lambda>ci m. retires ci (snd m)" seen "isa_step prog" "\<lambda>m. stages_left (snd m)" 6 for prog
proof unfold_locales
  fix m ci
  assume ok: "pipe_ok prog m"
  show "stages_left (snd m) < 6" by (simp add: stages_left_def)
  assume "live_cycle prog ci m"
  then have c: "cycle_ok prog ci m" "ready ci (snd m)" by (simp_all add: live_cycle_def)
  show "pipe_ok prog (machine_step 0 ci m)" using ok c(1) by (rule mach.inv_step)
  show "retires ci (snd m) \<Longrightarrow> arch_of (machine_step 0 ci m) = isa_step prog (seen ci m) (arch_of m)"
    using ok c(1) by (rule mach.commit_step)
  show "\<not> retires ci (snd m) \<Longrightarrow> arch_of (machine_step 0 ci m) = arch_of m"
    using ok c(1) by (rule mach.quiet_step)
  show "\<not> retires ci (snd m) \<Longrightarrow> stages_left (snd (machine_step 0 ci m)) < stages_left (snd m)"
    using ok c stages_left_step [of "snd m" ci "fst m"]
    by (simp add: pipe_ok_def cycle_ok_def machine_step_def)
qed

subsection \<open>Runs of the core\<close>

definition core_run :: "nat \<Rightarrow> core_in list \<Rightarrow> regs \<times> core \<Rightarrow> regs \<times> core" where
  "core_run cb = fold (machine_step cb)"

text \<open>The instructions that left the execute stage, each with the outside values it used.\<close>

definition executed :: "nat \<Rightarrow> core_in list \<Rightarrow> regs \<times> core \<Rightarrow> ((12 word \<Rightarrow> u32) \<times> u32) list" where
  "executed cb = events_of (machine_step cb) (\<lambda>ci m. retires ci (snd m)) seen"

definition run_ok :: "(u32 \<Rightarrow> u32) \<Rightarrow> core_in list \<Rightarrow> regs \<times> core \<Rightarrow> bool" where
  "run_ok prog = all_good (machine_step 0) (cycle_ok prog)"

definition run_live :: "(u32 \<Rightarrow> u32) \<Rightarrow> core_in list \<Rightarrow> regs \<times> core \<Rightarrow> bool" where
  "run_live prog = all_good (machine_step 0) (live_cycle prog)"

lemmas core_run_defs = core_run_def executed_def run_ok_def run_live_def

text \<open>
  A sample run: memories that answer at once, a program in the instruction memory and no interrupt, as
  in \<^verbatim>\<open>qar_core_cache_tb.v\<close>.
\<close>

definition ci_word :: "u32 \<Rightarrow> core_in" where
  "ci_word w = \<lparr>ci_imem_ready = True, ci_imem_rdata = w, ci_mem_ready = True, ci_mem_rdata = 0, ci_dev_rdata = 0,
     ci_irq_timer = False, ci_irq_external = False, ci_soc_timer_irq = False, ci_soc_external_irq = False\<rparr>"

primrec mem_inputs :: "nat \<Rightarrow> (u32 \<Rightarrow> u32) \<Rightarrow> nat \<Rightarrow> regs \<times> core \<Rightarrow> core_in list" where
  "mem_inputs cb prog 0 m = []"
| "mem_inputs cb prog (Suc n) m =
     (let ci = ci_word (prog (fetch_req_addr (snd m))) in ci # mem_inputs cb prog n (machine_step cb ci m))"

definition boot_state :: "regs \<times> core" where
  "boot_state = (\<lambda>_. 0, core_boot)"

text \<open>\<^verbatim>\<open>devkit/examples/cache_loop.qar\<close>: three times \<open>ADDI x1, x1, 1\<close>, then \<open>JAL x0, loop\<close>.\<close>

definition cache_loop :: "u32 \<Rightarrow> u32" where
  "cache_loop a = (if drop_bit 2 a = 3 then 0xFF5FF06F else 0x00108093)"

lemma cache_loop_words:
  "isa_decode (cache_loop 0) = Some (Addi 1 1 1)" "isa_decode (cache_loop 0xC) = Some (Jal 0 (- 12))"
  by code_simp+

subsection \<open>Properties\<close>

text \<open>
  C1. The core without cache implements the documented instruction set: from every well-formed state (reset
  is one), whatever the latency of the two memories, after any number of cycles without interrupt the
  program counter, the registers and the control registers are those of the sequential machine that
  executed the same number of instructions one after the other, and the pipeline is well formed again.
  Forwarding, stalls, wrong-path fetches and the prefetch queue leave no trace.
\<close>

theorem core_run_refines_isa:
  assumes "pipe_ok prog m" and "run_ok prog cis m"
  shows "arch_of (core_run 0 cis m) = fold (isa_step prog) (executed 0 cis m) (arch_of m) \<and>
    pipe_ok prog (core_run 0 cis m)"
  using assms mach.run_executes [of prog m cis] mach.inv_run [of prog m cis] by (simp add: core_run_defs)

lemma core_run_refines_isa_witness:
  "let cis = mem_inputs 0 cache_loop 16 boot_state in
     arch_of (core_run 0 cis boot_state) = fold (isa_step cache_loop) (executed 0 cis boot_state) (arch_of boot_state) \<and>
     pipe_ok cache_loop (core_run 0 cis boot_state) \<and> length (executed 0 cis boot_state) = 5 \<and>
     a_regs (arch_of (core_run 0 cis boot_state)) 1 = 4"
proof -
  have "pipe_ok cache_loop boot_state" unfolding boot_state_def by (rule pipe_ok_boot)
  moreover have "run_ok cache_loop (mem_inputs 0 cache_loop 16 boot_state) boot_state" by code_simp
  moreover have "length (executed 0 (mem_inputs 0 cache_loop 16 boot_state) boot_state) = 5" by code_simp
  moreover have "a_regs (arch_of (core_run 0 (mem_inputs 0 cache_loop 16 boot_state) boot_state)) 1 = 4" by code_simp
  ultimately show ?thesis using core_run_refines_isa [of cache_loop boot_state] unfolding Let_def by blast
qed

text \<open>
  C5. The core makes progress: with memories that answer in the cycle of the request and no interrupt,
  every six cycles execute at least one instruction, from every well-formed state and for every program of
  the documented set; the result is again that of the sequential machine.
\<close>

theorem core_executes_one_in_six:
  assumes "pipe_ok prog m" and "run_live prog cis m" and "6 * n \<le> length cis"
  shows "n \<le> length (executed 0 cis m) \<and>
    arch_of (core_run 0 cis m) = fold (isa_step prog) (executed 0 cis m) (arch_of m)"
  using assms mach_live.throughput [of prog m cis n] mach_live.run_executes [of prog m cis]
  by (simp add: core_run_defs mult.commute)

lemma core_executes_one_in_six_witness:
  "let cis = mem_inputs 0 cache_loop 12 boot_state in
     2 \<le> length (executed 0 cis boot_state) \<and>
     arch_of (core_run 0 cis boot_state) = fold (isa_step cache_loop) (executed 0 cis boot_state) (arch_of boot_state)"
proof -
  have "pipe_ok cache_loop boot_state" unfolding boot_state_def by (rule pipe_ok_boot)
  moreover have "run_live cache_loop (mem_inputs 0 cache_loop 12 boot_state) boot_state" by code_simp
  moreover have "6 * 2 \<le> length (mem_inputs 0 cache_loop 12 boot_state)" by code_simp
  ultimately show ?thesis using core_executes_one_in_six [of cache_loop boot_state _ 2] unfolding Let_def by blast
qed

text \<open>The queue in front of the decoder, through any run: every cache size, every input, interrupts included.\<close>

lemma queue_room:
  "queue_ok s \<Longrightarrow> fetch_buffer_occupancy s + (if fetch_req_pending s then 1 else 0) \<le> 2"
  by (cases "if_valid s"; cases "prefetch_slot_valid s"; cases "fetch_req_pending s")
    (simp_all add: queue_ok_def fetch_buffer_occupancy_def)

lemma queue_run: "queue_ok (snd m) \<Longrightarrow> queue_ok (snd (core_run cb cis m))"
  unfolding core_run_def by (induction cis arbitrary: m) (simp_all add: machine_step_def queue_step)

text \<open>
  C6. The prefetch queue is always well formed: after any number of cycles from reset, for every
  cache size and whatever the inputs and interrupts, the slot is only filled behind a full fetch
  register, and together with an open request the queue holds at most two instructions, so that the
  answer of the memory always finds a free place.
\<close>

theorem prefetch_queue_well_formed:
  "queue_ok (snd (core_run cb cis (regs, core_reset s))) \<and>
   fetch_buffer_occupancy (snd (core_run cb cis (regs, core_reset s))) +
     (if fetch_req_pending (snd (core_run cb cis (regs, core_reset s))) then 1 else 0) \<le> 2"
proof -
  have "queue_ok (snd (core_run cb cis (regs, core_reset s)))"
    by (rule queue_run) (simp add: core_reset_boot core_boot_def queue_ok_def)
  then show ?thesis by (intro conjI queue_room)
qed

text \<open>
  C4. An instruction of the documented set that leaves the execute stage of a well-formed pipeline does
  exactly what the reference says, interrupt or not: the register it writes, the next program counter, the
  access to a peripheral or the memory with its address and data, the control register it writes and
  the trap it raises; and the register file takes the result in that cycle.
\<close>

theorem retiring_instruction_is_isa:
  assumes "pipe_ok prog m" and "retires ci (snd m)" and "isa_decode (prog (arch_pc (snd m))) = Some ins"
  shows "ex_result ci (snd m) = isa_exec (csr_read (snd m)) (ex_loaded ci (snd m)) (arch_pc (snd m)) (fst m) ins \<and>
    fst (machine_step cb ci m) = oc_regs (ex_result ci (snd m)) (fst m)"
proof -
  have v: "ex_valid (snd m)" using assms(2) by (simp add: retires_def)
  have ok: "operands_ok (fst m) (snd m)" "mem_port_ok (snd m)" "prog (ex_pc (snd m)) = ex_instr (snd m)"
    using assms(1) v by (simp_all add: pipe_ok_def words_ok_def)
  have pc: "arch_pc (snd m) = ex_pc (snd m)" using v by (simp add: arch_pc_def)
  have "isa_decode (ex_instr (snd m)) = Some ins" using assms(3) pc ok(3) by simp
  then show ?thesis
    using ex_result_isa [OF assms(2) ok(1,2)] assms(2)
    by (simp add: pc machine_step_def regs_step [OF ok(2)])
qed

text \<open>One instruction in the execute stage and nothing behind it.\<close>

definition ex_only :: "u32 \<Rightarrow> u32 \<Rightarrow> u32 \<Rightarrow> regs \<times> core" where
  "ex_only i a b = ((\<lambda>_. 0)(1 := a, 2 := b),
     core_boot\<lparr>ex_valid := True, ex_instr := i, ex_rs1_val := a, ex_rs2_val := b, pc_fetch := 4\<rparr>)"

lemma ex_only_sel [simp]:
  "ex_valid (snd (ex_only i a b))" "ex_instr (snd (ex_only i a b)) = i" "ex_rs1_val (snd (ex_only i a b)) = a"
  "ex_rs2_val (snd (ex_only i a b)) = b" "\<not> dmem_pending (snd (ex_only i a b))" "arch_pc (snd (ex_only i a b)) = 0"
  by (simp_all add: ex_only_def core_boot_def arch_pc_def)

lemma pipe_ok_ex_only:
  assumes "prog 0 = i" and "rs1_of i = 1" and "rs2_of i = 2 \<or> \<not> uses_rs2 i"
  shows "pipe_ok prog (ex_only i a b)"
  using assms
  by (auto simp: ex_only_def core_boot_def pipe_ok_def queue_ok_def order_ok_def words_ok_def mem_port_ok_def
      operands_ok_def rf_read_def front_defs)

lemma retiring_instruction_is_isa_witness:
  "let m = ex_only 0x0020A223 0x40000000 7; ci = ci_word 0 in
     ex_result ci (snd m) = isa_exec (csr_read (snd m)) (ex_loaded ci (snd m)) (arch_pc (snd m)) (fst m) (Sw 1 2 4) \<and>
     fst (machine_step 0 ci m) = oc_regs (ex_result ci (snd m)) (fst m) \<and>
     ex_access ci (snd m) = Store 0x40000004 7"
proof -
  have dec: "soc_decode 0x40000004 = Some (GPIO, 1)" by (simp add: soc_decode_def)
  have sw: "opcode_of 0x0020A223 = OP_STORE" "funct3_of 0x0020A223 = 2" "imm_s 0x0020A223 = 4" "rs1_of 0x0020A223 = 1"
    "rs2_of 0x0020A223 = 2" by code_simp+
  have "pipe_ok (\<lambda>_. 0x0020A223) (ex_only 0x0020A223 0x40000000 7)"
    by (rule pipe_ok_ex_only) (simp_all add: sw)
  moreover have "retires (ci_word 0) (snd (ex_only 0x0020A223 0x40000000 7))"
    by (simp add: retires_def stall_ex_core mem_word_op_def sw addr_store_candidate_def dec opcode_defs)
  moreover have "isa_decode 0x0020A223 = Some (Sw 1 2 4)" by code_simp
  moreover have "ex_access (ci_word 0) (snd (ex_only 0x0020A223 0x40000000 7)) = Store 0x40000004 7"
    by (simp add: ex_access_def ex_plain_no_mem ex_illegal_def ex_decode_store sw ex_store_def addr_store_candidate_def dec Let_def)
  ultimately show ?thesis
    using retiring_instruction_is_isa [of "\<lambda>_. 0x0020A223" "ex_only 0x0020A223 0x40000000 7" "ci_word 0"]
    unfolding Let_def by simp
qed

text \<open>
  C13. Outside the documented set the opcode OP-IMM is not rejected: a word of it with any
  \<open>funct3\<close>, among them ANDI, ORI, XORI, SLTI and the shifts by a constant, executes as ADDI and raises no
  exception.
\<close>

theorem op_imm_executes_as_addi:
  assumes "pipe_ok prog m" and "ex_valid (snd m)" and "opcode_of (ex_instr (snd m)) = OP_IMM"
    and "funct3_of (ex_instr (snd m)) \<noteq> 0"
  shows "isa_decode (ex_instr (snd m)) = None \<and>
    ex_result ci (snd m) = isa_exec (csr_read (snd m)) 0 (arch_pc (snd m)) (fst m)
      (Addi (rd_of (ex_instr (snd m))) (rs1_of (ex_instr (snd m))) (imm_i (ex_instr (snd m))))"
proof -
  have "\<not> mem_word_op (snd m)" using assms(3) by (auto simp: mem_word_op_def opcode_defs)
  then have "\<not> dmem_pending (snd m)" using assms(1) not_pending by (auto simp: pipe_ok_def)
  moreover have "operands_ok (fst m) (snd m)" using assms(1,2) by (simp add: pipe_ok_def)
  ultimately show ?thesis
    using assms(2-4) ex_result_op_imm [of "snd m" "fst m"] by (simp add: arch_pc_def isa_decode_def Let_def)
qed

text \<open>\<open>ANDI x1, x1, 0\<close> with 5 in \<open>x1\<close> leaves 5.\<close>

lemma op_imm_executes_as_addi_witness:
  "isa_decode 0x0000F093 = None \<and>
   ex_result (ci_word 0) (snd (ex_only 0x0000F093 5 0)) =
     isa_exec (csr_read (snd (ex_only 0x0000F093 5 0))) 0 0 (fst (ex_only 0x0000F093 5 0)) (Addi 1 1 0) \<and>
   oc_rd (ex_result (ci_word 0) (snd (ex_only 0x0000F093 5 0))) = Some (1, 5)"
proof -
  have "pipe_ok (\<lambda>_. 0x0000F093) (ex_only 0x0000F093 5 0)"
    by (rule pipe_ok_ex_only) (simp, code_simp, code_simp)
  moreover have "opcode_of 0x0000F093 = OP_IMM" "funct3_of 0x0000F093 \<noteq> 0" "rd_of 0x0000F093 = 1"
    "rs1_of 0x0000F093 = 1" "imm_i 0x0000F093 = 0" by code_simp+
  moreover have "oc_rd (ex_result (ci_word 0) (snd (ex_only 0x0000F093 5 0))) = Some (1, 5)" by code_simp
  ultimately show ?thesis
    using op_imm_executes_as_addi [of "\<lambda>_. 0x0000F093" "ex_only 0x0000F093 5 0" "ci_word 0"] by simp
qed

text \<open>SLT and SLTU raise the exception, but their register has already taken the sum of the operands.\<close>

lemma slt_traps_and_writes:
  assumes "pipe_ok prog m" and "ex_valid (snd m)" and "opcode_of (ex_instr (snd m)) = OP_REG"
    and "funct3_of (ex_instr (snd m)) = 2 \<or> funct3_of (ex_instr (snd m)) = 3"
  shows "oc_rd (ex_result ci (snd m)) =
      Some (rd_of (ex_instr (snd m)),
        rf_read (fst m) (rs1_of (ex_instr (snd m))) + rf_read (fst m) (rs2_of (ex_instr (snd m))))"
    and "oc_trap (ex_result ci (snd m)) = Some MCAUSE_ILLEGAL"
proof -
  have op: "ex_decode ci (snd m) x = ex_op (snd m) x" for x using assms(3) by (simp add: ex_decode_def opcode_defs)
  have "\<not> mem_word_op (snd m)" using assms(3) by (auto simp: mem_word_op_def opcode_defs)
  then have "\<not> dmem_pending (snd m)" using assms(1) not_pending by (auto simp: pipe_ok_def)
  then have x: "ex_plain ci (snd m) = ex_illegal (snd m) (ex_op (snd m) (ex_defaults ci (snd m)))"
    using assms(2) by (simp add: ex_plain_no_mem op)
  have "operands_ok (fst m) (snd m)" using assms(1,2) by (simp add: pipe_ok_def)
  then have v: "ex_rs1_val (snd m) = rf_read (fst m) (rs1_of (ex_instr (snd m)))"
    "ex_rs2_val (snd m) = rf_read (fst m) (rs2_of (ex_instr (snd m)))"
    using assms(3) by (simp_all add: operands_ok_def uses_rs1_def uses_rs2_def)
  show "oc_rd (ex_result ci (snd m)) =
      Some (rd_of (ex_instr (snd m)),
        rf_read (fst m) (rs1_of (ex_instr (snd m))) + rf_read (fst m) (rs2_of (ex_instr (snd m))))"
    "oc_trap (ex_result ci (snd m)) = Some MCAUSE_ILLEGAL"
    using assms(2,4) by (auto simp: ex_result_def x ex_op_def ex_illegal_def ex_defaults_def v alu_sel Let_def)
qed

end
