(* ===== verification/Core_Irq.thy ===== *)
theory Core_Irq
  imports Core_Run
begin

text \<open>
  Interrupts: how a request becomes a trap, where the interrupted program is resumed, and what happens
  to the instruction and to the memory access that are in the execute stage at that moment.
\<close>

subsection \<open>Entering the handler\<close>

definition irq_taken :: "core \<Rightarrow> bool" where
  "irq_taken s \<longleftrightarrow> take_timer_irq s \<or> take_ext_irq s"

lemma irq_trap:
  assumes "irq_taken s" and "\<not> trap_request (ex_plain ci s)"
  shows "trap_request (core_ex ci s)" "trap_target (core_ex ci s) = csr_mtvec s"
    "trap_mepc_value (core_ex ci s) = irq_mepc s"
    "trap_cause (core_ex ci s) = (if take_timer_irq s then MCAUSE_TIMER_IRQ else MCAUSE_EXT_IRQ)"
  using assms by (auto simp: irq_taken_def core_ex_plain ex_interrupt_def)

lemma trap_step:
  assumes "trap_request (core_ex ci s)"
  shows "csr_mepc (core_step cb ci regs s) = trap_mepc_value (core_ex ci s)"
    "csr_mcause (core_step cb ci regs s) = trap_cause (core_ex ci s)"
    "\<not> bit (csr_mstatus (core_step cb ci regs s)) 3"
    "bit (csr_mstatus (core_step cb ci regs s)) 7 = bit (csr_mstatus s) 3"
    "arch_pc (core_step cb ci regs s) = trap_target (core_ex ci s)"
    "\<not> ex_valid (core_step cb ci regs s)"
  using assms
  by (simp_all add: core_step_front core_trap_def front_defs core_front_def flush_front core_flush_def)

lemma irq_mepc_front:
  assumes "queue_ok s" and "order_ok s"
  shows "irq_mepc s =
    (if fetch_req_pending s \<and> \<not> ex_valid s \<and> \<not> id_valid s \<and> \<not> if_valid s then arch_pc s + 4 else arch_pc s)"
  using assms by (auto simp: irq_mepc_def front_defs queue_ok_def order_ok_def)

subsection \<open>Properties\<close>

text \<open>
  C10. The address an interrupt saves for the return: from a well-formed pipeline it is that of the next
  instruction of the program, except when the pipeline is empty and only a fetch is under way. Then it is
  the one after, and the program resumes with an instruction left out. The handler starts at the vector,
  with the cause of the source and interrupts disabled.
\<close>

theorem interrupt_resume_address:
  assumes "pipe_ok prog m" and "irq_taken (snd m)" and "\<not> trap_request (ex_plain ci (snd m))"
  shows "csr_mepc (snd (machine_step 0 ci m)) =
      (if fetch_req_pending (snd m) \<and> \<not> ex_valid (snd m) \<and> \<not> id_valid (snd m) \<and> \<not> if_valid (snd m)
       then arch_pc (snd m) + 4 else arch_pc (snd m)) \<and>
    arch_pc (snd (machine_step 0 ci m)) = csr_mtvec (snd m) \<and>
    csr_mcause (snd (machine_step 0 ci m)) = (if take_timer_irq (snd m) then MCAUSE_TIMER_IRQ else MCAUSE_EXT_IRQ) \<and>
    \<not> bit (csr_mstatus (snd (machine_step 0 ci m))) 3"
  using assms(1) irq_mepc_front [of "snd m"] irq_trap [OF assms(2,3)] trap_step [OF irq_trap(1) [OF assms(2,3)]]
  by (simp add: pipe_ok_def machine_step_def)

text \<open>A timer interrupt pending and enabled.\<close>

definition irq_now :: "regs \<times> core \<Rightarrow> regs \<times> core" where
  "irq_now m = (fst m, (snd m)\<lparr>csr_mstatus := 8, csr_mie := 0x80, csr_mip := 0x80\<rparr>)"

lemma irq_now_sel [simp]:
  "fst (irq_now m) = fst m" "fetch_req_pending (snd (irq_now m)) = fetch_req_pending (snd m)"
  "ex_valid (snd (irq_now m)) = ex_valid (snd m)" "id_valid (snd (irq_now m)) = id_valid (snd m)"
  "if_valid (snd (irq_now m)) = if_valid (snd m)" "arch_pc (snd (irq_now m)) = arch_pc (snd m)"
  "csr_mtvec (snd (irq_now m)) = csr_mtvec (snd m)"
  by (simp_all add: irq_now_def front_defs)

lemma irq_now_taken: "take_timer_irq (snd (irq_now m))" "irq_taken (snd (irq_now m))"
  by (simp_all add: irq_now_def irq_taken_def take_timer_irq_def timer_can_fire_def ext_can_fire_def)

lemma pipe_ok_irq_now: "pipe_ok prog m \<Longrightarrow> pipe_ok prog (irq_now m)"
proof -
  have "queue_ok (snd (irq_now m)) = queue_ok (snd m)" "order_ok (snd (irq_now m)) = order_ok (snd m)"
    "words_ok prog (snd (irq_now m)) = words_ok prog (snd m)"
    "operands_ok (fst (irq_now m)) (snd (irq_now m)) = operands_ok (fst m) (snd m)"
    by (simp_all add: irq_now_def queue_ok_def order_ok_def words_ok_def operands_ok_def front_defs)
  moreover have "mem_port_ok (snd (irq_now m)) = mem_port_ok (snd m)"
    by (simp add: irq_now_def mem_port_ok_def mem_word_op_def addr_load_candidate_def addr_store_candidate_def)
  ultimately show "pipe_ok prog m \<Longrightarrow> pipe_ok prog (irq_now m)" by (simp add: pipe_ok_def)
qed

text \<open>The first fetch after reset is under way: the handler returns to address 4.\<close>

lemma interrupt_resume_address_witness:
  "let m = (\<lambda>_. 0, core_boot\<lparr>fetch_req_pending := True, pc_fetch := 4\<rparr>) in
     arch_pc (snd (irq_now m)) = 0 \<and>
     csr_mepc (snd (machine_step 0 (ci_word 0) (irq_now m))) = 4 \<and>
     arch_pc (snd (machine_step 0 (ci_word 0) (irq_now m))) = 0x100"
proof -
  let ?m = "(\<lambda>_. 0 :: u32, core_boot\<lparr>fetch_req_pending := True, pc_fetch := 4\<rparr>)"
  have ok: "pipe_ok (\<lambda>_. 0) (irq_now ?m)"
    by (rule pipe_ok_irq_now)
      (simp add: core_boot_def pipe_ok_def queue_ok_def order_ok_def words_ok_def mem_port_ok_def)
  have "\<not> trap_request (ex_plain (ci_word 0) (snd (irq_now ?m)))"
    by (simp add: ex_plain_def ex_illegal_def ex_commit_def load_commit_def irq_now_def core_boot_def)
  moreover have "fetch_req_pending (snd ?m)" "\<not> ex_valid (snd ?m)" "\<not> id_valid (snd ?m)" "\<not> if_valid (snd ?m)"
    "arch_pc (snd ?m) = 0" "csr_mtvec (snd ?m) = 0x100"
    by (simp_all add: core_boot_def front_defs)
  ultimately show ?thesis
    using interrupt_resume_address [OF ok irq_now_taken(2)] by simp
qed

text \<open>
  C9. An interrupt that is taken in the cycle in which an instruction leaves the execute stage does not
  discard it: its register is written and its access to the peripherals is made, but the address saved for
  the return is its own. The program therefore executes this instruction a second time.
\<close>

theorem interrupt_repeats_instruction:
  assumes "pipe_ok prog m" and r: "retires ci (snd m)" and "irq_taken (snd m)"
    and ins: "isa_decode (prog (arch_pc (snd m))) = Some ins" and "ins \<noteq> Ecall"
  shows "fst (machine_step 0 ci m) =
      oc_regs (isa_exec (csr_read (snd m)) (ex_loaded ci (snd m)) (arch_pc (snd m)) (fst m) ins) (fst m) \<and>
    ex_access ci (snd m) =
      oc_access (isa_exec (csr_read (snd m)) (ex_loaded ci (snd m)) (arch_pc (snd m)) (fst m) ins) \<and>
    csr_mepc (snd (machine_step 0 ci m)) = arch_pc (snd m)"
proof -
  have v: "ex_valid (snd m)" using r by (simp add: retires_def)
  have ok: "operands_ok (fst m) (snd m)" "mem_port_ok (snd m)" "prog (ex_pc (snd m)) = ex_instr (snd m)"
    using assms(1) v by (simp_all add: pipe_ok_def words_ok_def)
  have pc: "arch_pc (snd m) = ex_pc (snd m)" using v by (simp add: arch_pc_def)
  have res: "ex_result ci (snd m) = isa_exec (csr_read (snd m)) (ex_loaded ci (snd m)) (arch_pc (snd m)) (fst m) ins"
    using ex_result_isa [OF r ok(1,2)] ins by (simp add: pc ok(3))
  have "oc_trap (isa_exec c l p rs ins) = None" for c l p rs
    using \<open>ins \<noteq> Ecall\<close> by (cases ins) (simp_all add: oc_plain_def)
  then have "\<not> trap_request (ex_plain ci (snd m))"
    using res by (auto simp: ex_result_def Let_def dest: arg_cong [where f = oc_trap])
  then have "csr_mepc (snd (machine_step 0 ci m)) = arch_pc (snd m)"
    using irq_trap [OF assms(3)] trap_step(1) v by (simp add: machine_step_def irq_mepc_def pc)
  moreover have "ex_access ci (snd m) = oc_access (ex_result ci (snd m))" by (simp add: ex_result_def Let_def)
  ultimately show ?thesis
    using r res by (simp add: machine_step_def regs_step [OF ok(2)])
qed

text \<open>\<open>ADDI x1, x1, 1\<close> with 5 in \<open>x1\<close>: the register is 6 and the return goes to the same instruction.\<close>

lemma interrupt_repeats_instruction_witness:
  "let m = irq_now (ex_only 0x00108093 5 0) in
     fst (machine_step 0 (ci_word 0) m) 1 = 6 \<and> csr_mepc (snd (machine_step 0 (ci_word 0) m)) = arch_pc (snd m)"
proof -
  let ?m = "irq_now (ex_only 0x00108093 5 0)"
  have f: "rs1_of 0x00108093 = 1" "\<not> uses_rs2 0x00108093" "opcode_of 0x00108093 = OP_IMM" by code_simp+
  have i: "isa_decode 0x00108093 = Some (Addi 1 1 1)" by code_simp
  have ok: "pipe_ok (\<lambda>_. 0x00108093) ?m"
    by (rule pipe_ok_irq_now, rule pipe_ok_ex_only) (simp_all add: f)
  have "\<not> mem_word_op (snd ?m)" using f by (simp add: mem_word_op_def irq_now_def ex_only_def opcode_defs)
  then have r: "retires (ci_word 0) (snd ?m)"
    by (simp add: retires_def stall_ex_core) (simp add: ci_word_def)
  show ?thesis
    using interrupt_repeats_instruction [OF ok r irq_now_taken(2), of "Addi 1 1 1"] i
    unfolding Let_def by (simp add: oc_regs_def oc_plain_def rf_read_def ex_only_def)
qed

subsection \<open>From the pin to the handler\<close>

lemma csr_mip_same [simp]:
  "csr_mip (core_fetch_issue cb s x n) = csr_mip n" "csr_mip (core_id_accept s x n) = csr_mip n"
  "csr_mip (core_slot_to_if s x n) = csr_mip n" "csr_mip (core_fetch_response cb ci s x n) = csr_mip n"
  "csr_mip (core_issue regs s x n) = csr_mip n" "csr_mip (core_flush x n) = csr_mip n"
  "csr_mip (core_mem ci x s n) = csr_mip n" "csr_mip (core_trap x s n) = csr_mip n"
  by (simp_all add: core_fetch_issue_def core_id_accept_def core_slot_to_if_def core_flush_def
      core_fetch_response_def core_put_def core_issue_def core_mem_def core_trap_def Let_def)

lemma csr_mip_step:
  assumes "\<not> csr_write_en (core_ex ci s)"
  shows "csr_mip (core_step cb ci regs s) =
    assign_bit 11 (external_trigger_level ci) (assign_bit 7 (timer_trigger_level ci s) (csr_mip s))"
proof -
  have "csr_mip (core_front cb ci regs s) =
      assign_bit 11 (external_trigger_level ci) (assign_bit 7 (timer_trigger_level ci s) (csr_mip s))"
    using assms by (simp add: core_front_def core_advance_def core_pre_def core_mip_def Let_def)
  then show ?thesis using assms by (simp add: core_step_front core_csr_write_def Let_def)
qed

lemma soft_csrs_step:
  assumes "\<not> csr_write_en (core_ex ci s)" and "\<not> trap_request (core_ex ci s)" and "\<not> is_mret s"
  shows "soft_csrs (core_step cb ci regs s) = soft_csrs s"
  using assms by (simp add: core_step_front core_trap_def core_csr_write_def Let_def)

text \<open>
  C12. A request on the external interrupt, from a pin or from a peripheral, reaches the handler in two
  cycles: when interrupts are enabled, none is taken in the first cycle and the instruction in it neither
  traps, nor returns from a trap, nor writes a control register, and the one in the second cycle does
  not trap itself, then after the second cycle the core fetches from the vector with interrupts disabled,
  the enable bit saved, and the cause that of the timer or of the external source.
\<close>

theorem external_interrupt_in_two_cycles:
  assumes "bit (csr_mstatus s) 3" and "bit (csr_mie s) 11" and "external_trigger_level ci"
    and "quiet_irq s" and "\<not> trap_request (ex_plain ci s)" and "\<not> csr_write_en (ex_plain ci s)" and "\<not> is_mret s"
    and "t = core_step cb ci regs s" and "\<not> trap_request (ex_plain ci' t)"
  shows "arch_pc (core_step cb ci' regs' t) = csr_mtvec s \<and>
    csr_mcause (core_step cb ci' regs' t) = (if take_timer_irq t then MCAUSE_TIMER_IRQ else MCAUSE_EXT_IRQ) \<and>
    \<not> bit (csr_mstatus (core_step cb ci' regs' t)) 3 \<and> bit (csr_mstatus (core_step cb ci' regs' t)) 7"
proof -
  have first: "\<not> csr_write_en (core_ex ci s)" "\<not> trap_request (core_ex ci s)"
    using assms by (simp_all add: core_ex_quiet)
  have t: "csr_mstatus t = csr_mstatus s" "csr_mie t = csr_mie s" "csr_mtvec t = csr_mtvec s"
    using soft_csrs_step [OF first assms(7), of cb regs] by (simp_all add: assms(8) soft_csrs_def)
  have "bit (csr_mip t) 11" using csr_mip_step [OF first(1), of cb regs] assms(3) by (simp add: assms(8))
  then have "ext_can_fire t" using assms(1,2) by (simp add: ext_can_fire_def t)
  then have "irq_taken t" by (auto simp: irq_taken_def take_timer_irq_def take_ext_irq_def)
  note irq = irq_trap [OF this assms(9)]
  show ?thesis using trap_step [OF irq(1), of cb regs'] irq(2,4) t assms(1) by simp
qed

text \<open>An external request at an idle core.\<close>

lemma external_interrupt_in_two_cycles_witness:
  "let s = core_boot\<lparr>csr_mstatus := 8, csr_mie := 0x800\<rparr>; ci = (ci_word 0)\<lparr>ci_irq_external := True\<rparr>;
       t = core_step 0 ci (\<lambda>_. 0) s; u = core_step 0 ci (\<lambda>_. 0) t
   in arch_pc u = 0x100 \<and> csr_mcause u = 0x8000000B"
proof -
  let ?s = "core_boot\<lparr>csr_mstatus := 8, csr_mie := 0x800\<rparr>" and ?ci = "(ci_word 0)\<lparr>ci_irq_external := True\<rparr>"
  let ?t = "core_step 0 ?ci (\<lambda>_. 0) ?s"
  have "bit (csr_mstatus ?s) 3" "bit (csr_mie ?s) 11" "external_trigger_level ?ci" "quiet_irq ?s"
    "\<not> trap_request (ex_plain ?ci ?s)" "\<not> csr_write_en (ex_plain ?ci ?s)" "\<not> is_mret ?s"
    "\<not> trap_request (ex_plain ?ci ?t)" "\<not> take_timer_irq ?t" "csr_mtvec ?s = 0x100"
    by code_simp+
  then show ?thesis
    using external_interrupt_in_two_cycles [of ?s ?ci ?t 0 "\<lambda>_. 0" ?ci "\<lambda>_. 0"] by (simp add: mcause_defs)
qed

subsection \<open>A load that is waiting\<close>

text \<open>The access stays open, to the same register, for as long as the memory does not answer.\<close>

lemma open_access_step:
  assumes "dmem_pending s" and "\<not> ci_mem_ready ci"
  shows "dmem_pending (core_step cb ci regs s)" "dmem_is_load (core_step cb ci regs s) = dmem_is_load s"
    "dmem_rd (core_step cb ci regs s) = dmem_rd s"
proof -
  have "mem_port (core_step cb ci regs s) = mem_port s"
    using assms by (simp add: core_step_front mem_port_mem)
  then show "dmem_pending (core_step cb ci regs s)" "dmem_is_load (core_step cb ci regs s) = dmem_is_load s"
    "dmem_rd (core_step cb ci regs s) = dmem_rd s"
    using assms(1) by (simp_all add: mem_port_def)
qed

lemma open_access_run:
  "list_all (\<lambda>ci. \<not> ci_mem_ready ci) cis \<Longrightarrow> dmem_pending (snd m) \<Longrightarrow>
   dmem_pending (snd (core_run cb cis m)) \<and> dmem_is_load (snd (core_run cb cis m)) = dmem_is_load (snd m) \<and>
   dmem_rd (snd (core_run cb cis m)) = dmem_rd (snd m)"
  unfolding core_run_def
  by (induction cis arbitrary: m) (simp_all add: machine_step_def open_access_step)

lemma order_run:
  "queue_ok (snd m) \<Longrightarrow> order_ok (snd m) \<Longrightarrow> order_ok (snd (core_run 0 cis m))"
  unfolding core_run_def by (induction cis arbitrary: m) (simp_all add: machine_step_def queue_step order_step)

text \<open>Instructions that only compute a register.\<close>

fun computes :: "instr \<Rightarrow> bool" where
  "computes (Addi rd r1 imm) = True"
| "computes (Alu f rd r1 r2) = True"
| "computes (Lui rd imm) = True"
| "computes (Auipc rd imm) = True"
| "computes ins = False"

lemma decode_computes:
  assumes "isa_decode (ex_instr s) = Some ins" and "computes ins"
  shows "\<not> flush_pipe (ex_decode ci s (ex_defaults ci s))" "\<not> trap_request (ex_decode ci s (ex_defaults ci s))"
    "\<not> illegal_instr (ex_decode ci s (ex_defaults ci s))"
proof -
  consider "opcode_of (ex_instr s) = OP_IMM" | "opcode_of (ex_instr s) = OP_REG" "alu_fun_of (funct7_of (ex_instr s)) (funct3_of (ex_instr s)) \<noteq> None"
    | "opcode_of (ex_instr s) = OP_LUI" | "opcode_of (ex_instr s) = OP_AUIPC"
    using assms by (auto simp: isa_decode_def Let_def split: if_splits option.splits)
  then have "\<not> flush_pipe (ex_decode ci s (ex_defaults ci s)) \<and> \<not> trap_request (ex_decode ci s (ex_defaults ci s)) \<and>
    \<not> illegal_instr (ex_decode ci s (ex_defaults ci s))"
  proof cases
    case 2
    then have d: "ex_decode ci s x = ex_op s x" for x by (simp add: ex_decode_def opcode_defs)
    show ?thesis using 2(2) unfolding d by (auto simp: ex_op_def alu_fun_of_def Let_def split: if_splits)
  qed (simp_all add: ex_decode_def ex_op_imm_def opcode_defs Let_def)
  then show "\<not> flush_pipe (ex_decode ci s (ex_defaults ci s))" "\<not> trap_request (ex_decode ci s (ex_defaults ci s))"
    "\<not> illegal_instr (ex_decode ci s (ex_defaults ci s))"
    by simp_all
qed

lemma open_load_answer:
  assumes "queue_ok s" and "order_ok s" and "dmem_pending s" and "dmem_is_load s" and "ci_mem_ready ci" and "ex_valid s"
    and "quiet_irq s" and "isa_decode (ex_instr s) = Some ins" and "computes ins"
  shows "core_regs_step ci s regs = rf_write True (dmem_rd s) (ci_mem_rdata ci) regs"
    and "arch_pc (core_step 0 ci regs s) = arch_pc s + 4"
proof -
  have x: "ex_plain ci s = ex_illegal s ((ex_decode ci s (ex_defaults ci s))
      \<lparr>rf_we := True, rf_waddr := dmem_rd s, rf_wdata := ci_mem_rdata ci\<rparr>)"
    using assms by (simp add: ex_plain_def ex_commit_def load_commit_def)
  note d = decode_computes [OF assms(8,9), of ci]
  have "rf_we (ex_plain ci s)" "rf_waddr (ex_plain ci s) = dmem_rd s" "rf_wdata (ex_plain ci s) = ci_mem_rdata ci"
    using d(3) by (simp_all add: x ex_illegal_def)
  moreover have r: "retires ci s" using assms by (simp add: retires_def stall_ex_core)
  ultimately show "core_regs_step ci s regs = rf_write True (dmem_rd s) (ci_mem_rdata ci) regs"
    by (simp add: core_regs_step_def retires_def)
  have "\<not> trap_request (core_ex ci s)" "\<not> flush_pipe (core_ex ci s)"
    using d assms(7) by (simp_all add: core_ex_quiet x ex_illegal_def)
  then show "arch_pc (core_step 0 ci regs s) = arch_pc s + 4"
    using front_step [OF assms(1,2)] r by simp
qed

text \<open>
  C11. An interrupt does not cancel a load that waits for the data memory. The core goes to the handler and
  saves the address of the load, but its access stays open, and however much later the memory answers, the
  word goes into the register of the load in place of what the instruction of that cycle computes. That
  instruction of the handler leaves the pipeline all the same: its result is lost, every register but that
  of the load is unchanged, and the program goes on behind it.
\<close>

theorem open_load_replaces_result:
  assumes "pipe_ok prog m" and "dmem_pending (snd m)" and "dmem_is_load (snd m)" and "irq_taken (snd m)"
    and "\<forall>ci \<in> set (ci0 # cis). \<not> ci_mem_ready ci"
    and "h = machine_step 0 ci0 m" and "u = core_run 0 cis h" and "v = machine_step 0 ci u"
    and "ci_mem_ready ci" and "quiet_irq (snd u)" and "ex_valid (snd u)"
    and "isa_decode (ex_instr (snd u)) = Some ins" and "computes ins"
  shows "arch_pc (snd h) = csr_mtvec (snd m) \<and> csr_mepc (snd h) = arch_pc (snd m) \<and>
    arch_pc (snd v) = arch_pc (snd u) + 4 \<and>
    (\<forall>r. fst v r = (if r = dmem_rd (snd m) \<and> r \<noteq> 0 then ci_mem_rdata ci else fst u r))"
proof -
  have ok: "queue_ok (snd m)" "order_ok (snd m)" "mem_port_ok (snd m)" using assms(1) by (simp_all add: pipe_ok_def)
  have v: "ex_valid (snd m)" using ok(3) assms(2) by (auto simp: mem_port_ok_def)
  have "\<not> retires ci0 (snd m)" using assms(2,5) by (simp add: retires_def stall_ex_core)
  from ex_waits(4) [OF ok(3) this] have "\<not> trap_request (ex_plain ci0 (snd m))" .
  note irq = irq_trap [OF assms(4) this]
  have h: "queue_ok (snd h)" "order_ok (snd h)" "dmem_pending (snd h)" "dmem_is_load (snd h)" "dmem_rd (snd h) = dmem_rd (snd m)"
    using ok assms(2,3,5) by (simp_all add: assms(6) machine_step_def queue_step order_step open_access_step)
  have "queue_ok (snd u)" "order_ok (snd u)" using queue_run [OF h(1)] order_run [OF h(1,2)] by (simp_all add: assms(7))
  moreover have "dmem_pending (snd u)" "dmem_is_load (snd u)" and rd: "dmem_rd (snd u) = dmem_rd (snd m)"
    using open_access_run [of cis h 0] h(3-5) assms(5,7) by (simp_all add: list_all_iff)
  ultimately have ans: "fst v = rf_write True (dmem_rd (snd u)) (ci_mem_rdata ci) (fst u)" "arch_pc (snd v) = arch_pc (snd u) + 4"
    using open_load_answer assms(8-13) by (simp_all add: machine_step_def)
  moreover have "arch_pc (snd h) = csr_mtvec (snd m)" "csr_mepc (snd h) = arch_pc (snd m)"
    using trap_step(1,5) [OF irq(1), of 0 "fst m"] irq(2,3) v
    by (simp_all add: assms(6) machine_step_def irq_mepc_def arch_pc_def)
  ultimately show ?thesis by (simp add: rd rf_write_def)
qed

text \<open>
  The program is a load of \<open>x5\<close> at 0 from a slow data memory, the handler at \<open>0x100\<close> increments \<open>x1\<close>. The
  external interrupt comes while the load waits and is taken in the cycle after; the memory answers with 77
  when the increment is in the execute stage: \<open>x5\<close> is 77 and \<open>x1\<close> stays 0.
\<close>

definition load_prog :: "u32 \<Rightarrow> u32" where
  "load_prog a = (if a = 0 then 0x00002283 else 0x00108093)"

definition slow_memory :: "nat \<Rightarrow> core_in" where
  "slow_memory k = (ci_word (load_prog ([0, 0, 4, 4, 8, 8, 0, 0x100, 0x104, 0x104] ! k)))
     \<lparr>ci_mem_ready := False, ci_irq_external := (k = 4)\<rparr>"

definition slow_load :: "regs \<times> core" where
  "slow_load = core_run 0 (map slow_memory [0, 1, 2, 3, 4]) (\<lambda>_. 0, core_boot\<lparr>csr_mstatus := 8, csr_mie := 0x800\<rparr>)"

lemma open_load_replaces_result_witness:
  "let m = slow_load; h = machine_step 0 (slow_memory 5) m; u = core_run 0 (map slow_memory [6, 7, 8, 9]) h;
       v = machine_step 0 ((ci_word 0)\<lparr>ci_mem_rdata := 77\<rparr>) u
   in isa_decode (ex_instr (snd u)) = Some (Addi 1 1 1) \<and> arch_pc (snd u) = 0x100 \<and> csr_mepc (snd h) = 0 \<and>
     fst u 1 = 0 \<and> fst v 1 = 0 \<and> fst v 5 = 77 \<and> arch_pc (snd v) = 0x104"
proof -
  let ?b = "(\<lambda>_. 0, core_boot\<lparr>csr_mstatus := 8, csr_mie := 0x800\<rparr>)"
  have boot: "pipe_ok load_prog ?b"
    by (simp add: pipe_ok_def core_boot_def queue_ok_def order_ok_def words_ok_def mem_port_ok_def)
  have "run_ok load_prog (map slow_memory [0, 1, 2, 3, 4]) ?b" by code_simp
  with boot have ok: "pipe_ok load_prog slow_load"
    unfolding slow_load_def core_run_def run_ok_def by (rule mach.inv_run)
  define h where "h = machine_step 0 (slow_memory 5) slow_load"
  define u where "u = core_run 0 (map slow_memory [6, 7, 8, 9]) h"
  define ci where "ci = (ci_word 0)\<lparr>ci_mem_rdata := 77\<rparr>"
  have "case slow_load of (regs, s) \<Rightarrow> dmem_pending s \<and> dmem_is_load s \<and> dmem_rd s = 5 \<and> irq_taken s \<and> arch_pc s = 0"
    by code_simp
  then have m: "dmem_pending (snd slow_load)" "dmem_is_load (snd slow_load)" "irq_taken (snd slow_load)"
    "dmem_rd (snd slow_load) = 5" "arch_pc (snd slow_load) = 0"
    by (simp_all add: case_prod_beta)
  have "case u of (regs, s) \<Rightarrow> quiet_irq s \<and> ex_valid s \<and> isa_decode (ex_instr s) = Some (Addi 1 1 1) \<and>
      arch_pc s = 0x100 \<and> regs 1 = 0"
    unfolding u_def h_def by code_simp
  then have us: "quiet_irq (snd u)" "ex_valid (snd u)" "isa_decode (ex_instr (snd u)) = Some (Addi 1 1 1)"
    "arch_pc (snd u) = 0x100" "fst u 1 = 0"
    by (simp_all add: case_prod_beta)
  have closed: "\<forall>c \<in> set (slow_memory 5 # map slow_memory [6, 7, 8, 9]). \<not> ci_mem_ready c"
    by (simp add: slow_memory_def)
  have ready: "ci_mem_ready ci" "ci_mem_rdata ci = 77" by (simp_all add: ci_def ci_word_def)
  have "computes (Addi 1 1 1)" by simp
  from open_load_replaces_result [OF ok m(1-3) closed h_def u_def refl ready(1) us(1-3) this]
  show ?thesis
    unfolding Let_def h_def [symmetric] u_def [symmetric] ci_def [symmetric] by (simp add: m us ready)
qed

end
