(* ===== verification/Core_Cache.thy ===== *)
theory Core_Cache
  imports Core_Run
begin

text \<open>
  The instruction cache: what it stores is always the program, but the fetch logic drops a hit that
  arrives while the fetch register moves on, so the core with cache loses instructions.
\<close>

subsection \<open>Index and tag identify a word\<close>

lemma cache_place_inject:
  assumes "cb \<noteq> 0" and "cache_index cb a = cache_index cb b" and "cache_tag cb a = cache_tag cb b"
  shows "drop_bit 2 a = drop_bit 2 b"
proof -
  have div: "unat (cache_tag cb c) = unat (drop_bit 2 c) div 2 ^ cb" for c
    using assms(1) unfolding cache_tag_def unat_drop_bit_eq
    by (simp add: drop_bit_eq_div [where 'a = nat] power_add div_mult2_eq)
  have "unat (drop_bit 2 a) mod 2 ^ cb = unat (drop_bit 2 b) mod 2 ^ cb"
    using assms(1,2) by (simp add: cache_index_def)
  moreover have "unat (drop_bit 2 a) div 2 ^ cb = unat (drop_bit 2 b) div 2 ^ cb"
    using assms(3) by (simp add: div [symmetric])
  ultimately have "unat (drop_bit 2 a) = unat (drop_bit 2 b)" by (metis div_mult_mod_eq)
  then show ?thesis by (rule unsigned_word_eqI)
qed

subsection \<open>Coherence\<close>

text \<open>The instruction memory holds words: the two low address bits do not matter.\<close>

definition word_addressed :: "(u32 \<Rightarrow> u32) \<Rightarrow> bool" where
  "word_addressed prog \<longleftrightarrow> (\<forall>a b. drop_bit 2 a = drop_bit 2 b \<longrightarrow> prog a = prog b)"

definition icache_hit_at :: "nat \<Rightarrow> core \<Rightarrow> u32 \<Rightarrow> bool" where
  "icache_hit_at cb s a \<longleftrightarrow> cb \<noteq> 0 \<and> icache_valid s (cache_index cb a) \<and> icache_tag s (cache_index cb a) = cache_tag cb a"

definition icache_ok :: "nat \<Rightarrow> (u32 \<Rightarrow> u32) \<Rightarrow> core \<Rightarrow> bool" where
  "icache_ok cb prog s \<longleftrightarrow>
     (\<forall>a. icache_hit_at cb s a \<longrightarrow> icache_data s (cache_index cb a) = prog a) \<and>
     (fetch_req_pending s \<and> fetch_req_cacheable s \<longrightarrow>
        icache_fill_index s = cache_index cb (fetch_req_addr s) \<and> icache_fill_tag s = cache_tag cb (fetch_req_addr s))"

text \<open>The cache and the open request after a cycle.\<close>

definition icache :: "core \<Rightarrow> (nat \<Rightarrow> u32) \<times> (nat \<Rightarrow> u32) \<times> (nat \<Rightarrow> bool)" where
  "icache s = (icache_data s, icache_tag s, icache_valid s)"

definition fetch_req :: "core \<Rightarrow> bool \<times> u32 \<times> bool \<times> nat \<times> u32" where
  "fetch_req s = (fetch_req_pending s, fetch_req_addr s, fetch_req_cacheable s, icache_fill_index s, icache_fill_tag s)"

lemma icache_same [simp]:
  "icache (core_fetch_issue cb s x n) = icache n" "icache (core_id_accept s x n) = icache n"
  "icache (core_slot_to_if s x n) = icache n" "icache (core_issue regs s x n) = icache n"
  "icache (core_flush x n) = icache n" "icache (core_pre ci s) = icache s"
  by (simp_all add: icache_def core_fetch_issue_def core_id_accept_def core_slot_to_if_def core_put_def
      core_issue_def core_flush_def Let_def)

lemma fetch_req_same [simp]:
  "fetch_req (core_id_accept s x n) = fetch_req n" "fetch_req (core_slot_to_if s x n) = fetch_req n"
  "fetch_req (core_issue regs s x n) = fetch_req n" "fetch_req (core_pre ci s) = fetch_req s"
  by (simp_all add: fetch_req_def core_id_accept_def core_slot_to_if_def core_issue_def)

lemma icache_step:
  "icache (core_step cb ci regs s) =
    (if \<not> trap_request (core_ex ci s) \<and> \<not> flush_pipe (core_ex ci s) \<and>
        fetch_req_pending s \<and> ci_imem_ready ci \<and> fetch_req_cacheable s \<and> cb \<noteq> 0
     then ((icache_data s)(icache_fill_index s := ci_imem_rdata ci),
           (icache_tag s)(icache_fill_index s := icache_fill_tag s),
           (icache_valid s)(icache_fill_index s := True))
     else icache s)"
proof -
  have resp: "icache (core_fetch_response cb ci s x n) =
      (if fetch_req_pending s \<and> ci_imem_ready ci \<and> fetch_req_cacheable s \<and> cb \<noteq> 0
       then ((fst (icache n))(icache_fill_index s := ci_imem_rdata ci),
             (fst (snd (icache n)))(icache_fill_index s := icache_fill_tag s),
             (snd (snd (icache n)))(icache_fill_index s := True))
       else icache n)" for x n
    by (simp add: icache_def core_fetch_response_def core_put_def Let_def)
  have "icache (core_step cb ci regs s) = icache (core_front cb ci regs s)" by (simp add: icache_def core_step_front)
  then show ?thesis by (simp add: core_front_def core_advance_def resp Let_def) (simp add: icache_def)
qed

lemma fetch_req_step:
  "fetch_req_pending (core_step cb ci regs s) \<Longrightarrow> fetch_req_cacheable (core_step cb ci regs s) \<Longrightarrow>
   icache_fill_index (core_step cb ci regs s) = (if fetch_req_pending s then icache_fill_index s else cache_index cb (fetch_req_addr (core_step cb ci regs s))) \<and>
   icache_fill_tag (core_step cb ci regs s) = (if fetch_req_pending s then icache_fill_tag s else cache_tag cb (fetch_req_addr (core_step cb ci regs s))) \<and>
   (fetch_req_pending s \<longrightarrow> fetch_req_cacheable s \<and> fetch_req_addr (core_step cb ci regs s) = fetch_req_addr s)"
proof -
  let ?x = "core_ex ci s"
  have issue: "fetch_req (core_fetch_issue cb s ?x (core_pre ci s)) =
      (if \<not> fetch_req_pending s \<and> fetch_buffer_occupancy s < 2 \<and> \<not> icache_lookup_hit cb s
       then (True, pc_fetch s, cb \<noteq> 0, cache_index cb (pc_fetch s), cache_tag cb (pc_fetch s)) else fetch_req s)"
    by (simp add: fetch_req_def core_fetch_issue_def core_put_def)
  have resp: "fetch_req (core_fetch_response cb ci s ?x n) =
      (if fetch_req_pending s \<and> ci_imem_ready ci
       then (False, fst (snd (fetch_req n)), False, snd (snd (snd (fetch_req n)))) else fetch_req n)" for n
    by (simp add: fetch_req_def core_fetch_response_def core_put_def Let_def)
  have flush: "fetch_req (core_flush ?x n) = (False, fst (snd (fetch_req n)), False, snd (snd (snd (fetch_req n))))" for n
    by (simp add: fetch_req_def core_flush_def)
  have "fetch_req (core_step cb ci regs s) = fetch_req (core_front cb ci regs s)" by (simp add: fetch_req_def core_step_front)
  also have "\<dots> = (if trap_request ?x \<or> flush_pipe ?x \<or> fetch_req_pending s \<and> ci_imem_ready ci
       then (False, fst (snd (fetch_req s)), False, snd (snd (snd (fetch_req s))))
       else if \<not> fetch_req_pending s \<and> fetch_buffer_occupancy s < 2 \<and> \<not> icache_lookup_hit cb s
       then (True, pc_fetch s, cb \<noteq> 0, cache_index cb (pc_fetch s), cache_tag cb (pc_fetch s)) else fetch_req s)"
    by (simp add: core_front_def core_advance_def resp flush issue Let_def)
  finally show "fetch_req_pending (core_step cb ci regs s) \<Longrightarrow> fetch_req_cacheable (core_step cb ci regs s) \<Longrightarrow>
   icache_fill_index (core_step cb ci regs s) = (if fetch_req_pending s then icache_fill_index s else cache_index cb (fetch_req_addr (core_step cb ci regs s))) \<and>
   icache_fill_tag (core_step cb ci regs s) = (if fetch_req_pending s then icache_fill_tag s else cache_tag cb (fetch_req_addr (core_step cb ci regs s))) \<and>
   (fetch_req_pending s \<longrightarrow> fetch_req_cacheable s \<and> fetch_req_addr (core_step cb ci regs s) = fetch_req_addr s)"
    by (auto simp: fetch_req_def split: if_splits)
qed

lemma icache_ok_step:
  assumes ok: "icache_ok cb prog s" and w: "word_addressed prog" and i: "imem_ok prog ci s"
  shows "icache_ok cb prog (core_step cb ci regs s)"
proof -
  let ?t = "core_step cb ci regs s"
  have fill: "icache_fill_index s = cache_index cb (fetch_req_addr s) \<and> icache_fill_tag s = cache_tag cb (fetch_req_addr s)"
    if "fetch_req_pending s" "fetch_req_cacheable s" using ok that by (simp add: icache_ok_def)
  have "icache_data ?t (cache_index cb a) = prog a" if hit: "icache_hit_at cb ?t a" for a
  proof (cases "fetch_req_pending s \<and> ci_imem_ready ci \<and> fetch_req_cacheable s \<and> cb \<noteq> 0 \<and>
      \<not> trap_request (core_ex ci s) \<and> \<not> flush_pipe (core_ex ci s) \<and> cache_index cb a = icache_fill_index s")
    case True
    then have new: "icache_data ?t (cache_index cb a) = prog (fetch_req_addr s)" "icache_tag ?t (cache_index cb a) = icache_fill_tag s"
      using i icache_step [of cb ci regs s] by (simp_all add: icache_def imem_ok_def)
    have "drop_bit 2 a = drop_bit 2 (fetch_req_addr s)"
      by (rule cache_place_inject [of cb]) (use True fill hit new(2) in \<open>simp_all add: icache_hit_at_def\<close>)
    then show ?thesis using w new(1) unfolding word_addressed_def by metis
  next
    case False
    then have "icache_data ?t (cache_index cb a) = icache_data s (cache_index cb a)" "icache_hit_at cb s a"
      using hit icache_step [of cb ci regs s] by (auto simp: icache_def icache_hit_at_def split: if_splits)
    then show ?thesis using ok by (simp add: icache_ok_def)
  qed
  moreover have "icache_fill_index ?t = cache_index cb (fetch_req_addr ?t) \<and> icache_fill_tag ?t = cache_tag cb (fetch_req_addr ?t)"
    if "fetch_req_pending ?t" "fetch_req_cacheable ?t"
    using fetch_req_step [OF that] fill by (cases "fetch_req_pending s") auto
  ultimately show ?thesis by (simp add: icache_ok_def)
qed

subsection \<open>Properties\<close>

definition fetches_ok :: "nat \<Rightarrow> (u32 \<Rightarrow> u32) \<Rightarrow> core_in list \<Rightarrow> regs \<times> core \<Rightarrow> bool" where
  "fetches_ok cb prog = all_good (machine_step cb) (\<lambda>ci m. imem_ok prog ci (snd m))"

lemma icache_ok_run:
  "word_addressed prog \<Longrightarrow> fetches_ok cb prog cis m \<Longrightarrow> icache_ok cb prog (snd m) \<Longrightarrow> icache_ok cb prog (snd (core_run cb cis m))"
  unfolding core_run_def fetches_ok_def
  by (induction cis arbitrary: m) (simp_all add: machine_step_def icache_ok_step)

text \<open>
  C8. The instruction cache is coherent: after any number of cycles from reset, for every cache size,
  with interrupts, flushes and requests that a flush abandons, a word found in the cache is the word of
  the program at that address, provided the instruction memory answers with the program.
\<close>

theorem icache_coherent:
  assumes "word_addressed prog" and "fetches_ok cb prog cis (regs, core_reset s)"
    and "t = snd (core_run cb cis (regs, core_reset s))" and "icache_lookup_hit cb t"
  shows "icache_lookup_word cb t = prog (pc_fetch t)"
proof -
  have "icache_ok cb prog (core_reset s)"
    by (simp add: icache_ok_def icache_hit_at_def core_reset_boot core_boot_def)
  then have "icache_ok cb prog t" using icache_ok_run [OF assms(1,2)] assms(3) by simp
  moreover have "icache_hit_at cb t (pc_fetch t)"
    using assms(4) by (simp add: icache_lookup_hit_def icache_hit_at_def)
  ultimately show ?thesis unfolding icache_ok_def icache_lookup_word_def by blast
qed

text \<open>Twelve cycles of \<open>cache_loop\<close> with eight entries: the loop is in the cache and the core is back at its start.\<close>

definition cache_run :: "nat \<Rightarrow> regs \<times> core" where
  "cache_run n = core_run 3 (mem_inputs 3 cache_loop n boot_state) boot_state"

lemma cache_loop_aligned: "word_addressed cache_loop"
  by (simp add: word_addressed_def cache_loop_def)

lemma icache_coherent_witness:
  "icache_lookup_hit 3 (snd (cache_run 12)) \<and> icache_lookup_word 3 (snd (cache_run 12)) = cache_loop 4"
proof -
  have boot: "boot_state = (\<lambda>_. 0, core_reset core_boot)" by (simp add: boot_state_def core_reset_boot)
  have fetch: "fetches_ok 3 cache_loop (mem_inputs 3 cache_loop 12 boot_state) boot_state" by code_simp
  have run: "case cache_run 12 of (regs, s) \<Rightarrow> icache_lookup_hit 3 s \<and> pc_fetch s = 4" by code_simp
  then have "icache_lookup_hit 3 (snd (cache_run 12))" "pc_fetch (snd (cache_run 12)) = 4"
    by (simp_all add: case_prod_beta)
  then show ?thesis
    using icache_coherent [OF cache_loop_aligned fetch [unfolded boot] refl]
    by (simp add: cache_run_def boot)
qed

text \<open>
  C7. With the cache the core loses instructions: a hit in the cycle in which the fetch register hands its
  instruction to the decoder is dropped, because the register is marked empty after the hit was put into
  it, while the fetch address has moved on. The decoder then holds an instruction and everything behind it
  starts 8 bytes further: the instruction between is in no stage and will not be fetched.
\<close>

theorem icache_hit_loses_instruction:
  assumes "icache_lookup_hit cb s" and "\<not> fetch_req_pending s" and "if_valid s" and "\<not> prefetch_slot_valid s"
    and "\<not> id_valid s" and "\<not> trap_request (core_ex ci s)" and "\<not> flush_pipe (core_ex ci s)" and "order_ok s"
    and "t = core_step cb ci regs s"
  shows "id_valid t \<and> id_pc t = if_pc s \<and> if_front t = id_pc t + 8"
proof -
  let ?x = "core_ex ci s"
  have ctl: "id_accept s ?x" "\<not> slot_to_if s ?x" "if_fetch_target s ?x"
    using assms(3-5) by (simp_all add: id_accept_def id_stall_def load_use_hazard_def slot_to_if_def if_fetch_target_def)
  have t: "core_front cb ci regs s = core_issue regs s ?x (core_id_accept s ?x (core_fetch_issue cb s ?x (core_pre ci s)))"
    using assms(2,6,7) ctl(2)
    by (simp add: core_front_def core_advance_def core_fetch_response_def core_slot_to_if_def Let_def)
  have issue: "core_issue regs s ?x n = (if ex_valid s \<and> \<not> stall_ex ?x then n\<lparr>ex_valid := False\<rparr> else n)" for n
    using assms(5) by (simp add: core_issue_def)
  have "pc_fetch s = if_pc s + 4"
    using assms(2-4,8) by (simp add: order_ok_def slot_front_def fetch_front_def)
  then show ?thesis
    unfolding assms(9) core_step_front t issue
    using assms(1-4) ctl by (simp add: core_id_accept_def core_fetch_issue_def core_put_def
        fetch_buffer_occupancy_def front_defs)
qed

text \<open>
  The cache regression program \<open>cache_loop\<close>: on the second round the instruction at 4 is lost, then the
  jump back, and the core leaves the loop.
\<close>

lemma icache_hit_loses_instruction_witness:
  "let s = snd (cache_run 12); t = core_step 3 (ci_word 0) (fst (cache_run 12)) s in
     id_valid t \<and> id_pc t = 0 \<and> if_front t = 8 \<and> 0xC < arch_pc (snd (cache_run 20))"
proof -
  have run: "case cache_run 12 of (regs, s) \<Rightarrow> icache_lookup_hit 3 s \<and> \<not> fetch_req_pending s \<and> if_valid s \<and>
      \<not> prefetch_slot_valid s \<and> \<not> id_valid s \<and> \<not> trap_request (core_ex (ci_word 0) s) \<and>
      \<not> flush_pipe (core_ex (ci_word 0) s) \<and> order_ok s \<and> if_pc s = 0"
    by code_simp
  have left: "0xC < arch_pc (snd (cache_run 20))" by code_simp
  have "id_valid t \<and> id_pc t = 0 \<and> if_front t = 8"
    if "t = core_step 3 (ci_word 0) (fst (cache_run 12)) (snd (cache_run 12))" for t
    using run icache_hit_loses_instruction [of 3 "snd (cache_run 12)" "ci_word 0" t "fst (cache_run 12)"] that
    by (simp add: case_prod_beta)
  then show ?thesis using left by (simp add: Let_def)
qed

end
