(* ===== verification/Chip.thy ===== *)
theory Chip
  imports Core_Run
begin

text \<open>
  The chip: the core with its seven peripherals. Their read data and interrupt requests go to the core,
  the access of the execute stage goes to them, all in the same cycle. A run of the chip is the program
  of the reference machine on the bus of \<open>Soc\<close>, which the theorems about drivers and firmware use.
\<close>

subsection \<open>The chip and its clock\<close>

record chip =
  ch_regs :: regs
  ch_core :: core
  ch_soc :: soc

record chip_in =
  chi_pins :: pins
  chi_imem_ready :: bool
  chi_imem_rdata :: u32
  chi_mem_ready :: bool
  chi_mem_rdata :: u32
  chi_irq_timer :: bool
  chi_irq_external :: bool

definition chip_ci :: "u32 \<Rightarrow> chip_in \<Rightarrow> chip \<Rightarrow> core_in" where
  "chip_ci rdata i c = \<lparr>ci_imem_ready = chi_imem_ready i, ci_imem_rdata = chi_imem_rdata i,
     ci_mem_ready = chi_mem_ready i, ci_mem_rdata = chi_mem_rdata i, ci_dev_rdata = rdata,
     ci_irq_timer = chi_irq_timer i, ci_irq_external = chi_irq_external i,
     ci_soc_timer_irq = soc_timer_irq (ch_soc c), ci_soc_external_irq = soc_external_irq (ch_soc c)\<rparr>"

text \<open>The access does not depend on the read data it returns.\<close>

definition chip_access :: "chip_in \<Rightarrow> chip \<Rightarrow> access" where
  "chip_access i c = start_dev (core_ex (chip_ci 0 i c) (ch_core c))"

definition chip_rdata :: "chip_in \<Rightarrow> chip \<Rightarrow> u32" where
  "chip_rdata i c =
     (case chip_access i c of
        Load a \<Rightarrow> (case soc_decode a of Some (d, k) \<Rightarrow> dev_rdata (chi_pins i) d k (ch_soc c) | None \<Rightarrow> 0)
      | _ \<Rightarrow> 0)"

definition chip_core_in :: "chip_in \<Rightarrow> chip \<Rightarrow> core_in" where
  "chip_core_in i c = chip_ci (chip_rdata i c) i c"

definition chip_step :: "nat \<Rightarrow> chip_in \<Rightarrow> chip \<Rightarrow> chip" where
  "chip_step cb i c =
     (let ci = chip_core_in i c
      in \<lparr>ch_regs = core_regs_step ci (ch_core c) (ch_regs c),
          ch_core = core_step cb ci (ch_regs c) (ch_core c),
          ch_soc = soc_step (chi_pins i) (chip_access i c) (ch_soc c)\<rparr>)"

definition chip_reset :: "chip \<Rightarrow> chip" where
  "chip_reset c = c\<lparr>ch_core := core_reset (ch_core c), ch_soc := soc_reset (ch_soc c)\<rparr>"

definition chip_machine :: "chip \<Rightarrow> regs \<times> core" where
  "chip_machine c = (ch_regs c, ch_core c)"

lemma chip_core: "snd (chip_machine c) = ch_core c"
  by (simp add: chip_machine_def)

lemma chip_step_sel [simp]:
  "chip_machine (chip_step cb i c) = machine_step cb (chip_core_in i c) (chip_machine c)"
  "ch_soc (chip_step cb i c) = soc_step (chi_pins i) (chip_access i c) (ch_soc c)"
  by (simp_all add: chip_step_def chip_machine_def machine_step_def Let_def)

subsection \<open>The access of a cycle\<close>

lemma start_dev_decode:
  "start_dev (ex_decode ci s (ex_defaults ci s)) =
     (if funct3_of (ex_instr s) = 2 \<and> opcode_of (ex_instr s) = OP_LOAD \<and> soc_decode (addr_load_candidate s) \<noteq> None
      then Load (addr_load_candidate s)
      else if funct3_of (ex_instr s) = 2 \<and> opcode_of (ex_instr s) = OP_STORE \<and> soc_decode (addr_store_candidate s) \<noteq> None
      then Store (addr_store_candidate s) (ex_rs2_val s)
      else NoAccess)"
proof -
  have no: "start_dev (ex_defaults ci s) = NoAccess" by (simp add: ex_defaults_def)
  have same: "start_dev (ex_op s x) = start_dev x" "start_dev (ex_op_imm s x) = start_dev x"
    "start_dev (ex_branch s x) = start_dev x" "start_dev (ex_jal s x) = start_dev x" "start_dev (ex_jalr s x) = start_dev x"
    "start_dev (ex_system s x) = start_dev x" for x
    by (simp_all add: ex_op_def ex_op_imm_def ex_branch_def ex_jal_def ex_jalr_def ex_system_def ex_csr_def Let_def)
  have ls: "start_dev (ex_load ci s (ex_defaults ci s)) =
      (if funct3_of (ex_instr s) = 2 \<and> soc_decode (addr_load_candidate s) \<noteq> None then Load (addr_load_candidate s) else NoAccess)"
    "start_dev (ex_store ci s (ex_defaults ci s)) =
      (if funct3_of (ex_instr s) = 2 \<and> soc_decode (addr_store_candidate s) \<noteq> None
       then Store (addr_store_candidate s) (ex_rs2_val s) else NoAccess)"
    by (simp_all add: ex_load_def ex_store_def no Let_def)
  have "OP_LOAD \<noteq> OP_STORE" by (simp add: opcode_defs)
  consider "opcode_of (ex_instr s) = OP_LOAD" | "opcode_of (ex_instr s) = OP_STORE"
    | "opcode_of (ex_instr s) \<noteq> OP_LOAD" "opcode_of (ex_instr s) \<noteq> OP_STORE" by blast
  then show ?thesis
  proof cases
    case 3
    then show ?thesis by (simp add: ex_decode_def same no Let_def)
  qed (use ls \<open>OP_LOAD \<noteq> OP_STORE\<close> in \<open>simp_all add: ex_decode_load ex_decode_store\<close>)
qed

lemma start_dev_plain:
  "start_dev (ex_plain ci s) = (if ex_valid s then start_dev (ex_decode ci s (ex_defaults ci s)) else NoAccess)"
  by (simp add: ex_plain_def ex_illegal_def ex_commit_def) (simp add: ex_defaults_def)

lemma chip_access_plain: "chip_access i c = start_dev (ex_plain (chip_core_in i c) (ch_core c))"
  by (simp add: chip_access_def start_dev_plain start_dev_decode)

definition dev_access :: "access \<Rightarrow> bool" where
  "dev_access acc \<longleftrightarrow> (case acc of NoAccess \<Rightarrow> False | Load a \<Rightarrow> soc_decode a \<noteq> None | Store a v \<Rightarrow> soc_decode a \<noteq> None)"

text \<open>A peripheral is accessed in the cycle in which the instruction retires, and in no other.\<close>

lemma access_waits:
  assumes "mem_port_ok s" and "\<not> retires ci s"
  shows "start_dev (ex_plain ci s) = NoAccess"
proof (cases "ex_valid s")
  case True
  then have "mem_word_op s" using assms by (auto simp: retires_def stall_ex_core mem_port_ok_def)
  then show ?thesis by (auto simp: start_dev_plain start_dev_decode mem_word_op_def opcode_defs)
qed (simp add: start_dev_plain)

lemma access_retires:
  assumes "mem_port_ok s" and "retires ci s"
  shows "start_dev (ex_plain ci s) = (if dev_access (ex_access ci s) then ex_access ci s else NoAccess)"
proof (cases "dmem_pending s")
  case True
  then have "mem_word_op s" "\<not> dev_access (ex_access ci s)"
    using assms(1) by (auto simp: mem_port_ok_def ex_access_def dev_access_def mem_word_op_def)
  then show ?thesis by (auto simp: start_dev_plain start_dev_decode mem_word_op_def opcode_defs)
next
  case False
  then show ?thesis
    by (auto simp: ex_access_def dev_access_def start_dev_plain start_dev_decode)
qed

text \<open>
  That is a fact about a well-formed pipeline. With a load left open by an interrupt, a store to a
  peripheral waits in the execute stage and is made again in every cycle until the memory answers.
\<close>

lemma open_load_repeats_store:
  assumes "dmem_pending s" and "\<not> ci_mem_ready ci" and "ex_valid s" and "quiet_irq s"
    and "opcode_of (ex_instr s) = OP_STORE" and "funct3_of (ex_instr s) = 2" and "soc_decode (addr_store_candidate s) \<noteq> None"
  shows "start_dev (core_ex ci s) = Store (addr_store_candidate s) (ex_rs2_val s)"
    and "ex_stage (core_step cb ci regs s) = ex_stage s"
proof -
  show "start_dev (core_ex ci s) = Store (addr_store_candidate s) (ex_rs2_val s)"
    using assms by (auto simp: start_dev_plain start_dev_decode opcode_defs)
  have st: "stall_ex (ex_plain ci s)" using assms(1,2) by (simp add: stall_ex_core)
  have "\<not> flush_pipe (ex_plain ci s)" "\<not> trap_request (ex_plain ci s)"
    using assms by (auto simp: ex_plain_valid ex_illegal_def ex_commit_def ex_decode_store ex_store_def Let_def)
  then show "ex_stage (core_step cb ci regs s) = ex_stage s"
    using st assms(3,4) by (simp add: ex_stage_step core_ex_quiet ex_can_accept_def) (simp add: ex_stage_def)
qed

subsection \<open>The reference machine on the bus\<close>

text \<open>The access of the next instruction.\<close>

definition isa_access :: "(u32 \<Rightarrow> u32) \<Rightarrow> arch \<Rightarrow> access" where
  "isa_access prog a =
     (case isa_decode (prog (a_pc a)) of
        Some ins \<Rightarrow> oc_access (isa_exec (\<lambda>_. 0) 0 (a_pc a) (a_regs a) ins)
      | None \<Rightarrow> NoAccess)"

text \<open>
  An access goes to the bus or, when no block is addressed, to the data memory, whose word for an address
  is given by \<open>ix\<close>.
\<close>

type_synonym dmem = "nat \<Rightarrow> u32"

definition bus_do :: "(u32 \<Rightarrow> nat) \<Rightarrow> access \<Rightarrow> dmem \<Rightarrow> world \<Rightarrow> u32 \<times> dmem \<times> world" where
  "bus_do ix acc dm w =
     (case acc of
        NoAccess \<Rightarrow> (0, dm, w)
      | Load a \<Rightarrow> if dev_access acc then (fst (bus_rd soc_bus a w), dm, snd (bus_rd soc_bus a w)) else (dm (ix a), dm, w)
      | Store a v \<Rightarrow> if dev_access acc then (0, dm, bus_wr soc_bus a v w) else (0, dm(ix a := v), w))"

text \<open>One instruction with its access; \<open>csr\<close> gives the values of the counters and pending bits.\<close>

definition isa_bus_step :: "(u32 \<Rightarrow> u32) \<Rightarrow> (u32 \<Rightarrow> nat) \<Rightarrow> (12 word \<Rightarrow> u32) \<Rightarrow> arch \<times> dmem \<times> world \<Rightarrow> arch \<times> dmem \<times> world" where
  "isa_bus_step prog ix csr m =
     (case m of (a, dm, w) \<Rightarrow>
        (case bus_do ix (isa_access prog a) dm w of (l, dm, w) \<Rightarrow> (isa_step prog (csr, l) a, dm, w)))"

lemma isa_exec_access: "oc_access (isa_exec c l pc rs ins) = oc_access (isa_exec c' l' pc rs ins)"
  by (cases ins) (simp_all add: oc_plain_def)

lemma isa_exec_loaded:
  "\<not> (\<exists>a. oc_access (isa_exec c l pc rs ins) = Load a) \<Longrightarrow> isa_exec c l' pc rs ins = isa_exec c l pc rs ins"
  by (cases ins) (simp_all add: oc_plain_def)

lemma isa_step_loaded:
  assumes "\<And>x. isa_access prog a = Load x \<Longrightarrow> l = l'"
  shows "isa_step prog (c, l) a = isa_step prog (c, l') a"
proof (cases "isa_decode (prog (a_pc a))")
  case (Some ins)
  show ?thesis
  proof (cases "\<exists>x. isa_access prog a = Load x")
    case False
    then have "\<not> (\<exists>x. oc_access (isa_exec (csr_view c a) l' (a_pc a) (a_regs a) ins) = Load x)"
      using Some isa_exec_access [of "csr_view c a" l' "a_pc a" "a_regs a" ins "\<lambda>_. 0" 0] by (simp add: isa_access_def)
    from isa_exec_loaded [OF this]
    have "isa_exec (csr_view c a) l (a_pc a) (a_regs a) ins = isa_exec (csr_view c a) l' (a_pc a) (a_regs a) ins" .
    then show ?thesis using Some by (simp add: isa_step_def)
  qed (use assms in auto)
qed (simp add: isa_step_def)

text \<open>Only the waiting time of the next access matters, and it may be counted from any cycle before.\<close>

lemma soc_idle_tick: "soc_idle n (soc_tick NoAccess w) = soc_idle (Suc n) w"
  by (induction n) (simp_all add: soc_idle_Suc)

lemma bus_do_wait:
  assumes "w_gap w (w_now w) = Suc (w_gap w (Suc (w_now w)))" and "dev_access acc"
  shows "bus_do ix acc dm w = bus_do ix acc dm (soc_tick NoAccess w)"
proof -
  have "soc_wait w = soc_wait (soc_tick NoAccess w)" using assms(1) by (simp add: soc_wait_def soc_idle_tick)
  then show ?thesis
    using assms(2) by (cases acc) (simp_all add: bus_do_def soc_bus_def soc_rd_def soc_wr_def dev_access_def)
qed

lemma bus_do_memory:
  "\<not> dev_access acc \<Longrightarrow> bus_do ix acc dm w = (fst (bus_do ix acc dm v), fst (snd (bus_do ix acc dm v)), w)"
  by (cases acc) (simp_all add: bus_do_def)

definition same_run :: "arch \<times> dmem \<times> world \<Rightarrow> arch \<times> dmem \<times> world \<Rightarrow> world \<Rightarrow> world \<Rightarrow> bool" where
  "same_run m n w v \<longleftrightarrow> m = n \<or> snd (snd m) = w \<and> snd (snd n) = v \<and> fst m = fst n \<and> fst (snd m) = fst (snd n)"

lemma bus_run_wait:
  assumes "w_gap w (w_now w) = Suc (w_gap w (Suc (w_now w)))"
  shows "same_run (fold (isa_bus_step prog ix) es (a, dm, w))
    (fold (isa_bus_step prog ix) es (a, dm, soc_tick NoAccess w)) w (soc_tick NoAccess w)"
proof (induction es arbitrary: a dm)
  case Nil
  show ?case by (simp add: same_run_def)
next
  case (Cons e es)
  let ?v = "soc_tick NoAccess w"
  show ?case
  proof (cases "dev_access (isa_access prog a)")
    case True
    then show ?thesis
      using bus_do_wait [OF assms True, of ix dm] by (simp add: isa_bus_step_def same_run_def)
  next
    case False
    obtain l d where "bus_do ix (isa_access prog a) dm u = (l, d, u)" for u
      using bus_do_memory [OF False] by blast
    then show ?thesis using Cons [of "isa_step prog (e, l) a" d] by (simp add: isa_bus_step_def)
  qed
qed

subsection \<open>A run of the chip on the bus\<close>

primrec pins_match :: "(nat \<Rightarrow> pins) \<Rightarrow> nat \<Rightarrow> chip_in list \<Rightarrow> bool" where
  "pins_match p t [] = True"
| "pins_match p t (i # is) = (p t = chi_pins i \<and> pins_match p (Suc t) is)"

text \<open>
  The data memory answers a load with its word and takes a store in the cycle of the handshake, after any
  number of cycles.
\<close>

definition dmem_ok :: "(u32 \<Rightarrow> nat) \<Rightarrow> core_in \<Rightarrow> core \<Rightarrow> dmem \<Rightarrow> bool" where
  "dmem_ok ix ci s dm \<longleftrightarrow>
     (mem_req_valid s \<and> ci_mem_ready ci \<and> \<not> mem_req_we s \<longrightarrow> ci_mem_rdata ci = dm (ix (mem_req_addr s)))"

definition dmem_step :: "(u32 \<Rightarrow> nat) \<Rightarrow> core_in \<Rightarrow> core \<Rightarrow> dmem \<Rightarrow> dmem" where
  "dmem_step ix ci s dm =
     (if mem_req_valid s \<and> ci_mem_ready ci \<and> mem_req_we s then dm(ix (mem_req_addr s) := mem_req_wdata s) else dm)"

definition sys_step :: "(u32 \<Rightarrow> nat) \<Rightarrow> chip_in \<Rightarrow> chip \<times> dmem \<Rightarrow> chip \<times> dmem" where
  "sys_step ix i m = (chip_step 0 i (fst m), dmem_step ix (chip_core_in i (fst m)) (ch_core (fst m)) (snd m))"

definition sys_run :: "(u32 \<Rightarrow> nat) \<Rightarrow> chip_in list \<Rightarrow> chip \<times> dmem \<Rightarrow> chip \<times> dmem" where
  "sys_run ix = fold (sys_step ix)"

definition sys_cycle_ok :: "(u32 \<Rightarrow> u32) \<Rightarrow> (u32 \<Rightarrow> nat) \<Rightarrow> chip_in \<Rightarrow> chip \<times> dmem \<Rightarrow> bool" where
  "sys_cycle_ok prog ix i m \<longleftrightarrow> cycle_ok prog (chip_core_in i (fst m)) (chip_machine (fst m)) \<and>
     dmem_ok ix (chip_core_in i (fst m)) (ch_core (fst m)) (snd m)"

definition sys_ok :: "(u32 \<Rightarrow> u32) \<Rightarrow> (u32 \<Rightarrow> nat) \<Rightarrow> chip_in list \<Rightarrow> chip \<times> dmem \<Rightarrow> bool" where
  "sys_ok prog ix = all_good (sys_step ix) (sys_cycle_ok prog ix)"

definition chip_retires :: "chip_in \<Rightarrow> chip \<Rightarrow> bool" where
  "chip_retires i c \<longleftrightarrow> retires (chip_core_in i c) (ch_core c)"

text \<open>For every executed instruction the counters and pending bits it could read.\<close>

definition sys_executed :: "(u32 \<Rightarrow> nat) \<Rightarrow> chip_in list \<Rightarrow> chip \<times> dmem \<Rightarrow> (12 word \<Rightarrow> u32) list" where
  "sys_executed ix = events_of (sys_step ix) (\<lambda>i m. chip_retires i (fst m)) (\<lambda>i m. csr_read (ch_core (fst m)))"

text \<open>What a retiring instruction accesses is what the reference says, and what it loads comes from there.\<close>

lemma retire_access:
  assumes "pipe_ok prog m" and "cycle_ok prog ci m" and r: "retires ci (snd m)"
  shows "isa_access prog (arch_of m) = ex_access ci (snd m)"
proof -
  have v: "ex_valid (snd m)" using r by (simp add: retires_def)
  obtain ins where ins: "isa_decode (ex_instr (snd m)) = Some ins"
    using assms(2) r by (auto simp: cycle_ok_def)
  have ok: "operands_ok (fst m) (snd m)" "mem_port_ok (snd m)" "ex_instr (snd m) = prog (ex_pc (snd m))"
    using assms(1) v by (simp_all add: pipe_ok_def words_ok_def)
  have a: "a_pc (arch_of m) = ex_pc (snd m)" "a_regs (arch_of m) = fst m"
    using v by (simp_all add: arch_of_def arch_pc_def)
  have "ex_access ci (snd m) = oc_access (isa_exec (csr_read (snd m)) (ex_loaded ci (snd m)) (ex_pc (snd m)) (fst m) ins)"
    using arg_cong [OF ex_result_isa [OF r ok(1,2) ins], of oc_access] by (simp add: ex_result_def Let_def)
  also have "\<dots> = isa_access prog (arch_of m)"
    using ins isa_exec_access [of "csr_read (snd m)" "ex_loaded ci (snd m)" "ex_pc (snd m)" "fst m" ins "\<lambda>_. 0" 0]
    by (simp add: isa_access_def a ok(3))
  finally show ?thesis by simp
qed

lemma pending_no_dev:
  assumes "mem_port_ok s"
  shows "dmem_pending s \<Longrightarrow> \<not> dev_access (ex_access ci s)"
    and "\<not> dmem_pending s \<Longrightarrow> ex_access ci s \<noteq> NoAccess \<Longrightarrow> dev_access (ex_access ci s)"
  using assms
  by (auto simp: mem_port_ok_def ex_access_def dev_access_def mem_word_op_def start_dev_plain start_dev_decode
      split: if_splits)

text \<open>One cycle of the chip seen from a world that shares its peripherals.\<close>

lemma chip_waits:
  assumes "pipe_ok prog (chip_machine c)" and "\<not> chip_retires i c"
  shows "chip_access i c = NoAccess"
  using assms access_waits [of "ch_core c"] by (simp add: chip_retires_def chip_access_plain pipe_ok_def chip_machine_def)

lemma dmem_waits:
  assumes "mem_port_ok s" and "\<not> retires ci s"
  shows "dmem_step ix ci s dm = dm"
proof -
  have "\<not> (mem_req_valid s \<and> ci_mem_ready ci)"
    using assms by (auto simp: retires_def stall_ex_core mem_port_ok_def)
  then show ?thesis by (auto simp: dmem_step_def)
qed

text \<open>What the bus and the memory do for the access of a retiring instruction.\<close>

lemma retire_bus:
  assumes port: "mem_port_ok (ch_core c)" and r: "chip_retires i c"
    and w: "w_soc w = ch_soc c" "w_pins w (w_now w) = chi_pins i"
    and gap: "dev_access (chip_access i c) \<Longrightarrow> w_gap w (w_now w) = 0"
    and mem: "dmem_ok ix (chip_core_in i c) (ch_core c) dm"
    and acc: "acc = ex_access (chip_core_in i c) (ch_core c)"
  shows "\<exists>l. bus_do ix acc dm w = (l, dmem_step ix (chip_core_in i c) (ch_core c) dm,
        if dev_access (chip_access i c) then soc_tick (chip_access i c) w else w) \<and>
      (\<forall>x. acc = Load x \<longrightarrow> l = ex_loaded (chip_core_in i c) (ch_core c))"
proof -
  let ?s = "ch_core c" and ?ci = "chip_core_in i c"
  have ret: "retires ?ci ?s" using r by (simp add: chip_retires_def)
  have dev: "chip_access i c = (if dev_access acc then acc else NoAccess)"
    using access_retires [OF port ret] by (simp add: acc chip_access_plain)
  have no: "\<not> dev_access NoAccess" by (simp add: dev_access_def)
  have loaded: "ex_loaded ?ci ?s = (if dmem_pending ?s then ci_mem_rdata ?ci else chip_rdata i c)"
    by (simp add: ex_loaded_def) (simp add: chip_core_in_def chip_ci_def)
  show ?thesis
  proof (cases "dmem_pending ?s")
    case True
    then have "\<not> dev_access acc" "mem_req_valid ?s" "ci_mem_ready ?ci"
      using pending_no_dev(1) [OF port] ret port by (auto simp: acc retires_def stall_ex_core mem_port_ok_def)
    moreover have "acc = (if mem_req_we ?s then Store (mem_req_addr ?s) (mem_req_wdata ?s) else Load (mem_req_addr ?s))"
      using True by (simp add: acc ex_access_def)
    ultimately show ?thesis
      using mem no dev True by (auto simp: bus_do_def dmem_ok_def dmem_step_def loaded)
  next
    case False
    then have d: "dmem_step ix ?ci ?s dm = dm" using port by (simp add: dmem_step_def mem_port_ok_def)
    show ?thesis
    proof (cases "acc = NoAccess")
      case True
      then show ?thesis using d no dev by (simp add: bus_do_def)
    next
      case False
      then have da: "dev_access acc" using pending_no_dev(2) [OF port] \<open>\<not> dmem_pending ?s\<close> by (simp add: acc)
      then have ca: "chip_access i c = acc" using dev by simp
      then have "soc_wait w = w" using gap da by (simp add: soc_wait_def)
      then show ?thesis
        using da ca w d loaded \<open>\<not> dmem_pending ?s\<close>
        by (cases acc)
          (auto simp: bus_do_def soc_bus_def soc_rd_def soc_wr_def soc_load_def dev_access_def chip_rdata_def)
    qed
  qed
qed

lemma chip_retire:
  assumes ok: "pipe_ok prog (chip_machine c)" and cyc: "sys_cycle_ok prog ix i (c, dm)" and r: "chip_retires i c"
    and w: "w_soc w = ch_soc c" "w_pins w (w_now w) = chi_pins i"
    and gap: "dev_access (chip_access i c) \<Longrightarrow> w_gap w (w_now w) = 0"
  shows "isa_bus_step prog ix (csr_read (ch_core c)) (arch_of (chip_machine c), dm, w) =
      (arch_of (chip_machine (chip_step 0 i c)), dmem_step ix (chip_core_in i c) (ch_core c) dm,
       if dev_access (chip_access i c) then soc_tick (chip_access i c) w else w)"
proof -
  let ?s = "ch_core c" and ?ci = "chip_core_in i c" and ?a = "arch_of (chip_machine c)"
  have ret: "retires ?ci (snd (chip_machine c))" using r by (simp add: chip_retires_def chip_core)
  have c: "cycle_ok prog ?ci (chip_machine c)" "dmem_ok ix ?ci ?s dm" using cyc by (simp_all add: sys_cycle_ok_def)
  have port: "mem_port_ok ?s" using ok by (simp add: pipe_ok_def chip_core)
  have acc: "isa_access prog ?a = ex_access ?ci ?s" using retire_access [OF ok c(1) ret] by (simp add: chip_core)
  from retire_bus [OF port r w gap c(2) acc] obtain l where
    l: "bus_do ix (isa_access prog ?a) dm w =
      (l, dmem_step ix ?ci ?s dm, if dev_access (chip_access i c) then soc_tick (chip_access i c) w else w)"
    and same: "\<And>x. isa_access prog ?a = Load x \<Longrightarrow> l = ex_loaded ?ci ?s" by blast
  have "isa_step prog (csr_read ?s, l) ?a = isa_step prog (csr_read ?s, ex_loaded ?ci ?s) ?a"
    by (rule isa_step_loaded) (rule same)
  also have "\<dots> = arch_of (chip_machine (chip_step 0 i c))"
    using machine_executes [OF ok c(1) ret] by (simp add: chip_core seen_def)
  finally show ?thesis by (simp add: isa_bus_step_def l)
qed

lemma chip_access_dev:
  "chip_access i c \<noteq> NoAccess \<Longrightarrow> dev_access (chip_access i c)"
  by (auto simp: chip_access_plain start_dev_plain start_dev_decode dev_access_def split: if_splits)

text \<open>The world after the executed instructions, some cycles later, has the peripherals of the chip.\<close>

definition follows :: "(u32 \<Rightarrow> u32) \<Rightarrow> (u32 \<Rightarrow> nat) \<Rightarrow> chip_in list \<Rightarrow> chip \<times> dmem \<Rightarrow> world \<Rightarrow> bool" where
  "follows prog ix is m w \<longleftrightarrow>
     (\<exists>v k. fold (isa_bus_step prog ix) (sys_executed ix is m) (arch_of (chip_machine (fst m)), snd m, w) =
        (arch_of (chip_machine (fst (sys_run ix is m))), snd (sys_run ix is m), v) \<and>
      w_soc (soc_idle k v) = ch_soc (fst (sys_run ix is m)))"

definition shares :: "chip_in list \<Rightarrow> chip \<Rightarrow> world \<Rightarrow> bool" where
  "shares is c w \<longleftrightarrow> w_soc w = ch_soc c \<and> pins_match (w_pins w) (w_now w) is"

lemma follows_cycle:
  assumes ok: "pipe_ok prog (chip_machine c)" and cyc: "sys_cycle_ok prog ix i (c, dm)" and sh: "shares (i # is) c w"
    and rest: "follows prog ix is (sys_step ix i (c, dm)) (soc_tick (chip_access i c) w)"
    and gap: "w_gap w (w_now w) = (if dev_access (chip_access i c) then 0 else Suc (w_gap w (Suc (w_now w))))"
  shows "follows prog ix (i # is) (c, dm) w"
proof -
  let ?m = "sys_step ix i (c, dm)" and ?w = "soc_tick (chip_access i c) w"
  have w: "w_soc w = ch_soc c" "w_pins w (w_now w) = chi_pins i" using sh by (simp_all add: shares_def)
  have run: "sys_run ix (i # is) (c, dm) = sys_run ix is ?m" by (simp add: sys_run_def)
  define v where "v = (if dev_access (chip_access i c) then ?w else w)"
  have first: "fold (isa_bus_step prog ix) (sys_executed ix (i # is) (c, dm)) (arch_of (chip_machine c), dm, w) =
      fold (isa_bus_step prog ix) (sys_executed ix is ?m) (arch_of (chip_machine (fst ?m)), snd ?m, v)"
  proof (cases "chip_retires i c")
    case True
    then show ?thesis
      using chip_retire [OF ok cyc True w] gap by (simp add: sys_executed_def v_def sys_step_def)
  next
    case False
    then have "chip_access i c = NoAccess" by (rule chip_waits [OF ok])
    moreover have "arch_of (chip_machine (chip_step 0 i c)) = arch_of (chip_machine c)"
      using False machine_commits(2) [OF ok, of "chip_core_in i c"] cyc
      by (simp add: chip_retires_def sys_cycle_ok_def cycle_ok_def chip_core)
    moreover have "dmem_step ix (chip_core_in i c) (ch_core c) dm = dm"
      using False ok by (intro dmem_waits) (simp_all add: chip_retires_def pipe_ok_def chip_core)
    ultimately show ?thesis using False by (simp add: sys_executed_def v_def dev_access_def sys_step_def)
  qed
  show ?thesis
  proof (cases "dev_access (chip_access i c)")
    case True
    then show ?thesis using rest first run by (simp add: follows_def v_def)
  next
    case False
    then have na: "chip_access i c = NoAccess" using chip_access_dev by blast
    let ?a = "arch_of (chip_machine (fst ?m))"
    have "same_run (fold (isa_bus_step prog ix) (sys_executed ix is ?m) (?a, snd ?m, w))
        (fold (isa_bus_step prog ix) (sys_executed ix is ?m) (?a, snd ?m, ?w)) w ?w"
      using bus_run_wait [of w] gap False by (simp add: na)
    moreover obtain u k where u: "fold (isa_bus_step prog ix) (sys_executed ix is ?m) (?a, snd ?m, ?w) =
        (arch_of (chip_machine (fst (sys_run ix is ?m))), snd (sys_run ix is ?m), u)"
      "w_soc (soc_idle k u) = ch_soc (fst (sys_run ix is ?m))"
      using rest by (auto simp: follows_def)
    moreover obtain a d x where x: "fold (isa_bus_step prog ix) (sys_executed ix is ?m) (?a, snd ?m, w) = (a, d, x)"
      by (rule prod_cases3)
    ultimately have "a = arch_of (chip_machine (fst (sys_run ix is ?m)))" "d = snd (sys_run ix is ?m)"
      "x = u \<or> x = w \<and> u = ?w"
      by (auto simp: same_run_def)
    moreover from this(3) have "\<exists>k. w_soc (soc_idle k x) = ch_soc (fst (sys_run ix is ?m))"
    proof
      assume "x = w \<and> u = ?w"
      then have "w_soc (soc_idle (Suc k) x) = ch_soc (fst (sys_run ix is ?m))"
        using u(2) by (simp add: na soc_idle_tick)
      then show ?thesis by blast
    qed (use u(2) in blast)
    ultimately show ?thesis using first False x run by (simp add: follows_def v_def)
  qed
qed

lemma chip_follows:
  assumes "pipe_ok prog (chip_machine (fst m))" and "sys_ok prog ix is m"
  shows "\<exists>g. \<forall>w. shares is (fst m) w \<and> w_now w = t \<and> (\<forall>u\<ge>t. w_gap w u = g u) \<longrightarrow> follows prog ix is m w"
  using assms
proof (induction "is" arbitrary: m t)
  case Nil
  have "w_soc (soc_idle 0 w) = ch_soc (fst m)" if "shares [] (fst m) w" for w using that by (simp add: shares_def)
  then have "follows prog ix [] m w" if "shares [] (fst m) w" for w
    using that unfolding follows_def sys_executed_def sys_run_def by (auto intro: exI [of _ 0])
  then show ?case by blast
next
  case (Cons i "is")
  obtain c dm where m: "m = (c, dm)" by (rule prod.exhaust)
  let ?m = "sys_step ix i (c, dm)"
  have cyc: "sys_cycle_ok prog ix i (c, dm)" and ok: "sys_ok prog ix is ?m"
    using Cons.prems(2) by (simp_all add: sys_ok_def m)
  have pipe: "pipe_ok prog (chip_machine c)" using Cons.prems(1) by (simp add: m)
  have "pipe_ok prog (chip_machine (fst ?m))"
    using mach.inv_step [OF pipe] cyc by (simp add: sys_cycle_ok_def sys_step_def)
  from Cons.IH [OF this ok, of "Suc t"] obtain g where
    g: "\<And>w. shares is (fst ?m) w \<Longrightarrow> w_now w = Suc t \<Longrightarrow> \<forall>u\<ge>Suc t. w_gap w u = g u \<Longrightarrow> follows prog ix is ?m w" by blast
  define h where "h = g(t := (if dev_access (chip_access i c) then 0 else Suc (g (Suc t))))"
  have "follows prog ix (i # is) (c, dm) w" if w: "shares (i # is) c w" "w_now w = t" "\<forall>u\<ge>t. w_gap w u = h u" for w
  proof (rule follows_cycle [OF pipe cyc w(1)])
    show "w_gap w (w_now w) = (if dev_access (chip_access i c) then 0 else Suc (w_gap w (Suc (w_now w))))"
      using w(2,3) by (simp add: h_def)
    show "follows prog ix is ?m (soc_tick (chip_access i c) w)"
      using w by (intro g) (auto simp: shares_def h_def sys_step_def)
  qed
  then show ?case unfolding m by auto
qed

subsection \<open>Progress\<close>

text \<open>Seen from the core alone a run of the system is a run of the machine of \<open>Core_Run\<close>.\<close>

definition sys_live :: "(u32 \<Rightarrow> u32) \<Rightarrow> (u32 \<Rightarrow> nat) \<Rightarrow> chip_in \<Rightarrow> chip \<times> dmem \<Rightarrow> bool" where
  "sys_live prog ix i m \<longleftrightarrow> sys_cycle_ok prog ix i m \<and> ready (chip_core_in i (fst m)) (ch_core (fst m))"

interpretation sys: stuttering_live "sys_step ix" "sys_live prog ix" "\<lambda>m. pipe_ok prog (chip_machine (fst m))"
    "\<lambda>m. arch_of (chip_machine (fst m))" "\<lambda>i m. chip_retires i (fst m)"
    "\<lambda>i m. seen (chip_core_in i (fst m)) (chip_machine (fst m))" "isa_step prog"
    "\<lambda>m. stages_left (ch_core (fst m))" 6 for prog ix
proof unfold_locales
  fix m :: "chip \<times> dmem" and i
  assume ok: "pipe_ok prog (chip_machine (fst m))"
  show "stages_left (ch_core (fst m)) < 6" by (simp add: stages_left_def)
  assume "sys_live prog ix i m"
  then have c: "live_cycle prog (chip_core_in i (fst m)) (chip_machine (fst m))"
    by (simp add: sys_live_def sys_cycle_ok_def live_cycle_def chip_core)
  note live = mach_live.inv_step [OF ok c] mach_live.commit_step [OF ok c] mach_live.quiet_step [OF ok c]
    mach_live.dist_less [OF ok c]
  show "pipe_ok prog (chip_machine (fst (sys_step ix i m)))"
    and "chip_retires i (fst m) \<Longrightarrow> arch_of (chip_machine (fst (sys_step ix i m))) =
      isa_step prog (seen (chip_core_in i (fst m)) (chip_machine (fst m))) (arch_of (chip_machine (fst m)))"
    and "\<not> chip_retires i (fst m) \<Longrightarrow> arch_of (chip_machine (fst (sys_step ix i m))) = arch_of (chip_machine (fst m))"
    using live by (simp_all add: sys_step_def chip_retires_def chip_core)
  show "\<not> chip_retires i (fst m) \<Longrightarrow> stages_left (ch_core (fst (sys_step ix i m))) < stages_left (ch_core (fst m))"
    using live(4) by (simp add: sys_step_def chip_retires_def chip_core flip: chip_core)
qed

lemma sys_throughput:
  assumes "pipe_ok prog (chip_machine (fst m))" and "all_good (sys_step ix) (sys_live prog ix) is m" and "n * 6 \<le> length is"
  shows "n \<le> length (sys_executed ix is m)"
proof -
  have "n \<le> length (events_of (sys_step ix) (\<lambda>i m. chip_retires i (fst m))
      (\<lambda>i m. seen (chip_core_in i (fst m)) (chip_machine (fst m))) is m)"
    by (rule sys.throughput [OF assms])
  also have "\<dots> = length (sys_executed ix is m)" unfolding sys_executed_def by (rule length_events)
  finally show ?thesis .
qed

lemma sys_live_ok: "all_good (sys_step ix) (sys_live prog ix) is m \<Longrightarrow> sys_ok prog ix is m"
  using all_good_mono [of "sys_live prog ix" "sys_cycle_ok prog ix" "sys_step ix" "is" m] by (simp add: sys_live_def sys_ok_def)

subsection \<open>Property\<close>

text \<open>
  C2. The chip is the reference machine on the bus that the driver theorems use: for every run of core,
  peripherals and a data memory from a well-formed pipeline, without interrupts, whatever the latency of
  the memories and the levels of the pins, there is a schedule of waiting times such that the program,
  executed one instruction after the other on the data memory and on the bus of a world in that schedule,
  ends with the registers and the memory of the chip and, some cycles without access later, with its
  peripherals. Every access is made exactly once, in the order of the program.
\<close>

theorem chip_runs_program_on_bus:
  assumes "pipe_ok prog (chip_machine c)" and "sys_ok prog ix is (c, dm)" and "shares is c w"
  shows "\<exists>g k v. fold (isa_bus_step prog ix) (sys_executed ix is (c, dm)) (arch_of (chip_machine c), dm, w\<lparr>w_gap := g\<rparr>) =
      (arch_of (chip_machine (fst (sys_run ix is (c, dm)))), snd (sys_run ix is (c, dm)), v) \<and>
    w_soc (soc_idle k v) = ch_soc (fst (sys_run ix is (c, dm)))"
proof -
  from chip_follows [of prog "(c, dm)" ix "is" "w_now w"] assms(1,2) obtain g where
    g: "\<And>v. shares is c v \<Longrightarrow> w_now v = w_now w \<Longrightarrow> \<forall>u\<ge>w_now w. w_gap v u = g u \<Longrightarrow> follows prog ix is (c, dm) v"
    by auto
  have "follows prog ix is (c, dm) (w\<lparr>w_gap := g\<rparr>)" by (rule g) (use assms(3) in \<open>simp_all add: shares_def\<close>)
  then show ?thesis unfolding follows_def fst_conv snd_conv by blast
qed

text \<open>\<open>SW x2, 4(x1)\<close> with the GPIO base in \<open>x1\<close>, in every state of the peripherals and for all pins.\<close>

definition sw_chip :: "soc \<Rightarrow> chip" where
  "sw_chip S = \<lparr>ch_regs = fst (ex_only 0x0020A223 0x40000000 7), ch_core = snd (ex_only 0x0020A223 0x40000000 7), ch_soc = S\<rparr>"

definition sw_input :: "pins \<Rightarrow> chip_in" where
  "sw_input p = \<lparr>chi_pins = p, chi_imem_ready = True, chi_imem_rdata = 0, chi_mem_ready = True, chi_mem_rdata = 0,
     chi_irq_timer = False, chi_irq_external = False\<rparr>"

definition sw_world :: "pins \<Rightarrow> soc \<Rightarrow> world" where
  "sw_world p S = \<lparr>w_soc = S, w_now = 0, w_pins = (\<lambda>_. p), w_gap = (\<lambda>_. 0), w_dmem = (\<lambda>_. 0), w_dmem_stores = []\<rparr>"

lemma chip_runs_program_on_bus_witness:
  "\<forall>p S. chip_access (sw_input p) (sw_chip S) = Store 0x40000004 7 \<and>
    (\<exists>g k v. fold (isa_bus_step (\<lambda>_. 0x0020A223) (\<lambda>_. 0)) (sys_executed (\<lambda>_. 0) [sw_input p] (sw_chip S, \<lambda>_. 0))
        (arch_of (chip_machine (sw_chip S)), \<lambda>_. 0, (sw_world p S)\<lparr>w_gap := g\<rparr>) =
       (arch_of (chip_machine (fst (sys_run (\<lambda>_. 0) [sw_input p] (sw_chip S, \<lambda>_. 0)))),
        snd (sys_run (\<lambda>_. 0) [sw_input p] (sw_chip S, \<lambda>_. 0)), v) \<and>
      w_soc (soc_idle k v) = ch_soc (fst (sys_run (\<lambda>_. 0) [sw_input p] (sw_chip S, \<lambda>_. 0))))"
proof (intro allI conjI)
  fix p S
  let ?m = "ex_only 0x0020A223 0x40000000 7" and ?c = "sw_chip S"
  have dec: "soc_decode 0x40000004 = Some (GPIO, 1)" by (simp add: soc_decode_def)
  have sw: "opcode_of 0x0020A223 = OP_STORE" "funct3_of 0x0020A223 = 2" "imm_s 0x0020A223 = 4" "rs1_of 0x0020A223 = 1"
    "rs2_of 0x0020A223 = 2" by code_simp+
  have m: "chip_machine ?c = ?m" "ch_core ?c = snd ?m"
    by (simp_all add: chip_machine_def sw_chip_def)
  show "chip_access (sw_input p) ?c = Store 0x40000004 7"
    by (simp add: chip_access_plain start_dev_plain start_dev_decode m sw dec addr_store_candidate_def opcode_defs)
  have ok: "pipe_ok (\<lambda>_. 0x0020A223) (chip_machine ?c)"
    unfolding m by (rule pipe_ok_ex_only) (simp_all add: sw)
  have "quiet_irq (snd ?m)"
    by (simp add: ex_only_def core_boot_def quiet_irq_def take_timer_irq_def take_ext_irq_def timer_can_fire_def ext_can_fire_def)
  moreover have "isa_decode 0x0020A223 \<noteq> None" by code_simp
  moreover have "imem_ok prog ci (snd ?m)" "dmem_ok ix ci (snd ?m) dm" for prog ci ix dm
    by (simp_all add: imem_ok_def dmem_ok_def ex_only_def core_boot_def)
  ultimately have "sys_ok (\<lambda>_. 0x0020A223) (\<lambda>_. 0) [sw_input p] (?c, \<lambda>_. 0)"
    by (simp add: sys_ok_def sys_cycle_ok_def cycle_ok_def m)
  moreover have "shares [sw_input p] ?c (sw_world p S)"
    by (simp add: shares_def sw_chip_def sw_world_def sw_input_def)
  ultimately show "\<exists>g k v. fold (isa_bus_step (\<lambda>_. 0x0020A223) (\<lambda>_. 0)) (sys_executed (\<lambda>_. 0) [sw_input p] (?c, \<lambda>_. 0))
        (arch_of (chip_machine ?c), \<lambda>_. 0, (sw_world p S)\<lparr>w_gap := g\<rparr>) =
       (arch_of (chip_machine (fst (sys_run (\<lambda>_. 0) [sw_input p] (?c, \<lambda>_. 0)))),
        snd (sys_run (\<lambda>_. 0) [sw_input p] (?c, \<lambda>_. 0)), v) \<and>
      w_soc (soc_idle k v) = ch_soc (fst (sys_run (\<lambda>_. 0) [sw_input p] (?c, \<lambda>_. 0)))"
    by (intro chip_runs_program_on_bus ok)
qed

end
