(* ===== verification/Rtl_Memory.thy ===== *)
theory Rtl_Memory
  imports Chip C_Lib
begin

text \<open>
  The internal memories of \<^verbatim>\<open>qar_core.v\<close> (\<open>USE_INTERNAL_IMEM\<close>, \<open>USE_INTERNAL_DMEM\<close>): word arrays that answer
  in the cycle of the request, with contents read from the hexadecimal files that \<^verbatim>\<open>elf2qar\<close> writes.
\<close>

subsection \<open>Addresses\<close>

text \<open>\<open>clog2\<close> of the module: the number of halvings until nothing is left of \<open>value - 1\<close>.\<close>

fun clog2_loop :: "nat \<Rightarrow> nat" where
  "clog2_loop value = (if 0 < value then Suc (clog2_loop (value div 2)) else 0)"

declare clog2_loop.simps [simp del]

definition clog2 :: "nat \<Rightarrow> nat" where
  "clog2 value = clog2_loop (value - 1)"

lemma clog2_power: "clog2 (2 ^ k) = k"
proof -
  have "clog2_loop (2 ^ k - 1) = k" for k
  proof (induction k)
    case 0
    show ?case by (simp add: clog2_loop.simps)
  next
    case (Suc k)
    have "1 < (2 ^ Suc k :: nat)" by (rule one_less_power) simp_all
    then have "0 < (2 ^ Suc k - 1 :: nat)" by (rule zero_less_diff [THEN iffD2])
    moreover have "(2 ^ Suc k - 1 :: nat) div 2 = 2 ^ k - 1" by simp
    ultimately show ?case using Suc by (subst clog2_loop.simps) simp
  qed
  then show ?thesis by (simp add: clog2_def)
qed

lemma clog2_enough: "value \<le> 2 ^ clog2 value"
proof -
  have "v < 2 ^ clog2_loop v" for v
  proof (induction v rule: clog2_loop.induct)
    case (1 v)
    then show ?case by (subst clog2_loop.simps) auto
  qed
  from this [of "value - 1"] show ?thesis by (simp add: clog2_def)
qed

text \<open>The word index: the address bits from 2 on, as many as the depth needs.\<close>

definition mem_index :: "nat \<Rightarrow> u32 \<Rightarrow> nat" where
  "mem_index depth a = unat (drop_bit 2 a) mod 2 ^ clog2 depth"

subsection \<open>Contents\<close>

text \<open>\<open>$readmemh\<close> on a text of hexadecimal words separated by white space; the rest of the array stays 0.\<close>

fun hex_tokens :: "bytes \<Rightarrow> bytes \<Rightarrow> bytes list" where
  "hex_tokens cur [] = (if cur = [] then [] else [cur])"
| "hex_tokens cur (c # cs) =
     (if is_space c then (if cur = [] then hex_tokens [] cs else cur # hex_tokens [] cs) else hex_tokens (cur @ [c]) cs)"

definition readmemh :: "bytes \<Rightarrow> u32 list" where
  "readmemh text = map (\<lambda>ds. of_nat (digits_value 16 ds)) (hex_tokens [] text)"

definition mem_array :: "u32 list \<Rightarrow> dmem" where
  "mem_array ws k = (if k < length ws then ws ! k else 0)"

lemma hex_tokens_word:
  assumes "\<forall>c \<in> set ds. \<not> is_space c" and "cur @ ds \<noteq> []"
  shows "hex_tokens cur (ds @ 10 # rest) = (cur @ ds) # hex_tokens [] rest"
  using assms by (induction ds arbitrary: cur) (auto simp: is_space_def)

subsection \<open>The chip with internal memories\<close>

text \<open>The environment of a cycle: the pins and the two interrupt inputs.\<close>

type_synonym env = "pins \<times> bool \<times> bool"

definition internal_in :: "nat \<Rightarrow> nat \<Rightarrow> dmem \<Rightarrow> env \<Rightarrow> chip \<times> dmem \<Rightarrow> chip_in" where
  "internal_in di dd imem e m =
     (case m of (c, dm) \<Rightarrow> case e of (p, it, ie) \<Rightarrow>
        \<lparr>chi_pins = p,
         chi_imem_ready = fetch_req_pending (ch_core c), chi_imem_rdata = imem (mem_index di (fetch_req_addr (ch_core c))),
         chi_mem_ready = mem_req_valid (ch_core c), chi_mem_rdata = dm (mem_index dd (mem_req_addr (ch_core c))),
         chi_irq_timer = it, chi_irq_external = ie\<rparr>)"

primrec internal_inputs :: "nat \<Rightarrow> nat \<Rightarrow> dmem \<Rightarrow> env list \<Rightarrow> chip \<times> dmem \<Rightarrow> chip_in list" where
  "internal_inputs di dd imem [] m = []"
| "internal_inputs di dd imem (e # es) m =
     (let i = internal_in di dd imem e m in i # internal_inputs di dd imem es (sys_step (mem_index dd) i m))"

definition internal_run :: "nat \<Rightarrow> nat \<Rightarrow> dmem \<Rightarrow> env list \<Rightarrow> chip \<times> dmem \<Rightarrow> chip \<times> dmem" where
  "internal_run di dd imem es m = sys_run (mem_index dd) (internal_inputs di dd imem es m) m"

text \<open>No interrupt is taken and only instructions of the documented set are executed.\<close>

primrec internal_ok :: "nat \<Rightarrow> nat \<Rightarrow> dmem \<Rightarrow> env list \<Rightarrow> chip \<times> dmem \<Rightarrow> bool" where
  "internal_ok di dd imem [] m = True"
| "internal_ok di dd imem (e # es) m =
     (let i = internal_in di dd imem e m in
      quiet_irq (ch_core (fst m)) \<and> (chip_retires i (fst m) \<longrightarrow> isa_decode (ex_instr (ch_core (fst m))) \<noteq> None) \<and>
      internal_ok di dd imem es (sys_step (mem_index dd) i m))"

lemma length_internal_inputs [simp]: "length (internal_inputs di dd imem es m) = length es"
  by (induction es arbitrary: m) (simp_all add: Let_def)

lemma internal_in_ok:
  assumes "i = internal_in di dd imem e m"
  shows "imem_ok (\<lambda>a. imem (mem_index di a)) (chip_core_in i c) (ch_core (fst m))"
    "dmem_ok (mem_index dd) (chip_core_in i c) (ch_core (fst m)) (snd m)"
    "ready (chip_core_in i c) (ch_core (fst m))"
  using assms
  by (simp_all add: internal_in_def imem_ok_def dmem_ok_def ready_def chip_core_in_def chip_ci_def split_beta)

lemma internal_live:
  "internal_ok di dd imem es m \<Longrightarrow>
   all_good (sys_step (mem_index dd)) (sys_live (\<lambda>a. imem (mem_index di a)) (mem_index dd)) (internal_inputs di dd imem es m) m"
  by (induction es arbitrary: m)
    (simp_all add: Let_def sys_live_def sys_cycle_ok_def cycle_ok_def chip_core chip_retires_def internal_in_ok [OF refl])

lemma pipe_ok_reset: "pipe_ok prog (chip_machine (chip_reset c))"
  by (simp add: chip_machine_def chip_reset_def core_reset_boot pipe_ok_boot)

text \<open>A run with internal memories is a run of the reference machine on the words they were loaded with.\<close>

lemma internal_run_follows:
  assumes "internal_ok di dd imem es (chip_reset c, dm)" and "shares (internal_inputs di dd imem es (chip_reset c, dm)) (chip_reset c) w"
    and "n * 6 \<le> length es"
  shows "\<exists>g k v csrs. fold (isa_bus_step (\<lambda>a. imem (mem_index di a)) (mem_index dd)) csrs
        (arch_of (chip_machine (chip_reset c)), dm, w\<lparr>w_gap := g\<rparr>) =
      (arch_of (chip_machine (fst (internal_run di dd imem es (chip_reset c, dm)))), snd (internal_run di dd imem es (chip_reset c, dm)), v) \<and>
    w_soc (soc_idle k v) = ch_soc (fst (internal_run di dd imem es (chip_reset c, dm))) \<and> n \<le> length csrs"
proof -
  let ?prog = "\<lambda>a. imem (mem_index di a)" and ?is = "internal_inputs di dd imem es (chip_reset c, dm)"
  have pipe: "pipe_ok ?prog (chip_machine (fst (chip_reset c, dm)))" using pipe_ok_reset by simp
  note live = internal_live [OF assms(1)]
  have n: "n \<le> length (sys_executed (mem_index dd) ?is (chip_reset c, dm))"
    by (rule sys_throughput [OF pipe live]) (simp add: assms(3))
  from chip_follows [OF pipe sys_live_ok [OF live], of "w_now w"] obtain g where
    g: "\<And>v. shares ?is (chip_reset c) v \<Longrightarrow> w_now v = w_now w \<Longrightarrow> \<forall>u\<ge>w_now w. w_gap v u = g u \<Longrightarrow>
      follows ?prog (mem_index dd) ?is (chip_reset c, dm) v" by auto
  have "follows ?prog (mem_index dd) ?is (chip_reset c, dm) (w\<lparr>w_gap := g\<rparr>)"
    by (rule g) (use assms(2) in \<open>simp_all add: shares_def\<close>)
  then show ?thesis using n unfolding follows_def internal_run_def fst_conv snd_conv by blast
qed

end
