(* ===== verification/Elf_Run.thy ===== *)
theory Elf_Run
  imports Rtl_Memory Elf2qar_Correct Sdk_Init_Soc Soc_Boot
begin

text \<open>
  From the ELF file to the running chip: the texts that \<^verbatim>\<open>elf2qar\<close> writes are the contents that the
  internal memories of the core read, and the chip executes the program of the file.
\<close>

subsection \<open>The files as memory contents\<close>

lemma fmt_08x_no_space: "\<forall>c \<in> set (fmt_08x v). \<not> is_space c"
  using fmt_08x_digits hex_char_not(10) by blast

lemma hex_tokens_text: "hex_tokens [] (hex_text ws) = map fmt_08x ws"
proof (induction ws)
  case (Cons v ws)
  have "fmt_08x v \<noteq> []" by (metis length_0_conv length_fmt_08x zero_neq_numeral)
  then show ?case
    using hex_tokens_word [OF fmt_08x_no_space, of "[]" v "hex_text ws"] Cons by (simp add: hex_text_def)
qed (simp add: hex_text_def)

lemma readmemh_hex_text: "readmemh (hex_text ws) = ws"
  by (simp add: readmemh_def hex_tokens_text digits_value_fmt o_def)

definition load_memory :: "files \<Rightarrow> bytes \<Rightarrow> dmem option" where
  "load_memory fs path = map_option (\<lambda>text. mem_array (readmemh text)) (fs path)"

subsection \<open>Property\<close>

text \<open>
  C3. A program runs on the chip as its ELF file says. For a valid file and memories of \<open>2 ^ ki\<close> and
  \<open>2 ^ kd\<close> words \<open>elf2qar\<close> succeeds, and the internal memories that read its two output files hold the
  words of the loadable segments. From reset, for any levels of the pins, as long as no interrupt is taken
  and the instructions are of the documented set, the chip then does what the reference machine does with
  these words: the same program counter, registers, control registers and data memory, the same accesses
  on the bus of a world in some schedule, and at least one instruction in every six cycles. Only the values
  of the counters and pending bits (\<open>csrs\<close>) are not determined by the program.
\<close>

theorem elf_runs_on_chip:
  assumes "resources ev" and "elf_args args elf_defaults = Some opts"
    and "elf_path opts = Some path" and "fs path = Some elf" and "elf_valid elf" and "length elf < 2 ^ 29"
    and "unat (imem_words opts) = 2 ^ ki" and "unat (dmem_words opts) = 2 ^ kd" and "ki < 30" and "kd < 30"
    and "elf_program_segments elf = Some segs" and "program_hex opts \<noteq> data_hex opts"
    and "imem = mem_array (words_of (memory_of imem_segment (imem_words opts) segs))"
    and "dmem = mem_array (words_of (memory_of dmem_segment (dmem_words opts) segs))"
    and "internal_ok (2 ^ ki) (2 ^ kd) imem es (chip_reset c, dmem)"
    and "shares (internal_inputs (2 ^ ki) (2 ^ kd) imem es (chip_reset c, dmem)) (chip_reset c) w"
    and "n * 6 \<le> length es"
  shows "\<exists>fs' g k v csrs. elf2qar_main ev args fs = (Inr (), fs') \<and>
    load_memory fs' (program_hex opts) = Some imem \<and> load_memory fs' (data_hex opts) = Some dmem \<and>
    fold (isa_bus_step (\<lambda>a. imem (unat (drop_bit 2 a) mod 2 ^ ki)) (\<lambda>a. unat (drop_bit 2 a) mod 2 ^ kd)) csrs
        (arch_of (chip_machine (chip_reset c)), dmem, w\<lparr>w_gap := g\<rparr>) =
      (arch_of (chip_machine (fst (internal_run (2 ^ ki) (2 ^ kd) imem es (chip_reset c, dmem)))),
       snd (internal_run (2 ^ ki) (2 ^ kd) imem es (chip_reset c, dmem)), v) \<and>
    w_soc (soc_idle k v) = ch_soc (fst (internal_run (2 ^ ki) (2 ^ kd) imem es (chip_reset c, dmem))) \<and>
    n \<le> length csrs"
proof -
  let ?mi = "memory_of imem_segment (imem_words opts) segs"
  let ?md = "memory_of dmem_segment (dmem_words opts) segs"
  let ?fs = "fs(program_hex opts \<mapsto> hex_text (words_of ?mi), data_hex opts \<mapsto> hex_text (words_of ?md))"
  have small: "unat (imem_words opts) < 2 ^ 30" "unat (dmem_words opts) < 2 ^ 30"
    using assms(7,8) power_strict_increasing [OF assms(9), of "2 :: nat"] power_strict_increasing [OF assms(10), of "2 :: nat"]
    by simp_all
  obtain im dm where "elf_read ev opts elf = Inr (im, dm)"
    "image_text im = hex_text (words_of ?mi)" "image_text dm = hex_text (words_of ?md)"
    using elf_read_images [of ev elf opts segs] assms small by blast
  then have main: "elf2qar_main ev args fs = (Inr (), ?fs)"
    using assms(1-4) by (simp add: elf2qar_main_def image_write_hex_def resources_def)
  have mem: "load_memory ?fs (program_hex opts) = Some imem" "load_memory ?fs (data_hex opts) = Some dmem"
    using assms(12-14) by (simp_all add: load_memory_def readmemh_hex_text)
  have ix: "mem_index (2 ^ k) = (\<lambda>a. unat (drop_bit 2 a) mod 2 ^ k)" for k
    by (rule ext) (simp add: mem_index_def clog2_power)
  show ?thesis
    using main mem internal_run_follows [OF assms(15-17)] unfolding ix by blast
qed

text \<open>A file with two instructions, \<open>ADDI x1, x1, 1\<close> and a jump back to it, on the chip for six cycles.\<close>

definition loop_elf :: bytes where
  "loop_elf =
     [0x7F, 0x45, 0x4C, 0x46, 1, 1, 1, 0, 0, 0, 0, 0, 0, 0, 0, 0] @ [2, 0, 243, 0] @
     le32 1 @ le32 0 @ le32 52 @ le32 0 @ le32 0 @ [52, 0, 32, 0, 1, 0, 0, 0, 0, 0, 0, 0] @
     le32 1 @ le32 84 @ le32 0 @ le32 0 @ le32 8 @ le32 8 @ le32 5 @ le32 4 @ le32 0x00108093 @ le32 0xFFDFF06F"

definition loop_segments :: "(u32 \<times> bytes) list" where
  "loop_segments = [(0, le32 0x00108093 @ le32 0xFFDFF06F)]"

lemma loop_elf_ok: "elf_valid loop_elf" "length loop_elf = 92" "elf_program_segments loop_elf = Some loop_segments"
  by (code_simp, code_simp, code_simp)

lemma loop_words:
  "words_of (memory_of imem_segment 64 loop_segments) = [0x00108093, 0xFFDFF06F] @ replicate 62 0"
  "words_of (memory_of dmem_segment 64 loop_segments) = replicate 64 0"
  by (code_simp, code_simp)

text \<open>
  While the program makes no access to the peripherals and these have their interrupts disabled, the core
  can be run without them: \<open>core_only\<close> checks such a run on the core and the memories alone.
\<close>

definition irq_silent :: "world \<Rightarrow> bool" where
  "irq_silent w \<longleftrightarrow> cfg UART0 w 4 = 0 \<and> cfg CAN0 w 4 = 0 \<and> cfg GPIO w 5 = 0 \<and> cfg SPI0 w 6 = 0 \<and>
     cfg I2C0 w 3 = 0 \<and> cfg ADC0 w 3 = 0 \<and> cfg TIMER0 w 4 = 0"

lemma irq_silent_tick: "irq_silent w \<Longrightarrow> irq_silent (soc_tick NoAccess w)"
  using cfg_idle [of _ "Suc 0" w] by (simp add: irq_silent_def soc_idle_Suc)

lemma irq_silent_irq: "irq_silent w \<Longrightarrow> \<not> soc_external_irq (w_soc w) \<and> \<not> soc_timer_irq (w_soc w)"
  using no_irq_of_cfg [of w] by (simp add: irq_silent_def soc_external_irq_def soc_timer_irq_def)

lemma start_dev_ci: "start_dev (ex_plain ci s) = start_dev (ex_plain ci' s)"
  by (simp add: start_dev_plain start_dev_decode)

definition only_ci :: "nat \<Rightarrow> nat \<Rightarrow> dmem \<Rightarrow> core \<Rightarrow> dmem \<Rightarrow> core_in" where
  "only_ci di dd imem s dm = \<lparr>ci_imem_ready = fetch_req_pending s, ci_imem_rdata = imem (mem_index di (fetch_req_addr s)),
     ci_mem_ready = mem_req_valid s, ci_mem_rdata = dm (mem_index dd (mem_req_addr s)), ci_dev_rdata = 0,
     ci_irq_timer = False, ci_irq_external = False, ci_soc_timer_irq = False, ci_soc_external_irq = False\<rparr>"

primrec core_only :: "nat \<Rightarrow> nat \<Rightarrow> dmem \<Rightarrow> nat \<Rightarrow> (regs \<times> core) \<times> dmem \<Rightarrow> bool" where
  "core_only di dd imem 0 m = True"
| "core_only di dd imem (Suc n) m =
     (case m of ((regs, s), dm) \<Rightarrow>
        (let ci = only_ci di dd imem s dm in
         quiet_irq s \<and> (retires ci s \<longrightarrow> isa_decode (ex_instr s) \<noteq> None) \<and> start_dev (core_ex ci s) = NoAccess \<and>
         core_only di dd imem n (machine_step 0 ci (regs, s), dmem_step (mem_index dd) ci s dm)))"

lemma internal_core_only:
  assumes "core_only di dd imem n (chip_machine c, dm)" and "irq_silent w" and "w_soc w = ch_soc c" and "w_pins w = (\<lambda>_. p)"
  shows "internal_ok di dd imem (replicate n (p, False, False)) (c, dm)"
  using assms
proof (induction n arbitrary: c dm w)
  case (Suc n)
  let ?i = "internal_in di dd imem (p, False, False) (c, dm)" and ?ci = "only_ci di dd imem (ch_core c) dm"
  have run: "quiet_irq (ch_core c)" "retires ?ci (ch_core c) \<longrightarrow> isa_decode (ex_instr (ch_core c)) \<noteq> None"
    "start_dev (ex_plain ?ci (ch_core c)) = NoAccess"
    "core_only di dd imem n (machine_step 0 ?ci (chip_machine c), dmem_step (mem_index dd) ?ci (ch_core c) dm)"
    using Suc.prems(1) by (simp_all add: chip_machine_def Let_def)
  have no: "chip_access ?i c = NoAccess"
    using run(3) start_dev_ci [of "chip_core_in ?i c" "ch_core c" ?ci] by (simp add: chip_access_plain)
  have "chip_rdata ?i c = 0" by (simp add: chip_rdata_def no)
  then have ci: "chip_core_in ?i c = ?ci"
    using irq_silent_irq [OF Suc.prems(2)] Suc.prems(3)
    by (simp add: chip_core_in_def chip_ci_def only_ci_def internal_in_def)
  have "internal_ok di dd imem (replicate n (p, False, False)) (chip_step 0 ?i c, dmem_step (mem_index dd) ?ci (ch_core c) dm)"
  proof (rule Suc.IH [of _ _ "soc_tick NoAccess w"])
    show "core_only di dd imem n (chip_machine (chip_step 0 ?i c), dmem_step (mem_index dd) ?ci (ch_core c) dm)"
      using run(4) by (simp add: ci)
    show "irq_silent (soc_tick NoAccess w)" using Suc.prems(2) by (rule irq_silent_tick)
    show "w_soc (soc_tick NoAccess w) = ch_soc (chip_step 0 ?i c)"
      using Suc.prems(3,4) no by (simp add: internal_in_def)
    show "w_pins (soc_tick NoAccess w) = (\<lambda>_. p)" using Suc.prems(4) by simp
  qed
  then show ?case
    using run(1,2) by (simp add: Let_def ci chip_retires_def sys_step_def)
qed simp

definition reset_chip :: chip where
  "reset_chip = \<lparr>ch_regs = (\<lambda>_. 0), ch_core = core_boot, ch_soc = soc_at_reset\<rparr>"

definition loop_imem :: dmem where
  "loop_imem = mem_array ([0x00108093, 0xFFDFF06F] @ replicate 62 0)"

definition loop_dmem :: dmem where
  "loop_dmem = mem_array (replicate 64 0)"

lemma loop_core_only: "core_only 64 64 loop_imem 12 (chip_machine reset_chip, loop_dmem)"
  by code_simp

lemma reset_chip_again: "chip_reset reset_chip = reset_chip"
proof -
  have "soc_reset (soc_reset S) = soc_reset S" for S
    by (simp add: soc_reset_def gpio_reset_def ua_reset_def spi_reset_def i2c_reset_def can_reset_def
        timer_reset_def adc_reset_def)
  then show ?thesis by (simp add: chip_reset_def reset_chip_def core_reset_boot soc_at_reset_def)
qed

lemma reset_silent: "irq_silent world_at_reset"
  using cfg_rdata [of UART0 4 no_pins world_at_reset] cfg_rdata [of CAN0 4 no_pins world_at_reset]
    cfg_rdata [of GPIO 5 no_pins world_at_reset] cfg_rdata [of SPI0 6 no_pins world_at_reset]
    cfg_rdata [of I2C0 3 no_pins world_at_reset] cfg_rdata [of ADC0 3 no_pins world_at_reset]
    cfg_rdata [of TIMER0 4 no_pins world_at_reset]
  by (simp add: irq_silent_def config_reg_def dev_rdata_def ua_rdata_def can_rdata_def gpio_rdata_def
      spi_rdata_def i2c_rdata_def adc_rdata_def timer_rdata_def ua_reset_def can_reset_def gpio_reset_def
      spi_reset_def i2c_reset_def adc_reset_def timer_reset_def Let_def)

lemma pins_match_internal:
  "pins_match (\<lambda>_. p) t (internal_inputs di dd imem (replicate n (p, it, ie)) m)"
  by (induction n arbitrary: m t) (simp_all add: Let_def internal_in_def split_beta)

lemma elf_runs_on_chip_witness:
  "\<exists>fs' g k v csrs. elf2qar_main all_resources [ascii ''--elf'', ascii ''a.elf''] [ascii ''a.elf'' \<mapsto> loop_elf] = (Inr (), fs') \<and>
    load_memory fs' (ascii ''program.hex'') = Some loop_imem \<and> load_memory fs' (ascii ''data.hex'') = Some loop_dmem \<and>
    fold (isa_bus_step (\<lambda>a. loop_imem (unat (drop_bit 2 a) mod 2 ^ 6)) (\<lambda>a. unat (drop_bit 2 a) mod 2 ^ 6)) csrs
        (arch_of (chip_machine reset_chip), loop_dmem, world_at_reset\<lparr>w_gap := g\<rparr>) =
      (arch_of (chip_machine (fst (internal_run (2 ^ 6) (2 ^ 6) loop_imem (replicate 12 (no_pins, False, False)) (reset_chip, loop_dmem)))),
       snd (internal_run (2 ^ 6) (2 ^ 6) loop_imem (replicate 12 (no_pins, False, False)) (reset_chip, loop_dmem)), v) \<and>
    w_soc (soc_idle k v) =
      ch_soc (fst (internal_run (2 ^ 6) (2 ^ 6) loop_imem (replicate 12 (no_pins, False, False)) (reset_chip, loop_dmem))) \<and>
    2 \<le> length csrs"
proof -
  let ?opts = "elf_defaults\<lparr>elf_path := Some (ascii ''a.elf'')\<rparr>"
  have args: "elf_args [ascii ''--elf'', ascii ''a.elf''] elf_defaults = Some ?opts" by simp
  have opts: "program_hex ?opts = ascii ''program.hex''" "data_hex ?opts = ascii ''data.hex''"
    "imem_words ?opts = 64" "dmem_words ?opts = 64" "elf_path ?opts = Some (ascii ''a.elf'')"
    by (simp_all add: elf_defaults_def)
  have diff: "ascii ''program.hex'' \<noteq> ascii ''data.hex''" by (simp add: ascii_def)
  have ok: "internal_ok (2 ^ 6) (2 ^ 6) loop_imem (replicate 12 (no_pins, False, False)) (chip_reset reset_chip, loop_dmem)"
    using internal_core_only [OF loop_core_only reset_silent, of no_pins]
    by (simp add: reset_chip_again) (simp add: reset_chip_def)
  have sh: "shares (internal_inputs (2 ^ 6) (2 ^ 6) loop_imem (replicate 12 (no_pins, False, False)) (chip_reset reset_chip, loop_dmem))
      (chip_reset reset_chip) world_at_reset"
    using pins_match_internal [of no_pins] by (simp add: shares_def reset_chip_again) (simp add: reset_chip_def)
  show ?thesis
    using elf_runs_on_chip [OF resources_all args opts(5), of "[ascii ''a.elf'' \<mapsto> loop_elf]" loop_elf 6 6 loop_segments
        loop_imem loop_dmem "replicate 12 (no_pins, False, False)" reset_chip world_at_reset 2] ok sh diff
    by (simp add: opts loop_elf_ok loop_words loop_imem_def loop_dmem_def reset_chip_again)
qed

end
