(* ===== verification/Spec2Isabelle.thy ===== *)
theory Spec2Isabelle
  imports Fw_Can_Loopback Sdk_Init_Soc Adc_Driver Fw_Spi_Loopback Fw_Timer Fw_Gpio_Irq Uart_Queue Fw_Rs485 Fw_I2c
    Qhex_Correct Core_Irq Core_Cache Elf_Run
begin

text \<open>
  QAR: the C code of the devkit of a small RISC-V microcontroller, and the microcontroller it runs on.

  \<^bold>\<open>The program.\<close> The repository holds a microcontroller in Verilog (\<^verbatim>\<open>qar-core/rtl\<close>) and a devkit:
  a header-only hardware abstraction layer (\<^verbatim>\<open>devkit/hal\<close>), the boot code of an SDK
  (\<^verbatim>\<open>devkit/sdk\<close>), example firmware (\<^verbatim>\<open>devkit/examples\<close>) and two host tools that turn an ELF file
  into memory images and inspect them (\<^verbatim>\<open>devkit/tools\<close>). The development models all of its C code,
  and all of the Verilog code of the chip: seven peripherals and the processor core. Its parts interact
  in three ways: firmware calls the HAL, which loads and stores registers of the peripherals over the
  bus, while the peripherals advance by one state every clock cycle; the core executes the instructions
  of a program, makes their accesses and takes the interrupts of the peripherals; and \<^verbatim>\<open>elf2qar\<close> writes the text files that \<^verbatim>\<open>qhex\<close> reads.

  \<^bold>\<open>The library.\<close>
  \<^item> \<open>Qar_Prelude\<close>: word types, C truth values, bit lemmas, and \<open>poll_until\<close>, the busy-wait loop as a
    partial function whose value \<open>None\<close> means that the wait never ends. The locale \<open>polled_flag\<close> is
    the contract of a flag that a device is bound to raise (an invariant that every missed read
    keeps and a measure that it lowers); its client is the polling loop, which then returns.
  \<^item> \<open>Mmio\<close>: \<^verbatim>\<open>hal/mmio.h\<close>; the HAL is written against an arbitrary bus, a record of a read and a
    write function on a world. The locale \<open>register_file\<close> states the laws of plain registers.
  \<^item> \<open>Ring_Fifo\<close>, \<open>Bounded_Fifo\<close>: ring buffers with free-running pointers as lists, and the locale
    of a bounded receive queue.
  \<^item> \<open>C_Lib\<close>: the part of the C library that the host tools use, on byte strings.

  \<^bold>\<open>The drivers.\<close> \<open>Hal_Gpio\<close>, \<open>Hal_Timer\<close>, \<open>Hal_Uart\<close>, \<open>Hal_Can\<close>, \<open>Hal_Spi\<close>, \<open>Hal_I2c\<close>, \<open>Hal_Adc\<close>: every
  register address, bit field and inline function of the header of the same name, under its C name;
  a C variable that is assigned several times becomes a chain of \<open>let\<close> on the world \<open>w\<close>. \<open>Sdk_Init\<close>:
  \<^verbatim>\<open>hal_init.c\<close> and the constructor of \<^verbatim>\<open>runtime.c\<close>.

  \<^bold>\<open>The hardware.\<close> \<open>Rtl_Bus\<close>, \<open>Rtl_Gpio\<close>, \<open>Rtl_Timer\<close>, \<open>Rtl_Uart\<close>, \<open>Rtl_Can\<close>, \<open>Rtl_Spi\<close>, \<open>Rtl_I2c\<close>,
  \<open>Rtl_Adc\<close>: one record per block, with a field per Verilog register at its width, and one function
  for the clocked block: the value of a non-blocking assignment is read from the state \<open>s\<close> before
  the edge and written to the state \<open>n\<close> under construction, in source order, so that later
  assignments win as in Verilog. \<open>Soc\<close> puts the blocks together: \<open>soc_decode\<close> is the address decoder
  of \<^verbatim>\<open>qar_core.v\<close>, \<open>soc_tick\<close> one clock cycle with at most one access, and a \<open>world\<close> is the chip, the
  current cycle, the levels of the pins in every cycle and the number of idle cycles before each
  access (\<open>w_gap\<close>), both arbitrary functions of time. So a theorem about \<open>soc_bus\<close> holds for every
  behaviour of the environment and every speed of the core, unless it has a hypothesis on them.
  \<open>Soc_Config\<close>, \<open>Hal_Decode\<close>, \<open>Soc_Rules\<close> are its general laws: the configuration registers behave
  like a plain store (an interpretation of \<open>register_file\<close>), each HAL address reaches the register
  it names, and what one idle cycle keeps an access keeps: the locale \<open>soc_invariant\<close>, which \<open>soc_flag\<close>
  extends to a flag of a device that a load of one register shows. A sublocale makes every such flag
  a \<open>polled_flag\<close>, and \<open>poll_sees\<close> says in which world its polling loop ends; the ready flag of the ADC,
  the receive flag of the SPI, the two waits of the I2C demo and the idle event of the UART are
  interpretations. \<open>uart_room\<close> (in \<open>Uart_Link\<close>) is the same for \<open>qar_uart_write\<close>. \<open>Soc_Boot\<close> is a
  concrete chip at reset.

  \<^bold>\<open>The core.\<close> \<open>Rtl_Core\<close> is \<^verbatim>\<open>qar_core.v\<close> with \<^verbatim>\<open>alu.v\<close> and \<^verbatim>\<open>regfile.v\<close>: the record \<open>core\<close> has the registers of
  the module, \<open>ex_out\<close> the signals of its combinational block, \<open>core_ex\<close> is that block opcode by opcode,
  \<open>core_step\<close> the clocked block as the composition of its parts in source order, \<open>core_regs_step\<close> the
  register file. The seven \<open>start_*\<close> ports are one value of the type \<open>access\<close>, the memories are inputs with
  any latency, the cache size is the argument \<open>cb\<close> (index bits, 0 for none). \<open>Isa\<close> is the reference: the
  documented instruction set as a datatype with encodings and meaning, and the sequential machine
  \<open>isa_step\<close>, which reads and writes its own control registers and takes only the counters and pending bits
  from outside (\<open>csr_view\<close>). \<open>Core_Execute\<close> shows that the execute stage is the reference, opcode by opcode;
  \<open>Core_Pipeline\<close> that the stages hold consecutive instructions; \<open>Core_Refine\<close> that forwarding, the
  memory port and the control registers are right and one cycle commits at most one instruction. The
  locale \<open>stuttering\<close> (in \<open>Stutter\<close>) is the contract of a machine that takes several cycles for one abstract
  step, \<open>stuttering_live\<close> adds a distance to the next commit; \<open>Core_Run\<close> interprets both, which gives the
  refinement of whole runs and their progress. \<open>Core_Irq\<close> is about interrupts: how they are
  entered, what they do to the instruction in the execute stage and to a load that waits for the memory.
  \<open>Core_Cache\<close> is about the instruction cache. \<open>Chip\<close> puts core, peripherals and a data memory on one clock and shows that a run of
  the chip is the program on that memory and on the bus \<open>soc_bus\<close>, for some schedule \<open>w_gap\<close>: the world of the
  driver theorems is the world that the core makes. \<open>Rtl_Memory\<close> has the internal memories of the module
  with \<open>clog2\<close> and the reading of their files, and \<open>Elf_Run\<close> joins the host tool to them: the chip executes
  the program of the ELF file.

  \<^bold>\<open>The lemma groups.\<close>
  \<^item> CAN (\<open>Can_Queue\<close>, \<open>Can_Driver\<close>, \<open>Fw_Can_Loopback\<close>): the controller refines a bounded queue of
    four frames; the driver functions in terms of that queue; the demo \<^verbatim>\<open>can_loopback.c\<close>.
  \<^item> Boot (\<open>Sdk_Init_Soc\<close>): the configuration that \<open>qar_sdk_init\<close> leaves on any chip.
  \<^item> ADC (\<open>Adc_Driver\<close>): conversions, sequencer, and the overrun flag that never rises.
  \<^item> SPI (\<open>Spi_Driver\<close>, \<open>Fw_Spi_Loopback\<close>): the phases of a transfer; the demo \<^verbatim>\<open>spi_loopback.c\<close>.
  \<^item> Timer (\<open>Timer_Driver\<close>, \<open>Timer_Pwm\<close>, \<open>Fw_Timer\<close>): rates, watchdog, compare channels, PWM on the
    pins; \<^verbatim>\<open>timer_pwm_demo.c\<close> and \<^verbatim>\<open>timer_hal_example.c\<close>.
  \<^item> GPIO (\<open>Gpio_Driver\<close>, \<open>Fw_Gpio_Irq\<close>): the debounce filter and its interrupt; \<^verbatim>\<open>gpio_irq_demo.c\<close>.
  \<^item> UART (\<open>Uart_Tx\<close>, \<open>Uart_Rx_Step\<close>, \<open>Uart_Rx\<close>, \<open>Uart_Link\<close>, \<open>Uart_Queue\<close>, \<open>Fw_Uart\<close>,
    \<open>Fw_Rs485\<close>): a frame on the line, the verdict of the receiver, both connected back to back under the
    driver, the overflow of the transmit queue; \<^verbatim>\<open>lin_auto_header.c\<close>,
    \<^verbatim>\<open>uart_rs485.c\<close> and \<^verbatim>\<open>uart_rs485_isr.c\<close>. Projections to tuples (\<open>tx_view\<close>, \<open>rx_view\<close>, \<dots>) name
    the registers that a stage of the clocked block may change.
  \<^item> I2C (\<open>I2c_Driver\<close>, \<open>Fw_I2c\<close>): duration of commands, a byte on the two lines, the acknowledge;
    \<^verbatim>\<open>i2c_loopback.c\<close>.
  \<^item> Host tools (\<open>Elf2qar\<close>, \<open>Elf2qar_Correct\<close>, \<open>Qhex\<close>, \<open>Qhex_Correct\<close>): each tool as a function from
    arguments and a file system to an exit and a file system, with the success of allocations,
    seeks and writes as an argument; an abstract loader that the images refine, memory safety, the
    parser on well-formed and ill-formed texts.

  This theory holds the properties that span components.

  \<^bold>\<open>Bounds.\<close> No function has fuel. Loops of the host tools end because they consume input, polling
  loops by a measure of the hardware (an interpretation of \<open>polled_flag\<close>) except where the theorem
  says they do not. Two programs sample a free-running value, and their theorems need a bound on
  the distance of accesses: the driver tour of \<open>Fw_Timer\<close> (at most 16 cycles, the PWM period of the
  program being 128) and the delay loop of \<open>Fw_Gpio_Irq\<close>. Files are assumed
  below 512 MiB and images below 4 GiB where \<^verbatim>\<open>elf2qar\<close> is proved correct; the wrap-around beyond is
  itself a theorem.

  \<^bold>\<open>Not modelled.\<close> The refinement of the core holds for runs without cache and without interrupts, because
  with them the code does not have it (\<open>Core_Cache\<close>, \<open>Core_Irq\<close>). Firmware is modelled at the level of its C
  source; the compiler between it and the instructions is trusted, and an interrupt handler of the C
  code is a function on the world. Also left out are the Go and
  Python front ends, the start-up assembly and linker script, the assembler examples, test benches,
  formal checks and documents. Endless empty loops at the end of a \<open>main\<close> are not iterated: the
  result is the world in which they spin.
\<close>

subsection \<open>The host tools together\<close>

lemma memory_words:
  assumes "unat n < 2 ^ 30"
  shows "bytes_of (words_of (memory_of imem_segment n segs)) = memory_of imem_segment n segs"
    and "bytes_of (words_of (memory_of dmem_segment n segs)) = memory_of dmem_segment n segs"
    and "length (words_of (memory_of imem_segment n segs)) = unat n"
    and "length (words_of (memory_of dmem_segment n segs)) = unat n"
  by (simp_all add: bytes_of_words_of memory_of_def length_words_of)

lemma qhex_reads_image:
  assumes "q_resources ev" and "fs path = Some (hex_text ws)" and "path \<noteq> ascii ''--bin''"
  shows "qhex_main ev [ascii ''--bin'', out, path] fs =
     (Inr \<lparr>rp_count = length ws, rp_nonzero = length (filter (\<lambda>v. v \<noteq> 0) ws), rp_ends = ends_of ws,
           rp_written = Some (length ws * 4)\<rparr>, fs(out \<mapsto> bytes_of ws))"
  using qhex_main_lines [of ev "map render_line (hex_lines ws)" fs path ws out] assms
    words_of_lines_render [of "hex_lines ws"] hex_lines_ok [of ws] hex_lines_words [of ws]
  by (simp add: hex_text_lines)

text \<open>
  C39. The two host tools compose: after a successful \<open>elf2qar\<close>, \<open>qhex --bin\<close> on either of its output
  files reports as many words as the memory has and writes exactly the bytes of the instruction or
  data memory that the segments of the ELF file describe.
\<close>

theorem toolchain_roundtrip:
  assumes "resources ev" and "q_resources qv" and "elf_args args elf_defaults = Some opts"
    and "elf_path opts = Some path" and "fs path = Some elf"
    and "elf_valid elf" and "length elf < 2 ^ 29"
    and "unat (imem_words opts) < 2 ^ 30" and "unat (dmem_words opts) < 2 ^ 30"
    and "elf_program_segments elf = Some segs"
    and "program_hex opts \<noteq> data_hex opts"
    and "program_hex opts \<noteq> ascii ''--bin''" and "data_hex opts \<noteq> ascii ''--bin''"
  shows "\<exists>fs' rep rep'. elf2qar_main ev args fs = (Inr (), fs') \<and>
     qhex_main qv [ascii ''--bin'', out, program_hex opts] fs' =
       (Inr rep, fs'(out \<mapsto> memory_of imem_segment (imem_words opts) segs)) \<and>
     rp_count rep = unat (imem_words opts) \<and>
     qhex_main qv [ascii ''--bin'', out, data_hex opts] fs' =
       (Inr rep', fs'(out \<mapsto> memory_of dmem_segment (dmem_words opts) segs)) \<and>
     rp_count rep' = unat (dmem_words opts)"
proof -
  let ?mi = "memory_of imem_segment (imem_words opts) segs"
  let ?md = "memory_of dmem_segment (dmem_words opts) segs"
  let ?fs = "fs(program_hex opts \<mapsto> hex_text (words_of ?mi), data_hex opts \<mapsto> hex_text (words_of ?md))"
  obtain imem dmem where "elf_read ev opts elf = Inr (imem, dmem)"
    "image_text imem = hex_text (words_of ?mi)" "image_text dmem = hex_text (words_of ?md)"
    using elf_read_images [of ev elf opts segs] assms by blast
  then have "elf2qar_main ev args fs = (Inr (), ?fs)"
    using assms by (simp add: elf2qar_main_def image_write_hex_def resources_def)
  moreover note qhex_reads_image [OF assms(2), of ?fs "program_hex opts" "words_of ?mi" out]
    qhex_reads_image [OF assms(2), of ?fs "data_hex opts" "words_of ?md" out]
  ultimately show ?thesis
    using assms memory_words [OF assms(8)] memory_words [OF assms(9)] by simp
qed

lemma toolchain_roundtrip_witness:
  "\<exists>fs' rep. elf2qar_main all_resources [ascii ''--elf'', ascii ''a.elf''] [ascii ''a.elf'' \<mapsto> sample_elf] =
       (Inr (), fs') \<and>
     qhex_main q_all [ascii ''--bin'', ascii ''o'', ascii ''program.hex''] fs' =
       (Inr rep, fs'(ascii ''o'' \<mapsto> memory_of imem_segment 64 [(0, [0x13, 0x05, 0, 0])])) \<and> rp_count rep = 64"
proof -
  let ?opts = "elf_defaults\<lparr>elf_path := Some (ascii ''a.elf'')\<rparr>"
  have "elf_args [ascii ''--elf'', ascii ''a.elf''] elf_defaults = Some ?opts" by simp
  moreover have "program_hex ?opts = ascii ''program.hex''" "data_hex ?opts = ascii ''data.hex''"
    "imem_words ?opts = 64" "dmem_words ?opts = 64" "elf_path ?opts = Some (ascii ''a.elf'')"
    by (simp_all add: elf_defaults_def)
  moreover have "ascii ''program.hex'' \<noteq> ascii ''data.hex''" "ascii ''program.hex'' \<noteq> ascii ''--bin''"
    "ascii ''data.hex'' \<noteq> ascii ''--bin''"
    by (simp_all add: ascii_def)
  ultimately show ?thesis
    using toolchain_roundtrip [OF resources_all q_resources_all, of "[ascii ''--elf'', ascii ''a.elf'']"
        ?opts "ascii ''a.elf''" "[ascii ''a.elf'' \<mapsto> sample_elf]" sample_elf "[(0, [0x13, 0x05, 0, 0])]"
        "ascii ''o''"]
    by (fastforce simp: sample_elf_valid sample_elf_segments)
qed

subsection \<open>Boot code and firmware together\<close>

text \<open>
  C40. Whatever state the chip is in (frames may be left in the CAN receive queue, any mode may be
  set), the boot code of the SDK followed by the CAN demo works: the demo leaves its polling loop,
  reads back its own two frames in order, and ends with an empty queue.
\<close>

theorem boot_then_can_demo:
  "\<exists>w'. can_loopback_main soc_bus (qar_sdk_init soc_bus w) =
     Some (((0x123, 0xDEADBEEF, 0), (0x321, 0xCAFEBABE, 0x01020304)), w') \<and> can_rx_queue (can_at w') = []"
  by (rule can_demo_from_empty) (rule can_after_init_queue)

end
